(* ===== verification/Prelude.thy ===== *)
theory Prelude
  imports Main "HOL-Library.Word" "HOL-Library.Sublist"
begin

text \<open>
  Shared vocabulary of the development.

  A Rust \<open>Result<A, E>\<close> is the sum type \<open>'e + 'a\<close> (\<open>Err\<close> on the left, \<open>Ok\<close> on the
  right), \<open>Option\<close> is \<open>option\<close>, \<open>u64\<close>/\<open>u32\<close>/\<open>u16\<close>/\<open>u8\<close> are machine words, a \<open>Uuid\<close> is
  its 128-bit value, \<open>[u8; 32]\<close> is its 256-bit big-endian value, and a \<open>String\<close> is the
  list of its UTF-8 bytes (\<open>char\<close> is an 8-bit type, so \<open>len\<close> of the Rust string is
  \<open>length\<close>).  \<open>checked_add\<close> is the one of the Rust standard library.

  The collections \<open>outcome_simps\<close> (results of fallible code) and \<open>rows_simps\<close> (tables of
  rows) are used by the component theories.
\<close>

named_theorems outcome_simps \<open>rewriting of results of fallible code\<close>
named_theorems rows_simps \<open>rewriting of lookups in tables of rows\<close>

type_synonym byte = "8 word"
type_synonym bytes = "byte list"
type_synonym uuid = "128 word"
type_synonym digest32 = "256 word"
type_synonym u64 = "64 word"
type_synonym u32 = "32 word"
type_synonym u16 = "16 word"

abbreviation Ok :: "'a \<Rightarrow> 'e + 'a" where "Ok \<equiv> Inr"
abbreviation Err :: "'e \<Rightarrow> 'e + 'a" where "Err \<equiv> Inl"

definition is_ok :: "'e + 'a \<Rightarrow> bool" where
  "is_ok r = (case r of Inl _ \<Rightarrow> False | Inr _ \<Rightarrow> True)"

fun and_then :: "'e + 'a \<Rightarrow> ('a \<Rightarrow> 'e + 'b) \<Rightarrow> 'e + 'b" where
  "and_then (Inl e) f = Inl e"
| "and_then (Inr a) f = f a"

fun map_err :: "('e \<Rightarrow> 'f) \<Rightarrow> 'e + 'a \<Rightarrow> 'f + 'a" where
  "map_err f (Inl e) = Inl (f e)"
| "map_err f (Inr a) = Inr a"

fun ok_or :: "'e \<Rightarrow> 'a option \<Rightarrow> 'e + 'a" where
  "ok_or e None = Inl e"
| "ok_or e (Some a) = Inr a"

definition checked_add :: "'w::len word \<Rightarrow> 'w word \<Rightarrow> 'w word option" where
  "checked_add x y = (if unat x + unat y < 2 ^ LENGTH('w) then Some (x + y) else None)"

text \<open>The bytes of a string, and the big-endian bytes of a word (\<open>to_be_bytes\<close>,
  \<open>Uuid::as_bytes\<close>).\<close>

definition str_bytes :: "string \<Rightarrow> bytes" where
  "str_bytes s = map of_char s"

primrec be_bytes :: "nat \<Rightarrow> nat \<Rightarrow> bytes" where
  "be_bytes 0 n = []"
| "be_bytes (Suc k) n = be_bytes k (n div 256) @ [word_of_nat n]"

text \<open>A table keyed by a primary key: the first row with that key, and update in place.\<close>

primrec find_row :: "('r \<Rightarrow> 'k) \<Rightarrow> 'k \<Rightarrow> 'r list \<Rightarrow> 'r option" where
  "find_row key k [] = None"
| "find_row key k (r # rs) = (if key r = k then Some r else find_row key k rs)"

primrec put_row :: "('r \<Rightarrow> 'k) \<Rightarrow> 'r \<Rightarrow> 'r list \<Rightarrow> 'r list" where
  "put_row key r [] = []"
| "put_row key r (q # qs) = (if key q = key r then r # qs else q # put_row key r qs)"

text \<open>Applying a list of actions to a state machine whose step function refuses with \<open>None\<close>;
  a refused action leaves the state as it is.\<close>

primrec run_steps :: "('s \<Rightarrow> 'a \<Rightarrow> 's option) \<Rightarrow> 's \<Rightarrow> 'a list \<Rightarrow> 's" where
  "run_steps step s [] = s"
| "run_steps step s (a # as) =
    run_steps step (case step s a of Some s' \<Rightarrow> s' | None \<Rightarrow> s) as"

text \<open>Fallible code that also acts on a state: the result and the state it leaves, which is kept
  on failure too (\<open>io_bind\<close> is Rust's \<open>?\<close> on a call with effects).\<close>

type_synonym ('s, 'e, 'a) io = "'s \<Rightarrow> ('e + 'a) \<times> 's"

definition io_return :: "'a \<Rightarrow> ('s, 'e, 'a) io" where
  "io_return a s = (Inr a, s)"

definition io_fail :: "'e \<Rightarrow> ('s, 'e, 'a) io" where
  "io_fail e s = (Inl e, s)"

definition io_bind :: "('s, 'e, 'a) io \<Rightarrow> ('a \<Rightarrow> ('s, 'e, 'b) io) \<Rightarrow> ('s, 'e, 'b) io" where
  "io_bind m f s = (case m s of (Inl e, s') \<Rightarrow> (Inl e, s') | (Inr a, s') \<Rightarrow> f a s')"

definition io_map_err :: "('e \<Rightarrow> 'f) \<Rightarrow> ('s, 'e, 'a) io \<Rightarrow> ('s, 'f, 'a) io" where
  "io_map_err f m s = (case m s of (r, s') \<Rightarrow> (map_err f r, s'))"


section \<open>Results\<close>

lemma is_ok_simps [simp, outcome_simps]:
  "is_ok (Inl e) = False" "is_ok (Inr a) = True"
  by (simp_all add: is_ok_def)

lemma is_ok_iff: "is_ok r \<longleftrightarrow> (\<exists>a. r = Inr a)"
  by (cases r) simp_all

lemma and_then_eq_Inr [outcome_simps]:
  "and_then r f = Inr b \<longleftrightarrow> (\<exists>a. r = Inr a \<and> f a = Inr b)"
  by (cases r) simp_all

lemma and_then_eq_Inl [outcome_simps]:
  "and_then r f = Inl e \<longleftrightarrow> r = Inl e \<or> (\<exists>a. r = Inr a \<and> f a = Inl e)"
  by (cases r) simp_all

lemma map_err_eq_Inr [outcome_simps]: "map_err f r = Inr a \<longleftrightarrow> r = Inr a"
  by (cases r) simp_all

lemma map_err_eq_Inl [outcome_simps]:
  "map_err f r = Inl e \<longleftrightarrow> (\<exists>d. r = Inl d \<and> e = f d)"
  by (cases r) auto

lemma ok_or_eq_Inr [outcome_simps]: "ok_or e r = Inr a \<longleftrightarrow> r = Some a"
  by (cases r) simp_all

lemma ok_or_eq_Inl [outcome_simps]: "ok_or e r = Inl d \<longleftrightarrow> r = None \<and> d = e"
  by (cases r) auto

lemma io_return_apply [simp]: "io_return a s = (Inr a, s)"
  by (simp add: io_return_def)

lemma io_fail_apply [simp]: "io_fail e s = (Inl e, s)"
  by (simp add: io_fail_def)

lemma io_bind_apply:
  "io_bind m f s = (case m s of (Inl e, s') \<Rightarrow> (Inl e, s') | (Inr a, s') \<Rightarrow> f a s')"
  by (simp add: io_bind_def)

lemma io_bind_cases:
  assumes "io_bind m f s = (r, t)"
  obtains (fails) e where "m s = (Inl e, t)" "r = Inl e"
    | (runs) a s' where "m s = (Inr a, s')" "f a s' = (r, t)"
  using assms by (auto simp: io_bind_def split: prod.splits sum.splits)

lemma io_map_err_cases:
  assumes "io_map_err g m s = (r, t)"
  obtains (fails) e where "m s = (Inl e, t)" "r = Inl (g e)"
    | (runs) a where "m s = (Inr a, t)" "r = Inr a"
  using assms by (cases "m s"; cases "fst (m s)") (auto simp: io_map_err_def)


section \<open>Words and bytes\<close>

lemma checked_add_Some_unat:
  "checked_add x y = Some z \<Longrightarrow> unat z = unat x + unat y"
  by (auto simp: checked_add_def unat_word_ariths split: if_splits)

lemma checked_add_eq_None_iff:
  "checked_add x y = None \<longleftrightarrow> unat (x + y) \<noteq> unat x + unat y"
  for x y :: "'w::len word"
proof (cases "unat x + unat y < 2 ^ LENGTH('w)")
  case True
  then show ?thesis by (simp add: checked_add_def unat_word_ariths)
next
  case False
  moreover have "unat (x + y) < 2 ^ LENGTH('w)" by (rule unsigned_less)
  ultimately have "unat (x + y) \<noteq> unat x + unat y" by linarith
  then show ?thesis using False by (simp add: checked_add_def)
qed

lemma checked_add_one_None_iff:
  "checked_add x 1 = None \<longleftrightarrow> x = - 1"
  for x :: "'w::len word"
proof -
  have "checked_add x 1 = None \<longleftrightarrow> unat (x + 1) \<noteq> unat x + 1"
    using checked_add_eq_None_iff [of x 1] by simp
  also have "\<dots> \<longleftrightarrow> x + 1 = 0"
    by (metis Suc_eq_plus1 add.commute nat.distinct(1) unatSuc unsigned_0)
  also have "\<dots> \<longleftrightarrow> x = - 1"
    by (simp add: eq_neg_iff_add_eq_0)
  finally show ?thesis .
qed

lemma length_str_bytes [simp]: "length (str_bytes s) = length s"
  by (simp add: str_bytes_def)

lemma inj_of_char_byte: "inj (of_char :: char \<Rightarrow> byte)"
proof (rule injI)
  fix a b :: char
  assume "(of_char a :: byte) = of_char b"
  then have "unat (of_nat (of_char a) :: byte) = unat (of_nat (of_char b) :: byte)"
    by (simp add: of_nat_of_char)
  moreover have "(of_char a :: nat) < 256" "(of_char b :: nat) < 256"
    by (simp_all add: nat_of_char_less_256)
  ultimately show "a = b"
    by (simp add: unsigned_of_nat take_bit_nat_eq_self)
qed

lemma str_bytes_inject [simp]: "str_bytes s = str_bytes t \<longleftrightarrow> s = t"
  by (simp add: str_bytes_def inj_map_eq_map inj_of_char_byte)

lemma length_be_bytes [simp]: "length (be_bytes k n) = k"
  by (induction k arbitrary: n) simp_all

lemma be_bytes_inject:
  assumes "m < 256 ^ k" "n < 256 ^ k"
  shows "be_bytes k m = be_bytes k n \<longleftrightarrow> m = n"
  using assms
proof (induction k arbitrary: m n)
  case 0
  then show ?case by simp
next
  case (Suc k)
  have "m div 256 < 256 ^ k" "n div 256 < 256 ^ k"
    using Suc.prems by (simp_all add: less_mult_imp_div_less)
  moreover have "(word_of_nat m :: byte) = word_of_nat n \<longleftrightarrow> m mod 256 = n mod 256"
    by (simp add: word_of_nat_eq_iff take_bit_eq_mod)
  moreover have "m = n \<longleftrightarrow> m div 256 = n div 256 \<and> m mod 256 = n mod 256"
    by (metis div_mult_mod_eq)
  ultimately show ?case using Suc.IH [of "m div 256" "n div 256"] by auto
qed


section \<open>Tables of rows\<close>

lemma find_row_Some_key: "find_row key k rs = Some r \<Longrightarrow> key r = k"
  by (induction rs) (auto split: if_splits)

lemma find_row_Some_mem: "find_row key k rs = Some r \<Longrightarrow> r \<in> set rs"
  by (induction rs) (auto split: if_splits)

lemma find_row_None_iff: "find_row key k rs = None \<longleftrightarrow> k \<notin> key ` set rs"
  by (induction rs) auto

lemma find_row_append [rows_simps]:
  "find_row key k (rs @ qs) =
    (case find_row key k rs of None \<Rightarrow> find_row key k qs | Some r \<Rightarrow> Some r)"
  by (induction rs) auto

lemma find_row_put_same:
  "find_row key (key r) rs \<noteq> None \<Longrightarrow> find_row key (key r) (put_row key r rs) = Some r"
  by (induction rs) auto

lemma find_row_put_other [rows_simps]:
  "k \<noteq> key r \<Longrightarrow> find_row key k (put_row key r rs) = find_row key k rs"
  by (induction rs) auto

lemma find_row_put:
  "find_row key k (put_row key r rs) =
    (if k = key r then (if find_row key k rs = None then None else Some r)
     else find_row key k rs)"
  by (induction rs) auto

lemma map_key_put_row [simp]: "map key (put_row key r rs) = map key rs"
  by (induction rs) auto

lemma length_put_row [simp]: "length (put_row key r rs) = length rs"
  by (induction rs) auto

lemma set_put_row_subset: "set (put_row key r rs) \<subseteq> insert r (set rs)"
  by (induction rs) auto

lemma put_row_absent: "key r \<notin> key ` set rs \<Longrightarrow> put_row key r rs = rs"
  by (induction rs) auto


section \<open>Lifecycles\<close>

lemma run_steps_append:
  "run_steps step s (as @ bs) = run_steps step (run_steps step s as) bs"
  by (induction as arbitrary: s) simp_all

text \<open>The contract of a lifecycle: exactly the final states refuse every action.\<close>

locale lifecycle =
  fixes step :: "'s \<Rightarrow> 'a \<Rightarrow> 's option"
    and final :: "'s \<Rightarrow> bool"
  assumes final_refuses: "final s \<Longrightarrow> step s a = None"
    and live_accepts: "\<not> final s \<Longrightarrow> \<exists>a s'. step s a = Some s'"
begin

lemma final_iff_stuck: "final s \<longleftrightarrow> (\<forall>a. step s a = None)"
  using final_refuses live_accepts by (metis option.distinct(1))

lemma final_absorbing: "final s \<Longrightarrow> run_steps step s as = s"
  by (induction as) (simp_all add: final_refuses)

lemma final_source: "step s a = Some s' \<Longrightarrow> \<not> final s"
  using final_refuses by fastforce

text \<open>A state closed under steps holds along every run.\<close>

lemma run_invariant:
  assumes "P s" and "\<And>s a s'. P s \<Longrightarrow> step s a = Some s' \<Longrightarrow> P s'"
  shows "P (run_steps step s as)"
  using assms(1)
proof (induction as arbitrary: s)
  case (Cons a as)
  then show ?case using assms(2) by (cases "step s a") auto
qed simp

end


section \<open>Histories\<close>

text \<open>The contract of an interface whose operations keep an invariant and only move the state along a
  preorder: both then hold of every sequence of operations.\<close>

locale guarded_run =
  fixes op :: "'o \<Rightarrow> 's \<Rightarrow> 's"
    and good :: "'o \<Rightarrow> bool"
    and inv :: "'s \<Rightarrow> bool"
    and rel :: "'s \<Rightarrow> 's \<Rightarrow> bool"
  assumes inv_op: "good a \<Longrightarrow> inv s \<Longrightarrow> inv (op a s)"
    and rel_refl: "rel s s"
    and rel_trans: "rel s t \<Longrightarrow> rel t u \<Longrightarrow> rel s u"
    and rel_op: "good a \<Longrightarrow> inv s \<Longrightarrow> rel s (op a s)"
begin

lemma run_inv: "list_all good as \<Longrightarrow> inv s \<Longrightarrow> inv (fold op as s)"
  by (induction as arbitrary: s) (simp_all add: inv_op)

lemma run_rel: "list_all good as \<Longrightarrow> inv s \<Longrightarrow> rel s (fold op as s)"
proof (induction as arbitrary: s)
  case (Cons a as)
  then have "rel s (op a s)" "rel (op a s) (fold op as (op a s))"
    by (simp_all add: inv_op rel_op)
  then show ?case using rel_trans by simp
qed (simp add: rel_refl)

end

end
