(* ===== verification/Domain_Values.thy ===== *)
theory Domain_Values
  imports Prelude
begin

text \<open>
  The value types of \<open>crates/navigator-domain/src\<close>: bounded text and bytes and deadlines
  (\<open>bounded.rs\<close>), capabilities (\<open>authority.rs\<close>), semantic digests (\<open>digest.rs\<close>), public errors
  (\<open>error.rs\<close>), identities (\<open>identity.rs\<close>), revisions and fencing epochs (\<open>revision.rs\<close>) and
  timestamps (\<open>session.rs\<close>).

  Parameters: \<open>sha256\<close> stands for the \<open>sha2\<close> crate and \<open>from_unix\<close> for
  \<open>OffsetDateTime::from_unix_timestamp\<close> followed by \<open>replace_nanosecond\<close> of the \<open>time\<close> crate.
  An \<open>OffsetDateTime\<close> is the signed number of nanoseconds since the Unix epoch, a \<open>Duration\<close> a
  signed number of nanoseconds.
\<close>

type_synonym session_id = uuid
type_synonym host_id = uuid
type_synonym participant_id = uuid
type_synonym instance_id = uuid
type_synonym template_id = uuid
type_synonym artifact_id = uuid
type_synonym tool_invocation_id = uuid
type_synonym grant_id = uuid
type_synonym approval_request_id = uuid
type_synonym driver_id = uuid
type_synonym launch_attempt_id = uuid
type_synonym operation_id = uuid
type_synonym message_id = uuid
type_synonym delivery_attempt_id = uuid
type_synonym event_id = uuid
type_synonym request_id = uuid
type_synonym revision = u64
type_synonym fencing_epoch = u64
type_synonym offset_datetime = int
type_synonym duration = int

datatype bound_error = Empty | TooLarge | NotFuture | TooFarInFuture | BoundInvalidTimestamp

definition bounded_text_new :: "nat \<Rightarrow> string \<Rightarrow> bound_error + string" where
  "bounded_text_new max_bytes v =
    (if v = [] then Err Empty
     else if length v > max_bytes then Err TooLarge
     else Ok v)"

definition bounded_bytes_new :: "nat \<Rightarrow> bytes \<Rightarrow> bound_error + bytes" where
  "bounded_bytes_new max_bytes v = (if length v > max_bytes then Err TooLarge else Ok v)"

definition deadline_new ::
  "offset_datetime \<Rightarrow> offset_datetime \<Rightarrow> duration \<Rightarrow> bound_error + offset_datetime" where
  "deadline_new v now max_future =
    (if v \<le> now then Err NotFuture
     else if v - now > max_future then Err TooFarInFuture
     else Ok v)"

record deadline_wire =
  dw_unix_seconds :: int
  dw_nanoseconds :: nat

definition deadline_wire_new :: "int \<Rightarrow> nat \<Rightarrow> bound_error + deadline_wire" where
  "deadline_wire_new s n =
    (if n \<ge> 1000000000 then Err BoundInvalidTimestamp
     else Ok \<lparr>dw_unix_seconds = s, dw_nanoseconds = n\<rparr>)"

definition deadline_wire_value ::
  "(int \<Rightarrow> nat \<Rightarrow> offset_datetime option) \<Rightarrow> deadline_wire \<Rightarrow> bound_error + offset_datetime" where
  "deadline_wire_value from_unix w =
    ok_or BoundInvalidTimestamp (from_unix (dw_unix_seconds w) (dw_nanoseconds w))"

definition deadline_wire_validate ::
  "(int \<Rightarrow> nat \<Rightarrow> offset_datetime option) \<Rightarrow> deadline_wire \<Rightarrow> offset_datetime \<Rightarrow> duration
    \<Rightarrow> bound_error + offset_datetime" where
  "deadline_wire_validate from_unix w now max_future =
    and_then (deadline_wire_value from_unix w) (\<lambda>v. deadline_new v now max_future)"

text \<open>\<open>impl Serialize for Deadline\<close>: the wire record of a deadline.\<close>

definition deadline_serialize :: "offset_datetime \<Rightarrow> deadline_wire" where
  "deadline_serialize v =
    \<lparr>dw_unix_seconds = v div 1000000000, dw_nanoseconds = nat (v mod 1000000000)\<rparr>"

text \<open>\<open>Capability\<close>: 1 to 128 bytes, each a lowercase ASCII letter, a digit or one of \<open>. _ -\<close>.\<close>

definition is_ascii_lowercase :: "char \<Rightarrow> bool" where
  "is_ascii_lowercase c = (97 \<le> (of_char c :: nat) \<and> (of_char c :: nat) \<le> 122)"

definition is_ascii_digit :: "char \<Rightarrow> bool" where
  "is_ascii_digit c = (48 \<le> (of_char c :: nat) \<and> (of_char c :: nat) \<le> 57)"

definition capability_byte :: "char \<Rightarrow> bool" where
  "capability_byte c =
    (is_ascii_lowercase c \<or> is_ascii_digit c \<or> c \<in> {CHR ''.'', CHR ''_'', CHR ''-''})"

type_synonym capability = string

definition capability_new :: "string \<Rightarrow> string + capability" where
  "capability_new v =
    (if v = [] \<or> length v > 128 \<or> \<not> list_all capability_byte v
     then Err ''capability must be a bounded lowercase identifier''
     else Ok v)"

text \<open>\<open>SemanticDigest::v1\<close>: the hashed bytes, and their digest.\<close>

definition semantic_preimage :: "capability \<Rightarrow> bytes \<Rightarrow> bytes" where
  "semantic_preimage action input =
    str_bytes ''navigator.semantic-input.v1'' @ [0] @ str_bytes action @ [0] @ input"

definition semantic_digest_v1 :: "(bytes \<Rightarrow> digest32) \<Rightarrow> capability \<Rightarrow> bytes \<Rightarrow> digest32" where
  "semantic_digest_v1 sha256 action input = sha256 (semantic_preimage action input)"

datatype error_code =
    Validation | Authentication | Authorization | Conflict | Capacity | Timeout | Unavailable
  | Unsupported | Incompatible | Cancelled | UncertainEffect | CleanupRequired
  | CorruptedState | Internal

record error_info =
  ei_code :: error_code
  ei_message :: string
  ei_retryable :: bool

datatype invalid_error_message = InvalidErrorMessage

definition error_info_new ::
  "error_code \<Rightarrow> string \<Rightarrow> bool \<Rightarrow> invalid_error_message + error_info" where
  "error_info_new code message retryable =
    (if message = [] \<or> length message > 1024 then Err InvalidErrorMessage
     else Ok \<lparr>ei_code = code, ei_message = message, ei_retryable = retryable\<rparr>)"

text \<open>\<open>id_type!\<close>: all 23 identities share these operations.  An identity source is its stream
  of identifiers still to be drawn.\<close>

datatype invalid_identity = InvalidIdentity

definition from_uuid :: "uuid \<Rightarrow> invalid_identity + uuid" where
  "from_uuid v = (if v = 0 then Err InvalidIdentity else Ok v)"

definition generate :: "('s \<Rightarrow> uuid \<times> 's) \<Rightarrow> 's \<Rightarrow> (invalid_identity + uuid) \<times> 's" where
  "generate next_uuid s = (case next_uuid s of (v, s') \<Rightarrow> (from_uuid v, s'))"

datatype zero_monotonic_value = ZeroMonotonicValue

definition revision_new :: "u64 \<Rightarrow> zero_monotonic_value + revision" where
  "revision_new v = (if v = 0 then Err ZeroMonotonicValue else Ok v)"

definition revision_initial :: revision where
  "revision_initial = 1"

definition revision_next :: "revision \<Rightarrow> revision option" where
  "revision_next r = checked_add r 1"

definition fencing_epoch_new :: "u64 \<Rightarrow> zero_monotonic_value + fencing_epoch" where
  "fencing_epoch_new v = (if v = 0 then Err ZeroMonotonicValue else Ok v)"

definition epoch_is_current :: "fencing_epoch \<Rightarrow> fencing_epoch \<Rightarrow> bool" where
  "epoch_is_current e current = (e = current)"

text \<open>\<open>Timestamp\<close>: the derived order compares seconds, then nanoseconds.\<close>

datatype timestamp = Timestamp (unix_seconds: int) (nanoseconds: nat)

instantiation timestamp :: linorder
begin

definition less_eq_timestamp :: "timestamp \<Rightarrow> timestamp \<Rightarrow> bool" where
  "less_eq_timestamp a b \<longleftrightarrow>
    unix_seconds a < unix_seconds b \<or>
    unix_seconds a = unix_seconds b \<and> nanoseconds a \<le> nanoseconds b"

definition less_timestamp :: "timestamp \<Rightarrow> timestamp \<Rightarrow> bool" where
  "less_timestamp a b \<longleftrightarrow>
    unix_seconds a < unix_seconds b \<or>
    unix_seconds a = unix_seconds b \<and> nanoseconds a < nanoseconds b"

instance
  by standard (auto simp: less_eq_timestamp_def less_timestamp_def timestamp.expand)

end

datatype session_domain_error =
    InvalidCompatibilityManifest | ZeroEventPosition | ZeroEventSchemaVersion
  | InvalidTimestamp | TimestampRegression | AlreadyClosed | RevisionExhausted
  | InvalidClosedRevision

definition timestamp_new ::
  "(int \<Rightarrow> nat \<Rightarrow> offset_datetime option) \<Rightarrow> int \<Rightarrow> nat \<Rightarrow> session_domain_error + timestamp" where
  "timestamp_new from_unix s n =
    (if n \<ge> 1000000000 then Err InvalidTimestamp
     else case from_unix s n of
       None \<Rightarrow> Err InvalidTimestamp
     | Some _ \<Rightarrow> Ok (Timestamp s n))"

definition from_datetime :: "offset_datetime \<Rightarrow> timestamp" where
  "from_datetime v = Timestamp (v div 1000000000) (nat (v mod 1000000000))"

definition to_datetime ::
  "(int \<Rightarrow> nat \<Rightarrow> offset_datetime option) \<Rightarrow> timestamp \<Rightarrow> session_domain_error + offset_datetime" where
  "to_datetime from_unix t =
    ok_or InvalidTimestamp (from_unix (unix_seconds t) (nanoseconds t))"

text \<open>The documented behaviour of the \<open>time\<close> crate the code relies on: where it accepts, the
  result is the instant with those seconds and nanoseconds.\<close>

definition from_unix_law :: "(int \<Rightarrow> nat \<Rightarrow> offset_datetime option) \<Rightarrow> bool" where
  "from_unix_law from_unix \<longleftrightarrow>
    (\<forall>s n v. from_unix s n = Some v \<longrightarrow> n < 1000000000 \<and> v = s * 1000000000 + int n)"


section \<open>Bounded values\<close>

lemma bounded_text_new_Ok_iff [outcome_simps]:
  "bounded_text_new m v = Inr w \<longleftrightarrow> w = v \<and> v \<noteq> [] \<and> length v \<le> m"
  by (auto simp: bounded_text_new_def)

lemma bounded_bytes_new_Ok_iff [outcome_simps]:
  "bounded_bytes_new m v = Inr w \<longleftrightarrow> w = v \<and> length v \<le> m"
  by (auto simp: bounded_bytes_new_def)

lemma deadline_new_Ok_iff [outcome_simps]:
  "deadline_new v now d = Inr w \<longleftrightarrow> w = v \<and> now < v \<and> v - now \<le> d"
  by (auto simp: deadline_new_def)

lemma from_uuid_Ok_iff [outcome_simps]: "from_uuid v = Inr w \<longleftrightarrow> w = v \<and> v \<noteq> 0"
  by (auto simp: from_uuid_def)


section \<open>Revisions\<close>

lemma revision_next_Some:
  "revision_next r = Some r' \<Longrightarrow> unat r' = Suc (unat r)"
  using checked_add_Some_unat [of r 1 r'] by (simp add: revision_next_def)

lemma revision_next_less: "revision_next r = Some r' \<Longrightarrow> r < r'"
  by (simp add: revision_next_Some word_less_nat_alt)

lemma revision_next_nonzero: "revision_next r = Some r' \<Longrightarrow> r' \<noteq> 0"
  using revision_next_Some by fastforce

lemma revision_next_not_initial:
  "revision_next r = Some r' \<Longrightarrow> r \<noteq> 0 \<Longrightarrow> r' \<noteq> revision_initial"
  using revision_next_Some by (fastforce simp: revision_initial_def unat_eq_0)


section \<open>Timestamps and deadlines\<close>

lemma less_timestamp_simps [simp]:
  "Timestamp s n < Timestamp s' n' \<longleftrightarrow> s < s' \<or> s = s' \<and> n < n'"
  "Timestamp s n \<le> Timestamp s' n' \<longleftrightarrow> s < s' \<or> s = s' \<and> n \<le> n'"
  by (simp_all add: less_timestamp_def less_eq_timestamp_def)

lemma from_datetime_mono:
  "v \<le> w \<longleftrightarrow> from_datetime v \<le> from_datetime w"
proof -
  let ?B = "1000000000 :: int"
  have v: "v = v div ?B * ?B + v mod ?B" and w: "w = w div ?B * ?B + w mod ?B" by simp_all
  have r: "0 \<le> v mod ?B" "v mod ?B < ?B" "0 \<le> w mod ?B" "w mod ?B < ?B" by simp_all
  have "v \<le> w \<longleftrightarrow> v div ?B < w div ?B \<or> v div ?B = w div ?B \<and> v mod ?B \<le> w mod ?B"
    using v w r by linarith
  then show ?thesis by (simp add: from_datetime_def nat_le_eq_zle)
qed

lemma from_unix_law_recombine:
  assumes "from_unix_law from_unix"
    and "from_unix (v div 1000000000) (nat (v mod 1000000000)) = Some w"
  shows "w = v"
proof -
  have "w = v div 1000000000 * 1000000000 + int (nat (v mod 1000000000))"
    using assms unfolding from_unix_law_def by blast
  then show ?thesis by simp
qed

lemma to_datetime_from_datetime:
  assumes "from_unix_law from_unix" "to_datetime from_unix (from_datetime v) = Inr w"
  shows "w = v"
  using assms from_unix_law_recombine
  by (simp add: to_datetime_def from_datetime_def outcome_simps)

lemma deadline_validate_serialize:
  assumes "from_unix_law from_unix"
    and "deadline_wire_validate from_unix (deadline_serialize v) now d = Inr w"
  shows "w = v \<and> now < v \<and> v - now \<le> d"
  using assms(2) from_unix_law_recombine [OF assms(1)]
  by (auto simp: deadline_wire_validate_def deadline_wire_value_def deadline_serialize_def
      outcome_simps)


section \<open>Semantic digests\<close>

lemma capability_new_no_nul:
  assumes "capability_new v = Inr c"
  shows "(0 :: byte) \<notin> set (str_bytes c)"
proof
  assume "(0 :: byte) \<in> set (str_bytes c)"
  then obtain ch where ch: "ch \<in> set c" "(of_char ch :: byte) = 0"
    by (auto simp: str_bytes_def)
  moreover have "(of_char (CHR 0x00) :: byte) = 0" by (simp add: of_char_def)
  ultimately have "ch = CHR 0x00"
    using injD [OF inj_of_char_byte, of ch "CHR 0x00"] by simp
  moreover have "capability_byte ch"
    using assms ch(1) by (auto simp: capability_new_def list_all_iff split: if_splits)
  ultimately show False
    by (simp add: capability_byte_def is_ascii_lowercase_def is_ascii_digit_def)
qed

lemma append_sep_inject:
  assumes "a \<notin> set xs" "a \<notin> set xs'" "xs @ a # ys = xs' @ a # ys'"
  shows "xs = xs' \<and> ys = ys'"
  using assms
proof (induction xs arbitrary: xs')
  case Nil
  then show ?case by (cases xs') auto
next
  case (Cons x xs)
  then show ?case by (cases xs') auto
qed

end
