(* ===== verification/Recovery_Domain.thy ===== *)
theory Recovery_Domain
  imports Domain_Values
begin

text \<open>
  Recovery semantics of \<open>crates/navigator-domain/src/recovery.rs\<close>: effect proofs, uncertainty
  resolutions, and the classification table of durable states against live observations.
  The parameter \<open>sha256\<close> stands for the \<open>sha2\<close> crate.
\<close>

datatype effect_proof_error = ZeroDigest | EmptyEvidence | DigestMismatch

datatype effect_proof_kind = ExternalCommit | IdempotencyReceipt | EffectAbsent

record effect_proof =
  ep_kind :: effect_proof_kind
  ep_digest :: digest32
  ep_evidence :: bytes

definition effect_proof_new ::
  "(bytes \<Rightarrow> digest32) \<Rightarrow> effect_proof_kind \<Rightarrow> digest32 \<Rightarrow> bytes
    \<Rightarrow> effect_proof_error + effect_proof" where
  "effect_proof_new sha256 k d evidence =
    (if d = 0 then Err ZeroDigest
     else if evidence = [] then Err EmptyEvidence
     else if d \<noteq> sha256 evidence then Err DigestMismatch
     else Ok \<lparr>ep_kind = k, ep_digest = d, ep_evidence = evidence\<rparr>)"

datatype uncertainty_resolution =
    ConfirmCompleted effect_proof
  | DoNotRetry
  | RetryWithEffectProof effect_proof

record resolve_uncertainty_decision =
  rd_session_id :: session_id
  rd_operation_id :: operation_id
  rd_reason :: string
  rd_resolution :: uncertainty_resolution

datatype empty_resolution_reason = EmptyResolutionReason

text \<open>\<open>str::trim().is_empty()\<close> on the UTF-8 bytes of a string: every code point has the Unicode
  property \<open>White_Space\<close>.\<close>

fun trim_is_empty_codes :: "nat list \<Rightarrow> bool" where
  "trim_is_empty_codes [] = True"
| "trim_is_empty_codes (a # cs) =
    (if a \<in> {9, 10, 11, 12, 13, 32} then trim_is_empty_codes cs
     else case cs of
       [] \<Rightarrow> False
     | b # ds \<Rightarrow>
         if a = 0xC2 then b \<in> {0x85, 0xA0} \<and> trim_is_empty_codes ds
         else case ds of
           [] \<Rightarrow> False
         | c # es \<Rightarrow>
             ((a = 0xE1 \<and> b = 0x9A \<and> c = 0x80)
              \<or> (a = 0xE2 \<and> b = 0x80 \<and> (c \<in> {0x80..0x8A} \<or> c \<in> {0xA8, 0xA9, 0xAF}))
              \<or> (a = 0xE2 \<and> b = 0x81 \<and> c = 0x9F)
              \<or> (a = 0xE3 \<and> b = 0x80 \<and> c = 0x80)) \<and> trim_is_empty_codes es)"

definition trim_is_empty :: "string \<Rightarrow> bool" where
  "trim_is_empty s = trim_is_empty_codes (map of_char s)"

definition resolve_uncertainty_decision_new ::
  "session_id \<Rightarrow> operation_id \<Rightarrow> string \<Rightarrow> uncertainty_resolution
    \<Rightarrow> empty_resolution_reason + resolve_uncertainty_decision" where
  "resolve_uncertainty_decision_new s o' reason resolution =
    (if trim_is_empty reason then Err EmptyResolutionReason
     else Ok \<lparr>rd_session_id = s, rd_operation_id = o', rd_reason = reason,
              rd_resolution = resolution\<rparr>)"

datatype effect_class = ReadOnly | Idempotent | Transactional | NonIdempotent | Unknown

datatype effect_phase = Reserved | Started | Completed

datatype recovery_class =
    SafeToContinue | SafeToRedeliver | ExternallyAlive | EffectUncertain | CleanupRequired
  | Terminal

datatype recovery_state =
    SessionOpen
  | ParticipantRegistered
  | InstancePrepared | InstanceAttached | InstanceReady | InstanceStopping
  | InstanceCleanupRequired | InstanceStopped
  | OperationQueued | OperationStarting | OperationRunning | OperationWaiting
  | OperationCancelling | OperationTerminal
  | MessageQueued | MessageRetryScheduled | MessageRetryDeferred | MessageLeased
  | MessageLeaseActive | MessageAcceptancePending | MessageAcceptanceUnknown
  | MessageAccepted | MessageUncertain | MessageDeadLetter
  | EffectReserved | EffectStartedRetryable | EffectStartedUnsafe | EffectCompleted

datatype live_observation =
    NotApplicable | NotInspected | Absent | SameAuthenticatedInstance
  | SameUnauthenticatedInstance | DifferentInstance | Unreachable

datatype recovery_action =
    Continue | RedeliverExactMessage | ReconnectExactInstance | ScheduleExistingOperation
  | CleanupVerifiedResource | AwaitResolution | NoAction

datatype recovery_reason =
    DurableWorkNotStarted | ExactMessageIsDeduplicated | DeclaredEffectIsRetryable
  | ExactAuthenticatedInstanceObserved | ExternalEffectMayHaveOccurred
  | StaleVerifiedResourceObserved | DurableOutcomeExists | LiveIdentityCannotBeProven
  | EligibilityWindowNotReached

fun recovery_reason_as_str :: "recovery_reason \<Rightarrow> string" where
  "recovery_reason_as_str DurableWorkNotStarted = ''durable_work_not_started''"
| "recovery_reason_as_str ExactMessageIsDeduplicated = ''exact_message_is_deduplicated''"
| "recovery_reason_as_str DeclaredEffectIsRetryable = ''declared_effect_is_retryable''"
| "recovery_reason_as_str ExactAuthenticatedInstanceObserved = ''exact_authenticated_instance_observed''"
| "recovery_reason_as_str ExternalEffectMayHaveOccurred = ''external_effect_may_have_occurred''"
| "recovery_reason_as_str StaleVerifiedResourceObserved = ''stale_verified_resource_observed''"
| "recovery_reason_as_str DurableOutcomeExists = ''durable_outcome_exists''"
| "recovery_reason_as_str LiveIdentityCannotBeProven = ''live_identity_cannot_be_proven''"
| "recovery_reason_as_str EligibilityWindowNotReached = ''eligibility_window_not_reached''"

record recovery_decision =
  rc_class :: recovery_class
  rc_reason :: recovery_reason
  rc_action :: recovery_action

datatype recovery_contradiction =
    InspectionRequired | UnexpectedLiveObservation | TerminalStateHasLiveWork

definition terminal :: recovery_decision where
  "terminal = \<lparr>rc_class = Terminal, rc_reason = DurableOutcomeExists, rc_action = NoAction\<rparr>"

definition classify_recovery ::
  "recovery_state \<Rightarrow> live_observation \<Rightarrow> recovery_contradiction + recovery_decision" where
  "classify_recovery s ob =
    (if s \<in> {InstanceAttached, InstanceReady} \<and> ob = SameAuthenticatedInstance then
       Ok \<lparr>rc_class = ExternallyAlive, rc_reason = ExactAuthenticatedInstanceObserved,
           rc_action = ReconnectExactInstance\<rparr>
     else if s \<in> {InstanceStopping, InstanceCleanupRequired}
         \<and> ob \<in> {SameAuthenticatedInstance, SameUnauthenticatedInstance} then
       Ok \<lparr>rc_class = CleanupRequired, rc_reason = StaleVerifiedResourceObserved,
           rc_action = CleanupVerifiedResource\<rparr>
     else if s = InstancePrepared \<and> ob = Absent then
       Ok \<lparr>rc_class = SafeToContinue, rc_reason = DurableWorkNotStarted, rc_action = Continue\<rparr>
     else if s \<in> {InstanceAttached, InstanceReady, InstanceStopping, InstanceCleanupRequired}
         \<and> ob = Absent then
       Ok \<lparr>rc_class = CleanupRequired, rc_reason = StaleVerifiedResourceObserved,
           rc_action = CleanupVerifiedResource\<rparr>
     else if s \<in> {InstancePrepared, InstanceAttached, InstanceReady, InstanceStopping,
             InstanceCleanupRequired} \<and> ob = NotInspected then
       Err InspectionRequired
     else if s \<in> {InstancePrepared, InstanceAttached, InstanceReady, InstanceStopping,
             InstanceCleanupRequired}
         \<and> ob \<in> {DifferentInstance, Unreachable, SameUnauthenticatedInstance} then
       Ok \<lparr>rc_class = EffectUncertain, rc_reason = LiveIdentityCannotBeProven,
           rc_action = AwaitResolution\<rparr>
     else if s = InstanceStopped
         \<and> ob \<in> {SameAuthenticatedInstance, SameUnauthenticatedInstance} then
       Err TerminalStateHasLiveWork
     else if s = InstanceStopped \<and> ob \<in> {Absent, NotApplicable} then Ok terminal
     else if s = OperationQueued \<and> ob = NotApplicable then
       Ok \<lparr>rc_class = SafeToContinue, rc_reason = DurableWorkNotStarted,
           rc_action = ScheduleExistingOperation\<rparr>
     else if s \<in> {OperationStarting, OperationRunning, OperationWaiting, OperationCancelling}
         \<and> ob = NotApplicable then
       Ok \<lparr>rc_class = EffectUncertain, rc_reason = ExternalEffectMayHaveOccurred,
           rc_action = AwaitResolution\<rparr>
     else if s = OperationTerminal \<and> ob = NotApplicable then Ok terminal
     else if s \<in> {MessageQueued, MessageRetryScheduled, MessageLeased} \<and> ob = NotApplicable then
       Ok \<lparr>rc_class = SafeToRedeliver, rc_reason = ExactMessageIsDeduplicated,
           rc_action = RedeliverExactMessage\<rparr>
     else if s \<in> {MessageRetryDeferred, MessageLeaseActive} \<and> ob = NotApplicable then
       Ok \<lparr>rc_class = SafeToContinue, rc_reason = EligibilityWindowNotReached,
           rc_action = Continue\<rparr>
     else if s \<in> {MessageAcceptancePending, MessageAcceptanceUnknown, MessageUncertain}
         \<and> ob = NotApplicable then
       Ok \<lparr>rc_class = EffectUncertain, rc_reason = ExternalEffectMayHaveOccurred,
           rc_action = AwaitResolution\<rparr>
     else if s \<in> {MessageAccepted, MessageDeadLetter} \<and> ob = NotApplicable then Ok terminal
     else if s = EffectReserved \<and> ob = NotApplicable then
       Ok \<lparr>rc_class = SafeToContinue, rc_reason = DurableWorkNotStarted, rc_action = Continue\<rparr>
     else if s = EffectStartedRetryable \<and> ob = NotApplicable then
       Ok \<lparr>rc_class = SafeToContinue, rc_reason = DeclaredEffectIsRetryable, rc_action = Continue\<rparr>
     else if s = EffectStartedUnsafe \<and> ob = NotApplicable then
       Ok \<lparr>rc_class = EffectUncertain, rc_reason = ExternalEffectMayHaveOccurred,
           rc_action = AwaitResolution\<rparr>
     else if s = EffectCompleted \<and> ob = NotApplicable then Ok terminal
     else if s \<in> {SessionOpen, ParticipantRegistered} \<and> ob = NotApplicable then
       Ok \<lparr>rc_class = SafeToContinue, rc_reason = DurableWorkNotStarted, rc_action = Continue\<rparr>
     else Err UnexpectedLiveObservation)"

definition for_effect :: "effect_class \<Rightarrow> effect_phase \<Rightarrow> recovery_class" where
  "for_effect c p =
    (case p of
       Completed \<Rightarrow> Terminal
     | Reserved \<Rightarrow> SafeToContinue
     | Started \<Rightarrow>
         (case c of
            ReadOnly \<Rightarrow> SafeToContinue
          | Idempotent \<Rightarrow> SafeToContinue
          | _ \<Rightarrow> EffectUncertain))"


section \<open>Groups of states\<close>

text \<open>Whether the entity behind a durable state is a process instance, whose liveness is inspected;
  and whether the record says work was handed to the outside with no outcome recorded.\<close>

definition is_instance_state :: "recovery_state \<Rightarrow> bool" where
  "is_instance_state s = (s \<in> {InstancePrepared, InstanceAttached, InstanceReady,
     InstanceStopping, InstanceCleanupRequired, InstanceStopped})"

definition effect_may_have_occurred :: "recovery_state \<Rightarrow> bool" where
  "effect_may_have_occurred s = (s \<in> {OperationStarting, OperationRunning, OperationWaiting,
     OperationCancelling, MessageAcceptancePending, MessageAcceptanceUnknown, MessageUncertain,
     EffectStartedUnsafe})"

text \<open>Each class has one action, apart from \<open>SafeToContinue\<close>, where a queued operation is scheduled.\<close>

fun class_of_action :: "recovery_action \<Rightarrow> recovery_class" where
  "class_of_action Continue = SafeToContinue"
| "class_of_action RedeliverExactMessage = SafeToRedeliver"
| "class_of_action ReconnectExactInstance = ExternallyAlive"
| "class_of_action ScheduleExistingOperation = SafeToContinue"
| "class_of_action CleanupVerifiedResource = CleanupRequired"
| "class_of_action AwaitResolution = EffectUncertain"
| "class_of_action NoAction = Terminal"

lemma classify_recovery_class:
  "classify_recovery s ob = Inr d \<Longrightarrow> rc_class d = class_of_action (rc_action d)"
  by (cases s; cases ob) (auto simp: classify_recovery_def terminal_def)

lemma classify_recovery_observation:
  "classify_recovery s ob = Inr d \<Longrightarrow> is_instance_state s \<or> ob = NotApplicable"
  by (cases s; cases ob) (auto simp: classify_recovery_def is_instance_state_def)

lemma classify_recovery_total:
  "\<not> is_instance_state s \<Longrightarrow> is_ok (classify_recovery s NotApplicable)"
  by (cases s) (auto simp: classify_recovery_def is_instance_state_def)

lemma classify_recovery_instance_inspected:
  "is_instance_state s \<Longrightarrow> s \<noteq> InstanceStopped \<Longrightarrow>
   is_ok (classify_recovery s ob) \<longleftrightarrow>
     ob \<notin> {NotApplicable, NotInspected} \<and> \<not> (s = InstancePrepared \<and> ob = SameAuthenticatedInstance)"
  by (cases s; cases ob) (auto simp: classify_recovery_def is_instance_state_def)



section \<open>Properties\<close>

text \<open>Property C18.  Recovery is conservative.  A decision that lets work proceed (continue,
  redeliver, schedule, reconnect) is never taken for a durable state whose external effect may
  already have happened, nor on an observation that does not establish the identity of the live
  instance; reconnection happens exactly for an attached or ready instance observed alive and
  authenticated; verified-resource cleanup is never aimed at a different or unreachable
  instance; and an entity whose effect may have happened always awaits an explicit
  resolution.\<close>

theorem recovery_is_conservative:
  assumes "classify_recovery s ob = Inr d"
  shows "(rc_action d \<in> {Continue, RedeliverExactMessage, ScheduleExistingOperation,
        ReconnectExactInstance} \<longrightarrow>
      \<not> effect_may_have_occurred s \<and>
      ob \<in> {NotApplicable, Absent, SameAuthenticatedInstance}) \<and>
    (rc_action d = ReconnectExactInstance \<longleftrightarrow>
      s \<in> {InstanceAttached, InstanceReady} \<and> ob = SameAuthenticatedInstance) \<and>
    (rc_action d = CleanupVerifiedResource \<longrightarrow>
      is_instance_state s \<and> ob \<notin> {DifferentInstance, Unreachable, NotInspected}) \<and>
    (effect_may_have_occurred s \<longrightarrow>
      rc_action d = AwaitResolution \<and> rc_class d = EffectUncertain)"
  using assms
  by (cases s; cases ob)
    (auto simp: classify_recovery_def terminal_def effect_may_have_occurred_def
      is_instance_state_def)

lemma recovery_is_conservative_witness:
  "rc_action (projr (classify_recovery OperationRunning NotApplicable)) = AwaitResolution \<and>
   effect_may_have_occurred OperationRunning"
  using recovery_is_conservative [of OperationRunning NotApplicable
      "\<lparr>rc_class = EffectUncertain, rc_reason = ExternalEffectMayHaveOccurred,
        rc_action = AwaitResolution\<rparr>"]
  by (simp add: classify_recovery_def effect_may_have_occurred_def)

end
