(* ===== verification/Reconciler.thy ===== *)
theory Reconciler
  imports Recovery_Domain
begin

text \<open>
  The reconciler of \<open>crates/navigator-core/src/recovery.rs\<close>, generic in its \<open>RecoveryBackend\<close>:
  the backend is a record of operations on an arbitrary state, exactly the trait's methods.
  \<open>classify_only\<close> acquires the epoch, validates the inventory, inspects and classifies every
  entity and records the whole set; \<open>execute_actions\<close> runs the pending actions.

  To talk about what the reconciler asks of its backend, \<open>logging b\<close> is the backend \<open>b\<close> with
  every call appended to a log.
\<close>

datatype recovery_entity =
    SessionEntity session_id
  | ParticipantEntity participant_id
  | InstanceEntity launch_attempt_id
  | OperationEntity operation_id message_id
  | MessageEntity message_id
  | EffectEntity request_id

record recovery_candidate =
  cand_ordinal :: u64
  cand_session_id :: session_id
  cand_entity :: recovery_entity
  cand_state :: recovery_state

record classified_recovery =
  cl_entity :: recovery_entity
  cl_state :: recovery_state
  cl_observation :: live_observation
  cl_decision :: recovery_decision

record ('s, 'e) recovery_backend =
  rb_acquire_epoch :: "session_id \<Rightarrow> request_id \<Rightarrow> ('s, 'e, fencing_epoch) io"
  rb_unfinished :: "session_id \<Rightarrow> fencing_epoch \<Rightarrow> ('s, 'e, recovery_candidate list) io"
  rb_inspect_instance :: "launch_attempt_id \<Rightarrow> fencing_epoch \<Rightarrow> ('s, 'e, live_observation) io"
  rb_record_classifications ::
    "fencing_epoch \<Rightarrow> request_id \<Rightarrow> classified_recovery list \<Rightarrow> ('s, 'e, unit) io"
  rb_schedule_existing_operation ::
    "fencing_epoch \<Rightarrow> operation_id \<Rightarrow> message_id \<Rightarrow> ('s, 'e, unit) io"
  rb_redeliver_exact_message :: "fencing_epoch \<Rightarrow> message_id \<Rightarrow> ('s, 'e, bool) io"
  rb_reconnect_exact_instance :: "fencing_epoch \<Rightarrow> launch_attempt_id \<Rightarrow> ('s, 'e, bool) io"
  rb_cleanup_verified_instance :: "fencing_epoch \<Rightarrow> launch_attempt_id \<Rightarrow> ('s, 'e, bool) io"

datatype 'e reconcile_error =
    Backend 'e
  | Contradiction recovery_contradiction
  | ActionEntityMismatch
  | InventoryOrder
  | DuplicateEntity
  | CrossSessionEntity

datatype recovery_execution_status =
  Executed | NoOp | Pending | BlockedByUncertainty | BlockedByCleanup

record recovery_execution =
  ex_classification :: classified_recovery
  ex_status :: recovery_execution_status

record reconciliation =
  rn_epoch :: fencing_epoch
  rn_classifications :: "classified_recovery list"
  rn_actions :: "classified_recovery list"
  rn_executions :: "recovery_execution list"

record recovery_run_ids =
  ri_ownership_request_id :: request_id
  ri_classification_request_id :: request_id

definition acquire_only ::
  "('s, 'e) recovery_backend \<Rightarrow> session_id \<Rightarrow> request_id
    \<Rightarrow> ('s, 'e reconcile_error, fencing_epoch) io" where
  "acquire_only b sid ownership_request_id =
    io_map_err Backend (rb_acquire_epoch b sid ownership_request_id)"

text \<open>The first loop of \<open>classify_only\<close>: the inventory check.\<close>

fun check_inventory ::
  "session_id \<Rightarrow> recovery_entity set \<Rightarrow> u64 \<Rightarrow> recovery_candidate list
    \<Rightarrow> 'e reconcile_error + unit" where
  "check_inventory sid seen previous [] = Ok ()"
| "check_inventory sid seen previous (c # cs) =
    (if cand_session_id c \<noteq> sid then Err CrossSessionEntity
     else if cand_ordinal c = 0 \<or> cand_ordinal c \<le> previous then Err InventoryOrder
     else if cand_entity c \<in> seen then Err DuplicateEntity
     else check_inventory sid (insert (cand_entity c) seen) (cand_ordinal c) cs)"

text \<open>The second loop: observe and classify each candidate.\<close>

definition observe ::
  "('s, 'e) recovery_backend \<Rightarrow> fencing_epoch \<Rightarrow> recovery_entity
    \<Rightarrow> ('s, 'e reconcile_error, live_observation) io" where
  "observe b epoch entity =
    (case entity of
       InstanceEntity attempt_id \<Rightarrow> io_map_err Backend (rb_inspect_instance b attempt_id epoch)
     | _ \<Rightarrow> io_return NotApplicable)"

fun classify_candidates ::
  "('s, 'e) recovery_backend \<Rightarrow> fencing_epoch \<Rightarrow> recovery_candidate list
    \<Rightarrow> ('s, 'e reconcile_error, classified_recovery list) io" where
  "classify_candidates b epoch [] = io_return []"
| "classify_candidates b epoch (c # cs) =
    io_bind (observe b epoch (cand_entity c)) (\<lambda>observation.
      case classify_recovery (cand_state c) observation of
        Inl contradiction \<Rightarrow> io_fail (Contradiction contradiction)
      | Inr decision \<Rightarrow>
          io_bind (classify_candidates b epoch cs) (\<lambda>rest.
            io_return (\<lparr>cl_entity = cand_entity c, cl_state = cand_state c,
              cl_observation = observation, cl_decision = decision\<rparr> # rest)))"

definition planned_status ::
  "classified_recovery \<Rightarrow> bool \<Rightarrow> bool \<Rightarrow> recovery_execution_status" where
  "planned_status item has_uncertainty has_cleanup =
    (let action = rc_action (cl_decision item)
     in if action \<in> {NoAction, Continue} then NoOp
        else if action = AwaitResolution then Pending
        else if has_uncertainty then BlockedByUncertainty
        else if action \<in> {ScheduleExistingOperation, RedeliverExactMessage, ReconnectExactInstance}
            \<and> has_cleanup then BlockedByCleanup
        else Pending)"

text \<open>The tail of \<open>classify_only\<close>: the barriers, the ordered actions and the planned executions.\<close>

definition plan_reconciliation :: "fencing_epoch \<Rightarrow> classified_recovery list \<Rightarrow> reconciliation" where
  "plan_reconciliation epoch classified =
    (let has_uncertainty =
           list_ex (\<lambda>item. rc_class (cl_decision item) = EffectUncertain) classified;
         has_cleanup =
           list_ex (\<lambda>item. rc_class (cl_decision item) = CleanupRequired) classified;
         actions =
           filter (\<lambda>item. rc_action (cl_decision item) \<notin> {NoAction, AwaitResolution}) classified;
         executions =
           map (\<lambda>c. \<lparr>ex_classification = c,
             ex_status = planned_status c has_uncertainty has_cleanup\<rparr>) classified
     in \<lparr>rn_epoch = epoch, rn_classifications = classified, rn_actions = actions,
         rn_executions = executions\<rparr>)"

definition classify_inventory ::
  "('s, 'e) recovery_backend \<Rightarrow> session_id \<Rightarrow> recovery_run_ids \<Rightarrow> fencing_epoch
    \<Rightarrow> recovery_candidate list \<Rightarrow> ('s, 'e reconcile_error, reconciliation) io" where
  "classify_inventory b sid ids epoch candidates =
    (case check_inventory sid {} 0 candidates of
       Inl e \<Rightarrow> io_fail e
     | Inr _ \<Rightarrow>
         io_bind (classify_candidates b epoch candidates) (\<lambda>classified.
         io_bind (io_map_err Backend
             (rb_record_classifications b epoch (ri_classification_request_id ids) classified)) (\<lambda>_.
         io_return (plan_reconciliation epoch classified))))"

definition classify_only ::
  "('s, 'e) recovery_backend \<Rightarrow> session_id \<Rightarrow> recovery_run_ids
    \<Rightarrow> ('s, 'e reconcile_error, reconciliation) io" where
  "classify_only b sid ids =
    io_bind (io_map_err Backend (rb_acquire_epoch b sid (ri_ownership_request_id ids))) (\<lambda>epoch.
    io_bind (io_map_err Backend (rb_unfinished b sid epoch)) (\<lambda>candidates.
    classify_inventory b sid ids epoch candidates))"

text \<open>One iteration of \<open>execute_actions\<close> for a pending item: whether the action ran.\<close>

definition execute_item ::
  "('s, 'e) recovery_backend \<Rightarrow> fencing_epoch \<Rightarrow> classified_recovery
    \<Rightarrow> ('s, 'e reconcile_error, bool) io" where
  "execute_item b epoch item =
    (case (rc_action (cl_decision item), cl_entity item) of
       (ScheduleExistingOperation, OperationEntity operation_id input_message_id) \<Rightarrow>
         io_bind (io_map_err Backend
           (rb_schedule_existing_operation b epoch operation_id input_message_id))
           (\<lambda>_. io_return True)
     | (RedeliverExactMessage, MessageEntity message_id) \<Rightarrow>
         io_map_err Backend (rb_redeliver_exact_message b epoch message_id)
     | (ReconnectExactInstance, InstanceEntity attempt_id) \<Rightarrow>
         io_map_err Backend (rb_reconnect_exact_instance b epoch attempt_id)
     | (CleanupVerifiedResource, InstanceEntity attempt_id) \<Rightarrow>
         io_map_err Backend (rb_cleanup_verified_instance b epoch attempt_id)
     | (Continue, _) \<Rightarrow> io_return True
     | (NoAction, _) \<Rightarrow> io_return True
     | (AwaitResolution, _) \<Rightarrow> io_return False
     | _ \<Rightarrow> io_fail ActionEntityMismatch)"

text \<open>\<open>execute_actions\<close> updates the executions in place; the list is returned on failure too.\<close>

fun execute_loop ::
  "('s, 'e) recovery_backend \<Rightarrow> fencing_epoch \<Rightarrow> recovery_execution list
    \<Rightarrow> 's \<Rightarrow> ('e reconcile_error + unit) \<times> recovery_execution list \<times> 's" where
  "execute_loop b epoch [] s = (Ok (), [], s)"
| "execute_loop b epoch (x # xs) s =
    (if ex_status x \<noteq> Pending then
       (case execute_loop b epoch xs s of (r, ys, s') \<Rightarrow> (r, x # ys, s'))
     else case execute_item b epoch (ex_classification x) s of
       (Inl e, s') \<Rightarrow> (Err e, x # xs, s')
     | (Inr executed, s') \<Rightarrow>
         (case execute_loop b epoch xs s' of (r, ys, s'') \<Rightarrow>
            (r, x\<lparr>ex_status := (if executed then Executed else Pending)\<rparr> # ys, s'')))"

definition execute_actions ::
  "('s, 'e) recovery_backend \<Rightarrow> reconciliation
    \<Rightarrow> 's \<Rightarrow> ('e reconcile_error + unit) \<times> reconciliation \<times> 's" where
  "execute_actions b rn s =
    (case execute_loop b (rn_epoch rn) (rn_executions rn) s of
       (r, xs, s') \<Rightarrow> (r, rn\<lparr>rn_executions := xs\<rparr>, s'))"

definition reconcile ::
  "('s, 'e) recovery_backend \<Rightarrow> session_id \<Rightarrow> recovery_run_ids
    \<Rightarrow> ('s, 'e reconcile_error, reconciliation) io" where
  "reconcile b sid ids =
    io_bind (classify_only b sid ids) (\<lambda>rn s.
      case execute_actions b rn s of
        (Inl e, _, s') \<Rightarrow> (Inl e, s')
      | (Inr _, rn', s') \<Rightarrow> (Inr rn', s'))"

definition schedule_exact_operation ::
  "('s, 'e) recovery_backend \<Rightarrow> fencing_epoch \<Rightarrow> operation_id \<Rightarrow> message_id
    \<Rightarrow> ('s, 'e reconcile_error, unit) io" where
  "schedule_exact_operation b epoch operation_id input_message_id =
    io_map_err Backend (rb_schedule_existing_operation b epoch operation_id input_message_id)"


section \<open>Logged backends\<close>

datatype backend_call =
    CallAcquire session_id request_id
  | CallUnfinished session_id fencing_epoch
  | CallInspect launch_attempt_id fencing_epoch
  | CallRecord fencing_epoch request_id "classified_recovery list"
  | CallSchedule fencing_epoch operation_id message_id
  | CallRedeliver fencing_epoch message_id
  | CallReconnect fencing_epoch launch_attempt_id
  | CallCleanup fencing_epoch launch_attempt_id

definition logged ::
  "backend_call \<Rightarrow> ('s, 'e, 'a) io \<Rightarrow> ('s \<times> backend_call list, 'e, 'a) io" where
  "logged c m p = (case m (fst p) of (r, s') \<Rightarrow> (r, (s', snd p @ [c])))"

definition logging ::
  "('s, 'e) recovery_backend \<Rightarrow> ('s \<times> backend_call list, 'e) recovery_backend" where
  "logging b = \<lparr>
     rb_acquire_epoch = (\<lambda>sid rid. logged (CallAcquire sid rid) (rb_acquire_epoch b sid rid)),
     rb_unfinished = (\<lambda>sid e. logged (CallUnfinished sid e) (rb_unfinished b sid e)),
     rb_inspect_instance = (\<lambda>a e. logged (CallInspect a e) (rb_inspect_instance b a e)),
     rb_record_classifications =
       (\<lambda>e rid cl. logged (CallRecord e rid cl) (rb_record_classifications b e rid cl)),
     rb_schedule_existing_operation =
       (\<lambda>e i m. logged (CallSchedule e i m) (rb_schedule_existing_operation b e i m)),
     rb_redeliver_exact_message =
       (\<lambda>e m. logged (CallRedeliver e m) (rb_redeliver_exact_message b e m)),
     rb_reconnect_exact_instance =
       (\<lambda>e a. logged (CallReconnect e a) (rb_reconnect_exact_instance b e a)),
     rb_cleanup_verified_instance =
       (\<lambda>e a. logged (CallCleanup e a) (rb_cleanup_verified_instance b e a))\<rparr>"

text \<open>The specification of a run: which calls a given inventory and classification allow.\<close>

fun inspect_call :: "fencing_epoch \<Rightarrow> recovery_entity \<Rightarrow> backend_call list" where
  "inspect_call e (InstanceEntity a) = [CallInspect a e]"
| "inspect_call e _ = []"

fun action_call :: "fencing_epoch \<Rightarrow> recovery_action \<Rightarrow> recovery_entity \<Rightarrow> backend_call list" where
  "action_call e ScheduleExistingOperation (OperationEntity i m) = [CallSchedule e i m]"
| "action_call e RedeliverExactMessage (MessageEntity m) = [CallRedeliver e m]"
| "action_call e ReconnectExactInstance (InstanceEntity a) = [CallReconnect e a]"
| "action_call e CleanupVerifiedResource (InstanceEntity a) = [CallCleanup e a]"
| "action_call e _ _ = []"

definition execution_calls :: "fencing_epoch \<Rightarrow> recovery_execution list \<Rightarrow> backend_call list" where
  "execution_calls e xs = concat (map (\<lambda>x. if ex_status x = Pending
     then action_call e (rc_action (cl_decision (ex_classification x))) (cl_entity (ex_classification x))
     else []) xs)"

definition run_preamble ::
  "session_id \<Rightarrow> recovery_run_ids \<Rightarrow> fencing_epoch \<Rightarrow> recovery_entity list
    \<Rightarrow> classified_recovery list \<Rightarrow> backend_call list" where
  "run_preamble sid ids e ents cl =
    [CallAcquire sid (ri_ownership_request_id ids), CallUnfinished sid e]
    @ concat (map (inspect_call e) ents)
    @ [CallRecord e (ri_classification_request_id ids) cl]"

definition run_actions :: "fencing_epoch \<Rightarrow> classified_recovery list \<Rightarrow> backend_call list" where
  "run_actions e cl = execution_calls e (rn_executions (plan_reconciliation e cl))"

definition well_classified :: "classified_recovery \<Rightarrow> bool" where
  "well_classified x \<longleftrightarrow> classify_recovery (cl_state x) (cl_observation x) = Inr (cl_decision x)"

definition is_action_call :: "backend_call \<Rightarrow> bool" where
  "is_action_call c = (case c of CallSchedule _ _ _ \<Rightarrow> True | CallRedeliver _ _ \<Rightarrow> True
     | CallReconnect _ _ \<Rightarrow> True | CallCleanup _ _ \<Rightarrow> True | _ \<Rightarrow> False)"

lemma logged_cases:
  assumes "logged c m (s, l) = (r, p)"
  obtains t where "m s = (r, t)" "p = (t, l @ [c])"
  using assms by (auto simp: logged_def split: prod.splits)

lemma logged_map_err_cases:
  assumes "io_map_err f (logged c m) (s, l) = (r, p)"
  obtains t where "p = (t, l @ [c])"
  using assms by (auto simp: io_map_err_def logged_def split: prod.splits)

lemma logging_simps [simp]:
  "rb_acquire_epoch (logging b) sid rid = logged (CallAcquire sid rid) (rb_acquire_epoch b sid rid)"
  "rb_unfinished (logging b) sid e = logged (CallUnfinished sid e) (rb_unfinished b sid e)"
  "rb_inspect_instance (logging b) a e = logged (CallInspect a e) (rb_inspect_instance b a e)"
  "rb_record_classifications (logging b) e rid cl =
     logged (CallRecord e rid cl) (rb_record_classifications b e rid cl)"
  "rb_schedule_existing_operation (logging b) e i m =
     logged (CallSchedule e i m) (rb_schedule_existing_operation b e i m)"
  "rb_redeliver_exact_message (logging b) e m =
     logged (CallRedeliver e m) (rb_redeliver_exact_message b e m)"
  "rb_reconnect_exact_instance (logging b) e a =
     logged (CallReconnect e a) (rb_reconnect_exact_instance b e a)"
  "rb_cleanup_verified_instance (logging b) e a =
     logged (CallCleanup e a) (rb_cleanup_verified_instance b e a)"
  by (simp_all add: logging_def)


section \<open>What a run asks of the backend\<close>

lemma observe_log:
  assumes "observe (logging b) e x (s, l) = (r, p)"
  shows "snd p = l @ inspect_call e x"
  using assms
  by (cases x) (auto simp: observe_def elim!: logged_map_err_cases)

lemma classify_candidates_log:
  assumes "classify_candidates (logging b) e cs (s, l) = (r, p)"
  shows "\<exists>calls. snd p = l @ calls \<and> prefix calls (concat (map (inspect_call e) (map cand_entity cs))) \<and>
    (\<forall>cl. r = Inr cl \<longrightarrow> calls = concat (map (inspect_call e) (map cand_entity cs)) \<and>
      map cl_entity cl = map cand_entity cs \<and> map cl_state cl = map cand_state cs \<and>
      list_all well_classified cl)"
  using assms
proof (induction cs arbitrary: s l r p)
  case Nil
  then show ?case by auto
next
  case (Cons c cs)
  from Cons.prems obtain ob q where ob: "observe (logging b) e (cand_entity c) (s, l) = (ob, q)"
    by (cases "observe (logging b) e (cand_entity c) (s, l)") auto
  obtain t k where q: "q = (t, k)" by (cases q)
  have k: "k = l @ inspect_call e (cand_entity c)" using observe_log [OF ob] q by simp
  show ?case
  proof (cases ob)
    case (Inl err)
    then show ?thesis using Cons.prems ob q k by (auto simp: io_bind_apply)
  next
    case (Inr v)
    show ?thesis
    proof (cases "classify_recovery (cand_state c) v")
      case (Inl con)
      then show ?thesis using Cons.prems ob q k Inr by (auto simp: io_bind_apply)
    next
      case dec: (Inr d)
      obtain r' p' where rest: "classify_candidates (logging b) e cs (t, k) = (r', p')"
        by (cases "classify_candidates (logging b) e cs (t, k)") auto
      from Cons.IH [OF this] show ?thesis
        using Cons.prems ob q k Inr dec rest
        by (cases r') (auto simp: io_bind_apply well_classified_def)
    qed
  qed
qed

lemma execute_item_log:
  assumes "execute_item (logging b) e x (s, l) = (r, p)"
  shows "snd p = l @ action_call e (rc_action (cl_decision x)) (cl_entity x)"
  using assms
  by (cases "rc_action (cl_decision x)"; cases "cl_entity x")
    (auto simp: execute_item_def elim!: logged_map_err_cases io_bind_cases)

lemma execution_calls_Cons:
  "execution_calls e (x # xs) = (if ex_status x = Pending
     then action_call e (rc_action (cl_decision (ex_classification x)))
       (cl_entity (ex_classification x)) else []) @ execution_calls e xs"
  by (simp add: execution_calls_def)

lemma execute_loop_log:
  assumes "execute_loop (logging b) e xs (s, l) = (r, ys, p)"
  shows "\<exists>calls. snd p = l @ calls \<and> prefix calls (execution_calls e xs) \<and>
    (is_ok r \<longrightarrow> calls = execution_calls e xs)"
  using assms
proof (induction xs arbitrary: s l r ys p)
  case Nil
  then show ?case by (auto simp: execution_calls_def)
next
  case (Cons x xs)
  show ?case
  proof (cases "ex_status x = Pending")
    case False
    then obtain zs where "execute_loop (logging b) e xs (s, l) = (r, zs, p)"
      using Cons.prems by (auto split: prod.splits)
    from Cons.IH [OF this] False show ?thesis by (simp add: execution_calls_Cons)
  next
    case True
    obtain ran t k where item: "execute_item (logging b) e (ex_classification x) (s, l) = (ran, (t, k))"
      by (cases "execute_item (logging b) e (ex_classification x) (s, l)") auto
    have k: "k = l @ action_call e (rc_action (cl_decision (ex_classification x)))
        (cl_entity (ex_classification x))"
      using execute_item_log [OF item] by simp
    show ?thesis
    proof (cases ran)
      case (Inl err)
      then show ?thesis using Cons.prems item k True by (auto simp: execution_calls_Cons)
    next
      case (Inr executed)
      then obtain zs where "execute_loop (logging b) e xs (t, k) = (r, zs, p)"
        using Cons.prems item True by (auto split: prod.splits)
      from Cons.IH [OF this] k True show ?thesis by (auto simp: execution_calls_Cons)
    qed
  qed
qed

lemma classify_inventory_log:
  fixes b :: "('s, 'e) recovery_backend"
  assumes "classify_inventory (logging b) sid ids e cands (s, l) = (r, p)"
  shows "\<exists>ents cl. list_all well_classified cl \<and>
    (case r of
       Inl _ \<Rightarrow> prefix (snd p) (l @ concat (map (inspect_call e) ents)
           @ [CallRecord e (ri_classification_request_id ids) cl])
     | Inr rn \<Rightarrow> ents = map cl_entity cl \<and> rn = plan_reconciliation e cl \<and>
         snd p = l @ concat (map (inspect_call e) ents)
           @ [CallRecord e (ri_classification_request_id ids) cl])"
proof (cases "check_inventory sid {} 0 cands :: 'e reconcile_error + unit")
  case (Inl err)
  then show ?thesis
    using assms by (auto simp: classify_inventory_def intro!: exI [of _ "[]"])
next
  case (Inr u)
  let ?ents = "map cand_entity cands"
  from Inr assms have "io_bind (classify_candidates (logging b) e cands) (\<lambda>classified.
      io_bind (io_map_err Backend (logged (CallRecord e (ri_classification_request_id ids) classified)
        (rb_record_classifications b e (ri_classification_request_id ids) classified))) (\<lambda>_.
      io_return (plan_reconciliation e classified))) (s, l) = (r, p)"
    by (simp add: classify_inventory_def)
  then show ?thesis
  proof (cases rule: io_bind_cases)
    case (fails err)
    from classify_candidates_log [OF fails(1)] obtain calls where
      "snd p = l @ calls" "prefix calls (concat (map (inspect_call e) ?ents))" by auto
    then show ?thesis using fails(2) by (auto intro!: exI [of _ "[]"] exI [of _ ?ents] prefix_prefix)
  next
    case (runs cl q)
    from classify_candidates_log [OF runs(1)] have cl: "map cl_entity cl = ?ents"
      "list_all well_classified cl" "snd q = l @ concat (map (inspect_call e) ?ents)" by auto
    from runs(2) have "snd p = snd q @ [CallRecord e (ri_classification_request_id ids) cl] \<and>
        (is_ok r \<longrightarrow> r = Inr (plan_reconciliation e cl))"
      by (cases q) (auto elim!: io_bind_cases logged_map_err_cases)
    with cl show ?thesis
      by (cases r) (auto intro!: exI [of _ cl] exI [of _ ?ents])
  qed
qed

lemma classify_only_log:
  assumes "classify_only (logging b) sid ids (s, []) = (r, p)"
  shows "\<exists>e ents cl. list_all well_classified cl \<and>
    (case r of
       Inl _ \<Rightarrow> prefix (snd p) (run_preamble sid ids e ents cl)
     | Inr rn \<Rightarrow> ents = map cl_entity cl \<and> rn = plan_reconciliation e cl \<and>
         snd p = run_preamble sid ids e ents cl)"
  using assms unfolding classify_only_def logging_simps
proof (cases rule: io_bind_cases)
  case (fails err)
  then show ?thesis
    by (auto simp: run_preamble_def elim!: logged_map_err_cases intro!: exI [of _ "[]"])
next
  case (runs e q)
  then obtain t where q: "q = (t, [CallAcquire sid (ri_ownership_request_id ids)])"
    by (auto elim!: logged_map_err_cases)
  from runs(2) show ?thesis
  proof (cases rule: io_bind_cases)
    case (fails err)
    then show ?thesis unfolding q
      by (auto simp: run_preamble_def elim!: logged_map_err_cases intro!: exI [of _ "[]"] exI [of _ e])
  next
    case (runs cands q2)
    then obtain t2 where "q2 = (t2, [CallAcquire sid (ri_ownership_request_id ids), CallUnfinished sid e])"
      unfolding q by (auto elim!: logged_map_err_cases)
    with runs(2) classify_inventory_log [of b sid ids e cands t2 _ r p] show ?thesis
      by (cases r) (fastforce simp: run_preamble_def)+
  qed
qed

lemma reconcile_log:
  assumes "reconcile (logging b) sid ids (s, []) = (r, p)"
  shows "\<exists>e ents cl. list_all well_classified cl \<and>
    (prefix (snd p) (run_preamble sid ids e ents cl) \<and> \<not> is_ok r \<or>
     (\<exists>acts. ents = map cl_entity cl \<and> snd p = run_preamble sid ids e ents cl @ acts \<and>
        prefix acts (run_actions e cl) \<and> (is_ok r \<longrightarrow> acts = run_actions e cl)))"
  using assms unfolding reconcile_def
proof (cases rule: io_bind_cases)
  case (fails err)
  from classify_only_log [OF fails(1)] fails(2) show ?thesis by auto
next
  case (runs rn q)
  from classify_only_log [OF runs(1)] obtain e cl where
    cl: "list_all well_classified cl" "rn = plan_reconciliation e cl"
      "snd q = run_preamble sid ids e (map cl_entity cl) cl" by auto
  obtain res ys where loop: "execute_loop (logging b) (rn_epoch rn) (rn_executions rn) q = (res, ys, p)"
    "is_ok r = is_ok res"
    using runs(2) by (auto simp: execute_actions_def split: prod.splits sum.splits)
  have "rn_epoch rn = e" by (simp add: cl(2) plan_reconciliation_def Let_def)
  with loop execute_loop_log [of b e "rn_executions rn" "fst q" "snd q" res ys p]
  obtain acts where "snd p = snd q @ acts" "prefix acts (run_actions e cl)"
    "is_ok r \<longrightarrow> acts = run_actions e cl"
    by (auto simp: run_actions_def cl(2))
  with cl show ?thesis by auto
qed

text \<open>The barriers, on the planned calls.\<close>

lemma run_actions_in:
  assumes "c \<in> set (run_actions e cl)"
  shows "\<exists>x \<in> set cl. c \<in> set (action_call e (rc_action (cl_decision x)) (cl_entity x)) \<and>
    planned_status x (list_ex (\<lambda>i. rc_class (cl_decision i) = EffectUncertain) cl)
      (list_ex (\<lambda>i. rc_class (cl_decision i) = CleanupRequired) cl) = Pending"
  using assms
  by (auto simp: run_actions_def execution_calls_def plan_reconciliation_def Let_def split: if_splits)

lemma action_call_cases:
  assumes "c \<in> set (action_call e act ent)"
  shows "is_action_call c \<and> act \<in> {ScheduleExistingOperation, RedeliverExactMessage,
      ReconnectExactInstance, CleanupVerifiedResource} \<and>
    ((\<exists>a. c = CallCleanup e a) \<longleftrightarrow> act = CleanupVerifiedResource)"
  using assms by (cases act; cases ent) (auto simp: is_action_call_def)

lemma run_actions_uncertain:
  "x \<in> set cl \<Longrightarrow> rc_class (cl_decision x) = EffectUncertain \<Longrightarrow> run_actions e cl = []"
proof (rule ccontr)
  assume x: "x \<in> set cl" "rc_class (cl_decision x) = EffectUncertain" and ne: "run_actions e cl \<noteq> []"
  then obtain c where c: "c \<in> set (run_actions e cl)" by (meson list.set_sel(1))
  from x have "list_ex (\<lambda>i. rc_class (cl_decision i) = EffectUncertain) cl"
    by (auto simp: list_ex_iff)
  with run_actions_in [OF c] show False
    using action_call_cases by (fastforce simp: planned_status_def Let_def split: if_splits)
qed

lemma run_actions_cleanup:
  assumes "x \<in> set cl" "rc_class (cl_decision x) = CleanupRequired" "c \<in> set (run_actions e cl)"
  shows "\<exists>a. c = CallCleanup e a"
proof -
  have "list_ex (\<lambda>i. rc_class (cl_decision i) = CleanupRequired) cl"
    using assms(1,2) by (auto simp: list_ex_iff)
  with run_actions_in [OF assms(3)] show ?thesis
    using action_call_cases by (fastforce simp: planned_status_def Let_def split: if_splits)
qed

lemma preamble_no_action: "c \<in> set (run_preamble sid ids e ents cl) \<Longrightarrow> \<not> is_action_call c"
proof -
  have "\<not> is_action_call c" if "c \<in> set (inspect_call e x)" for x
    using that by (cases x) (auto simp: is_action_call_def)
  then show "c \<in> set (run_preamble sid ids e ents cl) \<Longrightarrow> \<not> is_action_call c"
    by (auto simp: run_preamble_def is_action_call_def)
qed

lemma preamble_record:
  "CallRecord e' rid cl' \<in> set (run_preamble sid ids e ents cl) \<Longrightarrow>
   e' = e \<and> rid = ri_classification_request_id ids \<and> cl' = cl"
proof -
  have "CallRecord e' rid cl' \<notin> set (inspect_call e x)" for x by (cases x) auto
  then show "CallRecord e' rid cl' \<in> set (run_preamble sid ids e ents cl) \<Longrightarrow>
      e' = e \<and> rid = ri_classification_request_id ids \<and> cl' = cl"
    by (auto simp: run_preamble_def)
qed

text \<open>What the inventory check enforces.\<close>

definition inventory_ok :: "session_id \<Rightarrow> recovery_candidate list \<Rightarrow> bool" where
  "inventory_ok sid cs \<longleftrightarrow> (\<forall>c \<in> set cs. cand_session_id c = sid) \<and>
    sorted_wrt (<) (0 # map cand_ordinal cs) \<and> distinct (map cand_entity cs)"

lemma check_inventory_Ok_iff:
  "is_ok (check_inventory sid seen previous cs :: 'e reconcile_error + unit) \<longleftrightarrow>
    (\<forall>c \<in> set cs. cand_session_id c = sid \<and> cand_ordinal c \<noteq> 0) \<and>
    sorted_wrt (<) (previous # map cand_ordinal cs) \<and>
    distinct (map cand_entity cs) \<and> seen \<inter> cand_entity ` set cs = {}"
proof (induction cs arbitrary: seen previous)
  case (Cons c cs)
  have "sorted_wrt (<) (previous # map cand_ordinal (c # cs)) \<longleftrightarrow>
      previous < cand_ordinal c \<and> sorted_wrt (<) (cand_ordinal c # map cand_ordinal cs)"
    by (simp add: sorted_wrt2 del: sorted_wrt.simps)
  moreover have "is_ok (check_inventory sid seen previous (c # cs) :: 'e reconcile_error + unit) \<longleftrightarrow>
      cand_session_id c = sid \<and> cand_ordinal c \<noteq> 0 \<and> previous < cand_ordinal c \<and>
      cand_entity c \<notin> seen \<and>
      is_ok (check_inventory sid (insert (cand_entity c) seen) (cand_ordinal c) cs
        :: 'e reconcile_error + unit)"
    by (auto simp: not_le)
  ultimately show ?case
    unfolding Cons.IH by (simp del: sorted_wrt.simps check_inventory.simps) blast
qed simp

lemma check_inventory_ok: "is_ok (check_inventory sid {} 0 cs) \<longleftrightarrow> inventory_ok sid cs"
  by (auto simp: check_inventory_Ok_iff inventory_ok_def word_neq_0_conv)


section \<open>Properties\<close>

text \<open>Property C17.  The order of a reconciliation, for every backend and whatever fails: the calls
  made are a prefix of acquire, load inventory, inspect the instances, record the complete
  classification set, then the planned actions in order, all under the acquired epoch; every
  recorded classification is the one the recovery table gives; and a run that succeeds made
  all of these calls.\<close>

theorem reconcile_call_order:
  assumes "reconcile (logging b) sid ids (s, []) = (r, (s', calls))"
  shows "\<exists>e ents cl. list_all well_classified cl \<and>
    prefix calls (run_preamble sid ids e ents cl @ run_actions e cl) \<and>
    (is_ok r \<longrightarrow> ents = map cl_entity cl \<and> calls = run_preamble sid ids e ents cl @ run_actions e cl)"
proof -
  from reconcile_log [OF assms] obtain e ents cl where *: "list_all well_classified cl"
    "prefix calls (run_preamble sid ids e ents cl) \<and> \<not> is_ok r \<or>
     (\<exists>acts. ents = map cl_entity cl \<and> calls = run_preamble sid ids e ents cl @ acts \<and>
        prefix acts (run_actions e cl) \<and> (is_ok r \<longrightarrow> acts = run_actions e cl))"
    by auto
  then show ?thesis
    by (intro exI [of _ e] exI [of _ ents] exI [of _ cl]) (auto intro: prefix_prefix)
qed

definition steady_backend ::
  "fencing_epoch \<Rightarrow> recovery_candidate list \<Rightarrow> live_observation \<Rightarrow> (unit, unit) recovery_backend" where
  "steady_backend e cs ob = \<lparr>
     rb_acquire_epoch = (\<lambda>_ _. io_return e), rb_unfinished = (\<lambda>_ _. io_return cs),
     rb_inspect_instance = (\<lambda>_ _. io_return ob), rb_record_classifications = (\<lambda>_ _ _. io_return ()),
     rb_schedule_existing_operation = (\<lambda>_ _ _. io_return ()),
     rb_redeliver_exact_message = (\<lambda>_ _. io_return True),
     rb_reconnect_exact_instance = (\<lambda>_ _. io_return True),
     rb_cleanup_verified_instance = (\<lambda>_ _. io_return True)\<rparr>"

definition sample_run ::
  "recovery_entity \<Rightarrow> recovery_state \<Rightarrow> (unit reconcile_error + reconciliation) \<times> unit \<times> backend_call list" where
  "sample_run ent st = reconcile (logging (steady_backend 3 [\<lparr>cand_ordinal = 2, cand_session_id = 7,
      cand_entity = ent, cand_state = st\<rparr>] Absent)) 7
      \<lparr>ri_ownership_request_id = 11, ri_classification_request_id = 12\<rparr> ((), [])"

lemma sample_run_eq:
  "reconcile (logging (steady_backend 3 [\<lparr>cand_ordinal = 2, cand_session_id = 7,
      cand_entity = ent, cand_state = st\<rparr>] Absent)) 7
      \<lparr>ri_ownership_request_id = 11, ri_classification_request_id = 12\<rparr> ((), []) =
    (fst (sample_run ent st), ((), snd (snd (sample_run ent st))))"
  by (simp add: sample_run_def prod_eq_iff)

lemmas reconcile_eval = reconcile_def classify_only_def classify_inventory_def steady_backend_def
  io_bind_apply io_map_err_def logged_def observe_def plan_reconciliation_def planned_status_def
  execute_actions_def execute_item_def Let_def
  classify_recovery_def [of OperationQueued NotApplicable]
  classify_recovery_def [of InstanceReady Absent]

lemma reconcile_call_order_witness:
  "snd (snd (sample_run (OperationEntity 8 9) OperationQueued)) =
     [CallAcquire 7 11, CallUnfinished 7 3, CallRecord 3 12
      [\<lparr>cl_entity = OperationEntity 8 9, cl_state = OperationQueued, cl_observation = NotApplicable,
        cl_decision = \<lparr>rc_class = SafeToContinue, rc_reason = DurableWorkNotStarted,
          rc_action = ScheduleExistingOperation\<rparr>\<rparr>], CallSchedule 3 8 9] \<and>
   (\<exists>e ents cl. list_all well_classified cl \<and>
     snd (snd (sample_run (OperationEntity 8 9) OperationQueued)) = run_preamble 7
       \<lparr>ri_ownership_request_id = 11, ri_classification_request_id = 12\<rparr> e ents cl @ run_actions e cl)"
proof
  have "is_ok (fst (sample_run (OperationEntity 8 9) OperationQueued))"
    by (simp add: sample_run_def reconcile_eval)
  then show "\<exists>e ents cl. list_all well_classified cl \<and>
     snd (snd (sample_run (OperationEntity 8 9) OperationQueued)) = run_preamble 7
       \<lparr>ri_ownership_request_id = 11, ri_classification_request_id = 12\<rparr> e ents cl @ run_actions e cl"
    using reconcile_call_order [OF sample_run_eq, of "OperationEntity 8 9" OperationQueued] by blast
qed (simp add: sample_run_def reconcile_eval)

text \<open>Property C16.  The session barriers: an action call (schedule, redeliver, reconnect, cleanup) is
  made only after a classification set was recorded in which nothing is uncertain, and if that
  set requires any cleanup then the only action calls are cleanups.\<close>

theorem reconcile_barriers:
  assumes "reconcile (logging b) sid ids (s, []) = (r, (s', calls))"
    and "call \<in> set calls" "is_action_call call"
  shows "\<exists>e cl. CallRecord e (ri_classification_request_id ids) cl \<in> set calls \<and>
    list_all (\<lambda>x. rc_class (cl_decision x) \<noteq> EffectUncertain) cl \<and>
    (list_ex (\<lambda>x. rc_class (cl_decision x) = CleanupRequired) cl \<longrightarrow> (\<exists>a. call = CallCleanup e a))"
proof -
  from reconcile_log [OF assms(1)] obtain e ents cl where
    "prefix calls (run_preamble sid ids e ents cl) \<or>
     (\<exists>acts. calls = run_preamble sid ids e ents cl @ acts \<and> prefix acts (run_actions e cl))"
    by auto
  then obtain acts where acts: "calls = run_preamble sid ids e ents cl @ acts" "call \<in> set acts"
      "prefix acts (run_actions e cl)"
    using assms(2,3) preamble_no_action by (auto dest: set_mono_prefix [THEN subsetD])
  then have planned: "call \<in> set (run_actions e cl)" by (auto dest: set_mono_prefix [THEN subsetD])
  have "CallRecord e (ri_classification_request_id ids) cl \<in> set calls"
    by (simp add: acts(1) run_preamble_def)
  moreover have "list_all (\<lambda>x. rc_class (cl_decision x) \<noteq> EffectUncertain) cl"
    using planned run_actions_uncertain by (fastforce simp: list_all_iff)
  ultimately show ?thesis
    using run_actions_cleanup [OF _ _ planned]
    by (intro exI [of _ e] exI [of _ cl]) (auto simp: list_ex_iff)
qed

lemma reconcile_barriers_witness:
  "CallCleanup 3 8 \<in> set (snd (snd (sample_run (InstanceEntity 8) InstanceReady))) \<and>
   (\<exists>e cl. CallRecord e 12 cl \<in> set (snd (snd (sample_run (InstanceEntity 8) InstanceReady))))"
proof
  show cleanup: "CallCleanup 3 8 \<in> set (snd (snd (sample_run (InstanceEntity 8) InstanceReady)))"
    by (simp add: sample_run_def reconcile_eval)
  show "\<exists>e cl. CallRecord e 12 cl \<in> set (snd (snd (sample_run (InstanceEntity 8) InstanceReady)))"
    using reconcile_barriers [OF sample_run_eq cleanup] by (auto simp: is_action_call_def)
qed

text \<open>Property C21.  A malformed inventory fails closed.  The check accepts exactly the inventories
  of one session with strictly increasing positive ordinals and no repeated entity; for any
  other, the run stops after loading it: nothing is inspected, recorded or acted on.\<close>

theorem malformed_inventory_fails_closed:
  fixes b :: "('s, 'e) recovery_backend"
  shows "(is_ok (check_inventory sid {} 0 cs :: 'e reconcile_error + unit) \<longleftrightarrow> inventory_ok sid cs) \<and>
    (\<not> inventory_ok sid cs \<longrightarrow>
      (\<exists>err. classify_inventory (logging b) sid ids e cs (s, l) = (Inl err, (s, l))))"
  using check_inventory_ok [of sid cs, where 'a = 'e]
  by (cases "check_inventory sid {} 0 cs :: 'e reconcile_error + unit")
    (auto simp: classify_inventory_def check_inventory_ok)

lemma malformed_inventory_fails_closed_witness:
  "\<not> inventory_ok 7 [\<lparr>cand_ordinal = 2, cand_session_id = 5, cand_entity = SessionEntity 5,
      cand_state = SessionOpen\<rparr>] \<and>
   (\<exists>err. classify_inventory (logging (steady_backend 3 [] Absent)) 7
      \<lparr>ri_ownership_request_id = 11, ri_classification_request_id = 12\<rparr> 3
      [\<lparr>cand_ordinal = 2, cand_session_id = 5, cand_entity = SessionEntity 5,
        cand_state = SessionOpen\<rparr>] ((), []) = (Inl err, ((), [])))"
  using malformed_inventory_fails_closed [of 7 "[\<lparr>cand_ordinal = 2, cand_session_id = 5,
      cand_entity = SessionEntity 5, cand_state = SessionOpen\<rparr>]" "steady_backend 3 [] Absent"
      "\<lparr>ri_ownership_request_id = 11, ri_classification_request_id = 12\<rparr>" 3 "()" "[]"]
  by (simp add: inventory_ok_def)

end
