(* ===== verification/Resource_Limits.thy ===== *)
theory Resource_Limits
  imports Domain_Values
begin

text \<open>
  Capacity resources, limit profiles and the bounded fair queue of
  \<open>crates/navigator-store-api/src/resource_limits.rs\<close>.

  A \<open>BTreeMap\<close> is the list of its entries in key order, a \<open>VecDeque\<close> the list of its elements,
  front first.
\<close>

datatype capacity_resource =
    Participants | ActiveOperations | QueuedOperations | Messages | MessageBytes | Artifacts
  | ArtifactBytes | PendingRequests | Subscriptions | Retries | RetainedEvents

definition capacity_resource_as_str :: "capacity_resource \<Rightarrow> string" where
  "capacity_resource_as_str r =
    (case r of
       Participants \<Rightarrow> ''participants''
     | ActiveOperations \<Rightarrow> ''active_operations''
     | QueuedOperations \<Rightarrow> ''queued_operations''
     | Messages \<Rightarrow> ''messages''
     | MessageBytes \<Rightarrow> ''message_bytes''
     | Artifacts \<Rightarrow> ''artifacts''
     | ArtifactBytes \<Rightarrow> ''artifact_bytes''
     | PendingRequests \<Rightarrow> ''pending_requests''
     | Subscriptions \<Rightarrow> ''subscriptions''
     | Retries \<Rightarrow> ''retries''
     | RetainedEvents \<Rightarrow> ''retained_events'')"

definition capacity_resource_all :: "capacity_resource list" where
  "capacity_resource_all =
    [Participants, ActiveOperations, QueuedOperations, Messages, MessageBytes, Artifacts,
     ArtifactBytes, PendingRequests, Subscriptions, Retries, RetainedEvents]"

datatype limit_profile_error = OutOfRange | SessionExceedsGlobal

record resource_limit =
  rl_per_session :: u64
  rl_global :: u64

definition hard_ceiling :: "capacity_resource \<Rightarrow> resource_limit" where
  "hard_ceiling r =
    (if r \<in> {Participants, ActiveOperations} then \<lparr>rl_per_session = 4096, rl_global = 65536\<rparr>
     else if r \<in> {QueuedOperations, Artifacts, PendingRequests, Retries}
       then \<lparr>rl_per_session = 65536, rl_global = 1048576\<rparr>
     else if r = Messages then \<lparr>rl_per_session = 262144, rl_global = 4194304\<rparr>
     else if r = MessageBytes
       then \<lparr>rl_per_session = push_bit 34 1, rl_global = push_bit 38 1\<rparr>
     else if r = ArtifactBytes
       then \<lparr>rl_per_session = push_bit 40 1, rl_global = push_bit 44 1\<rparr>
     else if r = Subscriptions then \<lparr>rl_per_session = 1024, rl_global = 16384\<rparr>
     else \<lparr>rl_per_session = 4194304, rl_global = 67108864\<rparr>)"

definition default_session :: "capacity_resource \<Rightarrow> u64" where
  "default_session r =
    (if r = Participants then 1024
     else if r = ActiveOperations then 256
     else if r \<in> {QueuedOperations, Artifacts, PendingRequests, Retries} then 4096
     else if r = Messages then 65536
     else if r = MessageBytes then 256 * 1024 * 1024
     else if r = ArtifactBytes then 4 * 1024 * 1024 * 1024
     else if r = Subscriptions then 32
     else 262144)"

definition default_global :: "capacity_resource \<Rightarrow> u64" where
  "default_global r = default_session r * 16"

type_synonym limit_profile = "capacity_resource \<Rightarrow> resource_limit option"

definition limit_profile_default :: limit_profile where
  "limit_profile_default =
    fold (\<lambda>r limits. limits(r \<mapsto>
        \<lparr>rl_per_session = default_session r,
         rl_global = min (default_global r) (rl_global (hard_ceiling r))\<rparr>))
      capacity_resource_all (\<lambda>_. None)"

definition limit_invalid :: "capacity_resource \<Rightarrow> resource_limit \<Rightarrow> bool" where
  "limit_invalid r l =
    (let ceiling = hard_ceiling r
     in rl_per_session l = 0 \<or> rl_global l = 0 \<or> rl_per_session l > rl_global l
        \<or> rl_per_session l > rl_per_session ceiling \<or> rl_global l > rl_global ceiling)"

fun limit_profile_insert ::
  "limit_profile \<Rightarrow> (capacity_resource \<times> resource_limit) list \<Rightarrow> limit_profile_error + limit_profile" where
  "limit_profile_insert p [] = Ok p"
| "limit_profile_insert p ((r, l) # ls) =
    (if limit_invalid r l
     then Err (if rl_per_session l > rl_global l then SessionExceedsGlobal else OutOfRange)
     else limit_profile_insert (p(r \<mapsto> l)) ls)"

definition limit_profile_new ::
  "(capacity_resource \<times> resource_limit) list \<Rightarrow> limit_profile_error + limit_profile" where
  "limit_profile_new limits = limit_profile_insert limit_profile_default limits"

text \<open>\<open>get\<close> indexes the map; \<open>None\<close> is the panic of indexing an absent key.\<close>

definition limit_profile_get :: "limit_profile \<Rightarrow> capacity_resource \<Rightarrow> resource_limit option" where
  "limit_profile_get p r = p r"

datatype capacity_reason = SessionLimit capacity_resource | GlobalLimit capacity_resource

datatype fair_queue_error = CapacityReached

text \<open>\<open>FairScheduler::select\<close>: the selected campaign, which is also the new cursor.\<close>

definition scheduler_select :: "participant_id option \<Rightarrow> participant_id list \<Rightarrow> participant_id option" where
  "scheduler_select cursor eligible =
    (let campaigns = remdups_adj (sort eligible)
     in case cursor of
          None \<Rightarrow> (case campaigns of [] \<Rightarrow> None | c # _ \<Rightarrow> Some c)
        | Some cur \<Rightarrow>
            (case find (\<lambda>candidate. cur < candidate) campaigns of
               Some c \<Rightarrow> Some c
             | None \<Rightarrow> (case campaigns of [] \<Rightarrow> None | c # _ \<Rightarrow> Some c)))"

record 'a fair_queue =
  fq_queues :: "(participant_id \<times> 'a list) list"
  fq_cursor :: "participant_id option"
  fq_len :: nat
  fq_limit :: nat

definition fair_queue_new :: "nat \<Rightarrow> fair_queue_error + 'a fair_queue" where
  "fair_queue_new limit =
    (if limit = 0 then Err CapacityReached
     else Ok \<lparr>fq_queues = [], fq_cursor = None, fq_len = 0, fq_limit = limit\<rparr>)"

text \<open>\<open>entry(campaign).or_default().push_back(value)\<close> on the key-ordered map.\<close>

fun entry_push :: "'k::linorder \<Rightarrow> 'a \<Rightarrow> ('k \<times> 'a list) list \<Rightarrow> ('k \<times> 'a list) list" where
  "entry_push c v [] = [(c, [v])]"
| "entry_push c v ((d, q) # qs) =
    (if c = d then (d, q @ [v]) # qs
     else if c < d then (c, [v]) # (d, q) # qs
     else (d, q) # entry_push c v qs)"

definition fair_push :: "'a fair_queue \<Rightarrow> participant_id \<Rightarrow> 'a \<Rightarrow> 'a fair_queue \<times> (fair_queue_error + unit)" where
  "fair_push f campaign v =
    (if fq_len f = fq_limit f then (f, Err CapacityReached)
     else (f\<lparr>fq_queues := entry_push campaign v (fq_queues f), fq_len := fq_len f + 1\<rparr>, Ok ()))"

definition fair_pop :: "'a fair_queue \<Rightarrow> 'a fair_queue \<times> (participant_id \<times> 'a) option" where
  "fair_pop f =
    (let selected = scheduler_select (fq_cursor f) (map fst (fq_queues f)); g = f\<lparr>fq_cursor := selected\<rparr>
     in case selected of
          None \<Rightarrow> (g, None)
        | Some c \<Rightarrow>
            (case map_of (fq_queues f) c of
               None \<Rightarrow> (g, None)
             | Some [] \<Rightarrow> (g, None)
             | Some (v # q) \<Rightarrow>
                 (g\<lparr>fq_len := fq_len f - 1,
                    fq_queues := (if q = [] then filter (\<lambda>e. fst e \<noteq> c) (fq_queues f)
                                  else map (\<lambda>e. if fst e = c then (c, q) else e) (fq_queues f))\<rparr>,
                  Some (c, v))))"

definition cancel_campaign :: "'a fair_queue \<Rightarrow> participant_id \<Rightarrow> 'a fair_queue \<times> nat" where
  "cancel_campaign f campaign =
    (let released = (case map_of (fq_queues f) campaign of None \<Rightarrow> 0 | Some q \<Rightarrow> length q)
     in (f\<lparr>fq_queues := filter (\<lambda>e. fst e \<noteq> campaign) (fq_queues f), fq_len := fq_len f - released\<rparr>,
         released))"


section \<open>Limit profiles\<close>

lemma limit_profile_default_valid:
  "\<exists>l. limit_profile_default r = Some l \<and> \<not> limit_invalid r l"
  by (cases r) (simp_all add: limit_profile_default_def capacity_resource_all_def limit_invalid_def
      hard_ceiling_def default_session_def default_global_def Let_def)

lemma limit_profile_insert_valid:
  "limit_profile_insert p ls = Inr p' \<Longrightarrow> (\<And>r. \<exists>l. p r = Some l \<and> \<not> limit_invalid r l) \<Longrightarrow>
   \<exists>l. p' r = Some l \<and> \<not> limit_invalid r l"
proof (induction p ls rule: limit_profile_insert.induct)
  case (2 p r' l ls)
  show ?case
  proof (rule 2(1))
    show "\<not> limit_invalid r' l" "limit_profile_insert (p(r' \<mapsto> l)) ls = Inr p'"
      using 2(2) by (auto split: if_splits)
    then show "\<exists>l'. (p(r' \<mapsto> l)) q = Some l' \<and> \<not> limit_invalid q l'" for q
      using 2(3) [of q] by auto
  qed
qed simp


section \<open>The fair queue\<close>

definition strict_keys :: "('k::linorder \<times> 'v) list \<Rightarrow> bool" where
  "strict_keys qs = sorted_wrt (<) (map fst qs)"

definition total_items :: "('k \<times> 'a list) list \<Rightarrow> nat" where
  "total_items qs = sum_list (map (\<lambda>e. length (snd e)) qs)"

definition fq_inv :: "'a fair_queue \<Rightarrow> bool" where
  "fq_inv f \<longleftrightarrow>
    strict_keys (fq_queues f) \<and> (\<forall>e \<in> set (fq_queues f). snd e \<noteq> []) \<and>
    fq_len f = total_items (fq_queues f) \<and> fq_len f \<le> fq_limit f"

definition fq_contents :: "'a fair_queue \<Rightarrow> participant_id \<Rightarrow> 'a list" where
  "fq_contents f c = (case map_of (fq_queues f) c of None \<Rightarrow> [] | Some q \<Rightarrow> q)"

lemma strict_keys_simps [simp]:
  "strict_keys []"
  "strict_keys (e # qs) \<longleftrightarrow> (\<forall>d \<in> fst ` set qs. fst e < d) \<and> strict_keys qs"
  by (simp_all add: strict_keys_def)

lemma total_items_simps [simp]:
  "total_items [] = 0" "total_items (e # qs) = length (snd e) + total_items qs"
  by (simp_all add: total_items_def)

lemma strict_keys_distinct: "strict_keys qs \<Longrightarrow> distinct (map fst qs)"
  by (induction qs) auto

lemma strict_keys_filter: "strict_keys qs \<Longrightarrow> strict_keys (filter P qs)"
  by (induction qs) auto

lemma strict_keys_remdups_adj:
  "strict_keys qs \<Longrightarrow> remdups_adj (sort (map fst qs)) = map fst qs"
proof -
  assume keys: "strict_keys qs"
  then have "sorted (map fst qs)"
    unfolding strict_keys_def by (rule sorted_wrt_mono_rel [rotated]) simp
  then show ?thesis
    using strict_keys_distinct [OF keys] by (simp add: sorted_sort_id remdups_adj_distinct)
qed

lemma entry_push_keys: "fst ` set (entry_push c v qs) = insert c (fst ` set qs)"
  by (induction c v qs rule: entry_push.induct) auto

lemma entry_push_strict: "strict_keys qs \<Longrightarrow> strict_keys (entry_push c v qs)"
  by (induction c v qs rule: entry_push.induct) (auto simp: entry_push_keys)

lemma entry_push_total: "total_items (entry_push c v qs) = Suc (total_items qs)"
  by (induction c v qs rule: entry_push.induct) auto

lemma entry_push_nonempty:
  "\<forall>e \<in> set qs. snd e \<noteq> [] \<Longrightarrow> \<forall>e \<in> set (entry_push c v qs). snd e \<noteq> []"
  by (induction c v qs rule: entry_push.induct) auto

lemma entry_push_map_of:
  "strict_keys qs \<Longrightarrow> map_of (entry_push c v qs) d =
    (if d = c then Some ((case map_of qs c of None \<Rightarrow> [] | Some q \<Rightarrow> q) @ [v]) else map_of qs d)"
proof (induction c v qs rule: entry_push.induct)
  case (2 c v e q qs)
  have "map_of qs c = None" if "c < e"
    using 2(2) that by (force simp: map_of_eq_None_iff)
  then show ?case using 2 by (auto split: option.splits)
qed auto

lemma map_of_filter_keys: "map_of (filter (\<lambda>e. fst e \<noteq> c) qs) d = (if d = c then None else map_of qs d)"
  by (induction qs) auto

lemma map_of_replace:
  "map_of (map (\<lambda>e. if fst e = c then (c, q) else e) qs) d =
    (if d = c \<and> map_of qs c \<noteq> None then Some q else map_of qs d)"
  by (induction qs) auto

lemma map_fst_replace: "map fst (map (\<lambda>e. if fst e = c then (c, q) else e) qs) = map fst qs"
  by (induction qs) auto

lemma total_items_filter:
  "distinct (map fst qs) \<Longrightarrow>
   total_items qs = total_items (filter (\<lambda>e. fst e \<noteq> c) qs)
     + (case map_of qs c of None \<Rightarrow> 0 | Some q \<Rightarrow> length q)"
proof (induction qs)
  case (Cons e qs)
  have "filter (\<lambda>e. fst e \<noteq> c) qs = qs \<and> map_of qs c = None" if "fst e = c"
    using Cons.prems that by (force simp: filter_id_conv map_of_eq_None_iff image_iff)
  then show ?case using Cons by (cases e) auto
qed simp

lemma total_items_replace:
  "distinct (map fst qs) \<Longrightarrow> map_of qs c = Some (v # q) \<Longrightarrow>
   total_items qs = Suc (total_items (map (\<lambda>e. if fst e = c then (c, q) else e) qs))"
proof (induction qs)
  case (Cons e qs)
  have "map (\<lambda>e. if fst e = c then (c, q) else e) qs = qs" if "fst e = c"
    using Cons.prems that by (intro map_idI) (auto simp: image_iff)
  then show ?case using Cons by (cases e) (auto split: if_splits)
qed simp

text \<open>What \<open>select\<close> picks: the next campaign after the cursor in cyclic order.\<close>

lemma find_first_sorted:
  fixes x :: "'k::linorder"
  assumes "sorted_wrt (<) cs" "find P cs = Some x"
  shows "x \<in> set cs \<and> P x \<and> (\<forall>y \<in> set cs. P y \<longrightarrow> x \<le> y)"
  using assms by (induction cs) (auto split: if_splits)

lemma scheduler_select_None_iff: "scheduler_select cur cs = None \<longleftrightarrow> cs = []"
proof -
  have "remdups_adj (sort cs) = [] \<longleftrightarrow> cs = []"
    by (metis remdups_adj_Nil_iff set_empty set_sort)
  then show ?thesis
    by (auto simp: scheduler_select_def Let_def split: option.splits list.splits)
qed

text \<open>\<open>ahead cur x d\<close>: going up from the cursor and wrapping around, \<open>x\<close> comes strictly before \<open>d\<close>.\<close>

definition ahead :: "participant_id option \<Rightarrow> participant_id \<Rightarrow> participant_id \<Rightarrow> bool" where
  "ahead cur x d =
    (case cur of
       None \<Rightarrow> x < d
     | Some c \<Rightarrow> if c < d then c < x \<and> x < d else c < x \<or> x < d)"

lemma find_Some_mem: "find P xs = Some y \<Longrightarrow> y \<in> set xs"
  by (induction xs) (auto split: if_splits)

lemma scheduler_select_mem: "scheduler_select cur cs = Some x \<Longrightarrow> x \<in> set cs"
proof -
  have same: "set (remdups_adj (sort cs)) = set cs" by simp
  have hd_mem: "y \<in> set cs" if "remdups_adj (sort cs) = y # ys" for y ys
    using same unfolding that by auto
  have find_mem: "y \<in> set cs" if "find P (remdups_adj (sort cs)) = Some y" for P y
  proof -
    show ?thesis using find_Some_mem [OF that] same by simp
  qed
  assume "scheduler_select cur cs = Some x"
  then show ?thesis
    using hd_mem find_mem
    by (auto simp: scheduler_select_def Let_def split: option.splits list.splits)
qed

lemma sorted_remdups_adj_strict: "sorted_wrt (<) (remdups_adj (sort cs))"
  for cs :: "'k::linorder list"
proof -
  have "sorted xs \<Longrightarrow> sorted_wrt (<) (remdups_adj xs)" for xs :: "'k list"
    by (induction xs rule: remdups_adj.induct) (auto simp: less_le)
  then show ?thesis by simp
qed

lemma scheduler_select_ahead:
  assumes "scheduler_select cur cs = Some x" "d \<in> set cs"
  shows "x = d \<or> ahead cur x d"
proof -
  let ?cs = "remdups_adj (sort cs)"
  have d: "d \<in> set ?cs" using assms(2) by simp
  have least: "y \<le> d" if "?cs = y # ys" for y ys
    using sorted_remdups_adj_strict [of cs] d unfolding that by auto
  show ?thesis
  proof (cases cur)
    case None
    then show ?thesis
      using assms(1) least by (auto simp: scheduler_select_def Let_def ahead_def split: list.splits)
  next
    case (Some c)
    show ?thesis
    proof (cases "find (\<lambda>y. c < y) ?cs")
      case None
      then have "\<not> c < d" using d by (auto simp: find_None_iff)
      then show ?thesis
        using assms(1) Some None least
        by (auto simp: scheduler_select_def Let_def ahead_def split: list.splits)
    next
      case found: (Some y)
      then have "x = y" using assms(1) Some by (simp add: scheduler_select_def Let_def)
      then have "c < x" "c < d \<Longrightarrow> x \<le> d"
        using find_first_sorted [OF sorted_remdups_adj_strict found] d by auto
      then show ?thesis using Some by (auto simp: ahead_def)
    qed
  qed
qed

text \<open>Once \<open>x\<close> was served, the campaigns still ahead of \<open>d\<close> are fewer and exclude \<open>x\<close>.\<close>

lemma ahead_shrinks:
  assumes "ahead cur x d" "ahead (Some x) y d"
  shows "ahead cur y d \<and> y \<noteq> x"
  using assms by (cases cur) (auto simp: ahead_def split: if_splits)

text \<open>Runs of pushes (\<open>Some\<close>) and pops (\<open>None\<close>) on a queue: the final queue, what was accepted and
  what came out.\<close>

primrec queue_run ::
  "('q \<Rightarrow> 'c \<Rightarrow> 'a \<Rightarrow> 'q \<times> ('e + unit)) \<Rightarrow> ('q \<Rightarrow> 'q \<times> ('c \<times> 'a) option) \<Rightarrow> 'q
    \<Rightarrow> ('c \<times> 'a) option list \<Rightarrow> 'q \<times> ('c \<times> 'a) list \<times> ('c \<times> 'a) list" where
  "queue_run push pop q [] = (q, [], [])"
| "queue_run push pop q (x # xs) =
    (case x of
       Some (c, v) \<Rightarrow>
         (case push q c v of (q', r) \<Rightarrow>
            (case queue_run push pop q' xs of (t, accepted, served) \<Rightarrow>
               (t, (if is_ok r then (c, v) # accepted else accepted), served)))
     | None \<Rightarrow>
         (case pop q of (q', r) \<Rightarrow>
            (case queue_run push pop q' xs of (t, accepted, served) \<Rightarrow>
               (t, accepted, (case r of Some e \<Rightarrow> e # served | None \<Rightarrow> served)))))"

definition of_campaign :: "'c \<Rightarrow> ('c \<times> 'a) list \<Rightarrow> 'a list" where
  "of_campaign c es = map snd (filter (\<lambda>e. fst e = c) es)"

lemma of_campaign_simps [simp]:
  "of_campaign c [] = []"
  "of_campaign c (e # es) = (if fst e = c then snd e # of_campaign c es else of_campaign c es)"
  by (simp_all add: of_campaign_def)

text \<open>The contract a bounded multi-queue keeps towards its clients: pushes append to the campaign's
  queue or change nothing, pops remove the front of one queue, and a pop finds an item whenever one
  is queued.\<close>

locale campaign_queues =
  fixes inv :: "'q \<Rightarrow> bool"
    and contents :: "'q \<Rightarrow> 'c \<Rightarrow> 'a list"
    and push :: "'q \<Rightarrow> 'c \<Rightarrow> 'a \<Rightarrow> 'q \<times> ('e + unit)"
    and pop :: "'q \<Rightarrow> 'q \<times> ('c \<times> 'a) option"
  assumes push_inv: "inv q \<Longrightarrow> inv (fst (push q c v))"
    and push_Ok: "inv q \<Longrightarrow> push q c v = (q', Inr u) \<Longrightarrow>
      contents q' = (contents q)(c := contents q c @ [v])"
    and push_Err: "push q c v = (q', Inl e) \<Longrightarrow> q' = q"
    and pop_inv: "inv q \<Longrightarrow> inv (fst (pop q))"
    and pop_Some: "inv q \<Longrightarrow> pop q = (q', Some (c, v)) \<Longrightarrow>
      contents q c = v # contents q' c \<and> (\<forall>d. d \<noteq> c \<longrightarrow> contents q' d = contents q d)"
    and pop_None: "inv q \<Longrightarrow> pop q = (q', None) \<Longrightarrow> contents q d = [] \<and> contents q' d = []"
begin

lemma run_fifo:
  "inv q \<Longrightarrow> queue_run push pop q xs = (t, accepted, served) \<Longrightarrow>
   inv t \<and> contents q c @ of_campaign c accepted = of_campaign c served @ contents t c"
proof (induction xs arbitrary: q t accepted served)
  case (Cons x xs)
  show ?case
  proof (cases x)
    case None
    obtain q' r where p: "pop q = (q', r)" by fastforce
    obtain s where run': "queue_run push pop q' xs = (t, accepted, s)"
      and s: "served = (case r of Some e \<Rightarrow> e # s | None \<Rightarrow> s)"
      using Cons.prems(2) None p by (auto split: prod.splits)
    have inv': "inv q'" using pop_inv [OF Cons.prems(1)] p by simp
    note ih = Cons.IH [OF inv' run']
    show ?thesis
    proof (cases r)
      case None
      then show ?thesis using ih s pop_None [OF Cons.prems(1), of q' c] p by simp
    next
      case (Some e)
      then show ?thesis
        using ih s pop_Some [OF Cons.prems(1), of q' "fst e" "snd e"] p by (cases e) auto
    qed
  next
    case (Some e)
    obtain d v where e: "e = (d, v)" by fastforce
    obtain q' r where p: "push q d v = (q', r)" by fastforce
    obtain a where run': "queue_run push pop q' xs = (t, a, served)"
      and a: "accepted = (if is_ok r then (d, v) # a else a)"
      using Cons.prems(2) Some e p by (auto split: prod.splits)
    have inv': "inv q'" using push_inv [OF Cons.prems(1), of d v] p by simp
    note ih = Cons.IH [OF inv' run']
    show ?thesis
    proof (cases r)
      case (Inl err)
      then show ?thesis using ih a push_Err [of q d v q' err] p by simp
    next
      case (Inr u)
      then show ?thesis using ih a push_Ok [OF Cons.prems(1), of d v q' u] p by auto
    qed
  qed
qed simp

end

text \<open>The fair queue keeps the contract.\<close>

lemma fair_push_inv: "fq_inv f \<Longrightarrow> fq_inv (fst (fair_push f c v))"
  using entry_push_nonempty [of "fq_queues f" c v]
  by (auto simp: fq_inv_def fair_push_def entry_push_strict entry_push_total)

lemma fair_pop_cases:
  assumes "fq_inv f"
  obtains (idle) "fq_queues f = []" "fair_pop f = (f\<lparr>fq_cursor := None\<rparr>, None)"
    | (serves) c v q where "scheduler_select (fq_cursor f) (map fst (fq_queues f)) = Some c"
        "map_of (fq_queues f) c = Some (v # q)"
        "fair_pop f = (f\<lparr>fq_cursor := Some c, fq_len := fq_len f - 1,
           fq_queues := (if q = [] then filter (\<lambda>e. fst e \<noteq> c) (fq_queues f)
                         else map (\<lambda>e. if fst e = c then (c, q) else e) (fq_queues f))\<rparr>, Some (c, v))"
proof (cases "scheduler_select (fq_cursor f) (map fst (fq_queues f))")
  case None
  then have "fq_queues f = []" by (simp add: scheduler_select_None_iff)
  with None show ?thesis using idle by (simp add: fair_pop_def Let_def)
next
  case (Some c)
  have "c \<in> fst ` set (fq_queues f)" using scheduler_select_mem [OF Some] by simp
  then obtain q where q: "map_of (fq_queues f) c = Some q"
    by (metis map_of_eq_None_iff option.exhaust)
  moreover have "q \<noteq> []"
    using assms map_of_SomeD [OF q] by (auto simp: fq_inv_def)
  ultimately obtain v q' where "map_of (fq_queues f) c = Some (v # q')" by (cases q) auto
  then show ?thesis using serves [OF Some] Some by (simp add: fair_pop_def Let_def)
qed

lemma fair_pop_inv:
  assumes "fq_inv f"
  shows "fq_inv (fst (fair_pop f))"
  using assms
proof (cases f rule: fair_pop_cases)
  case idle
  then show ?thesis using assms by (simp add: fq_inv_def)
next
  case (serves c v q)
  have keys: "distinct (map fst (fq_queues f))"
    using assms strict_keys_distinct by (auto simp: fq_inv_def)
  show ?thesis
  proof (cases "q = []")
    case True
    then show ?thesis
      using serves assms total_items_filter [OF keys, of c]
      by (auto simp: fq_inv_def strict_keys_filter)
  next
    case False
    then show ?thesis
      using serves assms total_items_replace [OF keys serves(2)]
      by (auto simp: fq_inv_def strict_keys_def map_fst_replace simp del: map_map)
  qed
qed

lemma cancel_campaign_inv:
  assumes "fq_inv f"
  shows "fq_inv (fst (cancel_campaign f c))"
  using assms total_items_filter [of "fq_queues f" c] strict_keys_distinct [of "fq_queues f"]
  by (auto simp: fq_inv_def cancel_campaign_def Let_def strict_keys_filter)

lemma cancel_campaign_contents:
  "fq_contents (fst (cancel_campaign f c)) = (fq_contents f)(c := [])"
  "snd (cancel_campaign f c) = length (fq_contents f c)"
  by (auto simp: cancel_campaign_def fq_contents_def Let_def fun_eq_iff map_of_filter_keys
      split: option.splits)

interpretation fq: campaign_queues fq_inv fq_contents fair_push fair_pop
proof
  fix q q' :: "'a fair_queue" and c d :: participant_id and v :: 'a and u :: unit and e
  show "fq_inv q \<Longrightarrow> fq_inv (fst (fair_push q c v))" by (rule fair_push_inv)
  show "fq_inv q \<Longrightarrow> fq_inv (fst (fair_pop q))" by (rule fair_pop_inv)
  show "fq_inv q \<Longrightarrow> fair_push q c v = (q', Inr u) \<Longrightarrow>
      fq_contents q' = (fq_contents q)(c := fq_contents q c @ [v])"
    by (auto simp: fair_push_def fq_contents_def fun_eq_iff fq_inv_def entry_push_map_of split: if_splits)
  show "fair_push q c v = (q', Inl e) \<Longrightarrow> q' = q"
    by (auto simp: fair_push_def split: if_splits)
  show "fq_inv q \<Longrightarrow> fair_pop q = (q', Some (c, v)) \<Longrightarrow>
      fq_contents q c = v # fq_contents q' c \<and> (\<forall>d. d \<noteq> c \<longrightarrow> fq_contents q' d = fq_contents q d)"
    by (erule fair_pop_cases)
      (auto simp: fq_contents_def map_of_filter_keys map_of_replace split: if_splits)
  show "fq_inv q \<Longrightarrow> fair_pop q = (q', None) \<Longrightarrow> fq_contents q d = [] \<and> fq_contents q' d = []"
    by (erule fair_pop_cases) (auto simp: fq_contents_def)
qed

text \<open>Arbitrary interleavings of pushes, pops and cancellations, with the campaigns served.\<close>

datatype 'a fair_action = FairPush participant_id 'a | FairPop | FairCancel participant_id

fun fair_step :: "'a fair_queue \<Rightarrow> 'a fair_action \<Rightarrow> 'a fair_queue \<times> participant_id list" where
  "fair_step f (FairPush c v) = (fst (fair_push f c v), [])"
| "fair_step f FairPop =
    (case fair_pop f of (g, None) \<Rightarrow> (g, []) | (g, Some (c, _)) \<Rightarrow> (g, [c]))"
| "fair_step f (FairCancel c) = (fst (cancel_campaign f c), [])"

primrec fair_run :: "'a fair_queue \<Rightarrow> 'a fair_action list \<Rightarrow> 'a fair_queue \<times> participant_id list" where
  "fair_run f [] = (f, [])"
| "fair_run f (a # as) =
    (case fair_step f a of (g, served) \<Rightarrow>
       (case fair_run g as of (h, later) \<Rightarrow> (h, served @ later)))"

lemma fair_step_inv: "fq_inv f \<Longrightarrow> fq_inv (fst (fair_step f a))"
  using fair_push_inv [of f] fair_pop_inv [of f] cancel_campaign_inv [of f]
  by (cases a) (auto split: prod.splits option.splits)

lemma fair_run_inv: "fq_inv f \<Longrightarrow> fq_inv (fst (fair_run f as))"
proof (induction as arbitrary: f)
  case (Cons a as)
  then show ?case using fair_step_inv [of f a] by (fastforce split: prod.splits)
qed simp

lemma fq_contents_nonempty_key:
  "fq_inv f \<Longrightarrow> fq_contents f d \<noteq> [] \<longleftrightarrow> d \<in> set (map fst (fq_queues f))"
proof (cases "map_of (fq_queues f) d")
  case None
  moreover from None have "d \<notin> fst ` set (fq_queues f)" by (metis map_of_eq_None_iff)
  ultimately show ?thesis by (simp add: fq_contents_def)
next
  case (Some q)
  assume "fq_inv f"
  then have "q \<noteq> []" using map_of_SomeD [OF Some] by (auto simp: fq_inv_def)
  then show ?thesis using Some map_of_SomeD [OF Some] by (force simp: fq_contents_def)
qed

text \<open>Only a pop moves the cursor, to the campaign it serves.\<close>

lemma fair_step_cursor:
  assumes "fq_inv f" "fair_step f a = (g, served)" "fq_contents f d \<noteq> []"
  shows "(served = [] \<and> fq_cursor g = fq_cursor f) \<or>
    (\<exists>c. served = [c] \<and> fq_cursor g = Some c \<and> (c = d \<or> ahead (fq_cursor f) c d))"
proof (cases a)
  case FairPop
  have d: "d \<in> set (map fst (fq_queues f))" using assms(1,3) fq_contents_nonempty_key by blast
  show ?thesis
    using assms(1)
  proof (cases f rule: fair_pop_cases)
    case idle
    then show ?thesis using d by simp
  next
    case (serves c v q)
    then show ?thesis using assms(2) FairPop scheduler_select_ahead [OF serves(1) d] by auto
  qed
qed (use assms(2) in \<open>auto simp: fair_push_def cancel_campaign_def Let_def\<close>)

text \<open>While a campaign waits with items queued, the campaigns served lie ahead of it in cyclic order
  and are distinct.\<close>

fun waits :: "'a fair_queue \<Rightarrow> participant_id \<Rightarrow> 'a fair_action list \<Rightarrow> bool" where
  "waits f d [] = True"
| "waits f d (a # as) =
    (fq_contents f d \<noteq> [] \<and> d \<notin> set (snd (fair_step f a)) \<and> waits (fst (fair_step f a)) d as)"

lemma waiting_served_ahead:
  "fq_inv f \<Longrightarrow> waits f d as \<Longrightarrow> fair_run f as = (g, served) \<Longrightarrow>
   distinct served \<and> (\<forall>c \<in> set served. ahead (fq_cursor f) c d)"
proof (induction as arbitrary: f served)
  case (Cons a as)
  obtain h now later where h: "fair_step f a = (h, now)" "fair_run h as = (g, later)" "served = now @ later"
    using Cons.prems(3) by (auto split: prod.splits)
  have d: "fq_contents f d \<noteq> []" "d \<notin> set now" "waits h d as" using Cons.prems(2) h(1) by simp_all
  have ih: "distinct later \<and> (\<forall>c \<in> set later. ahead (fq_cursor h) c d)"
    using Cons.IH [OF _ d(3) h(2)] fair_step_inv [OF Cons.prems(1), of a] h(1) by simp
  from fair_step_cursor [OF Cons.prems(1) h(1) d(1)] show ?case
  proof
    assume "now = [] \<and> fq_cursor h = fq_cursor f"
    then show ?thesis using ih h(3) by simp
  next
    assume "\<exists>c. now = [c] \<and> fq_cursor h = Some c \<and> (c = d \<or> ahead (fq_cursor f) c d)"
    then obtain c where c: "now = [c]" "fq_cursor h = Some c" "ahead (fq_cursor f) c d"
      using d(2) by auto
    then have "ahead (fq_cursor f) y d \<and> y \<noteq> c" if "y \<in> set later" for y
      using ih that ahead_shrinks by simp
    then show ?thesis using ih h(3) c by auto
  qed
qed simp

text \<open>A run of pops alone serves one campaign per pop while some campaign is left unserved.\<close>

lemma fair_pops_waiting:
  "fq_inv f \<Longrightarrow> fq_contents f d \<noteq> [] \<Longrightarrow> d \<notin> set (snd (fair_run f (replicate n FairPop))) \<Longrightarrow>
   waits f d (replicate n FairPop) \<and> length (snd (fair_run f (replicate n FairPop))) = n
   \<and> set (snd (fair_run f (replicate n FairPop))) \<subseteq> fst ` set (fq_queues f)"
proof (induction n arbitrary: f)
  case (Suc n)
  have d: "d \<in> set (map fst (fq_queues f))" using Suc.prems(1,2) fq_contents_nonempty_key by blast
  show ?case
    using Suc.prems(1)
  proof (cases f rule: fair_pop_cases)
    case idle
    then show ?thesis using d by simp
  next
    case (serves c v q)
    define g where "g = fst (fair_pop f)"
    have step: "fair_step f FairPop = (g, [c])" using serves(3) by (simp add: g_def)
    have pop: "fair_pop f = (g, Some (c, v))" using serves(3) by (simp add: g_def)
    have g: "fq_inv g" using fair_pop_inv [OF Suc.prems(1)] by (simp add: g_def)
    have run: "snd (fair_run f (replicate (Suc n) FairPop)) = c # snd (fair_run g (replicate n FairPop))"
      using step by (simp del: fair_step.simps split: prod.splits)
    have cd: "c \<noteq> d" "d \<notin> set (snd (fair_run g (replicate n FairPop)))"
      using Suc.prems(3) run by auto
    have same: "fq_contents g d \<noteq> []"
      using fq.pop_Some [OF Suc.prems(1) pop] cd(1) Suc.prems(2) by simp
    have keys: "fst ` set (fq_queues g) \<subseteq> fst ` set (fq_queues f)"
      using serves(3) by (force simp: g_def split: if_splits)
    have "c \<in> fst ` set (fq_queues f)" using scheduler_select_mem [OF serves(1)] by simp
    then show ?thesis
      using Suc.IH [OF g same cd(2)] run keys step cd(1) Suc.prems(2) by auto
  qed
qed simp


section \<open>Properties\<close>

text \<open>Property C36.  A limit profile that was accepted bounds every resource: each of the eleven resources
  has a limit, it is positive, the per-session part does not exceed the global part, and neither
  exceeds the immutable safety ceiling.\<close>

theorem limit_profile_bounded:
  assumes "limit_profile_new limits = Inr p"
  shows "\<exists>l. limit_profile_get p r = Some l \<and> 0 < rl_per_session l \<and> rl_per_session l \<le> rl_global l
    \<and> rl_per_session l \<le> rl_per_session (hard_ceiling r) \<and> rl_global l \<le> rl_global (hard_ceiling r)"
proof -
  obtain l where "p r = Some l" "\<not> limit_invalid r l"
    using limit_profile_insert_valid [OF assms [unfolded limit_profile_new_def], of r]
      limit_profile_default_valid by blast
  then show ?thesis
    by (auto simp: limit_profile_get_def limit_invalid_def Let_def not_less word_neq_0_conv)
qed

theorem limit_profile_bounded_witness:
  "\<exists>p. limit_profile_new [(Messages, \<lparr>rl_per_session = 5, rl_global = 7\<rparr>)] = Inr p
     \<and> (\<exists>l. limit_profile_get p Retries = Some l \<and> 0 < rl_per_session l)"
proof -
  obtain p where p: "limit_profile_new [(Messages, \<lparr>rl_per_session = 5, rl_global = 7\<rparr>)] = Inr p"
    by (simp add: limit_profile_new_def limit_invalid_def hard_ceiling_def Let_def)
  then show ?thesis using limit_profile_bounded [OF p, of Retries] by blast
qed

text \<open>Property C31.  The fair queue is first-in first-out per campaign, whatever the interleaving: in
  every run of pushes and pops, for each campaign, the items queued before followed by the accepted
  pushes are the items served followed by the items still queued; and the length counter stays the
  number of queued items, within the limit.\<close>

theorem fair_queue_fifo:
  assumes "fq_inv f" "queue_run fair_push fair_pop f ops = (g, accepted, served)"
  shows "fq_contents f c @ of_campaign c accepted = of_campaign c served @ fq_contents g c
    \<and> fq_len g = total_items (fq_queues g) \<and> fq_len g \<le> fq_limit g"
  using fq.run_fifo [OF assms, of c] by (auto simp: fq_inv_def)

theorem fair_queue_fifo_witness:
  "\<exists>f g. fair_queue_new 2 = Inr f
     \<and> queue_run fair_push fair_pop f [Some (4, ''a''), Some (4, ''b''), Some (3, ''c''), None]
         = (g, [(4, ''a''), (4, ''b'')], [(4, ''a'')])
     \<and> fq_contents g 4 = [''b'']"
proof -
  let ?f = "\<lparr>fq_queues = [], fq_cursor = None, fq_len = 0, fq_limit = 2\<rparr> :: string fair_queue"
  let ?g = "\<lparr>fq_queues = [(4, [''b''])], fq_cursor = Some 4, fq_len = 1, fq_limit = 2\<rparr> :: string fair_queue"
  have run: "queue_run fair_push fair_pop ?f [Some (4, ''a''), Some (4, ''b''), Some (3, ''c''), None]
      = (?g, [(4, ''a''), (4, ''b'')], [(4, ''a'')])"
    by (simp add: fair_push_def fair_pop_def scheduler_select_def)
  have "fq_inv ?f" by (simp add: fq_inv_def)
  from fair_queue_fifo [OF this run, of 4] run show ?thesis
    by (intro exI [of _ ?f] exI [of _ ?g]) (simp add: fair_queue_new_def fq_contents_def)
qed

text \<open>Property C32.  No campaign is served twice while another one waits: in every interleaving of
  pushes, pops and cancellations during which a campaign always has an item queued and is not served,
  the campaigns served are pairwise distinct.\<close>

theorem fair_queue_no_overtaking:
  assumes "fq_inv f" "waits f d ops"
  shows "distinct (snd (fair_run f ops)) \<and> d \<notin> set (snd (fair_run f ops))"
proof -
  obtain g served where run: "fair_run f ops = (g, served)" by fastforce
  have "\<not> ahead cur d d" for cur by (cases cur) (auto simp: ahead_def)
  then show ?thesis using waiting_served_ahead [OF assms run] run by auto
qed

theorem fair_queue_no_overtaking_witness:
  "\<exists>f. fq_inv f \<and> waits f 4 [FairPop, FairPush 2 ''x''] \<and> snd (fair_run f [FairPop, FairPush 2 ''x'']) = [2]
     \<and> distinct (snd (fair_run f [FairPop, FairPush 2 ''x'']))"
proof -
  let ?f = "\<lparr>fq_queues = [(2, [''a'']), (4, [''b''])], fq_cursor = None, fq_len = 2, fq_limit = 9\<rparr>
    :: string fair_queue"
  have "fq_inv ?f" "waits ?f 4 [FairPop, FairPush 2 ''x'']"
    by (simp_all add: fq_inv_def fair_pop_def fair_push_def scheduler_select_def fq_contents_def)
  moreover from fair_queue_no_overtaking [OF this]
  have "distinct (snd (fair_run ?f [FairPop, FairPush 2 ''x'']))" by simp
  moreover have "snd (fair_run ?f [FairPop, FairPush 2 ''x'']) = [2]"
    by (simp add: fair_pop_def fair_push_def scheduler_select_def)
  ultimately show ?thesis by blast
qed

text \<open>Property C33.  Bounded waiting: a campaign with an item queued is served within as many pops as
  there are campaigns queued.\<close>

theorem fair_queue_bounded_wait:
  assumes "fq_inv f" "fq_contents f d \<noteq> []"
  shows "d \<in> set (snd (fair_run f (replicate (length (fq_queues f)) FairPop)))"
proof (rule ccontr)
  let ?n = "length (fq_queues f)"
  let ?served = "snd (fair_run f (replicate ?n FairPop))"
  assume unserved: "d \<notin> set ?served"
  note pops = fair_pops_waiting [OF assms unserved]
  obtain g where "fair_run f (replicate ?n FairPop) = (g, ?served)" by (metis prod.collapse)
  then have "distinct ?served"
    using waiting_served_ahead [OF assms(1), of d] pops by blast
  then have "card (set ?served) = ?n" using pops by (simp add: distinct_card)
  moreover have "card (set ?served) \<le> card (fst ` set (fq_queues f) - {d})"
    by (rule card_mono) (use pops unserved in auto)
  moreover have "card (fst ` set (fq_queues f) - {d}) < card (fst ` set (fq_queues f))"
    by (rule card_Diff1_less) (use assms fq_contents_nonempty_key in force)+
  moreover have "card (fst ` set (fq_queues f)) \<le> ?n"
    using card_length [of "map fst (fq_queues f)"] by simp
  ultimately show False by linarith
qed

theorem fair_queue_bounded_wait_witness:
  "\<exists>f. fq_inv f \<and> fq_contents f 4 = [''b''] \<and> length (fq_queues f) = 2
     \<and> (4::participant_id) \<in> set (snd (fair_run f (replicate 2 FairPop)))"
proof -
  let ?f = "\<lparr>fq_queues = [(2, [''a'', ''c'']), (4, [''b''])], fq_cursor = None, fq_len = 3, fq_limit = 9\<rparr>
    :: string fair_queue"
  have inv: "fq_inv ?f" and b: "fq_contents ?f 4 = [''b'']" by (simp_all add: fq_inv_def fq_contents_def)
  have "4 \<in> set (snd (fair_run ?f (replicate (length (fq_queues ?f)) FairPop)))"
    by (rule fair_queue_bounded_wait [OF inv]) (simp add: b)
  then have "4 \<in> set (snd (fair_run ?f (replicate 2 FairPop)))"
    by (simp only: fair_queue.simps list.size One_nat_def Suc_1 add_Suc_right add_0_right numeral_2_eq_2)
  then show ?thesis using inv b by (intro exI [of _ ?f]) simp
qed

end
