(* ===== verification/Json_Domain.thy ===== *)
theory Json_Domain
  imports Domain_Values
begin

text \<open>
  The JSON values of \<open>serde_json\<close> as the domain code handles them: the value tree, the
  validation of approval resources (\<open>crates/navigator-domain/src/approval.rs\<close>) and canonical
  JSON (\<open>crates/navigator-domain/src/tool.rs\<close>).

  Parsing and printing are the crate's and stay parameters: \<open>parse_entries\<close> yields the tree with
  object entries as they are written, duplicates included; \<open>parse_value\<close> yields a
  \<open>serde_json::Value\<close>, whose objects are key-ordered maps; \<open>print_value\<close> is \<open>to_vec\<close>.  An object
  of a \<open>Value\<close> is the list of its entries in key order.
\<close>

datatype json_number = IntNumber int | FloatNumber string

datatype json =
    JNull
  | JBool bool
  | JNumber json_number
  | JString string
  | JArray "json list"
  | JObject "(string \<times> json) list"

definition json_is_object_value :: "json \<Rightarrow> bool" where
  "json_is_object_value v = (case v of JObject _ \<Rightarrow> True | _ \<Rightarrow> False)"

text \<open>The order of object keys is the order of their bytes.\<close>

fun key_less :: "string \<Rightarrow> string \<Rightarrow> bool" where
  "key_less [] [] = False"
| "key_less [] (_ # _) = True"
| "key_less (_ # _) [] = False"
| "key_less (a # as) (b # bs) =
    ((of_char a :: nat) < of_char b \<or> (a = b \<and> key_less as bs))"

text \<open>\<open>Map::insert\<close> of a key-ordered map: replaces the value of a present key.\<close>

fun map_insert :: "string \<Rightarrow> 'v \<Rightarrow> (string \<times> 'v) list \<Rightarrow> (string \<times> 'v) list" where
  "map_insert k v [] = [(k, v)]"
| "map_insert k v ((k', v') # es) =
    (if k = k' then (k, v) # es
     else if key_less k k' then (k, v) # (k', v') # es
     else (k', v') # map_insert k v es)"

text \<open>\<open>valid_json\<close>: bounded depth and no floating-point numbers.\<close>

fun valid_json :: "json \<Rightarrow> nat \<Rightarrow> bool" where
  "valid_json v depth =
    (if depth > 32 then False
     else case v of
       JNull \<Rightarrow> True
     | JBool _ \<Rightarrow> True
     | JString _ \<Rightarrow> True
     | JNumber n \<Rightarrow> (case n of IntNumber _ \<Rightarrow> True | FloatNumber _ \<Rightarrow> False)
     | JArray vs \<Rightarrow> list_all (\<lambda>x. valid_json x (depth + 1)) vs
     | JObject es \<Rightarrow> list_all (\<lambda>e. valid_json (snd e) (depth + 1)) es)"

declare valid_json.simps [simp del]

text \<open>\<open>UniqueValue\<close>: the tree with every object key-ordered, or nothing when an object repeats a
  key.\<close>

fun all_some :: "'a option list \<Rightarrow> 'a list option" where
  "all_some [] = Some []"
| "all_some (None # _) = None"
| "all_some (Some x # xs) = map_option (Cons x) (all_some xs)"

fun insert_entries :: "(string \<times> 'v) list \<Rightarrow> (string \<times> 'v) list \<Rightarrow> (string \<times> 'v) list option" where
  "insert_entries acc [] = Some acc"
| "insert_entries acc ((k, v) # es) =
    (if k \<in> fst ` set acc then None else insert_entries (map_insert k v acc) es)"

fun unique_value :: "json \<Rightarrow> json option" where
  "unique_value (JArray vs) = map_option JArray (all_some (map unique_value vs))"
| "unique_value (JObject es) =
    (case all_some (map (\<lambda>e. map_option (Pair (fst e)) (unique_value (snd e))) es) of
       None \<Rightarrow> None
     | Some es' \<Rightarrow> map_option JObject (insert_entries [] es'))"
| "unique_value v = Some v"

text \<open>\<open>canonicalize\<close>: every object rebuilt through a key-ordered map.\<close>

fun canonicalize :: "json \<Rightarrow> json" where
  "canonicalize (JArray vs) = JArray (map canonicalize vs)"
| "canonicalize (JObject es) =
    JObject (fold (\<lambda>e acc. map_insert (fst e) (snd e) acc)
      (map (\<lambda>e. (fst e, canonicalize (snd e))) es) [])"
| "canonicalize v = v"


section \<open>Key order\<close>

lemma key_less_irrefl [simp]: "\<not> key_less k k"
  by (induction k) simp_all

lemma key_less_trans: "key_less a b \<Longrightarrow> key_less b c \<Longrightarrow> key_less a c"
proof (induction a b arbitrary: c rule: key_less.induct)
  case (4 a as b bs)
  then show ?case by (cases c) auto
qed (auto elim: key_less.elims)

lemma key_less_total: "key_less a b \<or> a = b \<or> key_less b a"
proof (induction a b rule: key_less.induct)
  case (4 a as b bs)
  then show ?case by (metis key_less.simps(4) linorder_neqE_nat of_char_eq_iff)
qed simp_all

lemma key_less_asym: "key_less a b \<Longrightarrow> \<not> key_less b a"
  using key_less_trans key_less_irrefl by blast

definition key_ordered :: "(string \<times> 'v) list \<Rightarrow> bool" where
  "key_ordered es = sorted_wrt key_less (map fst es)"

lemma map_insert_keys: "fst ` set (map_insert k v es) = insert k (fst ` set es)"
  by (induction k v es rule: map_insert.induct) auto

lemma map_insert_ordered: "key_ordered es \<Longrightarrow> key_ordered (map_insert k v es)"
proof (induction k v es rule: map_insert.induct)
  case (2 k v k' v' es)
  have "key_less k' k" if "k \<noteq> k'" "\<not> key_less k k'"
    using key_less_total that by blast
  moreover have "key_less k x" if "key_less k k'" "x \<in> fst ` set es" for x
    using 2(2) that key_less_trans by (fastforce simp: key_ordered_def)
  moreover have "k' \<noteq> k \<Longrightarrow> \<not> key_less k k' \<Longrightarrow> key_ordered (map_insert k v es)"
    using 2 by (simp add: key_ordered_def)
  ultimately show ?case
    using 2(2) map_insert_keys [of k v es]
    by (auto simp: key_ordered_def simp del: map_insert.simps) (auto simp: key_ordered_def)
qed (simp add: key_ordered_def)

end
