(* ===== verification/Approval_Domain.thy ===== *)
theory Approval_Domain
  imports Json_Domain Recovery_Domain "HOL-Library.Multiset"
begin

text \<open>
  Approvals of \<open>crates/navigator-domain/src/approval.rs\<close>: canonical approval resources, summaries,
  requests, grants and effect intents with their lifecycle checks.

  Parameters: \<open>parse_entries\<close> stands for the \<open>serde_json\<close> deserializer that drives the
  \<open>UniqueValue\<close> visitor and \<open>print_value\<close> for \<open>serde_json::to_vec\<close>.
\<close>

datatype approval_domain_error =
  InvalidResource | InvalidSummary | InvalidRequest | InvalidGrant | InvalidEffect

definition approval_resource_new ::
  "(bytes \<Rightarrow> json option) \<Rightarrow> (json \<Rightarrow> bytes) \<Rightarrow> bytes \<Rightarrow> approval_domain_error + bytes" where
  "approval_resource_new parse_entries print_value b =
    (if b = [] \<or> length b > 16384 then Err InvalidResource
     else and_then (ok_or InvalidResource (parse_entries b)) (\<lambda>tree.
     and_then (ok_or InvalidResource (unique_value tree)) (\<lambda>v.
     if \<not> json_is_object_value v \<or> \<not> valid_json v 0 then Err InvalidResource
     else let canonical = print_value v
       in if length canonical > 16384 then Err InvalidResource else Ok canonical)))"

definition approval_resource_digest :: "(bytes \<Rightarrow> digest32) \<Rightarrow> bytes \<Rightarrow> digest32" where
  "approval_resource_digest sha256 resource =
    semantic_digest_v1 sha256 ''approval.resource.v1'' resource"

text \<open>\<open>char::is_control\<close> of some character of a UTF-8 string: the bytes below 32, 127, and the
  two-byte encodings of U+0080 to U+009F.\<close>

fun has_control :: "string \<Rightarrow> bool" where
  "has_control [] = False"
| "has_control (c # cs) =
    ((of_char c :: nat) < 32 \<or> (of_char c :: nat) = 127
     \<or> ((of_char c :: nat) = 194 \<and> (case cs of [] \<Rightarrow> False
          | d # _ \<Rightarrow> 128 \<le> (of_char d :: nat) \<and> (of_char d :: nat) \<le> 159))
     \<or> has_control cs)"

definition approval_summary_new :: "string \<Rightarrow> approval_domain_error + string" where
  "approval_summary_new v =
    (if trim_is_empty v \<or> length v > 1024 \<or> has_control v then Err InvalidSummary else Ok v)"

datatype approval_status =
  ApprovalPending | Granted | Consumed | Denied | ApprovalExpired | Revoked

datatype approval_decision_source = TrustedConsumer

record approval_request =
  aq_id :: approval_request_id
  aq_session_id :: session_id
  aq_requester_id :: participant_id
  aq_operation_id :: operation_id
  aq_source_message_id :: message_id
  aq_source_delivery_attempt_id :: delivery_attempt_id
  aq_coordinator_id :: participant_id
  aq_capability :: capability
  aq_resource :: bytes
  aq_summary :: string
  aq_status :: approval_status
  aq_expires_at :: timestamp
  aq_grant_id :: "grant_id option"
  aq_decision_source :: "approval_decision_source option"
  aq_created_at :: timestamp
  aq_decided_at :: "timestamp option"
  aq_revision :: revision

definition approval_request_validate ::
  "approval_request \<Rightarrow> approval_domain_error + approval_request" where
  "approval_request_validate q =
    (let state = (case aq_status q of
         ApprovalPending \<Rightarrow> aq_grant_id q = None \<and> aq_decision_source q = None \<and> aq_decided_at q = None
       | ApprovalExpired \<Rightarrow> aq_grant_id q = None \<and> aq_decision_source q = None \<and> aq_decided_at q = None
       | Denied \<Rightarrow> aq_grant_id q = None \<and> aq_decision_source q \<noteq> None \<and> aq_decided_at q \<noteq> None
       | _ \<Rightarrow> aq_grant_id q \<noteq> None \<and> aq_decision_source q \<noteq> None \<and> aq_decided_at q \<noteq> None)
     in if state \<and> aq_created_at q < aq_expires_at q
          \<and> (case aq_decided_at q of None \<Rightarrow> True
             | Some at \<Rightarrow> aq_created_at q \<le> at \<and> at < aq_expires_at q)
        then Ok q else Err InvalidRequest)"

record approval_grant =
  ag_id :: grant_id
  ag_request_id :: approval_request_id
  ag_session_id :: session_id
  ag_subject_id :: participant_id
  ag_operation_id :: operation_id
  ag_capability :: capability
  ag_resource_hash :: digest32
  ag_issued_by :: approval_decision_source
  ag_max_uses :: u32
  ag_used_count :: u32
  ag_expires_at :: timestamp
  ag_revoked_at :: "timestamp option"
  ag_created_at :: timestamp
  ag_revision :: revision

definition approval_grant_validate :: "approval_grant \<Rightarrow> approval_domain_error + approval_grant" where
  "approval_grant_validate g =
    (if 0 < ag_max_uses g \<and> ag_max_uses g \<le> 1024 \<and> ag_used_count g \<le> ag_max_uses g
        \<and> ag_created_at g < ag_expires_at g
        \<and> (case ag_revoked_at g of None \<Rightarrow> True | Some at \<Rightarrow> ag_created_at g \<le> at)
     then Ok g else Err InvalidGrant)"

definition is_usable_at :: "approval_grant \<Rightarrow> timestamp \<Rightarrow> bool" where
  "is_usable_at g now =
    (ag_revoked_at g = None \<and> now < ag_expires_at g \<and> ag_used_count g < ag_max_uses g
     \<and> 0 < ag_max_uses g \<and> ag_max_uses g \<le> 1024)"

datatype approval_effect_phase = EffectReserved | EffectSucceeded | EffectFailed | EffectUncertain

datatype terminal_approval_effect_phase =
  TerminalSucceeded | TerminalFailed | TerminalUncertain

definition from_terminal_phase :: "terminal_approval_effect_phase \<Rightarrow> approval_effect_phase" where
  "from_terminal_phase p =
    (case p of TerminalSucceeded \<Rightarrow> EffectSucceeded | TerminalFailed \<Rightarrow> EffectFailed
     | TerminalUncertain \<Rightarrow> EffectUncertain)"

record approval_effect_intent =
  ae_effect_id :: request_id
  ae_session_id :: session_id
  ae_grant_id :: grant_id
  ae_subject_id :: participant_id
  ae_operation_id :: operation_id
  ae_capability :: capability
  ae_resource_hash :: digest32
  ae_phase :: approval_effect_phase
  ae_created_at :: timestamp
  ae_finished_at :: "timestamp option"
  ae_revision :: revision

definition approval_effect_validate ::
  "approval_effect_intent \<Rightarrow> approval_domain_error + approval_effect_intent" where
  "approval_effect_validate i =
    (if (ae_phase i = EffectReserved) = (ae_finished_at i = None)
        \<and> (case ae_finished_at i of None \<Rightarrow> True | Some at \<Rightarrow> ae_created_at i \<le> at)
     then Ok i else Err InvalidEffect)"


section \<open>Canonical resources\<close>

lemma all_some_Some_iff: "all_some xs = Some ys \<longleftrightarrow> xs = map Some ys"
  by (induction xs arbitrary: ys rule: all_some.induct) auto

lemma all_some_None_iff: "all_some xs = None \<longleftrightarrow> None \<in> set xs"
  by (induction xs rule: all_some.induct) auto

lemma map_insert_mset: "k \<notin> fst ` set es \<Longrightarrow> mset (map_insert k v es) = add_mset (k, v) (mset es)"
  by (induction k v es rule: map_insert.induct) auto

lemma insert_entries_None_iff:
  "insert_entries acc es = None \<longleftrightarrow>
    \<not> distinct (map fst es) \<or> fst ` set es \<inter> fst ` set acc \<noteq> {}"
proof (induction acc es rule: insert_entries.induct)
  case (2 acc k v es)
  then show ?case using map_insert_keys [of k v acc] by auto
qed simp

lemma insert_entries_Some:
  "insert_entries acc es = Some r \<Longrightarrow> key_ordered acc \<Longrightarrow>
   key_ordered r \<and> mset r = mset acc + mset es"
  by (induction acc es rule: insert_entries.induct)
    (auto simp: map_insert_ordered map_insert_mset split: if_splits)

lemma key_ordered_distinct: "key_ordered es \<Longrightarrow> distinct (map fst es)"
  by (induction es) (auto simp: key_ordered_def)

lemma key_ordered_unique:
  "key_ordered xs \<Longrightarrow> key_ordered ys \<Longrightarrow> mset xs = mset ys \<Longrightarrow> xs = ys"
proof (induction xs arbitrary: ys)
  case (Cons x xs)
  then obtain y zs where ys: "ys = y # zs" by (cases ys) auto
  have least: "x \<in> insert y (set zs)" "y \<in> insert x (set xs)"
    using Cons.prems(3) ys by (metis list.set_intros(1) list.simps(15) set_mset_mset)+
  have "x = y"
  proof (rule ccontr)
    assume "x \<noteq> y"
    then have "key_less (fst x) (fst y)" "key_less (fst y) (fst x)"
      using least Cons.prems(1,2) ys by (auto simp: key_ordered_def)
    then show False using key_less_asym by blast
  qed
  then show ?case using Cons ys by (auto simp: key_ordered_def)
qed simp

text \<open>Two trees mean the same JSON value when they differ only in the order of object entries.\<close>

inductive json_equiv :: "json \<Rightarrow> json \<Rightarrow> bool" where
  json_equiv_same: "json_equiv v v"
| json_equiv_array: "list_all2 json_equiv vs ws \<Longrightarrow> json_equiv (JArray vs) (JArray ws)"
| json_equiv_object:
    "list_all2 (\<lambda>e f. fst e = fst f \<and> json_equiv (snd e) (snd f)) es fs \<Longrightarrow> mset fs = mset gs
     \<Longrightarrow> json_equiv (JObject es) (JObject gs)"

lemma insert_entries_mset:
  assumes "mset xs = mset ys"
  shows "insert_entries [] xs = insert_entries [] ys"
proof -
  have "distinct (map fst xs) \<longleftrightarrow> distinct (map fst ys)"
    using assms by (metis mset_eq_imp_distinct_iff mset_map)
  then have none: "insert_entries [] xs = None \<longleftrightarrow> insert_entries [] ys = None"
    by (simp add: insert_entries_None_iff)
  have "r = r'" if "insert_entries [] xs = Some r" "insert_entries [] ys = Some r'" for r r'
    using insert_entries_Some [OF that(1)] insert_entries_Some [OF that(2)] assms
    by (intro key_ordered_unique) (simp_all add: key_ordered_def)
  with none show ?thesis by (metis option.exhaust)
qed

lemma unique_value_object_mset:
  assumes "mset fs = mset gs"
  shows "unique_value (JObject fs) = unique_value (JObject gs)"
proof -
  let ?F = "\<lambda>e. map_option (Pair (fst e)) (unique_value (snd e))"
  have images: "mset (map ?F fs) = mset (map ?F gs)" using assms by simp
  have none: "all_some (map ?F fs) = None \<longleftrightarrow> all_some (map ?F gs) = None"
    unfolding all_some_None_iff using mset_eq_setD [OF images] by simp
  have "insert_entries [] a = insert_entries [] b"
    if "all_some (map ?F fs) = Some a" "all_some (map ?F gs) = Some b" for a b
  proof (rule insert_entries_mset)
    have "mset (map Some a) = mset (map Some b)"
      using images unfolding that [unfolded all_some_Some_iff] .
    then have "image_mset the (mset (map Some a)) = image_mset the (mset (map Some b))" by simp
    then show "mset a = mset b" by (simp add: image_mset.compositionality comp_def)
  qed
  note entries = this
  show ?thesis
  proof (cases "all_some (map ?F fs)")
    case None
    then show ?thesis using none by simp
  next
    case (Some a)
    then obtain b where "all_some (map ?F gs) = Some b" using none by fastforce
    then show ?thesis using entries [OF Some] Some by simp
  qed
qed

lemma unique_value_equiv: "json_equiv t t' \<Longrightarrow> unique_value t = unique_value t'"
proof (induction rule: json_equiv.induct)
  case (json_equiv_array vs ws)
  then have "map unique_value vs = map unique_value ws"
    by (induction vs ws rule: list_all2_induct) auto
  then show ?case by simp
next
  case (json_equiv_object es fs gs)
  from json_equiv_object(1) have
    "map (\<lambda>e. map_option (Pair (fst e)) (unique_value (snd e))) es
     = map (\<lambda>e. map_option (Pair (fst e)) (unique_value (snd e))) fs"
    by (induction es fs rule: list_all2_induct) auto
  then have "unique_value (JObject es) = unique_value (JObject fs)" by simp
  then show ?case using unique_value_object_mset [OF json_equiv_object(2)] by simp
qed simp

lemma map_Some_list_all2:
  "map f xs = map Some ys \<Longrightarrow> list_all2 (\<lambda>x y. f x = Some y) xs ys"
  by (induction xs arbitrary: ys) auto

lemma unique_value_sound: "unique_value t = Some u \<Longrightarrow> json_equiv t u"
proof (induction t arbitrary: u rule: unique_value.induct)
  case (1 vs)
  then obtain ws where ws: "map unique_value vs = map Some ws" "u = JArray ws"
    by (auto simp: all_some_Some_iff)
  have "list_all2 json_equiv vs ws"
    by (rule list.rel_mono_strong [OF map_Some_list_all2 [OF ws(1)]]) (use 1(1) in auto)
  then show ?case using ws(2) by (simp add: json_equiv_array)
next
  case (2 es)
  then obtain fs r where fs: "map (\<lambda>e. map_option (Pair (fst e)) (unique_value (snd e))) es = map Some fs"
    and r: "insert_entries [] fs = Some r" "u = JObject r"
    by (auto simp: all_some_Some_iff split: option.splits)
  have "list_all2 (\<lambda>e f. fst e = fst f \<and> json_equiv (snd e) (snd f)) es fs"
    by (rule list.rel_mono_strong [OF map_Some_list_all2 [OF fs]]) (use 2(1) in auto)
  moreover have "mset fs = mset r"
    using insert_entries_Some [OF r(1)] by (simp add: key_ordered_def)
  ultimately show ?case using r(2) by (simp add: json_equiv_object)
qed (simp_all add: json_equiv_same)


section \<open>Properties\<close>

text \<open>Property C25.  The order in which a caller writes object entries never changes the authority that
  is approved: two texts that parse to the same JSON value up to the order of object entries are
  accepted or refused alike and give the same canonical resource, hence the same resource digest; and
  what is approved prints a value equal to the one written, free of repeated keys and floats.\<close>

theorem approval_resource_reordering:
  assumes "parse_entries b = Some t" "parse_entries b' = Some t'" "json_equiv t t'"
    and "b \<noteq> []" "length b \<le> 16384" "b' \<noteq> []" "length b' \<le> 16384"
  shows "approval_resource_new parse_entries print_value b = approval_resource_new parse_entries print_value b'
    \<and> (\<forall>c. approval_resource_new parse_entries print_value b = Inr c \<longrightarrow>
         (\<exists>u. c = print_value u \<and> json_equiv t u \<and> json_is_object_value u \<and> valid_json u 0))"
proof
  show "approval_resource_new parse_entries print_value b = approval_resource_new parse_entries print_value b'"
    using assms unique_value_equiv [OF assms(3)] by (simp add: approval_resource_new_def)
next
  show "\<forall>c. approval_resource_new parse_entries print_value b = Inr c \<longrightarrow>
      (\<exists>u. c = print_value u \<and> json_equiv t u \<and> json_is_object_value u \<and> valid_json u 0)"
    using assms(1) unique_value_sound
    by (fastforce simp: approval_resource_new_def outcome_simps Let_def split: if_splits)
qed

definition sample_entries :: "bytes \<Rightarrow> json option" where
  "sample_entries b =
    (if b = [2] then Some (JObject [(''a'', JNull), (''b'', JNull)])
     else if b = [3] then Some (JObject [(''b'', JNull), (''a'', JNull)])
     else None)"

theorem approval_resource_reordering_witness:
  "approval_resource_new sample_entries (\<lambda>_. [5]) [2] = Inr [5]
   \<and> approval_resource_new sample_entries (\<lambda>_. [5]) [3] = Inr [5]"
proof -
  have "json_equiv (JObject [(''a'', JNull), (''b'', JNull)]) (JObject [(''b'', JNull), (''a'', JNull)])"
    by (rule json_equiv_object [of _ "[(''a'', JNull), (''b'', JNull)]"])
      (simp_all add: json_equiv_same add_mset_commute)
  moreover have "approval_resource_new sample_entries (\<lambda>_. [5]) [2] = Inr [5]"
    by (simp add: approval_resource_new_def sample_entries_def json_is_object_value_def
        valid_json.simps)
  ultimately show ?thesis
    using approval_resource_reordering [of sample_entries "[2]" _ "[3]" _ "\<lambda>_. [5]"]
    by (simp add: sample_entries_def)
qed

end
