(* ===== verification/Message_Domain.thy ===== *)
theory Message_Domain
  imports Approval_Domain
begin

text \<open>
  Validated message envelopes of \<open>crates/navigator-domain/src/message.rs\<close>: the closed set of message
  bodies, the schema-version check and the constructors of the six bodies.

  Parameter: \<open>encode_wire\<close> stands for \<open>serde_json::to_vec\<close> on the envelope's wire form.
\<close>

datatype message_kind =
  OperationInput | Question | OperationOutcome | CorrelatedFeedback | Control | ApprovalDecision

datatype control_message_kind = Cancel | Reminder

datatype feedback_kind = Acknowledged | Rejected

datatype public_operation_outcome =
  PublicSucceeded | PublicFailed | PublicCancelled | PublicBlocked | PublicUncertain

datatype message_body =
    OperationInput operation_id digest32
  | CorrelatedFeedback operation_id message_id feedback_kind
  | Question operation_id capability
  | OperationOutcome operation_id public_operation_outcome digest32
  | Control operation_id control_message_kind
  | ApprovalDecision approval_request_id operation_id approval_status "grant_id option"

record message_envelope =
  me_schema_version :: u16
  me_body :: message_body
  me_encoded :: bytes

datatype message_validation_error = UnsupportedSchema | InvalidPayload

definition envelope_new ::
  "(u16 \<Rightarrow> message_body \<Rightarrow> bytes) \<Rightarrow> u16 \<Rightarrow> message_body
    \<Rightarrow> message_validation_error + message_envelope" where
  "envelope_new encode_wire schema_version body =
    (if schema_version \<noteq> 1 then Err UnsupportedSchema
     else and_then (map_err (\<lambda>_. InvalidPayload) (bounded_bytes_new 65536 (encode_wire schema_version body)))
       (\<lambda>encoded. Ok \<lparr>me_schema_version = schema_version, me_body = body, me_encoded = encoded\<rparr>))"

text \<open>The constructors of the six bodies, \<open>Self::new(1, body).expect(\<dots>)\<close>; \<open>None\<close> is the panic of \<open>expect\<close>.\<close>

definition closed_envelope ::
  "(u16 \<Rightarrow> message_body \<Rightarrow> bytes) \<Rightarrow> message_body \<Rightarrow> message_envelope option" where
  "closed_envelope encode_wire body =
    (case envelope_new encode_wire 1 body of Inl _ \<Rightarrow> None | Inr e \<Rightarrow> Some e)"

text \<open>\<open>Deserialize\<close> reads the wire form and validates it again; what was read is the version and the
  body.\<close>

definition envelope_deserialize ::
  "(u16 \<Rightarrow> message_body \<Rightarrow> bytes) \<Rightarrow> u16 \<times> message_body
    \<Rightarrow> message_validation_error + message_envelope" where
  "envelope_deserialize encode_wire wire = envelope_new encode_wire (fst wire) (snd wire)"

definition envelope_serialize :: "message_envelope \<Rightarrow> u16 \<times> message_body" where
  "envelope_serialize e = (me_schema_version e, me_body e)"

definition envelope_kind :: "message_envelope \<Rightarrow> message_kind" where
  "envelope_kind e =
    (case me_body e of
       OperationInput _ _ \<Rightarrow> message_kind.OperationInput
     | Question _ _ \<Rightarrow> message_kind.Question
     | OperationOutcome _ _ _ \<Rightarrow> message_kind.OperationOutcome
     | CorrelatedFeedback _ _ _ \<Rightarrow> message_kind.CorrelatedFeedback
     | Control _ _ \<Rightarrow> message_kind.Control
     | ApprovalDecision _ _ _ _ \<Rightarrow> message_kind.ApprovalDecision)"


section \<open>Envelopes\<close>

lemma envelope_new_Ok_iff [outcome_simps]:
  "envelope_new enc v body = Inr e \<longleftrightarrow>
    v = 1 \<and> length (enc 1 body) \<le> 65536 \<and>
    e = \<lparr>me_schema_version = 1, me_body = body, me_encoded = enc 1 body\<rparr>"
  by (auto simp: envelope_new_def outcome_simps)

text \<open>A validated envelope survives storage: reading back what was written gives it again.\<close>

lemma envelope_roundtrip:
  "envelope_new enc v body = Inr e \<Longrightarrow> envelope_deserialize enc (envelope_serialize e) = Inr e"
  by (auto simp: envelope_deserialize_def envelope_serialize_def outcome_simps)

end
