(* ===== verification/Operation_Domain.thy ===== *)
theory Operation_Domain
  imports Domain_Values
begin

text \<open>
  The operation lifecycle of \<open>crates/navigator-domain/src/operation.rs\<close>: the states, the
  actions reported by drivers and hosts, and \<open>Operation::apply\<close>, with the transition error
  as a value.
\<close>

datatype operation_state =
    Queued | Starting | Running | Waiting | Cancelling
  | Succeeded | Failed | Cancelled | Blocked | Uncertain

definition op_is_terminal :: "operation_state \<Rightarrow> bool" where
  "op_is_terminal s = (s \<in> {Succeeded, Failed, Cancelled, Blocked, Uncertain})"

datatype operation_action =
    BeginStart | ReportRunning | Wait | Resume | RequestCancel
  | ReportSuccess | ReportFailure | ReportCancelled | ReportBlocked | ReportUncertain
  | ObserveIdle

record operation =
  op_id :: operation_id
  op_participant_id :: participant_id
  op_request_id :: request_id
  op_state :: operation_state

record transition_error =
  te_from :: operation_state
  te_action :: operation_action

definition queued :: "operation_id \<Rightarrow> participant_id \<Rightarrow> request_id \<Rightarrow> operation" where
  "queued i p r = \<lparr>op_id = i, op_participant_id = p, op_request_id = r, op_state = Queued\<rparr>"

definition apply_next :: "operation_state \<Rightarrow> operation_action \<Rightarrow> operation_state option" where
  "apply_next s a =
    (if s = Queued \<and> a = BeginStart then Some Starting
     else if (s = Starting \<and> a = ReportRunning) \<or> (s = Waiting \<and> a = Resume) then Some Running
     else if s = Running \<and> a = Wait then Some Waiting
     else if s \<in> {Queued, Starting, Running, Waiting} \<and> a = RequestCancel then Some Cancelling
     else if s \<in> {Queued, Cancelling} \<and> a = ReportCancelled then Some Cancelled
     else if s \<in> {Queued, Starting, Running, Waiting, Cancelling} \<and> a = ReportFailure
       then Some Failed
     else if s = Running \<and> a = ReportSuccess then Some Succeeded
     else if s \<in> {Running, Waiting} \<and> a = ReportBlocked then Some Blocked
     else if s \<in> {Starting, Running, Waiting, Cancelling} \<and> a = ReportUncertain
       then Some Uncertain
     else None)"

text \<open>\<open>Operation::apply\<close> mutates the operation on success and leaves it unchanged on error.\<close>

definition op_apply :: "operation \<Rightarrow> operation_action \<Rightarrow> operation \<times> (transition_error + unit)" where
  "op_apply op a =
    (case apply_next (op_state op) a of
       Some s \<Rightarrow> (op\<lparr>op_state := s\<rparr>, Ok ())
     | None \<Rightarrow> (op, Err \<lparr>te_from = op_state op, te_action = a\<rparr>))"

primrec op_apply_all :: "operation \<Rightarrow> operation_action list \<Rightarrow> operation" where
  "op_apply_all op [] = op"
| "op_apply_all op (a # as) = op_apply_all (fst (op_apply op a)) as"


section \<open>The lifecycle\<close>

lemma op_is_terminal_simps [simp]:
  "\<not> op_is_terminal Queued" "\<not> op_is_terminal Starting" "\<not> op_is_terminal Running"
  "\<not> op_is_terminal Waiting" "\<not> op_is_terminal Cancelling"
  "op_is_terminal Succeeded" "op_is_terminal Failed" "op_is_terminal Cancelled"
  "op_is_terminal Blocked" "op_is_terminal Uncertain"
  by (simp_all add: op_is_terminal_def)

lemma apply_next_terminal: "op_is_terminal s \<Longrightarrow> apply_next s a = None"
  by (auto simp: op_is_terminal_def apply_next_def)

lemma apply_next_live_failure: "\<not> op_is_terminal s \<Longrightarrow> apply_next s ReportFailure = Some Failed"
  by (cases s) (simp_all add: apply_next_def)

interpretation op: lifecycle apply_next op_is_terminal
  by unfold_locales (auto simp: apply_next_terminal dest: apply_next_live_failure)

lemma op_apply_state: "op_state (fst (op_apply x a)) =
    (case apply_next (op_state x) a of Some s \<Rightarrow> s | None \<Rightarrow> op_state x)"
  by (simp add: op_apply_def split: option.splits)

lemma op_apply_identity [simp]:
  "op_id (fst (op_apply x a)) = op_id x"
  "op_participant_id (fst (op_apply x a)) = op_participant_id x"
  "op_request_id (fst (op_apply x a)) = op_request_id x"
  by (simp_all add: op_apply_def split: option.splits)

lemma op_apply_all_state:
  "op_state (op_apply_all x as) = run_steps apply_next (op_state x) as"
  by (induction as arbitrary: x) (simp_all add: op_apply_state)

lemma op_apply_all_identity [simp]:
  "op_id (op_apply_all x as) = op_id x"
  "op_participant_id (op_apply_all x as) = op_participant_id x"
  "op_request_id (op_apply_all x as) = op_request_id x"
  by (induction as arbitrary: x) simp_all




text \<open>Histories: how a state was reached from \<open>Queued\<close>.\<close>

definition past_start :: "operation_state \<Rightarrow> bool" where
  "past_start s = (s \<in> {Running, Waiting, Blocked, Succeeded})"

definition progress_evidence :: "operation_state \<Rightarrow> operation_action list \<Rightarrow> bool" where
  "progress_evidence s as \<longleftrightarrow>
    (s = Starting \<longrightarrow> subseq [BeginStart] as) \<and>
    (past_start s \<longrightarrow> subseq [BeginStart, ReportRunning] as) \<and>
    (s = Succeeded \<longrightarrow> subseq [BeginStart, ReportRunning, ReportSuccess] as) \<and>
    (s = Blocked \<longrightarrow> subseq [BeginStart, ReportRunning, ReportBlocked] as)"

lemma subseq_snoc_mono: "subseq xs as \<Longrightarrow> subseq xs (as @ [a])"
  by (meson list_emb_append2 subseq_order.order_trans list_emb_prefix)

lemma apply_next_sources:
  assumes "apply_next s a = Some s'"
  shows "s' = Starting \<Longrightarrow> a = BeginStart"
    and "past_start s' \<Longrightarrow> past_start s \<or> s = Starting \<and> a = ReportRunning"
    and "s' = Succeeded \<Longrightarrow> s = Running \<and> a = ReportSuccess"
    and "s' = Blocked \<Longrightarrow> past_start s \<and> a = ReportBlocked"
  using assms unfolding apply_next_def past_start_def by (simp_all split: if_splits) auto

lemma progress_evidence_step:
  assumes "progress_evidence s as"
  shows "progress_evidence (case apply_next s a of Some s' \<Rightarrow> s' | None \<Rightarrow> s) (as @ [a])"
proof -
  have grow: "subseq xs (as @ [a])" if "subseq xs as" for xs :: "operation_action list"
    using that by (rule subseq_snoc_mono)
  have add: "subseq (xs @ [a]) (as @ [a])" if "subseq xs as" for xs :: "operation_action list"
    using that by (rule list_emb_append_mono) simp
  have ends: "subseq (xs @ [b]) (as @ [a])" if "subseq xs as" "a = b" for xs :: "operation_action list" and b
    using add [OF that(1)] that(2) by simp
  show ?thesis
  proof (cases "apply_next s a")
    case None
    then show ?thesis using assms grow by (simp add: progress_evidence_def)
  next
    case (Some s')
    note src = apply_next_sources [OF Some]
    have run: "past_start s \<Longrightarrow> subseq [BeginStart, ReportRunning] as"
      and start: "s = Starting \<Longrightarrow> subseq [BeginStart] as"
      using assms by (simp_all add: progress_evidence_def)
    have "past_start Running" by (simp add: past_start_def)
    then have "subseq [BeginStart, ReportRunning, ReportSuccess] (as @ [a])" if "s' = Succeeded"
      using ends [OF run] src(3) [OF that] by simp
    moreover have "subseq [BeginStart, ReportRunning, ReportBlocked] (as @ [a])" if "s' = Blocked"
      using ends [OF run] src(4) [OF that] by simp
    moreover have "subseq [BeginStart, ReportRunning] (as @ [a])" if "past_start s'"
      using src(2) [OF that] grow [OF run] ends [OF start] by auto
    moreover have "subseq [BeginStart] (as @ [a])" if "s' = Starting"
      using ends [of "[]" BeginStart] src(1) [OF that] by simp
    ultimately show ?thesis using Some by (simp add: progress_evidence_def)
  qed
qed

lemma progress_evidence_run:
  "progress_evidence (run_steps apply_next Queued as) as"
proof (induction as rule: rev_induct)
  case Nil
  show ?case by (simp add: progress_evidence_def past_start_def)
next
  case (snoc a as)
  then show ?case
    using progress_evidence_step [OF snoc, of a] by (simp add: run_steps_append)
qed



section \<open>Properties\<close>

text \<open>Property C27.  Success and blocking need evidence: an operation that started queued is \<open>Succeeded\<close>
  only when, in this order, a start, a running report and a success report were applied, and
  \<open>Blocked\<close> only with a blocked report after a start and a running report; whatever else was tried
  in between, and whatever is tried afterwards, identities never change.\<close>

theorem operation_outcome_has_evidence:
  "let x = op_apply_all (queued i p r) as
   in (op_state x = Succeeded \<longrightarrow> subseq [BeginStart, ReportRunning, ReportSuccess] as)
    \<and> (op_state x = Blocked \<longrightarrow> subseq [BeginStart, ReportRunning, ReportBlocked] as)
    \<and> op_id x = i \<and> op_participant_id x = p \<and> op_request_id x = r"
  using progress_evidence_run [of as]
  by (auto simp: Let_def op_apply_all_state progress_evidence_def queued_def)

theorem operation_outcome_has_evidence_witness:
  "op_state (op_apply_all (queued 3 4 5) [ObserveIdle, BeginStart, ReportRunning, ReportSuccess]) = Succeeded
   \<and> subseq [BeginStart, ReportRunning, ReportSuccess]
       [ObserveIdle, BeginStart, ReportRunning, ReportSuccess]"
proof -
  have "op_state (op_apply_all (queued 3 4 5) [ObserveIdle, BeginStart, ReportRunning, ReportSuccess]) = Succeeded"
    by (simp add: op_apply_def queued_def apply_next_def)
  then show ?thesis
    using operation_outcome_has_evidence
      [of 3 4 5 "[ObserveIdle, BeginStart, ReportRunning, ReportSuccess]"]
    by (simp add: Let_def)
qed


end
