(* ===== verification/Session_Domain.thy ===== *)
theory Session_Domain
  imports Domain_Values
begin

text \<open>
  The session values of \<open>crates/navigator-domain/src/session.rs\<close>: compatibility identities, the
  canonical session compatibility manifest with its binary-searched template table, consumer
  keys, event positions and events, and the session snapshot with \<open>close\<close>.
\<close>

type_synonym compatibility_identity = digest32

definition compatibility_preimage :: "bytes \<Rightarrow> bytes" where
  "compatibility_preimage input = str_bytes ''navigator.compatibility.v1'' @ [0] @ input"

definition compatibility_digest :: "(bytes \<Rightarrow> digest32) \<Rightarrow> bytes \<Rightarrow> compatibility_identity" where
  "compatibility_digest sha256 input = sha256 (compatibility_preimage input)"

record template_binding =
  tb_template_id :: template_id
  tb_compatibility :: compatibility_identity

record session_manifest =
  sm_configuration_identity :: compatibility_identity
  sm_templates :: "template_binding list"
  sm_compatibility :: compatibility_identity

fun adjacent_duplicate :: "('a \<Rightarrow> 'k) \<Rightarrow> 'a list \<Rightarrow> bool" where
  "adjacent_duplicate key (x # y # zs) = (key x = key y \<or> adjacent_duplicate key (y # zs))"
| "adjacent_duplicate key _ = False"

definition binding_bytes :: "template_binding \<Rightarrow> bytes" where
  "binding_bytes b =
    be_bytes 16 (unat (tb_template_id b)) @ be_bytes 32 (unat (tb_compatibility b))"

definition manifest_canonical :: "compatibility_identity \<Rightarrow> template_binding list \<Rightarrow> bytes" where
  "manifest_canonical configuration templates =
    str_bytes ''navigator.session.compatibility-manifest.v1'' @ [0]
      @ be_bytes 32 (unat configuration)
      @ be_bytes 8 (length templates)
      @ concat (map binding_bytes templates)"

definition manifest_new ::
  "(bytes \<Rightarrow> digest32) \<Rightarrow> compatibility_identity \<Rightarrow> template_binding list
    \<Rightarrow> session_domain_error + session_manifest" where
  "manifest_new sha256 configuration templates =
    (let sorted_templates = sort_key tb_template_id templates
     in if sorted_templates = [] \<or> length sorted_templates > 128
           \<or> adjacent_duplicate tb_template_id sorted_templates
        then Err InvalidCompatibilityManifest
        else Ok \<lparr>sm_configuration_identity = configuration,
                 sm_templates = sorted_templates,
                 sm_compatibility =
                   compatibility_digest sha256 (manifest_canonical configuration sorted_templates)\<rparr>)"

text \<open>\<open>slice::binary_search_by_key\<close> on the half-open index range from \<open>lo\<close> to \<open>hi\<close>.\<close>

function binary_search :: "('a \<Rightarrow> 'k::linorder) \<Rightarrow> 'k \<Rightarrow> 'a list \<Rightarrow> nat \<Rightarrow> nat \<Rightarrow> nat option" where
  "binary_search key k xs lo hi =
    (if hi \<le> lo then None
     else let mid = lo + (hi - lo) div 2; v = key (xs ! mid)
       in if v = k then Some mid
          else if v < k then binary_search key k xs (Suc mid) hi
          else binary_search key k xs lo mid)"
  by pat_completeness auto

termination
  by (relation "measure (\<lambda>(_, _, _, lo, hi). hi - lo)") auto

declare binary_search.simps [simp del]

definition manifest_contains ::
  "session_manifest \<Rightarrow> template_id \<Rightarrow> compatibility_identity \<Rightarrow> bool" where
  "manifest_contains m template_id compatibility =
    (case binary_search tb_template_id template_id (sm_templates m) 0 (length (sm_templates m)) of
       Some index \<Rightarrow> tb_compatibility (sm_templates m ! index) = compatibility
     | None \<Rightarrow> False)"

type_synonym consumer_key = string

definition consumer_key_new :: "string \<Rightarrow> bound_error + consumer_key" where
  "consumer_key_new v = bounded_text_new 256 v"

datatype session_status = Open | Closed

type_synonym event_position = u64

definition event_position_new :: "u64 \<Rightarrow> session_domain_error + event_position" where
  "event_position_new v = (if v = 0 then Err ZeroEventPosition else Ok v)"

definition event_position_initial :: event_position where
  "event_position_initial = 1"

definition event_position_next :: "event_position \<Rightarrow> event_position option" where
  "event_position_next p = checked_add p 1"

definition event_schema_version_new :: "u16 \<Rightarrow> session_domain_error + u16" where
  "event_schema_version_new v = (if v = 0 then Err ZeroEventSchemaVersion else Ok v)"

record session_snapshot =
  ss_id :: session_id
  ss_consumer_key :: consumer_key
  ss_compatibility :: compatibility_identity
  ss_status :: session_status
  ss_revision :: revision
  ss_created_at :: timestamp
  ss_updated_at :: timestamp

definition session_snapshot_new ::
  "session_id \<Rightarrow> consumer_key \<Rightarrow> compatibility_identity \<Rightarrow> session_status \<Rightarrow> revision
    \<Rightarrow> timestamp \<Rightarrow> timestamp \<Rightarrow> session_domain_error + session_snapshot" where
  "session_snapshot_new i k c st r created updated =
    (if updated < created then Err TimestampRegression
     else if st = Closed \<and> r = revision_initial then Err InvalidClosedRevision
     else Ok \<lparr>ss_id = i, ss_consumer_key = k, ss_compatibility = c, ss_status = st,
              ss_revision = r, ss_created_at = created, ss_updated_at = updated\<rparr>)"

text \<open>\<open>SessionSnapshot::close\<close>: the mutated snapshot and the result.\<close>

definition session_close ::
  "session_snapshot \<Rightarrow> timestamp \<Rightarrow> session_snapshot \<times> (session_domain_error + unit)" where
  "session_close s at =
    (if ss_status s = Closed then (s, Err AlreadyClosed)
     else if at < ss_updated_at s then (s, Err TimestampRegression)
     else case revision_next (ss_revision s) of
       None \<Rightarrow> (s, Err RevisionExhausted)
     | Some r \<Rightarrow> (s\<lparr>ss_revision := r, ss_status := Closed, ss_updated_at := at\<rparr>, Ok ()))"

datatype ownership_snapshot =
    Unowned
  | Owned (os_host_id: host_id) (os_epoch: fencing_epoch) (os_expires_at: timestamp)

definition event_type_new :: "string \<Rightarrow> bound_error + string" where
  "event_type_new v = bounded_text_new 128 v"

definition redacted_event_data_new :: "bytes \<Rightarrow> bound_error + bytes" where
  "redacted_event_data_new v = bounded_bytes_new 65536 v"

record session_event =
  ev_id :: event_id
  ev_session_id :: session_id
  ev_position :: event_position
  ev_revision :: revision
  ev_event_type :: string
  ev_schema_version :: u16
  ev_related_request_id :: "request_id option"
  ev_data :: bytes
  ev_occurred_at :: timestamp


section \<open>Snapshots\<close>

text \<open>The invariant \<open>session_snapshot_new\<close> enforces (revisions are nonzero by construction).\<close>

definition session_snapshot_wf :: "session_snapshot \<Rightarrow> bool" where
  "session_snapshot_wf s \<longleftrightarrow>
    ss_revision s \<noteq> 0 \<and> ss_created_at s \<le> ss_updated_at s \<and>
    (ss_status s = Closed \<longrightarrow> ss_revision s \<noteq> revision_initial)"

lemma session_snapshot_new_wf:
  "session_snapshot_new i k c st r t u = Inr s \<Longrightarrow> r \<noteq> 0 \<Longrightarrow> session_snapshot_wf s"
  by (auto simp: session_snapshot_new_def session_snapshot_wf_def split: if_splits)

lemma session_snapshot_reload:
  "session_snapshot_wf s \<Longrightarrow>
   session_snapshot_new (ss_id s) (ss_consumer_key s) (ss_compatibility s) (ss_status s)
     (ss_revision s) (ss_created_at s) (ss_updated_at s) = Inr s"
  by (auto simp: session_snapshot_new_def session_snapshot_wf_def)

lemma session_close_Ok_iff:
  "snd (session_close s at) = Inr () \<longleftrightarrow>
    ss_status s = Open \<and> ss_updated_at s \<le> at \<and> revision_next (ss_revision s) \<noteq> None"
  by (cases "ss_status s") (auto simp: session_close_def split: option.splits)

lemma session_close_wf:
  assumes "session_snapshot_wf s"
  shows "session_snapshot_wf (fst (session_close s at))"
proof (cases "snd (session_close s at) = Inr ()")
  case True
  then show ?thesis
    using assms revision_next_nonzero revision_next_not_initial
    by (auto simp: session_close_def session_snapshot_wf_def split: if_splits option.splits)
next
  case False
  then have "fst (session_close s at) = s"
    by (auto simp: session_close_def split: if_splits option.splits)
  then show ?thesis using assms by simp
qed


section \<open>The canonical manifest\<close>

lemma adjacent_duplicate_sorted:
  "sorted (map key xs) \<Longrightarrow> adjacent_duplicate key xs \<longleftrightarrow> \<not> distinct (map key xs)"
  for key :: "'a \<Rightarrow> 'k::linorder"
proof (induction key xs rule: adjacent_duplicate.induct)
  case (1 key x y zs)
  have "key x = key z \<Longrightarrow> key x = key y" if "z \<in> set zs" for z
    using 1(2) that by (force intro: antisym)
  then show ?case using 1 by (auto simp: image_iff)
qed auto

lemma manifest_new_Ok_iff:
  "manifest_new sha c ts = Inr m \<longleftrightarrow>
    ts \<noteq> [] \<and> length ts \<le> 128 \<and> distinct (map tb_template_id ts) \<and>
    m = \<lparr>sm_configuration_identity = c, sm_templates = sort_key tb_template_id ts,
         sm_compatibility =
           compatibility_digest sha (manifest_canonical c (sort_key tb_template_id ts))\<rparr>"
proof -
  have "adjacent_duplicate tb_template_id (sort_key tb_template_id ts)
      \<longleftrightarrow> \<not> distinct (map tb_template_id ts)"
    by (simp add: adjacent_duplicate_sorted distinct_map inj_on_def)
  moreover have "sort_key tb_template_id ts = [] \<longleftrightarrow> ts = []"
    by (metis length_0_conv length_sort)
  ultimately show ?thesis by (auto simp: manifest_new_def Let_def)
qed


lemma be_bytes_unat_inject [simp]:
  "be_bytes 16 (unat (a :: uuid)) = be_bytes 16 (unat b) \<longleftrightarrow> a = b"
  "be_bytes 32 (unat (c :: digest32)) = be_bytes 32 (unat d) \<longleftrightarrow> c = d"
proof -
  have "unat x < 256 ^ 16" for x :: uuid using unsigned_less [of x] by simp
  then show "be_bytes 16 (unat a) = be_bytes 16 (unat b) \<longleftrightarrow> a = b"
    by (simp add: be_bytes_inject word_unat_eq_iff)
  have "unat x < 256 ^ 32" for x :: digest32 using unsigned_less [of x] by simp
  then show "be_bytes 32 (unat c) = be_bytes 32 (unat d) \<longleftrightarrow> c = d"
    by (simp add: be_bytes_inject word_unat_eq_iff)
qed

lemma binding_bytes_inject [simp]: "binding_bytes a = binding_bytes b \<longleftrightarrow> a = b"
  by (cases a; cases b) (simp add: binding_bytes_def)

lemma length_binding_bytes [simp]: "length (binding_bytes b) = 48"
  by (simp add: binding_bytes_def)




section \<open>Binary search\<close>

lemma binary_search_Some:
  assumes "binary_search key k xs lo hi = Some i"
  shows "lo \<le> i \<and> i < hi \<and> key (xs ! i) = k"
  using assms
proof (induction key k xs lo hi rule: binary_search.induct)
  case (1 key k xs lo hi)
  let ?mid = "lo + (hi - lo) div 2"
  show ?case
  proof (cases "hi \<le> lo")
    case False
    then show ?thesis
      using 1 by (subst (asm) (3) binary_search.simps)
        (fastforce simp: Let_def split: if_splits)
  qed (use 1(3) in \<open>simp add: binary_search.simps\<close>)
qed

lemma binary_search_None:
  assumes "sorted (map key xs)" "hi \<le> length xs" "binary_search key k xs lo hi = None"
    and "lo \<le> i" "i < hi"
  shows "key (xs ! i) \<noteq> k"
  using assms
proof (induction key k xs lo hi rule: binary_search.induct)
  case (1 key k xs lo hi)
  let ?mid = "lo + (hi - lo) div 2"
  have mid: "lo \<le> ?mid" "?mid < hi" using 1(6,7) by auto
  have mono: "key (xs ! a) \<le> key (xs ! b)" if "a \<le> b" "b < length xs" for a b
    using sorted_nth_mono [OF 1(3), of a b] that by simp
  have none: "key (xs ! ?mid) \<noteq> k"
    "key (xs ! ?mid) < k \<Longrightarrow> binary_search key k xs (Suc ?mid) hi = None"
    "\<not> key (xs ! ?mid) < k \<Longrightarrow> binary_search key k xs lo ?mid = None"
    using 1(5) 1(6,7) by (simp_all add: binary_search.simps [of key k xs lo hi] Let_def split: if_splits)
  show ?case
  proof (cases "key (xs ! ?mid) < k")
    case True
    show ?thesis
    proof (cases "i \<le> ?mid")
      case i: True
      then have "key (xs ! i) \<le> key (xs ! ?mid)" using mid 1(4) by (intro mono) simp_all
      with True show ?thesis by simp
    next
      case False
      then show ?thesis using 1(1) [OF _ refl refl none(1) True 1(3,4) none(2) [OF True]] 1(6,7) by simp
    qed
  next
    case False
    show ?thesis
    proof (cases "i < ?mid")
      case True
      then show ?thesis
        using 1(2) [OF _ refl refl none(1) False 1(3) _ none(3) [OF False]] 1(4,6,7) by simp
    next
      case i: False
      then have "key (xs ! ?mid) \<le> key (xs ! i)" using 1(4,7) by (intro mono) simp_all
      with False none(1) show ?thesis by auto
    qed
  qed
qed

lemma binary_search_sorted_iff:
  assumes "sorted (map key xs)"
  shows "binary_search key k xs 0 (length xs) = None \<longleftrightarrow> k \<notin> key ` set xs"
proof (cases "binary_search key k xs 0 (length xs)")
  case None
  have "key x \<noteq> k" if "x \<in> set xs" for x
  proof -
    from that obtain i where "i < length xs" "x = xs ! i" by (auto simp: in_set_conv_nth)
    then show ?thesis using binary_search_None [OF assms order_refl None, of i] by simp
  qed
  then show ?thesis using None by auto
next
  case (Some i)
  then show ?thesis using binary_search_Some [OF Some] by auto
qed

lemma manifest_contains_sorted:
  assumes "sorted (map tb_template_id (sm_templates m))" "distinct (map tb_template_id (sm_templates m))"
  shows "manifest_contains m t k \<longleftrightarrow>
    (\<exists>b \<in> set (sm_templates m). tb_template_id b = t \<and> tb_compatibility b = k)"
proof (cases "binary_search tb_template_id t (sm_templates m) 0 (length (sm_templates m))")
  case None
  then show ?thesis
    using binary_search_sorted_iff [OF assms(1), of t] by (auto simp: manifest_contains_def)
next
  case (Some i)
  let ?b = "sm_templates m ! i"
  have b: "?b \<in> set (sm_templates m)" "tb_template_id ?b = t"
    using binary_search_Some [OF Some] by auto
  have "b = ?b" if "b \<in> set (sm_templates m)" "tb_template_id b = t" for b
    using inj_onD [of tb_template_id "set (sm_templates m)" b ?b] assms(2) b that
    by (simp add: distinct_map)
  then show ?thesis using Some b unfolding manifest_contains_def by fastforce
qed


section \<open>Properties\<close>



text \<open>Property C23.  The binary-searched membership test of an accepted manifest answers exactly
  whether the caller listed that template with that identity.\<close>

theorem manifest_contains_correct:
  assumes "manifest_new sha c ts = Inr m"
  shows "manifest_contains m t k \<longleftrightarrow>
    (\<exists>b. b \<in> set ts \<and> tb_template_id b = t \<and> tb_compatibility b = k)"
proof -
  have "sm_templates m = sort_key tb_template_id ts" "distinct (map tb_template_id ts)"
    using assms by (auto simp: manifest_new_Ok_iff)
  then show ?thesis
    by (subst manifest_contains_sorted) (auto simp: distinct_map)
qed

lemma manifest_contains_correct_witness:
  "manifest_contains \<lparr>sm_configuration_identity = 7,
      sm_templates = [\<lparr>tb_template_id = 2, tb_compatibility = 4\<rparr>, \<lparr>tb_template_id = 3, tb_compatibility = 5\<rparr>],
      sm_compatibility = 9\<rparr> 3 5 \<and>
   \<not> manifest_contains \<lparr>sm_configuration_identity = 7,
      sm_templates = [\<lparr>tb_template_id = 2, tb_compatibility = 4\<rparr>, \<lparr>tb_template_id = 3, tb_compatibility = 5\<rparr>],
      sm_compatibility = 9\<rparr> 3 4"
  using manifest_contains_correct [of "\<lambda>_. 9" 7
      "[\<lparr>tb_template_id = 3, tb_compatibility = 5\<rparr>, \<lparr>tb_template_id = 2, tb_compatibility = 4\<rparr>]"
      "\<lparr>sm_configuration_identity = 7,
         sm_templates = [\<lparr>tb_template_id = 2, tb_compatibility = 4\<rparr>, \<lparr>tb_template_id = 3, tb_compatibility = 5\<rparr>],
         sm_compatibility = 9\<rparr>"]
  by (auto simp: manifest_new_def Let_def compatibility_digest_def)

end
