(* ===== verification/Store_Api.thy ===== *)
theory Store_Api
  imports Resource_Limits Message_Domain Operation_Domain Session_Domain
begin

text \<open>
  The semantic persistence boundary of \<open>crates/navigator-store-api/src\<close>: store actions, request
  contexts and commands (\<open>lib.rs\<close>), mutation results, ownership leases, stored requests, store errors,
  launch, participant and operation snapshots, and the mailbox values of \<open>mailbox.rs\<close>.
\<close>

section \<open>Actions\<close>

datatype store_action =
    OpenSession | CloseSession | AcquireOwnership | RenewOwnership | ReleaseOwnership
  | PrepareLaunch | AttachLaunch | TransitionLaunch | CreateRootParticipant
  | CreateChildParticipant | StartOperation | TransitionOperation | EnqueueMessage
  | LeaseNextMessage | TransitionMessageDelivery | PutAuthorityPolicy | IssueGrant | RevokeGrant
  | CheckAuthorityEffect | CreateAuthorizedChild | ApplyHierarchyEffect | CancelSubtree
  | RegisterAuthorityTemplatePolicy | ReserveEffect | StartEffect | ResolveEffect
  | TakeoverEffect | ResolveAuthorizedEffect | PublishArtifact | DeleteArtifact | EraseArtifact
  | RegisterTool | ReserveToolInvocation | TransitionToolInvocation | ConnectToolProvider

definition store_action_as_str :: "store_action \<Rightarrow> string" where
  "store_action_as_str a =
    (case a of
       OpenSession \<Rightarrow> ''session.open''
     | CloseSession \<Rightarrow> ''session.close''
     | AcquireOwnership \<Rightarrow> ''ownership.acquire''
     | RenewOwnership \<Rightarrow> ''ownership.renew''
     | ReleaseOwnership \<Rightarrow> ''ownership.release''
     | PrepareLaunch \<Rightarrow> ''instance.prepare_launch''
     | AttachLaunch \<Rightarrow> ''instance.attach_launch''
     | TransitionLaunch \<Rightarrow> ''instance.transition_launch''
     | CreateRootParticipant \<Rightarrow> ''participant.create_root''
     | CreateChildParticipant \<Rightarrow> ''participant.create_child''
     | StartOperation \<Rightarrow> ''operation.start''
     | TransitionOperation \<Rightarrow> ''operation.transition''
     | EnqueueMessage \<Rightarrow> ''message.enqueue''
     | LeaseNextMessage \<Rightarrow> ''message.lease_next''
     | TransitionMessageDelivery \<Rightarrow> ''message.transition_delivery''
     | PutAuthorityPolicy \<Rightarrow> ''authority.put_policy''
     | IssueGrant \<Rightarrow> ''authority.issue_grant''
     | RevokeGrant \<Rightarrow> ''authority.revoke_grant''
     | CheckAuthorityEffect \<Rightarrow> ''authority.check_effect''
     | CreateAuthorizedChild \<Rightarrow> ''authority.create_child''
     | ApplyHierarchyEffect \<Rightarrow> ''hierarchy.apply_effect''
     | CancelSubtree \<Rightarrow> ''operation.cancel_subtree''
     | RegisterAuthorityTemplatePolicy \<Rightarrow> ''authority.register_template_policy''
     | ReserveEffect \<Rightarrow> ''effect.reserve''
     | StartEffect \<Rightarrow> ''effect.start''
     | ResolveEffect \<Rightarrow> ''effect.resolve''
     | TakeoverEffect \<Rightarrow> ''effect.takeover''
     | ResolveAuthorizedEffect \<Rightarrow> ''effect.resolve_authorized''
     | PublishArtifact \<Rightarrow> ''artifact.publish''
     | DeleteArtifact \<Rightarrow> ''artifact.delete''
     | EraseArtifact \<Rightarrow> ''artifact.erase''
     | RegisterTool \<Rightarrow> ''tool.register''
     | ReserveToolInvocation \<Rightarrow> ''tool.invoke.reserve''
     | TransitionToolInvocation \<Rightarrow> ''tool.invoke.transition''
     | ConnectToolProvider \<Rightarrow> ''tool.provider.connect'')"

text \<open>\<open>capability\<close>; \<open>None\<close> is the panic of \<open>expect\<close>.\<close>

definition store_action_capability :: "store_action \<Rightarrow> capability option" where
  "store_action_capability a =
    (case capability_new (store_action_as_str a) of Inr c \<Rightarrow> Some c | Inl _ \<Rightarrow> None)"

record request_context =
  rc_request_id :: request_id
  rc_caller :: host_id


section \<open>Session commands\<close>

datatype session_open_mode = Exact | OpenMode | Resume | Reset

record open_session_cmd =
  os_context :: request_context
  os_session_id :: session_id
  os_consumer_key :: consumer_key
  os_compatibility :: compatibility_identity
  os_manifest :: "session_manifest option"
  os_mode :: session_open_mode

definition open_session_new ::
  "request_context \<Rightarrow> session_id \<Rightarrow> consumer_key \<Rightarrow> compatibility_identity \<Rightarrow> open_session_cmd" where
  "open_session_new context sid key compatibility =
    \<lparr>os_context = context, os_session_id = sid, os_consumer_key = key,
     os_compatibility = compatibility, os_manifest = None, os_mode = Exact\<rparr>"

definition open_session_with_manifest ::
  "request_context \<Rightarrow> session_id \<Rightarrow> consumer_key \<Rightarrow> session_manifest \<Rightarrow> open_session_cmd" where
  "open_session_with_manifest context sid key manifest =
    \<lparr>os_context = context, os_session_id = sid, os_consumer_key = key,
     os_compatibility = sm_compatibility manifest, os_manifest = Some manifest, os_mode = Exact\<rparr>"

definition open_session_with_mode :: "open_session_cmd \<Rightarrow> session_open_mode \<Rightarrow> open_session_cmd" where
  "open_session_with_mode c mode = c\<lparr>os_mode := mode\<rparr>"

definition open_session_with_session_id :: "open_session_cmd \<Rightarrow> session_id \<Rightarrow> open_session_cmd" where
  "open_session_with_session_id c sid = c\<lparr>os_session_id := sid\<rparr>"

record close_session_cmd =
  cs_context :: request_context
  cs_session_id :: session_id
  cs_epoch :: fencing_epoch

datatype lease_duration_error = LeaseDurationInvalid

definition lease_duration_from_millis :: "u64 \<Rightarrow> lease_duration_error + u64" where
  "lease_duration_from_millis ms =
    (if ms = 0 \<or> ms > 0x7FFFFFFFFFFFFFFF then Err LeaseDurationInvalid else Ok ms)"

record acquire_ownership_cmd =
  ao_context :: request_context
  ao_session_id :: session_id
  ao_duration :: u64

record renew_ownership_cmd =
  rn_context :: request_context
  rn_session_id :: session_id
  rn_epoch :: fencing_epoch
  rn_duration :: u64

record release_ownership_cmd =
  ro_context :: request_context
  ro_session_id :: session_id
  ro_epoch :: fencing_epoch


section \<open>Results\<close>

datatype 'a mutation = Applied 'a | Replayed 'a | Unchanged 'a

fun mutation_value :: "'a mutation \<Rightarrow> 'a" where
  "mutation_value (Applied v) = v"
| "mutation_value (Replayed v) = v"
| "mutation_value (Unchanged v) = v"

fun was_replayed :: "'a mutation \<Rightarrow> bool" where
  "was_replayed (Replayed _) = True"
| "was_replayed _ = False"

record ownership_lease =
  ol_session_id :: session_id
  ol_owner :: host_id
  ol_epoch :: fencing_epoch
  ol_expires_at :: timestamp

datatype ownership_lease_error = ExpiryNotFuture

definition ownership_lease_new ::
  "session_id \<Rightarrow> host_id \<Rightarrow> fencing_epoch \<Rightarrow> timestamp \<Rightarrow> timestamp
    \<Rightarrow> ownership_lease_error + ownership_lease" where
  "ownership_lease_new sid owner epoch issued_at expires_at =
    (if expires_at \<le> issued_at then Err ExpiryNotFuture
     else Ok \<lparr>ol_session_id = sid, ol_owner = owner, ol_epoch = epoch, ol_expires_at = expires_at\<rparr>)"

definition ownership_lease_restored ::
  "session_id \<Rightarrow> host_id \<Rightarrow> fencing_epoch \<Rightarrow> timestamp \<Rightarrow> ownership_lease" where
  "ownership_lease_restored sid owner epoch expires_at =
    \<lparr>ol_session_id = sid, ol_owner = owner, ol_epoch = epoch, ol_expires_at = expires_at\<rparr>"

definition is_effective_at :: "ownership_lease \<Rightarrow> timestamp \<Rightarrow> bool" where
  "is_effective_at lease observed_at = (observed_at < ol_expires_at lease)"

datatype request_phase = PhaseSucceeded | PhaseFailed

datatype stored_effect = EffectApplied | EffectUnchanged


section \<open>Launches\<close>

datatype launch_state = Prepared | Attached | Ready | Stopping | Stopped | LaunchCleanupRequired

record process_evidence =
  pe_process_id :: u32
  pe_process_group_id :: u32
  pe_parent_process_id :: u32
  pe_creation_marker :: u64
  pe_executable_identity :: digest32

record launch_snapshot =
  ls_session_id :: session_id
  ls_ownership_epoch :: "fencing_epoch option"
  ls_participant_id :: participant_id
  ls_driver_id :: driver_id
  ls_driver_configuration_digest :: digest32
  ls_attempt_id :: launch_attempt_id
  ls_instance_id :: "instance_id option"
  ls_state :: launch_state
  ls_revision :: revision
  ls_credential_digest :: digest32
  ls_evidence :: "process_evidence option"
  ls_cleanup_reason :: "string option"

record prepare_launch_cmd =
  pl_context :: request_context
  pl_epoch :: fencing_epoch
  pl_session_id :: session_id
  pl_participant_id :: participant_id
  pl_driver_id :: driver_id
  pl_driver_configuration_digest :: digest32
  pl_attempt_id :: launch_attempt_id
  pl_credential_digest :: digest32

record attach_launch_cmd =
  al_context :: request_context
  al_session_id :: session_id
  al_epoch :: fencing_epoch
  al_attempt_id :: launch_attempt_id
  al_expected_revision :: revision
  al_instance_id :: instance_id
  al_evidence :: process_evidence

record transition_launch_cmd =
  tl_context :: request_context
  tl_session_id :: session_id
  tl_epoch :: fencing_epoch
  tl_attempt_id :: launch_attempt_id
  tl_expected_revision :: revision
  tl_target :: launch_state
  tl_cleanup_reason :: "string option"

definition state_name :: "launch_state \<Rightarrow> string" where
  "state_name s =
    (case s of
       Prepared \<Rightarrow> ''prepared''
     | Attached \<Rightarrow> ''attached''
     | Ready \<Rightarrow> ''ready''
     | Stopping \<Rightarrow> ''stopping''
     | Stopped \<Rightarrow> ''stopped''
     | LaunchCleanupRequired \<Rightarrow> ''cleanup_required'')"


section \<open>Participants and operations\<close>

record participant_snapshot =
  ps_session_id :: session_id
  ps_participant_id :: participant_id
  ps_parent_participant_id :: "participant_id option"
  ps_depth :: u32
  ps_template_id :: template_id
  ps_template_compatibility :: compatibility_identity
  ps_revision :: revision

record create_root_cmd =
  cr_context :: request_context
  cr_session_id :: session_id
  cr_epoch :: fencing_epoch
  cr_participant_id :: participant_id
  cr_template_id :: template_id
  cr_expected_compatibility :: compatibility_identity

record create_child_cmd =
  cc_context :: request_context
  cc_session_id :: session_id
  cc_epoch :: fencing_epoch
  cc_participant_id :: participant_id
  cc_parent_participant_id :: participant_id
  cc_template_id :: template_id
  cc_expected_compatibility :: compatibility_identity

datatype operation_terminal_outcome =
    OutcomeSucceeded bytes
  | OutcomeFailed string string
  | OutcomeCancelled
  | OutcomeBlocked string
  | OutcomeUncertain string

record operation_snapshot =
  opn_session_id :: session_id
  opn_operation_id :: operation_id
  opn_participant_id :: participant_id
  opn_start_request_id :: request_id
  opn_input_message_id :: message_id
  opn_waiting_on_message_id :: "message_id option"
  opn_input_digest :: digest32
  opn_state :: operation_state
  opn_revision :: revision
  opn_terminal_outcome :: "operation_terminal_outcome option"
  opn_created_at :: timestamp
  opn_updated_at :: timestamp

record start_operation_cmd =
  so_context :: request_context
  so_session_id :: session_id
  so_epoch :: fencing_epoch
  so_operation_id :: operation_id
  so_participant_id :: participant_id
  so_input_message_id :: message_id
  so_input :: bytes

record transition_operation_cmd =
  to_context :: request_context
  to_session_id :: session_id
  to_epoch :: fencing_epoch
  to_operation_id :: operation_id
  to_expected_revision :: revision
  to_action :: operation_action
  to_report_message_id :: "message_id option"
  to_terminal_outcome :: "operation_terminal_outcome option"

definition operation_action_name :: "operation_action \<Rightarrow> string" where
  "operation_action_name a =
    (case a of
       BeginStart \<Rightarrow> ''begin_start''
     | ReportRunning \<Rightarrow> ''report_running''
     | Wait \<Rightarrow> ''wait''
     | operation_action.Resume \<Rightarrow> ''resume''
     | RequestCancel \<Rightarrow> ''request_cancel''
     | ReportSuccess \<Rightarrow> ''report_success''
     | ReportFailure \<Rightarrow> ''report_failure''
     | ReportCancelled \<Rightarrow> ''report_cancelled''
     | ReportBlocked \<Rightarrow> ''report_blocked''
     | ReportUncertain \<Rightarrow> ''report_uncertain''
     | ObserveIdle \<Rightarrow> ''observe_idle'')"


section \<open>Mailboxes\<close>

datatype message_priority = ControlPriority | Ordinary

record message_correlation =
  mc_operation_id :: "operation_id option"
  mc_in_reply_to :: "message_id option"

record delivery_lease =
  dl_attempt_id :: delivery_attempt_id
  dl_owner :: host_id
  dl_ownership_epoch :: fencing_epoch
  dl_driver_ownership_epoch :: fencing_epoch
  dl_driver_launch_attempt_id :: launch_attempt_id
  dl_instance_id :: instance_id
  dl_expires_at :: timestamp

datatype message_delivery_state =
    MessageQueued
  | RetryScheduled timestamp
  | Leased delivery_lease
  | AcceptancePending delivery_lease
  | AcceptanceUnknown delivery_lease
  | Accepted delivery_attempt_id digest32 timestamp
  | DeliveryUncertain delivery_attempt_id string
  | DeadLetter string

definition delivery_is_terminal :: "message_delivery_state \<Rightarrow> bool" where
  "delivery_is_terminal s =
    (case s of Accepted _ _ _ \<Rightarrow> True | DeliveryUncertain _ _ \<Rightarrow> True | DeadLetter _ \<Rightarrow> True
     | _ \<Rightarrow> False)"

record message_snapshot =
  ms_session_id :: session_id
  ms_message_id :: message_id
  ms_source :: participant_id
  ms_destination :: participant_id
  ms_mailbox_sequence :: u64
  ms_priority :: message_priority
  ms_correlation :: message_correlation
  ms_envelope :: message_envelope
  ms_attempt_count :: u32
  ms_state :: message_delivery_state
  ms_revision :: revision
  ms_created_at :: timestamp
  ms_updated_at :: timestamp

definition priority_for :: "message_kind \<Rightarrow> message_priority" where
  "priority_for k =
    (if k \<in> {message_kind.OperationInput, message_kind.Question} then Ordinary else ControlPriority)"

definition message_structurally_valid :: "message_snapshot \<Rightarrow> bool" where
  "message_structurally_valid m =
    (if ms_mailbox_sequence m = 0 \<or> ms_attempt_count m > 32
        \<or> ms_created_at m > ms_updated_at m
        \<or> ms_priority m \<noteq> priority_for (envelope_kind (ms_envelope m))
     then False
     else case ms_state m of
       MessageQueued \<Rightarrow> ms_attempt_count m = 0
     | RetryScheduled not_before \<Rightarrow> ms_attempt_count m > 0 \<and> not_before \<ge> ms_updated_at m
     | Leased lease \<Rightarrow> ms_attempt_count m > 0 \<and> dl_expires_at lease > ms_updated_at m
     | AcceptancePending lease \<Rightarrow> ms_attempt_count m > 0 \<and> dl_expires_at lease > ms_updated_at m
     | AcceptanceUnknown lease \<Rightarrow> ms_attempt_count m > 0 \<and> dl_expires_at lease > ms_updated_at m
     | Accepted _ _ accepted_at \<Rightarrow> ms_attempt_count m > 0 \<and> accepted_at = ms_updated_at m
     | DeliveryUncertain _ _ \<Rightarrow> ms_attempt_count m > 0
     | DeadLetter _ \<Rightarrow> True)"

record enqueue_message_cmd =
  em_context :: request_context
  em_session_id :: session_id
  em_epoch :: fencing_epoch
  em_message_id :: message_id
  em_source :: participant_id
  em_destination :: participant_id
  em_correlation :: message_correlation
  em_envelope :: message_envelope

text \<open>A \<open>std::time::Duration\<close> is its whole number of nanoseconds.\<close>

type_synonym std_duration = nat

record lease_next_message_cmd =
  lm_context :: request_context
  lm_session_id :: session_id
  lm_epoch :: fencing_epoch
  lm_destination :: participant_id
  lm_instance_id :: instance_id
  lm_driver_launch_attempt_id :: launch_attempt_id
  lm_proposed_attempt_id :: delivery_attempt_id
  lm_lease_duration :: std_duration

datatype delivery_transition =
    ToAcceptancePending
  | ToAcceptanceUnknown
  | ToRetryAfter std_duration
  | ToAccepted digest32
  | ToUncertain string
  | ToDeadLetter string

record transition_message_cmd =
  tm_context :: request_context
  tm_session_id :: session_id
  tm_epoch :: fencing_epoch
  tm_message_id :: message_id
  tm_attempt_id :: delivery_attempt_id
  tm_expected_revision :: revision
  tm_transition :: delivery_transition


section \<open>Errors and stored requests\<close>

datatype store_error =
    SessionNotFound session_id
  | TemplateNotFound template_id
  | ParticipantNotFound participant_id
  | RootParticipantNotFound session_id
  | OperationNotFound operation_id
  | MessageNotFound message_id
  | ArtifactNotFound artifact_id
  | LaunchNotFound launch_attempt_id
  | MessageOversize
  | MailboxQuotaExceeded
  | CapacityExceeded capacity_reason
  | SessionClosed session_id
  | SessionAlreadyClosed session_id
  | CompatibilityConflict session_id compatibility_identity compatibility_identity
  | InterruptedSession session_id
  | ConsumerConflict session_id consumer_key consumer_key
  | RequestConflict request_id
  | OwnershipHeld ownership_snapshot
  | OwnershipExpired session_id fencing_epoch
  | StaleOwnership session_id fencing_epoch "fencing_epoch option"
  | LeaseTooLong
  | SchemaTooNew u32 u32
  | Corrupt
  | Busy
  | Invalid
  | ProjectionStale
  | StoreUnavailable

definition retryable :: "store_error \<Rightarrow> bool" where
  "retryable e = (e \<in> {Busy, StoreUnavailable})"

text \<open>The results of the commands that are not modelled carry their JSON value.\<close>

datatype stored_result =
    SessionResult session_snapshot
  | OwnershipLeaseResult ownership_lease
  | OwnershipResult ownership_snapshot
  | LaunchResult launch_snapshot
  | ParticipantResult participant_snapshot
  | OperationResult operation_snapshot
  | MessageResult "message_snapshot option"
  | AuthorityPolicyResult json
  | AuthorityTemplatePolicyResult json
  | GrantResult json
  | AuthorityEffectResult json
  | AuthorizedChildResult json
  | HierarchyEffectResult json
  | CancellationResult json
  | ArtifactResult json
  | ToolRegistrationResult json
  | ToolProviderConnectionResult json

datatype stored_request_outcome =
    StoredSucceeded stored_effect stored_result
  | StoredFailed store_error

record stored_request =
  sr_request_id :: request_id
  sr_caller :: host_id
  sr_action :: store_action
  sr_digest :: digest32
  sr_outcome :: stored_request_outcome

datatype stored_request_error = OutcomeMismatch

definition result_matches :: "store_action \<Rightarrow> stored_result \<Rightarrow> bool" where
  "result_matches action result =
    (case result of
       SessionResult _ \<Rightarrow> action \<in> {OpenSession, CloseSession}
     | OwnershipLeaseResult _ \<Rightarrow> action \<in> {AcquireOwnership, RenewOwnership}
     | OwnershipResult _ \<Rightarrow> action = ReleaseOwnership
     | LaunchResult _ \<Rightarrow> action \<in> {PrepareLaunch, AttachLaunch, TransitionLaunch}
     | ParticipantResult _ \<Rightarrow> action \<in> {CreateRootParticipant, CreateChildParticipant}
     | OperationResult _ \<Rightarrow> action \<in> {StartOperation, TransitionOperation}
     | MessageResult _ \<Rightarrow> action \<in> {EnqueueMessage, LeaseNextMessage, TransitionMessageDelivery}
     | AuthorityPolicyResult _ \<Rightarrow> action = PutAuthorityPolicy
     | AuthorityTemplatePolicyResult _ \<Rightarrow> action = RegisterAuthorityTemplatePolicy
     | GrantResult _ \<Rightarrow> action \<in> {IssueGrant, RevokeGrant}
     | AuthorityEffectResult _ \<Rightarrow> action = CheckAuthorityEffect
     | AuthorizedChildResult _ \<Rightarrow> action = CreateAuthorizedChild
     | HierarchyEffectResult _ \<Rightarrow> action = ApplyHierarchyEffect
     | CancellationResult _ \<Rightarrow> action = CancelSubtree
     | ArtifactResult _ \<Rightarrow> action \<in> {PublishArtifact, DeleteArtifact, EraseArtifact}
     | ToolRegistrationResult _ \<Rightarrow> action = RegisterTool
     | ToolProviderConnectionResult _ \<Rightarrow> action = ConnectToolProvider)"

definition stored_request_new ::
  "request_id \<Rightarrow> host_id \<Rightarrow> store_action \<Rightarrow> digest32 \<Rightarrow> stored_request_outcome
    \<Rightarrow> stored_request_error + stored_request" where
  "stored_request_new rid caller action digest outcome =
    (let valid = (case outcome of
         StoredFailed _ \<Rightarrow> True
       | StoredSucceeded effect result \<Rightarrow>
           result_matches action result
           \<and> (effect \<noteq> EffectUnchanged
              \<or> action \<in> {OpenSession, PrepareLaunch, CreateRootParticipant,
                          CreateChildParticipant, StartOperation}))
     in if \<not> valid then Err OutcomeMismatch
        else Ok \<lparr>sr_request_id = rid, sr_caller = caller, sr_action = action, sr_digest = digest,
                 sr_outcome = outcome\<rparr>)"

definition stored_request_phase :: "stored_request \<Rightarrow> request_phase" where
  "stored_request_phase r =
    (case sr_outcome r of StoredSucceeded _ _ \<Rightarrow> PhaseSucceeded | StoredFailed _ \<Rightarrow> PhaseFailed)"

datatype event_read_error = EventReadOutOfRange u32

definition event_read_limit_new :: "u32 \<Rightarrow> event_read_error + u32" where
  "event_read_limit_new v =
    (if v = 0 \<or> v > 1000 then Err (EventReadOutOfRange 1000) else Ok v)"

record read_events_query =
  re_session_id :: session_id
  re_consumer :: consumer_key
  re_after :: "event_position option"
  re_limit :: u32

record event_page =
  ep_events :: "session_event list"
  ep_last_position :: "event_position option"
  ep_has_more :: bool


section \<open>Action names\<close>

lemma store_action_as_str_inject: "store_action_as_str a = store_action_as_str b \<Longrightarrow> a = b"
  by (cases a; cases b) (simp_all add: store_action_as_str_def)

lemma capability_new_action: "capability_new (store_action_as_str a) = Inr (store_action_as_str a)"
  by (cases a) (simp_all add: store_action_as_str_def capability_new_def capability_byte_def
      is_ascii_lowercase_def is_ascii_digit_def)

lemma store_action_capability_total: "store_action_capability a = Some (store_action_as_str a)"
  by (simp add: store_action_capability_def capability_new_action)

lemma ownership_lease_new_Ok_iff [outcome_simps]:
  "ownership_lease_new sid owner e i x = Inr l \<longleftrightarrow>
    i < x \<and> l = \<lparr>ol_session_id = sid, ol_owner = owner, ol_epoch = e, ol_expires_at = x\<rparr>"
  by (auto simp: ownership_lease_new_def)

end
