(* ===== verification/Request_Digests.thy ===== *)
theory Request_Digests
  imports Store_Api
begin

text \<open>
  The canonical input of a request and its semantic digest: \<open>CanonicalInput\<close> and the \<open>MutableRequest\<close>
  implementations of \<open>crates/navigator-store-api/src/lib.rs\<close> and \<open>mailbox.rs\<close>.

  A command's bytes are written field by field; the digest hashes them together with the action name.
  The locale \<open>canonical_field\<close> is the contract of one field encoder: what was written can be told
  apart from what follows it.
\<close>

section \<open>Field encoders\<close>

definition ci_identity :: "uuid \<Rightarrow> bytes" where
  "ci_identity v = be_bytes 16 (unat v)"

definition ci_u64 :: "u64 \<Rightarrow> bytes" where
  "ci_u64 v = be_bytes 8 (unat v)"

definition ci_digest :: "digest32 \<Rightarrow> bytes" where
  "ci_digest v = be_bytes 32 (unat v)"

text \<open>\<open>bytes\<close> writes the length and the bytes; the length of a bounded input fits 64 bits.\<close>

definition ci_bytes :: "bytes \<Rightarrow> bytes" where
  "ci_bytes v = ci_u64 (word_of_nat (length v)) @ v"

definition ci_text :: "string \<Rightarrow> bytes" where
  "ci_text v = ci_bytes (str_bytes v)"

text \<open>\<open>finish\<close>.\<close>

definition ci_finish :: "(bytes \<Rightarrow> digest32) \<Rightarrow> store_action \<Rightarrow> bytes \<Rightarrow> digest32" where
  "ci_finish sha256 action input = semantic_digest_v1 sha256 (store_action_as_str action) input"

text \<open>\<open>as_millis().try_into().unwrap_or(u64::MAX)\<close>.\<close>

definition duration_millis :: "std_duration \<Rightarrow> u64" where
  "duration_millis d =
    (let ms = d div 1000000 in if ms < 2 ^ 64 then word_of_nat ms else 0xFFFFFFFFFFFFFFFF)"


section \<open>The inputs of the commands\<close>

definition session_epoch_input :: "session_id \<Rightarrow> fencing_epoch \<Rightarrow> bytes" where
  "session_epoch_input sid epoch = ci_identity sid @ ci_u64 epoch"

definition session_duration_input :: "session_id \<Rightarrow> u64 \<Rightarrow> bytes" where
  "session_duration_input sid duration = ci_identity sid @ ci_u64 duration"

definition open_mode_byte :: "session_open_mode \<Rightarrow> byte" where
  "open_mode_byte m = (case m of Exact \<Rightarrow> 0 | OpenMode \<Rightarrow> 1 | Resume \<Rightarrow> 2 | Reset \<Rightarrow> 3)"

definition manifest_input :: "session_manifest option \<Rightarrow> bytes" where
  "manifest_input m =
    (case m of
       Some manifest \<Rightarrow>
         [1] @ ci_digest (sm_configuration_identity manifest)
         @ ci_u64 (word_of_nat (length (sm_templates manifest)))
         @ concat (map (\<lambda>b. ci_identity (tb_template_id b) @ ci_digest (tb_compatibility b))
             (sm_templates manifest))
     | None \<Rightarrow> [0])"

definition open_session_input :: "open_session_cmd \<Rightarrow> bytes" where
  "open_session_input c =
    (if os_mode c = Exact then ci_identity (os_session_id c) else [])
    @ ci_text (os_consumer_key c) @ ci_digest (os_compatibility c)
    @ [open_mode_byte (os_mode c)] @ manifest_input (os_manifest c)"

definition close_session_input :: "close_session_cmd \<Rightarrow> bytes" where
  "close_session_input c = session_epoch_input (cs_session_id c) (cs_epoch c)"

definition acquire_ownership_input :: "acquire_ownership_cmd \<Rightarrow> bytes" where
  "acquire_ownership_input c = session_duration_input (ao_session_id c) (ao_duration c)"

definition renew_ownership_input :: "renew_ownership_cmd \<Rightarrow> bytes" where
  "renew_ownership_input c =
    ci_identity (rn_session_id c) @ ci_u64 (rn_epoch c) @ ci_u64 (rn_duration c)"

definition release_ownership_input :: "release_ownership_cmd \<Rightarrow> bytes" where
  "release_ownership_input c = session_epoch_input (ro_session_id c) (ro_epoch c)"

definition prepare_launch_input :: "prepare_launch_cmd \<Rightarrow> bytes" where
  "prepare_launch_input c =
    ci_identity (pl_session_id c) @ ci_identity (pl_participant_id c) @ ci_identity (pl_driver_id c)
    @ ci_digest (pl_driver_configuration_digest c) @ ci_identity (pl_attempt_id c)
    @ ci_u64 (pl_epoch c) @ ci_digest (pl_credential_digest c)"

definition attach_launch_input :: "attach_launch_cmd \<Rightarrow> bytes" where
  "attach_launch_input c =
    ci_identity (al_session_id c) @ ci_identity (al_attempt_id c) @ ci_identity (al_instance_id c)
    @ ci_u64 (al_epoch c) @ ci_u64 (al_expected_revision c)
    @ ci_u64 (ucast (pe_process_id (al_evidence c)))
    @ ci_u64 (ucast (pe_process_group_id (al_evidence c)))
    @ ci_u64 (ucast (pe_parent_process_id (al_evidence c)))
    @ ci_u64 (pe_creation_marker (al_evidence c))
    @ ci_digest (pe_executable_identity (al_evidence c))"

definition transition_launch_input :: "transition_launch_cmd \<Rightarrow> bytes" where
  "transition_launch_input c =
    ci_identity (tl_session_id c) @ ci_identity (tl_attempt_id c) @ ci_u64 (tl_epoch c)
    @ ci_u64 (tl_expected_revision c) @ ci_text (state_name (tl_target c))
    @ (case tl_cleanup_reason c of Some reason \<Rightarrow> ci_text reason | None \<Rightarrow> [])"

definition create_root_input :: "create_root_cmd \<Rightarrow> bytes" where
  "create_root_input c =
    ci_identity (cr_session_id c) @ ci_identity (cr_template_id c)
    @ ci_digest (cr_expected_compatibility c)"

definition create_child_input :: "create_child_cmd \<Rightarrow> bytes" where
  "create_child_input c =
    ci_identity (cc_session_id c) @ ci_identity (cc_parent_participant_id c)
    @ ci_identity (cc_template_id c) @ ci_digest (cc_expected_compatibility c)"

definition start_operation_input :: "start_operation_cmd \<Rightarrow> bytes" where
  "start_operation_input c =
    ci_identity (so_session_id c) @ ci_identity (so_participant_id c) @ ci_bytes (so_input c)"

definition outcome_input :: "operation_terminal_outcome \<Rightarrow> bytes" where
  "outcome_input outcome =
    (case outcome of
       OutcomeSucceeded result \<Rightarrow> ci_text ''succeeded'' @ ci_bytes result
     | OutcomeFailed code detail \<Rightarrow> ci_text ''failed'' @ ci_text code @ ci_text detail
     | OutcomeCancelled \<Rightarrow> ci_text ''cancelled''
     | OutcomeBlocked reason \<Rightarrow> ci_text ''blocked'' @ ci_text reason
     | OutcomeUncertain reason \<Rightarrow> ci_text ''uncertain'' @ ci_text reason)"

definition transition_operation_input :: "transition_operation_cmd \<Rightarrow> bytes" where
  "transition_operation_input c =
    ci_identity (to_session_id c) @ ci_identity (to_operation_id c) @ ci_u64 (to_epoch c)
    @ ci_u64 (to_expected_revision c) @ ci_text (operation_action_name (to_action c))
    @ (case to_report_message_id c of Some message_id \<Rightarrow> ci_identity message_id | None \<Rightarrow> [])
    @ (case to_terminal_outcome c of Some outcome \<Rightarrow> outcome_input outcome | None \<Rightarrow> [])"

definition enqueue_message_input :: "enqueue_message_cmd \<Rightarrow> bytes" where
  "enqueue_message_input c =
    ci_identity (em_session_id c) @ ci_identity (em_message_id c) @ ci_identity (em_source c)
    @ ci_identity (em_destination c)
    @ ci_text (case priority_for (envelope_kind (em_envelope c)) of
        ControlPriority \<Rightarrow> ''control'' | Ordinary \<Rightarrow> ''ordinary'')
    @ (case mc_operation_id (em_correlation c) of
         Some i \<Rightarrow> ci_text ''operation:some'' @ ci_identity i | None \<Rightarrow> ci_text ''operation:none'')
    @ (case mc_in_reply_to (em_correlation c) of
         Some i \<Rightarrow> ci_text ''reply:some'' @ ci_identity i | None \<Rightarrow> ci_text ''reply:none'')
    @ ci_bytes (me_encoded (em_envelope c))"

definition lease_next_message_input :: "lease_next_message_cmd \<Rightarrow> bytes" where
  "lease_next_message_input c =
    ci_identity (lm_session_id c) @ ci_u64 (lm_epoch c) @ ci_identity (lm_destination c)
    @ ci_identity (lm_instance_id c) @ ci_identity (lm_driver_launch_attempt_id c)
    @ ci_u64 (duration_millis (lm_lease_duration c))"

definition delivery_transition_input :: "delivery_transition \<Rightarrow> bytes" where
  "delivery_transition_input t =
    (case t of
       ToAcceptancePending \<Rightarrow> ci_text ''acceptance_pending''
     | ToAcceptanceUnknown \<Rightarrow> ci_text ''acceptance_unknown''
     | ToRetryAfter delay \<Rightarrow> ci_text ''retry_after'' @ ci_u64 (duration_millis delay)
     | ToAccepted proof_digest \<Rightarrow> ci_text ''accepted'' @ ci_digest proof_digest
     | ToUncertain reason \<Rightarrow> ci_text ''uncertain'' @ ci_text reason
     | ToDeadLetter reason \<Rightarrow> ci_text ''dead_letter'' @ ci_text reason)"

definition transition_message_input :: "transition_message_cmd \<Rightarrow> bytes" where
  "transition_message_input c =
    ci_identity (tm_session_id c) @ ci_identity (tm_message_id c) @ ci_identity (tm_attempt_id c)
    @ ci_u64 (tm_epoch c) @ ci_u64 (tm_expected_revision c)
    @ delivery_transition_input (tm_transition c)"


section \<open>Requests\<close>

text \<open>\<open>MutableRequest\<close>: the context, the action and the bytes that are digested.\<close>

datatype command =
    CmdOpenSession open_session_cmd
  | CmdCloseSession close_session_cmd
  | CmdAcquireOwnership acquire_ownership_cmd
  | CmdRenewOwnership renew_ownership_cmd
  | CmdReleaseOwnership release_ownership_cmd
  | CmdPrepareLaunch prepare_launch_cmd
  | CmdAttachLaunch attach_launch_cmd
  | CmdTransitionLaunch transition_launch_cmd
  | CmdCreateRootParticipant create_root_cmd
  | CmdCreateChildParticipant create_child_cmd
  | CmdStartOperation start_operation_cmd
  | CmdTransitionOperation transition_operation_cmd
  | CmdEnqueueMessage enqueue_message_cmd
  | CmdLeaseNextMessage lease_next_message_cmd
  | CmdTransitionMessageDelivery transition_message_cmd

fun command_context :: "command \<Rightarrow> request_context" where
  "command_context (CmdOpenSession c) = os_context c"
| "command_context (CmdCloseSession c) = cs_context c"
| "command_context (CmdAcquireOwnership c) = ao_context c"
| "command_context (CmdRenewOwnership c) = rn_context c"
| "command_context (CmdReleaseOwnership c) = ro_context c"
| "command_context (CmdPrepareLaunch c) = pl_context c"
| "command_context (CmdAttachLaunch c) = al_context c"
| "command_context (CmdTransitionLaunch c) = tl_context c"
| "command_context (CmdCreateRootParticipant c) = cr_context c"
| "command_context (CmdCreateChildParticipant c) = cc_context c"
| "command_context (CmdStartOperation c) = so_context c"
| "command_context (CmdTransitionOperation c) = to_context c"
| "command_context (CmdEnqueueMessage c) = em_context c"
| "command_context (CmdLeaseNextMessage c) = lm_context c"
| "command_context (CmdTransitionMessageDelivery c) = tm_context c"

fun command_action :: "command \<Rightarrow> store_action" where
  "command_action (CmdOpenSession c) = OpenSession"
| "command_action (CmdCloseSession c) = CloseSession"
| "command_action (CmdAcquireOwnership c) = AcquireOwnership"
| "command_action (CmdRenewOwnership c) = RenewOwnership"
| "command_action (CmdReleaseOwnership c) = ReleaseOwnership"
| "command_action (CmdPrepareLaunch c) = PrepareLaunch"
| "command_action (CmdAttachLaunch c) = AttachLaunch"
| "command_action (CmdTransitionLaunch c) = TransitionLaunch"
| "command_action (CmdCreateRootParticipant c) = CreateRootParticipant"
| "command_action (CmdCreateChildParticipant c) = CreateChildParticipant"
| "command_action (CmdStartOperation c) = StartOperation"
| "command_action (CmdTransitionOperation c) = TransitionOperation"
| "command_action (CmdEnqueueMessage c) = EnqueueMessage"
| "command_action (CmdLeaseNextMessage c) = LeaseNextMessage"
| "command_action (CmdTransitionMessageDelivery c) = TransitionMessageDelivery"

fun command_input :: "command \<Rightarrow> bytes" where
  "command_input (CmdOpenSession c) = open_session_input c"
| "command_input (CmdCloseSession c) = close_session_input c"
| "command_input (CmdAcquireOwnership c) = acquire_ownership_input c"
| "command_input (CmdRenewOwnership c) = renew_ownership_input c"
| "command_input (CmdReleaseOwnership c) = release_ownership_input c"
| "command_input (CmdPrepareLaunch c) = prepare_launch_input c"
| "command_input (CmdAttachLaunch c) = attach_launch_input c"
| "command_input (CmdTransitionLaunch c) = transition_launch_input c"
| "command_input (CmdCreateRootParticipant c) = create_root_input c"
| "command_input (CmdCreateChildParticipant c) = create_child_input c"
| "command_input (CmdStartOperation c) = start_operation_input c"
| "command_input (CmdTransitionOperation c) = transition_operation_input c"
| "command_input (CmdEnqueueMessage c) = enqueue_message_input c"
| "command_input (CmdLeaseNextMessage c) = lease_next_message_input c"
| "command_input (CmdTransitionMessageDelivery c) = transition_message_input c"


definition command_digest :: "(bytes \<Rightarrow> digest32) \<Rightarrow> command \<Rightarrow> digest32" where
  "command_digest sha256 c = ci_finish sha256 (command_action c) (command_input c)"


section \<open>Fields can be told apart\<close>

text \<open>The contract of a field encoder: a field followed by more input determines the field and the
  rest.\<close>

locale canonical_field =
  fixes enc :: "'a \<Rightarrow> bytes"
    and valid :: "'a \<Rightarrow> bool"
  assumes enc_delimited: "valid x \<Longrightarrow> valid y \<Longrightarrow> enc x @ r = enc y @ s \<Longrightarrow> x = y \<and> r = s"
begin

lemma append_iff: "valid x \<Longrightarrow> valid y \<Longrightarrow> enc x @ r = enc y @ s \<longleftrightarrow> x = y \<and> r = s"
  using enc_delimited by blast

lemma eq_iff: "valid x \<Longrightarrow> valid y \<Longrightarrow> enc x = enc y \<longleftrightarrow> x = y"
  using enc_delimited [of x y "[]" "[]"] by auto

lemma eq_append_iff:
  "valid x \<Longrightarrow> valid y \<Longrightarrow> enc x = enc y @ s \<longleftrightarrow> x = y \<and> s = []"
  "valid x \<Longrightarrow> valid y \<Longrightarrow> enc x @ s = enc y \<longleftrightarrow> x = y \<and> s = []"
  by (metis append_Nil2 enc_delimited)+

text \<open>An optional field at the end of the input needs no tag when its encoding is never empty.\<close>

lemma optional_tail:
  assumes "\<And>x. enc x \<noteq> []" "pred_option valid a" "pred_option valid b"
  shows "(case a of Some x \<Rightarrow> enc x | None \<Rightarrow> []) = (case b of Some x \<Rightarrow> enc x | None \<Rightarrow> []) \<longleftrightarrow> a = b"
  using assms(2,3) eq_iff assms(1) [symmetric] assms(1) by (auto split: option.splits)

end

text \<open>A field of constant length.\<close>

locale fixed_field =
  fixes enc :: "'a \<Rightarrow> bytes"
    and len :: nat
  assumes enc_length: "length (enc x) = len"
    and enc_inject: "enc x = enc y \<Longrightarrow> x = y"

sublocale fixed_field \<subseteq> canonical_field enc "\<lambda>_. True"
  by unfold_locales (metis append_eq_append_conv enc_inject enc_length)


interpretation digest: fixed_field ci_digest 32
  by unfold_locales (simp_all add: ci_digest_def)

lemma be_bytes_u64_inject [simp]: "be_bytes 8 (unat (a :: u64)) = be_bytes 8 (unat b) \<longleftrightarrow> a = b"
proof -
  have "unat x < 256 ^ 8" for x :: u64 using unsigned_less [of x] by simp
  then show ?thesis by (simp add: be_bytes_inject word_unat_eq_iff)
qed

interpretation number: fixed_field ci_u64 8
  by unfold_locales (simp_all add: ci_u64_def)

definition fits_u64 :: "'a list \<Rightarrow> bool" where
  "fits_u64 xs = (length xs < 2 ^ 64)"



lemma fits_u64_str_bytes [simp]: "fits_u64 (str_bytes t) = fits_u64 t"
  by (simp add: fits_u64_def)


lemma ci_text_not_Nil [simp]: "ci_text t \<noteq> []"
  using number.enc_length by (metis append_is_Nil_conv ci_bytes_def ci_text_def list.size(3) zero_neq_numeral)

lemma fits_u64_literals [simp]:
  "fits_u64 []" "fits_u64 (x # xs) \<longleftrightarrow> length xs < 2 ^ 64 - 1"
  by (auto simp: fits_u64_def)


lemma ucast_u32_inject [simp]: "(ucast (a :: u32) :: u64) = ucast b \<longleftrightarrow> a = b"
proof
  assume "(ucast a :: u64) = ucast b"
  then have "unat (ucast a :: u64) = unat (ucast b :: u64)" by simp
  moreover have "unat x < 2 ^ 64" for x :: u32
    by (rule order_less_le_trans [OF unsigned_less]) simp
  ultimately show "a = b"
    by (simp add: unsigned_ucast_eq word_unat_eq_iff take_bit_nat_eq_self)
qed simp


section \<open>What a digest identifies\<close>











lemma fits_state_name [simp]: "fits_u64 (state_name a)"
  by (cases a) (simp_all add: state_name_def)

lemma fits_operation_action_name [simp]: "fits_u64 (operation_action_name a)"
  by (cases a) (simp_all add: operation_action_name_def)


lemma be_bytes_numeral:
  "be_bytes (numeral k) n = be_bytes (pred_numeral k) (n div 256) @ [word_of_nat n]"
  unfolding numeral_eq_Suc [of k] by (rule be_bytes.simps)

lemma be_bytes_8:
  "be_bytes 8 n = [word_of_nat (n div 256 ^ 7), word_of_nat (n div 256 ^ 6), word_of_nat (n div 256 ^ 5),
     word_of_nat (n div 256 ^ 4), word_of_nat (n div 256 ^ 3), word_of_nat (n div 256 ^ 2),
     word_of_nat (n div 256), word_of_nat n]"
  by (simp add: be_bytes_numeral div_mult2_eq [symmetric])

lemma ci_bytes_small:
  "length b < 256 \<Longrightarrow> ci_bytes b = [0, 0, 0, 0, 0, 0, 0, word_of_nat (length b)] @ b"
  by (simp add: ci_bytes_def ci_u64_def be_bytes_8 unsigned_of_nat take_bit_nat_eq_self)


lemma outcome_head:
  "\<exists>t rest. outcome_input x = 0 # 0 # 0 # 0 # 0 # 0 # 0 # t # rest"
  by (cases x) (simp_all add: outcome_input_def ci_text_def ci_bytes_small str_bytes_def)



lemma outcome_input_not_Nil [simp]: "outcome_input x \<noteq> []" "[] \<noteq> outcome_input x"
  using outcome_head [of x] by auto

lemma ci_fields_not_Nil [simp]: "ci_u64 n \<noteq> []" "ci_digest d \<noteq> []" "ci_bytes b \<noteq> []"
    apply (use number.enc_length [of n] in force)
   apply (use digest.enc_length [of d] in force)
  apply (use number.enc_length [of "word_of_nat (length b)"] in \<open>force simp: ci_bytes_def\<close>)
  done























section \<open>Properties\<close>



end
