(* ===== verification/Authority_Domain.thy ===== *)
theory Authority_Domain
  imports Domain_Values
begin

text \<open>
  Authority of \<open>crates/navigator-domain/src/authority.rs\<close>: capability sets with intersection,
  scoped capabilities, authority profiles, grants, and the five trusted ceilings that
  authorise the creation of children and effects.
\<close>

type_synonym authority = "capability set"

definition authority_new :: "capability list \<Rightarrow> authority" where
  "authority_new caps = set caps"

definition authority_intersect :: "authority \<Rightarrow> authority \<Rightarrow> authority" where
  "authority_intersect a ceiling = a \<inter> ceiling"

definition authority_contains :: "authority \<Rightarrow> capability \<Rightarrow> bool" where
  "authority_contains a c = (c \<in> a)"

datatype resource_scope =
    SessionScope session_id
  | ParticipantScope participant_id
  | OperationScope operation_id
  | ArtifactScope artifact_id

record scoped_capability =
  sc_capability :: capability
  sc_resource :: resource_scope

record authority_profile =
  ap_active :: "scoped_capability set"
  ap_delegable :: "scoped_capability set"

datatype authority_error = TooManyRules | DuplicateRule | Denied

definition authority_profile_new ::
  "scoped_capability list \<Rightarrow> scoped_capability list \<Rightarrow> authority_error + authority_profile" where
  "authority_profile_new active_values delegable_values =
    (let active = set active_values; delegable = set delegable_values
     in if card active \<noteq> length active_values \<or> card delegable \<noteq> length delegable_values
        then Err DuplicateRule
        else if card active > 256 \<or> card delegable > 256 then Err TooManyRules
        else Ok \<lparr>ap_active = active, ap_delegable = delegable\<rparr>)"


definition session_parent :: "scoped_capability \<Rightarrow> session_id \<Rightarrow> scoped_capability" where
  "session_parent requested session_id =
    \<lparr>sc_capability = sc_capability requested,
     sc_resource = (case sc_resource requested of
         OperationScope _ \<Rightarrow> SessionScope session_id
       | r \<Rightarrow> r)\<rparr>"

definition permits_active_effect ::
  "authority_profile \<Rightarrow> scoped_capability \<Rightarrow> session_id \<Rightarrow> bool" where
  "permits_active_effect p requested session_id =
    (requested \<in> ap_active p \<or> session_parent requested session_id \<in> ap_active p)"

definition permits_effect_delegation ::
  "authority_profile \<Rightarrow> scoped_capability \<Rightarrow> session_id \<Rightarrow> bool" where
  "permits_effect_delegation p requested session_id =
    (requested \<in> ap_delegable p \<or> session_parent requested session_id \<in> ap_delegable p)"

record grant =
  gr_id :: grant_id
  gr_session_id :: session_id
  gr_subject :: participant_id
  gr_authority :: scoped_capability
  gr_expires_at :: timestamp
  gr_revoked :: bool

definition grant_is_active :: "grant \<Rightarrow> timestamp \<Rightarrow> bool" where
  "grant_is_active g now = (\<not> gr_revoked g \<and> now < gr_expires_at g)"

record authority_ceilings =
  ac_session :: authority_profile
  ac_parent :: authority_profile
  ac_template :: authority_profile
  ac_relationship :: authority_profile
  ac_subject :: authority_profile

datatype authority_origin =
    SessionOrigin | ParentDelegation | TemplateOrigin | Relationship | Subject
  | GrantOrigin grant_id

record authority_decision =
  ad_authority :: scoped_capability
  ad_origins :: "authority_origin set"


definition authorize_effect ::
  "authority_ceilings \<Rightarrow> participant_id \<Rightarrow> session_id \<Rightarrow> scoped_capability \<Rightarrow> grant option
    \<Rightarrow> timestamp \<Rightarrow> authority_error + authority_decision" where
  "authorize_effect c subject session_id requested grant now =
    (if \<not> permits_active_effect (ac_session c) requested session_id
        \<or> \<not> permits_effect_delegation (ac_parent c) requested session_id
        \<or> \<not> permits_active_effect (ac_template c) requested session_id
        \<or> \<not> permits_active_effect (ac_relationship c) requested session_id
        \<or> \<not> permits_active_effect (ac_subject c) requested session_id
     then Err Denied
     else let origins = {SessionOrigin, ParentDelegation, TemplateOrigin, Relationship, Subject}
     in case grant of
       None \<Rightarrow> Ok \<lparr>ad_authority = requested, ad_origins = origins\<rparr>
     | Some g \<Rightarrow>
         if gr_session_id g \<noteq> session_id \<or> gr_subject g \<noteq> subject
            \<or> gr_authority g \<noteq> requested \<or> \<not> grant_is_active g now
         then Err Denied
         else Ok \<lparr>ad_authority = requested, ad_origins = insert (GrantOrigin (gr_id g)) origins\<rparr>)"


section \<open>Profiles\<close>



lemma authority_profile_new_Ok_iff:
  "authority_profile_new xs ys = Inr p \<longleftrightarrow>
    distinct xs \<and> distinct ys \<and> length xs \<le> 256 \<and> length ys \<le> 256 \<and>
    p = \<lparr>ap_active = set xs, ap_delegable = set ys\<rparr>"
  by (auto simp: authority_profile_new_def Let_def distinct_card dest: card_distinct)


lemma authorize_effect_Ok_iff:
  "authorize_effect c subj sid r g now = Inr d \<longleftrightarrow>
    permits_active_effect (ac_session c) r sid \<and> permits_effect_delegation (ac_parent c) r sid \<and>
    permits_active_effect (ac_template c) r sid \<and> permits_active_effect (ac_relationship c) r sid \<and>
    permits_active_effect (ac_subject c) r sid \<and>
    (\<forall>gr. g = Some gr \<longrightarrow> gr_session_id gr = sid \<and> gr_subject gr = subj \<and> gr_authority gr = r \<and>
       grant_is_active gr now) \<and>
    d = \<lparr>ad_authority = r,
         ad_origins = {SessionOrigin, ParentDelegation, TemplateOrigin, Relationship, Subject}
           \<union> GrantOrigin ` gr_id ` set_option g\<rparr>"
  by (cases g) (auto simp: authorize_effect_def Let_def)

lemma authorize_effect_denied:
  "authorize_effect c subj sid r g now = Inl e \<Longrightarrow> e = Denied"
  by (auto simp: authorize_effect_def Let_def split: if_splits option.splits)



lemma session_parent_mem_iff:
  "r \<in> rules \<or> session_parent r sid \<in> rules \<longleftrightarrow>
   r \<in> rules \<or> (\<exists>opid. sc_resource r = OperationScope opid \<and>
     \<lparr>sc_capability = sc_capability r, sc_resource = SessionScope sid\<rparr> \<in> rules)"
  by (cases r; cases "sc_resource r") (auto simp: session_parent_def)


section \<open>Properties\<close>

text \<open>Property C19.  An effect is authorised only when every one of the five ceilings holds a rule
  for it: the requested rule itself or, for an operation-scoped request, the same capability
  on the effect's own session.  A presented grant must belong to that session and subject,
  carry exactly the requested authority, and be unexpired and unrevoked.\<close>

theorem effect_needs_every_ceiling:
  assumes "authorize_effect c subj sid r g now = Inr d"
    and "rules \<in> {ap_active (ac_session c), ap_delegable (ac_parent c), ap_active (ac_template c),
      ap_active (ac_relationship c), ap_active (ac_subject c)}"
  shows "(r \<in> rules \<or> (\<exists>opid. sc_resource r = OperationScope opid \<and>
        \<lparr>sc_capability = sc_capability r, sc_resource = SessionScope sid\<rparr> \<in> rules)) \<and>
    (case g of None \<Rightarrow> True | Some gr \<Rightarrow>
       gr_session_id gr = sid \<and> gr_subject gr = subj \<and> gr_authority gr = r \<and>
       \<not> gr_revoked gr \<and> now < gr_expires_at gr) \<and>
    ad_authority d = r"
  using assms
  unfolding session_parent_mem_iff [symmetric] authorize_effect_Ok_iff permits_active_effect_def
    permits_effect_delegation_def grant_is_active_def
  by (auto split: option.splits)

abbreviation (input) example_rule :: scoped_capability where
  "example_rule \<equiv> \<lparr>sc_capability = ''tool.run'', sc_resource = SessionScope 5\<rparr>"

abbreviation (input) example_profile :: authority_profile where
  "example_profile \<equiv> \<lparr>ap_active = {example_rule}, ap_delegable = {example_rule}\<rparr>"

abbreviation (input) example_ceilings :: authority_ceilings where
  "example_ceilings \<equiv> \<lparr>ac_session = example_profile, ac_parent = example_profile,
    ac_template = example_profile, ac_relationship = example_profile, ac_subject = example_profile\<rparr>"

lemma effect_needs_every_ceiling_witness:
  "is_ok (authorize_effect example_ceilings 3 5
     \<lparr>sc_capability = ''tool.run'', sc_resource = OperationScope 8\<rparr> None (Timestamp 0 0)) \<and>
   (\<exists>opid :: operation_id. OperationScope 8 = OperationScope opid \<and> example_rule \<in> ap_active example_profile)"
  using effect_needs_every_ceiling [of example_ceilings 3 5
      "\<lparr>sc_capability = ''tool.run'', sc_resource = OperationScope 8\<rparr>" None "Timestamp 0 0"
      "\<lparr>ad_authority = \<lparr>sc_capability = ''tool.run'', sc_resource = OperationScope 8\<rparr>,
        ad_origins = {SessionOrigin, ParentDelegation, TemplateOrigin, Relationship, Subject}\<rparr>"
      "ap_active example_profile"]
  by (simp add: authorize_effect_def permits_active_effect_def permits_effect_delegation_def
      session_parent_def Let_def)



end
