(* ===== verification/Template_Domain.thy ===== *)
theory Template_Domain
  imports Session_Domain Authority_Domain Json_Domain "HOL-Library.Multiset" "HOL-Library.List_Lexorder" "HOL-Library.Char_ord"
begin

text \<open>
  Templates of \<open>crates/navigator-domain/src/template.rs\<close>: driver requirements and their satisfaction,
  the input schema and the validation of task inputs, the trusted configuration, resource bounds,
  registration with its compatibility identity, the restoration of a stored registration, and the
  launch binding of a root participant.

  A \<open>BTreeMap\<close> is the list of its entries in key order; strings are ordered by their bytes.
  \<open>RegisteredTemplateSnapshot\<close> has the fs of \<open>Template\<close>, and \<open>registration_snapshot\<close> and
  \<open>try_from\<close> copy them, so both are the record \<open>template\<close>.

  Parameters: \<open>parse_object\<close> stands for \<open>serde_json::from_slice\<close> driving \<open>ObjectVisitor\<close>, the entries
  of the top-level object as they are written; \<open>print_value\<close> and \<open>to_vec\<close> for \<open>serde_json::to_vec\<close> of a
  value and of the tuple of a template's fs; \<open>sha256\<close> for the hash.
\<close>

datatype template_domain_error =
    TemplateBound bound_error
  | ZeroCapabilityVersion | TooManyCapabilityParameters | DuplicateCapabilityParameter
  | TooManyDriverCapabilities | DuplicateDriverCapability | InvalidFieldBound | TooManyInputFields
  | DuplicateInputField | InputTooLarge | InvalidTaskInput | UnknownInputField | MissingInputField
  | InputFieldType | InvalidResourceBounds | Canonicalization | CompatibilityMismatch | TooManySecrets
  | DuplicateSecretName

datatype participant_domain_error = LaunchIdentityMismatch | CurrentInstanceConflict

text \<open>The collecting loop of \<open>TemplateSecrets::new\<close>, \<open>DriverCapabilityRequirement::new\<close> and
  \<open>TrustedConfiguration::new\<close>: a repeated key and a full map are refused, in this order.\<close>

fun collect_map ::
  "'e \<Rightarrow> 'e \<Rightarrow> nat \<Rightarrow> (string \<times> 'v) list \<Rightarrow> (string \<times> 'v) list \<Rightarrow> 'e + (string \<times> 'v) list" where
  "collect_map duplicate full bound collected [] = Ok collected"
| "collect_map duplicate full bound collected ((key, v) # es) =
    (if key \<in> fst ` set collected then Err duplicate
     else let collected' = map_insert key v collected
          in if length collected' > bound then Err full
             else collect_map duplicate full bound collected' es)"

definition template_secrets_new ::
  "(string \<times> bytes) list \<Rightarrow> template_domain_error + (string \<times> bytes) list" where
  "template_secrets_new entries = collect_map DuplicateSecretName TooManySecrets 32 [] entries"

definition template_secrets_get :: "(string \<times> bytes) list \<Rightarrow> string \<Rightarrow> bytes option" where
  "template_secrets_get secrets name = map_of secrets name"


section \<open>Driver requirements\<close>

record driver_capability_requirement =
  dc_capability :: capability
  dc_minimum_version :: u32
  dc_parameters :: "(string \<times> string) list"

definition driver_capability_requirement_new ::
  "capability \<Rightarrow> u32 \<Rightarrow> (string \<times> string) list \<Rightarrow> template_domain_error + driver_capability_requirement" where
  "driver_capability_requirement_new capability minimum_version parameters =
    (if minimum_version = 0 then Err ZeroCapabilityVersion
     else and_then (collect_map DuplicateCapabilityParameter TooManyCapabilityParameters 16 [] parameters)
       (\<lambda>collected. Ok \<lparr>dc_capability = capability, dc_minimum_version = minimum_version,
          dc_parameters = collected\<rparr>))"

record driver_requirement =
  dq_driver_id :: driver_id
  dq_capabilities :: "driver_capability_requirement list"

definition driver_requirement_new ::
  "driver_id \<Rightarrow> driver_capability_requirement list \<Rightarrow> template_domain_error + driver_requirement" where
  "driver_requirement_new driver_id capabilities =
    (if length capabilities > 32 then Err TooManyDriverCapabilities
     else let capabilities' = sort_key dc_capability capabilities
          in if adjacent_duplicate dc_capability capabilities' then Err DuplicateDriverCapability
             else Ok \<lparr>dq_driver_id = driver_id, dq_capabilities = capabilities'\<rparr>)"

definition capability_met ::
  "driver_capability_requirement \<Rightarrow> driver_capability_requirement \<Rightarrow> bool" where
  "capability_met required actual =
    (dc_capability actual = dc_capability required
     \<and> dc_minimum_version actual \<ge> dc_minimum_version required
     \<and> list_all (\<lambda>(key, v). map_of (dc_parameters actual) key = Some v) (dc_parameters required))"

definition is_satisfied_by ::
  "driver_requirement \<Rightarrow> driver_id \<Rightarrow> driver_capability_requirement list \<Rightarrow> bool" where
  "is_satisfied_by req offered_driver_id offered =
    (card (dc_capability ` set offered) = length offered
     \<and> offered_driver_id = dq_driver_id req
     \<and> list_all (\<lambda>required. list_ex (capability_met required) offered) (dq_capabilities req))"


section \<open>Task inputs\<close>

datatype input_kind = StringInput | IntegerInput | BooleanInput

record input_field =
  if_name :: string
  if_kind :: input_kind
  if_required :: bool
  if_max_string_bytes :: "nat option"

definition input_field_new ::
  "string \<Rightarrow> input_kind \<Rightarrow> bool \<Rightarrow> nat option \<Rightarrow> template_domain_error + input_field" where
  "input_field_new name kind required max_string_bytes =
    (if (case (kind, max_string_bytes) of
           (StringInput, Some n) \<Rightarrow> 1 \<le> n \<and> n \<le> 65536
         | (StringInput, None) \<Rightarrow> True
         | (_, None) \<Rightarrow> True
         | _ \<Rightarrow> False)
     then Ok \<lparr>if_name = name, if_kind = kind, if_required = required,
              if_max_string_bytes = max_string_bytes\<rparr>
     else Err InvalidFieldBound)"

type_synonym input_schema = "input_field list"

definition input_schema_new :: "input_field list \<Rightarrow> template_domain_error + input_schema" where
  "input_schema_new fs =
    (if length fs > 32 then Err TooManyInputFields
     else let fs' = sort_key if_name fs
          in if adjacent_duplicate if_name fs' then Err DuplicateInputField else Ok fs')"

definition validate_field :: "input_field \<Rightarrow> json \<Rightarrow> template_domain_error + unit" where
  "validate_field field v =
    (if (case if_kind field of
           StringInput \<Rightarrow> (case v of
               JString text \<Rightarrow> (case if_max_string_bytes field of
                   None \<Rightarrow> True | Some maximum \<Rightarrow> length text \<le> maximum)
             | _ \<Rightarrow> False)
         | IntegerInput \<Rightarrow> (case v of
               JNumber (IntNumber n) \<Rightarrow> - (2 ^ 63) \<le> n \<and> n < 2 ^ 63
             | _ \<Rightarrow> False)
         | BooleanInput \<Rightarrow> (case v of JBool _ \<Rightarrow> True | _ \<Rightarrow> False))
     then Ok () else Err InputFieldType)"

text \<open>The loop over the fs of the schema.\<close>

fun validate_fields :: "input_field list \<Rightarrow> (string \<times> json) list \<Rightarrow> template_domain_error + unit" where
  "validate_fields [] object = Ok ()"
| "validate_fields (field # fs) object =
    (case map_of object (if_name field) of
       None \<Rightarrow> if if_required field then Err MissingInputField else validate_fields fs object
     | Some v \<Rightarrow> and_then (validate_field field v) (\<lambda>_. validate_fields fs object))"

definition input_schema_validate ::
  "(bytes \<Rightarrow> (string \<times> json) list option) \<Rightarrow> (json \<Rightarrow> bytes) \<Rightarrow> input_schema \<Rightarrow> bytes
    \<Rightarrow> template_domain_error + bytes" where
  "input_schema_validate parse_object print_value schema input =
    (if length input > 65536 then Err InputTooLarge
     else case Option.bind (parse_object input) (insert_entries []) of
       None \<Rightarrow> Err InvalidTaskInput
     | Some object \<Rightarrow>
         if length object > length schema then Err UnknownInputField
         else if list_ex (\<lambda>(key, _). key \<notin> if_name ` set schema) object then Err UnknownInputField
         else and_then (validate_fields schema object) (\<lambda>_.
           map_err TemplateBound (bounded_bytes_new 65536 (print_value (JObject object)))))"


section \<open>Registration\<close>

record trusted_configuration =
  tg_base_instructions :: string
  tg_secret_names :: "string list"

definition trusted_configuration_new ::
  "string \<Rightarrow> string list \<Rightarrow> template_domain_error + trusted_configuration" where
  "trusted_configuration_new base_instructions secret_names =
    and_then (collect_map DuplicateSecretName TooManySecrets 32 [] (map (\<lambda>n. (n, ())) secret_names))
      (\<lambda>collected. Ok \<lparr>tg_base_instructions = base_instructions, tg_secret_names = map fst collected\<rparr>)"

record resource_bounds =
  rb_memory_bytes :: u64
  rb_cpu_millis :: u64
  rb_max_concurrent_operations :: u16

definition resource_bounds_new :: "u64 \<Rightarrow> u64 \<Rightarrow> u16 \<Rightarrow> template_domain_error + resource_bounds" where
  "resource_bounds_new memory_bytes cpu_millis max_concurrent_operations =
    (if memory_bytes = 0 \<or> memory_bytes > 2 ^ 40 \<or> cpu_millis = 0 \<or> cpu_millis > 86400000
        \<or> max_concurrent_operations \<noteq> 1
     then Err InvalidResourceBounds
     else Ok \<lparr>rb_memory_bytes = memory_bytes, rb_cpu_millis = cpu_millis,
              rb_max_concurrent_operations = max_concurrent_operations\<rparr>)"

record template =
  tp_identity :: template_id
  tp_role :: string
  tp_driver :: driver_requirement
  tp_trusted_configuration :: trusted_configuration
  tp_resources :: resource_bounds
  tp_input_schema :: input_schema
  tp_authority :: authority_profile
  tp_compatibility :: compatibility_identity

text \<open>The tuple that is serialised for the compatibility identity; the authority is left out when it is
  the default, as registrations before authority profiles had none.\<close>

type_synonym template_tuple =
  "template_id \<times> string \<times> driver_requirement \<times> trusted_configuration \<times> resource_bounds
    \<times> input_schema \<times> authority_profile option"

definition authority_profile_default :: authority_profile where
  "authority_profile_default = \<lparr>ap_active = {}, ap_delegable = {}\<rparr>"

definition register_with_authority ::
  "(bytes \<Rightarrow> digest32) \<Rightarrow> (template_tuple \<Rightarrow> bytes) \<Rightarrow> template_id \<Rightarrow> string \<Rightarrow> driver_requirement
    \<Rightarrow> trusted_configuration \<Rightarrow> resource_bounds \<Rightarrow> input_schema \<Rightarrow> authority_profile \<Rightarrow> template" where
  "register_with_authority sha256 to_vec template_id role driver trusted resources schema authority =
    (let canonical = to_vec (template_id, role, driver, trusted, resources, schema,
           if ap_active authority = {} \<and> ap_delegable authority = {} then None else Some authority)
     in \<lparr>tp_identity = template_id, tp_role = role, tp_driver = driver,
         tp_trusted_configuration = trusted, tp_resources = resources, tp_input_schema = schema,
         tp_authority = authority, tp_compatibility = compatibility_digest sha256 canonical\<rparr>)"

definition template_register ::
  "(bytes \<Rightarrow> digest32) \<Rightarrow> (template_tuple \<Rightarrow> bytes) \<Rightarrow> template_id \<Rightarrow> string \<Rightarrow> driver_requirement
    \<Rightarrow> trusted_configuration \<Rightarrow> resource_bounds \<Rightarrow> input_schema \<Rightarrow> template" where
  "template_register sha256 to_vec template_id role driver trusted resources schema =
    register_with_authority sha256 to_vec template_id role driver trusted resources schema
      authority_profile_default"

definition restore_registered_with_authority ::
  "(bytes \<Rightarrow> digest32) \<Rightarrow> (template_tuple \<Rightarrow> bytes) \<Rightarrow> template_id \<Rightarrow> string \<Rightarrow> driver_requirement
    \<Rightarrow> trusted_configuration \<Rightarrow> resource_bounds \<Rightarrow> input_schema \<Rightarrow> authority_profile
    \<Rightarrow> compatibility_identity \<Rightarrow> template_domain_error + template" where
  "restore_registered_with_authority sha256 to_vec template_id role driver trusted resources schema
     authority expected_compatibility =
    (let t = register_with_authority sha256 to_vec template_id role driver trusted resources schema
           authority
     in if tp_compatibility t = expected_compatibility then Ok t else Err CompatibilityMismatch)"

definition restore_registered ::
  "(bytes \<Rightarrow> digest32) \<Rightarrow> (template_tuple \<Rightarrow> bytes) \<Rightarrow> template_id \<Rightarrow> string \<Rightarrow> driver_requirement
    \<Rightarrow> trusted_configuration \<Rightarrow> resource_bounds \<Rightarrow> input_schema \<Rightarrow> compatibility_identity
    \<Rightarrow> template_domain_error + template" where
  "restore_registered sha256 to_vec template_id role driver trusted resources schema expected =
    restore_registered_with_authority sha256 to_vec template_id role driver trusted resources schema
      authority_profile_default expected"

text \<open>\<open>Template::try_from\<close> on a registration snapshot.\<close>

definition template_try_from ::
  "(bytes \<Rightarrow> digest32) \<Rightarrow> (template_tuple \<Rightarrow> bytes) \<Rightarrow> template \<Rightarrow> template_domain_error + template" where
  "template_try_from sha256 to_vec v =
    restore_registered_with_authority sha256 to_vec (tp_identity v) (tp_role v) (tp_driver v)
      (tp_trusted_configuration v) (tp_resources v) (tp_input_schema v) (tp_authority v)
      (tp_compatibility v)"

definition matches_registration :: "template \<Rightarrow> template_id \<Rightarrow> compatibility_identity \<Rightarrow> bool" where
  "matches_registration t template_id compatibility =
    (tp_identity t = template_id \<and> tp_compatibility t = compatibility)"

definition template_validate_input ::
  "(bytes \<Rightarrow> (string \<times> json) list option) \<Rightarrow> (json \<Rightarrow> bytes) \<Rightarrow> template \<Rightarrow> bytes
    \<Rightarrow> template_domain_error + bytes" where
  "template_validate_input parse_object print_value t input =
    input_schema_validate parse_object print_value (tp_input_schema t) input"

record template_public_snapshot =
  tv_template_id :: template_id
  tv_compatibility :: compatibility_identity
  tv_role :: string
  tv_driver :: driver_requirement
  tv_resources :: resource_bounds
  tv_input_schema :: input_schema

definition public_snapshot :: "template \<Rightarrow> template_public_snapshot" where
  "public_snapshot t =
    \<lparr>tv_template_id = tp_identity t, tv_compatibility = tp_compatibility t, tv_role = tp_role t,
     tv_driver = tp_driver t, tv_resources = tp_resources t, tv_input_schema = tp_input_schema t\<rparr>"


section \<open>The stored registration\<close>

text \<open>The wire forms: a capability is its name, version and parameters, an input field its name, kind,
  requirement and bound, the trusted configuration its instructions and secret names.\<close>

type_synonym capability_wire = "capability \<times> u32 \<times> (string \<times> string) list"
type_synonym input_wire = "string \<times> input_kind \<times> bool \<times> nat option"

record registration_wire =
  rw_identity :: template_id
  rw_role :: string
  rw_driver :: "driver_id \<times> capability_wire list"
  rw_trusted_configuration :: "string \<times> string list"
  rw_resources :: "u64 \<times> u64 \<times> u16"
  rw_input_schema :: "input_wire list"
  rw_authority :: authority_profile
  rw_compatibility :: compatibility_identity

text \<open>\<open>map(\<dots>).collect::<Result<Vec<_>, _>>()\<close>.\<close>

fun try_map :: "('a \<Rightarrow> 'e + 'b) \<Rightarrow> 'a list \<Rightarrow> 'e + 'b list" where
  "try_map f [] = Ok []"
| "try_map f (x # xs) = and_then (f x) (\<lambda>y. and_then (try_map f xs) (\<lambda>ys. Ok (y # ys)))"

definition template_text :: "nat \<Rightarrow> string \<Rightarrow> template_domain_error + string" where
  "template_text bound v = map_err TemplateBound (bounded_text_new bound v)"

definition capability_wire_validate ::
  "capability_wire \<Rightarrow> template_domain_error + driver_capability_requirement" where
  "capability_wire_validate w =
    (case w of (capability, minimum_version, parameters) \<Rightarrow>
       and_then (try_map (\<lambda>(key, v). and_then (template_text 64 key) (\<lambda>key'.
           and_then (template_text 256 v) (\<lambda>v'. Ok (key', v')))) parameters) (\<lambda>parameters'.
       driver_capability_requirement_new capability minimum_version parameters'))"

definition input_wire_validate :: "input_wire \<Rightarrow> template_domain_error + input_field" where
  "input_wire_validate w =
    (case w of (name, kind, required, max_string_bytes) \<Rightarrow>
       and_then (template_text 64 name) (\<lambda>name'. input_field_new name' kind required max_string_bytes))"

definition into_template ::
  "(bytes \<Rightarrow> digest32) \<Rightarrow> (template_tuple \<Rightarrow> bytes) \<Rightarrow> registration_wire
    \<Rightarrow> template_domain_error + template" where
  "into_template sha256 to_vec w =
    and_then (try_map capability_wire_validate (snd (rw_driver w))) (\<lambda>capabilities.
    and_then (driver_requirement_new (fst (rw_driver w)) capabilities) (\<lambda>driver.
    and_then (template_text 65536 (fst (rw_trusted_configuration w))) (\<lambda>base_instructions.
    and_then (try_map (template_text 64) (snd (rw_trusted_configuration w))) (\<lambda>secret_names.
    and_then (trusted_configuration_new base_instructions secret_names) (\<lambda>trusted.
    and_then (try_map input_wire_validate (rw_input_schema w)) (\<lambda>fs.
    and_then (input_schema_new fs) (\<lambda>input_schema.
    and_then (template_text 128 (rw_role w)) (\<lambda>role.
    and_then (case rw_resources w of (memory_bytes, cpu_millis, max_concurrent_operations) \<Rightarrow>
        resource_bounds_new memory_bytes cpu_millis max_concurrent_operations) (\<lambda>resources.
    restore_registered_with_authority sha256 to_vec (rw_identity w) role driver trusted resources
      input_schema (rw_authority w) (rw_compatibility w))))))))))"

text \<open>\<open>Serialize\<close> of a registration snapshot.\<close>

definition registration_of :: "template \<Rightarrow> registration_wire" where
  "registration_of t =
    \<lparr>rw_identity = tp_identity t, rw_role = tp_role t,
     rw_driver = (dq_driver_id (tp_driver t), map (\<lambda>c.
       (dc_capability c, dc_minimum_version c, dc_parameters c)) (dq_capabilities (tp_driver t))),
     rw_trusted_configuration = (tg_base_instructions (tp_trusted_configuration t),
       tg_secret_names (tp_trusted_configuration t)),
     rw_resources = (rb_memory_bytes (tp_resources t), rb_cpu_millis (tp_resources t),
       rb_max_concurrent_operations (tp_resources t)),
     rw_input_schema = map (\<lambda>f. (if_name f, if_kind f, if_required f, if_max_string_bytes f))
       (tp_input_schema t),
     rw_authority = tp_authority t, rw_compatibility = tp_compatibility t\<rparr>"


section \<open>Root participants\<close>

record launch_identity =
  li_session_id :: session_id
  li_participant_id :: participant_id
  li_launch_attempt_id :: launch_attempt_id
  li_instance_id :: instance_id
  li_driver_id :: driver_id
  li_ownership_epoch :: fencing_epoch

record root_participant =
  rp_participant_id :: participant_id
  rp_session_id :: session_id
  rp_template_id :: template_id
  rp_template_compatibility :: compatibility_identity
  rp_expected_driver_id :: driver_id
  rp_current_launch :: "launch_identity option"

definition root_participant_new :: "participant_id \<Rightarrow> session_id \<Rightarrow> template \<Rightarrow> root_participant" where
  "root_participant_new participant_id session_id t =
    \<lparr>rp_participant_id = participant_id, rp_session_id = session_id, rp_template_id = tp_identity t,
     rp_template_compatibility = tp_compatibility t, rp_expected_driver_id = dq_driver_id (tp_driver t),
     rp_current_launch = None\<rparr>"

definition bind_launch ::
  "root_participant \<Rightarrow> fencing_epoch \<Rightarrow> launch_identity
    \<Rightarrow> root_participant \<times> (participant_domain_error + unit)" where
  "bind_launch p current_ownership_epoch launch =
    (if li_session_id launch \<noteq> rp_session_id p \<or> li_participant_id launch \<noteq> rp_participant_id p
        \<or> li_driver_id launch \<noteq> rp_expected_driver_id p
        \<or> \<not> epoch_is_current (li_ownership_epoch launch) current_ownership_epoch
     then (p, Err LaunchIdentityMismatch)
     else if (case rp_current_launch p of None \<Rightarrow> False | Some current \<Rightarrow> current \<noteq> launch)
     then (p, Err CurrentInstanceConflict)
     else (p\<lparr>rp_current_launch := Some launch\<rparr>, Ok ()))"


section \<open>Key-ordered maps\<close>

lemma key_less_iff_less: "key_less a b \<longleftrightarrow> a < b"
  by (induction a b rule: key_less.induct) (auto simp: less_char_def)

lemma key_ordered_sorted: "key_ordered es \<longleftrightarrow> sorted (map fst es) \<and> distinct (map fst es)"
  by (simp add: key_ordered_def key_less_iff_less [abs_def] strict_sorted_iff)

lemma key_ordered_set_unique:
  assumes "key_ordered es" "key_ordered es'" "set es = set es'"
  shows "es = es'"
proof -
  have "mset es = mset es'"
    using assms by (simp add: key_ordered_sorted distinct_map set_eq_iff_mset_eq_distinct)
  moreover have "inj_on fst (set es)"
    using assms(1) by (simp add: key_ordered_sorted distinct_map)
  ultimately have "sort_key fst es = es'"
    using assms(2) by (intro sort_key_inj_key_eq) (auto simp: key_ordered_sorted)
  then show ?thesis
    using assms(1) by (simp add: key_ordered_sorted sort_key_id_if_sorted)
qed

lemma map_insert_fresh:
  "k \<notin> fst ` set es \<Longrightarrow> set (map_insert k v es) = insert (k, v) (set es)
    \<and> length (map_insert k v es) = Suc (length es)"
  by (induction k v es rule: map_insert.induct) auto





lemma collect_map_iff:
  assumes "key_ordered acc" "length acc \<le> n"
  shows "collect_map d f n acc es = Inr c \<longleftrightarrow>
    distinct (map fst es) \<and> fst ` set acc \<inter> fst ` set es = {} \<and> length acc + length es \<le> n \<and>
    key_ordered c \<and> set c = set acc \<union> set es"
  using assms
proof (induction d f n acc es rule: collect_map.induct)
  case (1 d f n acc)
  then show ?case using key_ordered_set_unique by (auto simp: )
next
  case (2 d f n acc k v es)
  show ?case
  proof (cases "k \<in> fst ` set acc")
    case False
    note fresh = map_insert_fresh [OF False, of v]
    show ?thesis
    proof (cases "length acc + 1 \<le> n")
      case True
      then show ?thesis
        using 2(1) [OF False refl] 2(2) False fresh
        by (auto simp: Let_def map_insert_ordered map_insert_keys)
    qed (use fresh False in \<open>auto simp: Let_def\<close>)
  qed auto
qed

lemma collect_map_Inr_iff:
  "collect_map d f n [] es = Inr c \<longleftrightarrow>
    distinct (map fst es) \<and> length es \<le> n \<and> key_ordered c \<and> set c = set es"
  using collect_map_iff [of "[]" n] by (simp add: key_ordered_def)


section \<open>Accepted inputs\<close>











section \<open>Registrations\<close>

lemma try_map_Inr_iff:
  "try_map f xs = Inr ys \<longleftrightarrow> (\<forall>x \<in> set xs. is_ok (f x)) \<and> ys = map (\<lambda>x. projr (f x)) xs"
proof (induction xs arbitrary: ys)
  case (Cons x xs)
  then show ?case by (cases "f x") (auto simp: outcome_simps)
qed auto

lemma try_map_permuted:
  assumes "mset xs' = mset xs" "try_map f xs = Inr ys"
  obtains ys' where "try_map f xs' = Inr ys'" "mset ys' = mset ys"
  using assms mset_eq_setD [OF assms(1)] by (auto simp: try_map_Inr_iff)

lemma sort_key_permuted:
  fixes key :: "'a \<Rightarrow> 'k::linorder"
  assumes "mset xs' = mset xs" "distinct (map key xs)"
  shows "sort_key key xs' = sort_key key xs"
proof (rule sort_key_inj_key_eq)
  show "inj_on key (set xs')"
    using assms mset_eq_setD [OF assms(1)] by (simp add: distinct_map)
qed (use assms(1) in auto)

lemma distinct_map_permuted:
  assumes "mset xs' = mset xs" shows "distinct (map key xs') \<longleftrightarrow> distinct (map key xs)"
proof -
  have "mset (map key xs') = mset (map key xs)" using assms by simp
  then show ?thesis by (metis mset_eq_imp_distinct_iff)
qed

lemma adjacent_duplicate_sort_key:
  "adjacent_duplicate key (sort_key key xs) \<longleftrightarrow> \<not> distinct (map key xs)"
  by (simp add: adjacent_duplicate_sorted distinct_map_permuted [of "sort_key key xs" xs])

lemma driver_requirement_new_permuted:
  assumes "mset caps' = mset caps" shows "driver_requirement_new d caps' = driver_requirement_new d caps"
proof (cases "distinct (map dc_capability caps)")
  case True
  then show ?thesis
    using mset_eq_length [OF assms] sort_key_permuted [OF assms True]
    by (simp add: driver_requirement_new_def)
next
  case False
  then show ?thesis
    using mset_eq_length [OF assms] distinct_map_permuted [OF assms, of dc_capability]
    by (simp add: driver_requirement_new_def adjacent_duplicate_sort_key)
qed

lemma input_schema_new_permuted:
  assumes "mset fs' = mset fs" shows "input_schema_new fs' = input_schema_new fs"
proof (cases "distinct (map if_name fs)")
  case True
  then show ?thesis
    using mset_eq_length [OF assms] sort_key_permuted [OF assms True]
    by (simp add: input_schema_new_def)
next
  case False
  then show ?thesis
    using mset_eq_length [OF assms] distinct_map_permuted [OF assms, of if_name]
    by (simp add: input_schema_new_def adjacent_duplicate_sort_key)
qed

lemma trusted_configuration_new_permuted:
  assumes "mset names' = mset names"
  shows "trusted_configuration_new b names' = Inr t \<longleftrightarrow> trusted_configuration_new b names = Inr t"
proof -
  have "distinct names' = distinct names" "length names' = length names" "set names' = set names"
    using assms mset_eq_imp_distinct_iff mset_eq_length mset_eq_setD by blast+
  then show ?thesis
    by (simp add: trusted_configuration_new_def outcome_simps collect_map_Inr_iff comp_def)
qed

definition wire_reordered :: "registration_wire \<Rightarrow> registration_wire \<Rightarrow> bool" where
  "wire_reordered w' w \<longleftrightarrow>
    fst (rw_driver w') = fst (rw_driver w)
    \<and> mset (snd (rw_driver w')) = mset (snd (rw_driver w))
    \<and> fst (rw_trusted_configuration w') = fst (rw_trusted_configuration w)
    \<and> mset (snd (rw_trusted_configuration w')) = mset (snd (rw_trusted_configuration w))
    \<and> mset (rw_input_schema w') = mset (rw_input_schema w)
    \<and> rw_identity w' = rw_identity w \<and> rw_role w' = rw_role w \<and> rw_resources w' = rw_resources w
    \<and> rw_authority w' = rw_authority w \<and> rw_compatibility w' = rw_compatibility w"

lemma wire_reordered_sym: "wire_reordered w' w \<Longrightarrow> wire_reordered w w'"
  by (auto simp: wire_reordered_def)

lemma into_template_reordered:
  assumes "wire_reordered w' w" "into_template sha256 to_vec w = Inr t"
  shows "into_template sha256 to_vec w' = Inr t"
proof -
  obtain caps driver b names trusted fs schema where ok:
      "try_map capability_wire_validate (snd (rw_driver w)) = Inr caps"
      "driver_requirement_new (fst (rw_driver w)) caps = Inr driver"
      "template_text 65536 (fst (rw_trusted_configuration w)) = Inr b"
      "try_map (template_text 64) (snd (rw_trusted_configuration w)) = Inr names"
      "trusted_configuration_new b names = Inr trusted"
      "try_map input_wire_validate (rw_input_schema w) = Inr fs"
      "input_schema_new fs = Inr schema"
    using assms(2) by (auto simp: into_template_def outcome_simps)
  note same = assms(1) [unfolded wire_reordered_def]
  obtain caps' where caps: "try_map capability_wire_validate (snd (rw_driver w')) = Inr caps'"
      "mset caps' = mset caps"
    using try_map_permuted [OF _ ok(1)] same by blast
  obtain names' where names: "try_map (template_text 64) (snd (rw_trusted_configuration w')) = Inr names'"
      "mset names' = mset names"
    using try_map_permuted [OF _ ok(4)] same by blast
  obtain fs' where fs: "try_map input_wire_validate (rw_input_schema w') = Inr fs'"
      "mset fs' = mset fs"
    using try_map_permuted [OF _ ok(6)] same by blast
  have "driver_requirement_new (fst (rw_driver w')) caps' = Inr driver"
      "template_text 65536 (fst (rw_trusted_configuration w')) = Inr b"
      "trusted_configuration_new b names' = Inr trusted" "input_schema_new fs' = Inr schema"
    using same ok driver_requirement_new_permuted [OF caps(2)] input_schema_new_permuted [OF fs(2)]
      trusted_configuration_new_permuted [OF names(2)] by simp_all
  note read = this caps(1) names(1) fs(1)
  have "rw_identity w' = rw_identity w" "rw_role w' = rw_role w" "rw_resources w' = rw_resources w"
      "rw_authority w' = rw_authority w" "rw_compatibility w' = rw_compatibility w"
    using same by simp_all
  then show ?thesis
    using assms(2) by (simp add: into_template_def ok read)
qed

text \<open>Property C35.  A stored registration is read the same whatever the order in which its driver
  capabilities, secret names and input fields were written: a reordered document is accepted exactly
  when the original is, and restores the same template with the same compatibility identity.\<close>

theorem registration_order_irrelevant:
  assumes "wire_reordered w' w"
  shows "into_template sha256 to_vec w' = Inr t \<longleftrightarrow> into_template sha256 to_vec w = Inr t"
  using into_template_reordered [OF assms] into_template_reordered [OF wire_reordered_sym [OF assms]]
  by blast

definition demo_wire :: registration_wire where
  "demo_wire = \<lparr>rw_identity = 7, rw_role = ''worker'',
    rw_driver = (9, [(''fs.write'', 1, []), (''fs.read'', 2, [(''root'', ''srv'')])]),
    rw_trusted_configuration = (''work'', [''token'', ''key'']), rw_resources = (1024, 1000, 1),
    rw_input_schema = [(''task'', StringInput, True, Some 8), (''count'', IntegerInput, False, None)],
    rw_authority = authority_profile_default, rw_compatibility = 5\<rparr>"

definition demo_wire_reordered :: registration_wire where
  "demo_wire_reordered = demo_wire\<lparr>
    rw_driver := (9, [(''fs.read'', 2, [(''root'', ''srv'')]), (''fs.write'', 1, [])]),
    rw_trusted_configuration := (''work'', [''key'', ''token'']),
    rw_input_schema := [(''count'', IntegerInput, False, None), (''task'', StringInput, True, Some 8)]\<rparr>"

lemma demo_wire_accepted: "\<exists>t. into_template (\<lambda>_. 5) (\<lambda>_. []) demo_wire = Inr t"
  by (simp add: into_template_def demo_wire_def capability_wire_validate_def input_wire_validate_def
      template_text_def bounded_text_new_def driver_capability_requirement_new_def
      driver_requirement_new_def trusted_configuration_new_def input_field_new_def input_schema_new_def
      resource_bounds_new_def restore_registered_with_authority_def register_with_authority_def
      compatibility_digest_def Let_def)

theorem registration_order_irrelevant_witness:
  "\<exists>t. into_template (\<lambda>_. 5) (\<lambda>_. []) demo_wire = Inr t
    \<and> into_template (\<lambda>_. 5) (\<lambda>_. []) demo_wire_reordered = Inr t"
proof -
  have "wire_reordered demo_wire_reordered demo_wire"
    by (simp add: wire_reordered_def demo_wire_reordered_def demo_wire_def)
  then show ?thesis
    using registration_order_irrelevant [of demo_wire_reordered demo_wire] demo_wire_accepted by blast
qed

text \<open>A restored template is restored from its own registration snapshot.\<close>

lemma into_template_restores:
  "into_template sha256 to_vec w = Inr t \<Longrightarrow> template_try_from sha256 to_vec t = Inr t"
  by (auto simp: into_template_def outcome_simps template_try_from_def Let_def
      restore_registered_with_authority_def register_with_authority_def split: if_splits)

lemma template_try_from_Inr: "template_try_from sha256 to_vec t = Inr t' \<Longrightarrow> t' = t"
  by (auto simp: template_try_from_def restore_registered_with_authority_def Let_def
      register_with_authority_def split: if_splits)

text \<open>A bound launch is never replaced.\<close>

lemma bind_launch_stable:
  "rp_current_launch p = Some l \<Longrightarrow> rp_current_launch (fst (bind_launch p e l')) = Some l"
  by (simp add: bind_launch_def)

end
