(* ===== verification/Store_State.thy ===== *)
theory Store_State
  imports Request_Digests Template_Domain
begin

text \<open>
  The SQLite store of \<open>crates/navigator-store-sqlite/src/store.rs\<close>: its tables, the transaction
  discipline, the request ledger with replay, session rows, the time floor and the event log.

  A table is the list of its rows; a text or integer column that encodes a value (an identity, a
  timestamp split in two columns, a JSON document) holds that value, and reading it back performs the
  checks of the decoding function.  The uniqueness constraints of the migrations are checked on
  insertion and violate as \<open>map_sqlx\<close> maps them, to \<open>Unavailable\<close>.

  A transaction is a computation of the \<open>io\<close> monad over the store: an error of \<open>?\<close> rolls back
  (\<open>run_transaction\<close> gives back the store it started from), a failure recorded by \<open>finish_failure\<close> and
  a result are committed.  Every operation runs in one \<open>BEGIN IMMEDIATE\<close> transaction, so operations
  are sequential; failures of the database itself are not modelled.

  The environment holds what the code takes from other crates and from its configuration: the hash,
  the conversion and addition of date-times of the \<open>time\<close> crate, the text form of a \<open>Uuid\<close>,
  \<open>serde_json\<close>'s printer and its form of a template's fields, and the configured lease bound.
\<close>

section \<open>Rows\<close>

type_synonym template_record = template

record env =
  en_sha256 :: "bytes \<Rightarrow> digest32"
  en_from_unix :: "int \<Rightarrow> nat \<Rightarrow> offset_datetime option"
  en_add_millis :: "offset_datetime \<Rightarrow> int \<Rightarrow> offset_datetime option"
  en_uuid_string :: "uuid \<Rightarrow> string"
  en_print :: "json \<Rightarrow> bytes"
  en_max_lease_millis :: u64
  en_encode_template :: "template_tuple \<Rightarrow> bytes"

record session_table_row =
  sw_session_id :: session_id
  sw_consumer_key :: string
  sw_public_consumer_key :: string
  sw_compatibility :: compatibility_identity
  sw_revision :: u64
  sw_closed :: bool
  sw_created_at :: timestamp
  sw_updated_at :: timestamp
  sw_owner_host :: "host_id option"
  sw_owner_epoch :: "u64 option"
  sw_owner_expires_at :: "timestamp option"
  sw_epoch_high_water :: u64
  sw_time_floor :: timestamp
  sw_manifest_complete :: bool
  sw_configuration :: "compatibility_identity option"

record manifest_row =
  mw_session_id :: session_id
  mw_template_id :: template_id
  mw_compatibility :: compatibility_identity

record template_row =
  tw_template_id :: template_id
  tw_compatibility :: compatibility_identity
  tw_registration :: registration_wire

record event_row =
  ew_session_id :: session_id
  ew_position :: nat
  ew_event_id :: uuid
  ew_revision :: u64
  ew_event_type :: string
  ew_schema_version :: u16
  ew_related_request_id :: "request_id option"
  ew_data :: bytes
  ew_occurred_at :: timestamp

record lease_wire =
  lw_session_id :: uuid
  lw_owner :: uuid
  lw_epoch :: u64
  lw_issued_seconds :: int
  lw_issued_nanos :: nat
  lw_expires_seconds :: int
  lw_expires_nanos :: nat

text \<open>The result column of the ledger, by the value its bytes encode.\<close>

datatype ledger_value =
    SessionValue session_snapshot
  | LeaseValue lease_wire
  | UnownedValue
  | LaunchValue launch_snapshot
  | ParticipantValue participant_snapshot
  | OperationValue operation_snapshot
  | MessageValue "message_snapshot option"
  | JsonValue json

datatype failure_wire =
    WireSessionNotFound session_id
  | WireTemplateNotFound template_id
  | WireParticipantNotFound participant_id
  | WireRootParticipantNotFound session_id
  | WireOperationNotFound operation_id
  | WireSessionClosed session_id
  | WireAlreadyClosed session_id
  | WireCompatibilityConflict session_id compatibility_identity compatibility_identity
  | WireInterruptedSession session_id
  | WireConsumerConflict session_id consumer_key consumer_key
  | WireRequestConflict request_id
  | WireOwnershipHeld ownership_snapshot
  | WireOwnershipExpired session_id fencing_epoch
  | WireStaleOwnership session_id fencing_epoch "fencing_epoch option"
  | WireLeaseTooLong
  | WireSchemaTooNew u32 u32
  | WireCorrupt
  | WireBusy
  | WireInvalid
  | WireMessageNotFound message_id
  | WireArtifactNotFound artifact_id
  | WireLaunchNotFound launch_attempt_id
  | WireMessageOversize
  | WireMailboxQuotaExceeded
  | WireCapacityExceeded capacity_reason
  | WireProjectionStale
  | WireUnavailable

fun failure_to_wire :: "store_error \<Rightarrow> failure_wire" where
  "failure_to_wire (SessionNotFound i) = WireSessionNotFound i"
| "failure_to_wire (TemplateNotFound i) = WireTemplateNotFound i"
| "failure_to_wire (ParticipantNotFound i) = WireParticipantNotFound i"
| "failure_to_wire (RootParticipantNotFound i) = WireRootParticipantNotFound i"
| "failure_to_wire (MessageNotFound i) = WireMessageNotFound i"
| "failure_to_wire (ArtifactNotFound i) = WireArtifactNotFound i"
| "failure_to_wire (LaunchNotFound i) = WireLaunchNotFound i"
| "failure_to_wire MessageOversize = WireMessageOversize"
| "failure_to_wire MailboxQuotaExceeded = WireMailboxQuotaExceeded"
| "failure_to_wire (CapacityExceeded r) = WireCapacityExceeded r"
| "failure_to_wire (OperationNotFound i) = WireOperationNotFound i"
| "failure_to_wire (SessionClosed i) = WireSessionClosed i"
| "failure_to_wire (SessionAlreadyClosed i) = WireAlreadyClosed i"
| "failure_to_wire (CompatibilityConflict i p r) = WireCompatibilityConflict i p r"
| "failure_to_wire (InterruptedSession i) = WireInterruptedSession i"
| "failure_to_wire (ConsumerConflict i p r) = WireConsumerConflict i p r"
| "failure_to_wire (RequestConflict i) = WireRequestConflict i"
| "failure_to_wire (OwnershipHeld w) = WireOwnershipHeld w"
| "failure_to_wire (OwnershipExpired i e) = WireOwnershipExpired i e"
| "failure_to_wire (StaleOwnership i a c) = WireStaleOwnership i a c"
| "failure_to_wire LeaseTooLong = WireLeaseTooLong"
| "failure_to_wire (SchemaTooNew f s) = WireSchemaTooNew f s"
| "failure_to_wire Corrupt = WireCorrupt"
| "failure_to_wire Busy = WireBusy"
| "failure_to_wire Invalid = WireInvalid"
| "failure_to_wire ProjectionStale = WireProjectionStale"
| "failure_to_wire StoreUnavailable = WireUnavailable"

fun failure_from_wire :: "failure_wire \<Rightarrow> store_error" where
  "failure_from_wire (WireSessionNotFound i) = SessionNotFound i"
| "failure_from_wire (WireTemplateNotFound i) = TemplateNotFound i"
| "failure_from_wire (WireParticipantNotFound i) = ParticipantNotFound i"
| "failure_from_wire (WireRootParticipantNotFound i) = RootParticipantNotFound i"
| "failure_from_wire (WireOperationNotFound i) = OperationNotFound i"
| "failure_from_wire (WireMessageNotFound i) = MessageNotFound i"
| "failure_from_wire (WireArtifactNotFound i) = ArtifactNotFound i"
| "failure_from_wire (WireLaunchNotFound i) = LaunchNotFound i"
| "failure_from_wire WireMessageOversize = MessageOversize"
| "failure_from_wire WireMailboxQuotaExceeded = MailboxQuotaExceeded"
| "failure_from_wire (WireCapacityExceeded r) = CapacityExceeded r"
| "failure_from_wire (WireSessionClosed i) = SessionClosed i"
| "failure_from_wire (WireAlreadyClosed i) = SessionAlreadyClosed i"
| "failure_from_wire (WireCompatibilityConflict i p r) = CompatibilityConflict i p r"
| "failure_from_wire (WireInterruptedSession i) = InterruptedSession i"
| "failure_from_wire (WireConsumerConflict i p r) = ConsumerConflict i p r"
| "failure_from_wire (WireRequestConflict i) = RequestConflict i"
| "failure_from_wire (WireOwnershipHeld w) = OwnershipHeld w"
| "failure_from_wire (WireOwnershipExpired i e) = OwnershipExpired i e"
| "failure_from_wire (WireStaleOwnership i a c) = StaleOwnership i a c"
| "failure_from_wire WireLeaseTooLong = LeaseTooLong"
| "failure_from_wire (WireSchemaTooNew f s) = SchemaTooNew f s"
| "failure_from_wire WireCorrupt = Corrupt"
| "failure_from_wire WireBusy = Busy"
| "failure_from_wire WireInvalid = Invalid"
| "failure_from_wire WireProjectionStale = ProjectionStale"
| "failure_from_wire WireUnavailable = StoreUnavailable"

datatype ledger_outcome =
    LedgerSucceeded stored_effect ledger_value
  | LedgerFailed failure_wire

record ledger_row =
  lr_request_id :: request_id
  lr_session_id :: session_id
  lr_caller :: host_id
  lr_action :: string
  lr_digest :: digest32
  lr_outcome :: ledger_outcome

text \<open>The tables.  \<open>st_journal_requests\<close> are the request identities of the journals outside this model
  (\<open>effect_journal\<close>, \<open>effect_journal_mutations\<close>, \<open>recovery_classifications\<close>,
  \<open>tool_invocation_mutations\<close>, \<open>approval_mutations\<close>, \<open>approval_effect_intents\<close>), \<open>st_event_limits\<close> the
  configured per-session and global limits of retained events.\<close>

record store =
  st_sessions :: "session_table_row list"
  st_manifests :: "manifest_row list"
  st_templates :: "template_row list"
  st_events :: "event_row list"
  st_ledger :: "ledger_row list"
  st_launches :: "launch_snapshot list"
  st_journal_requests :: "request_id list"
  st_event_limits :: "(nat \<times> nat) option"


section \<open>Transactions\<close>

text \<open>Inside a transaction the result of a committed operation is itself an error or a value.\<close>

type_synonym ('z, 'a) transaction = "('z store_scheme, store_error, store_error + 'a) io"

definition run_transaction ::
  "('z, 'a) transaction \<Rightarrow> 'z store_scheme \<Rightarrow> 'z store_scheme \<times> (store_error + 'a)" where
  "run_transaction body s =
    (case body s of (Inl e, _) \<Rightarrow> (s, Inl e) | (Inr r, s') \<Rightarrow> (s', r))"

definition io_get :: "('s \<Rightarrow> 'a) \<Rightarrow> ('s, 'e, 'a) io" where
  "io_get f s = (Inr (f s), s)"

definition io_modify :: "('s \<Rightarrow> 's) \<Rightarrow> ('s, 'e, unit) io" where
  "io_modify f s = (Inr (), f s)"

definition io_lift :: "'e + 'a \<Rightarrow> ('s, 'e, 'a) io" where
  "io_lift r s = (r, s)"


section \<open>Decoding\<close>

definition decode_timestamp :: "env \<Rightarrow> timestamp \<Rightarrow> store_error + timestamp" where
  "decode_timestamp en t =
    map_err (\<lambda>_. Corrupt) (timestamp_new (en_from_unix en) (unix_seconds t) (nanoseconds t))"

definition timestamp_before :: "env \<Rightarrow> timestamp \<Rightarrow> store_error + timestamp" where
  "timestamp_before en t =
    map_err (\<lambda>_. Corrupt)
      (if nanoseconds t > 0 then timestamp_new (en_from_unix en) (unix_seconds t) (nanoseconds t - 1)
       else timestamp_new (en_from_unix en) (unix_seconds t - 1) 999999999)"

definition decode_revision :: "u64 \<Rightarrow> store_error + revision" where
  "decode_revision v = map_err (\<lambda>_. Corrupt) (revision_new v)"

definition decode_epoch :: "u64 \<Rightarrow> store_error + fencing_epoch" where
  "decode_epoch v = map_err (\<lambda>_. Corrupt) (fencing_epoch_new v)"

text \<open>\<open>to_i64\<close> refuses values above \<open>i64::MAX\<close>.\<close>

definition to_i64 :: "u64 \<Rightarrow> store_error + u64" where
  "to_i64 v = (if v > 0x7FFFFFFFFFFFFFFF then Err Corrupt else Ok v)"

definition parse_id :: "uuid \<Rightarrow> store_error + uuid" where
  "parse_id v = map_err (\<lambda>_. Corrupt) (from_uuid v)"

record session_row =
  sv_snapshot :: session_snapshot
  sv_owner :: "ownership_lease option"
  sv_epoch_high_water :: u64
  sv_time_floor :: timestamp

definition decode_owner ::
  "env \<Rightarrow> session_id \<Rightarrow> session_table_row \<Rightarrow> store_error + ownership_lease option" where
  "decode_owner en sid r =
    (case sw_owner_host r of
       None \<Rightarrow> Ok None
     | Some host \<Rightarrow>
         and_then (ok_or StoreUnavailable (sw_owner_expires_at r)) (\<lambda>expires.
         and_then (parse_id host) (\<lambda>owner.
         and_then (ok_or StoreUnavailable (sw_owner_epoch r)) (\<lambda>stored.
         and_then (decode_epoch stored) (\<lambda>epoch.
         and_then (timestamp_before en expires) (\<lambda>issued.
         and_then (decode_timestamp en expires) (\<lambda>expires_at.
         and_then (map_err (\<lambda>_. Corrupt) (ownership_lease_new sid owner epoch issued expires_at)) (\<lambda>lease.
         Ok (Some lease)))))))))"

definition decode_session :: "env \<Rightarrow> session_table_row \<Rightarrow> store_error + session_row" where
  "decode_session en r =
    and_then (parse_id (sw_session_id r)) (\<lambda>sid.
    and_then (map_err (\<lambda>_. Corrupt) (consumer_key_new (sw_public_consumer_key r))) (\<lambda>key.
    and_then (decode_revision (sw_revision r)) (\<lambda>revno.
    and_then (decode_timestamp en (sw_created_at r)) (\<lambda>created_at.
    and_then (decode_timestamp en (sw_updated_at r)) (\<lambda>updated_at.
    and_then (map_err (\<lambda>_. Corrupt)
      (session_snapshot_new sid key (sw_compatibility r) (if sw_closed r then Closed else Open)
         revno created_at updated_at)) (\<lambda>snapshot.
    and_then (decode_owner en sid r) (\<lambda>owner.
    if (case owner of None \<Rightarrow> False | Some lease \<Rightarrow> ol_epoch lease > sw_epoch_high_water r)
    then Err Corrupt
    else and_then (decode_timestamp en (sw_time_floor r)) (\<lambda>floor.
    Ok \<lparr>sv_snapshot = snapshot, sv_owner = owner, sv_epoch_high_water = sw_epoch_high_water r,
        sv_time_floor = floor\<rparr>))))))))"

text \<open>\<open>load_session_in\<close> and \<open>load_session_from_pool\<close>.\<close>

definition load_session_in ::
  "env \<Rightarrow> 'z store_scheme \<Rightarrow> session_id \<Rightarrow> store_error + session_row option" where
  "load_session_in en s sid =
    (case find_row sw_session_id sid (st_sessions s) of
       None \<Rightarrow> Ok None
     | Some r \<Rightarrow> and_then (decode_session en r) (\<lambda>v. Ok (Some v)))"

definition require_open_session ::
  "env \<Rightarrow> 'z store_scheme \<Rightarrow> session_id \<Rightarrow> store_action \<Rightarrow> store_error + session_row" where
  "require_open_session en s sid action =
    and_then (load_session_in en s sid) (\<lambda>found.
    and_then (ok_or (SessionNotFound sid) found) (\<lambda>row.
    if ss_status (sv_snapshot row) = Closed
    then Err (if action = CloseSession then SessionAlreadyClosed sid else SessionClosed sid)
    else Ok row))"

definition ownership_snapshot_of :: "ownership_lease \<Rightarrow> ownership_snapshot" where
  "ownership_snapshot_of lease = Owned (ol_owner lease) (ol_epoch lease) (ol_expires_at lease)"

definition require_owner ::
  "session_row \<Rightarrow> host_id \<Rightarrow> fencing_epoch \<Rightarrow> timestamp \<Rightarrow> store_error + unit" where
  "require_owner row caller attempted observed_at =
    (case sv_owner row of
       None \<Rightarrow> Err (StaleOwnership (ss_id (sv_snapshot row)) attempted None)
     | Some owner \<Rightarrow>
         if ol_epoch owner \<noteq> attempted \<or> ol_owner owner \<noteq> caller
         then Err (StaleOwnership (ss_id (sv_snapshot row)) attempted (Some (ol_epoch owner)))
         else if \<not> is_effective_at owner observed_at
         then Err (OwnershipExpired (ss_id (sv_snapshot row)) attempted)
         else Ok ())"

text \<open>\<open>UPDATE sessions SET \<dots> WHERE session_id = ?\<close> and the further conditions of the statement:
  the updated table and the number of rows affected.\<close>

definition update_session ::
  "session_id \<Rightarrow> (session_table_row \<Rightarrow> bool) \<Rightarrow> (session_table_row \<Rightarrow> session_table_row)
    \<Rightarrow> ('z store_scheme, store_error, nat) io" where
  "update_session sid cond f s =
    (let hit = (\<lambda>r. sw_session_id r = sid \<and> cond r)
     in (Inr (length (filter hit (st_sessions s))),
         s\<lparr>st_sessions := map (\<lambda>r. if hit r then f r else r) (st_sessions s)\<rparr>))"

definition require_one_row :: "nat \<Rightarrow> store_error + unit" where
  "require_one_row n = (if n \<noteq> 1 then Err Corrupt else Ok ())"

definition advance_time_floor ::
  "session_id \<Rightarrow> timestamp \<Rightarrow> timestamp \<Rightarrow> ('z store_scheme, store_error, timestamp) io" where
  "advance_time_floor sid persisted observed =
    (let effective = max persisted observed
     in io_bind (update_session sid (\<lambda>_. True) (\<lambda>r. r\<lparr>sw_time_floor := effective\<rparr>))
          (\<lambda>_. io_return effective))"


section \<open>The event log\<close>

text \<open>The event identity: the first 16 bytes of the digest of the request and the event type, with the
  version and variant bits of a random \<open>Uuid\<close>.\<close>

unbundle bit_operations_syntax

definition event_identity :: "env \<Rightarrow> request_id \<Rightarrow> string \<Rightarrow> uuid" where
  "event_identity en rid event_type =
    (let digest = semantic_digest_v1 (en_sha256 en) ''event.identity.v1''
           (be_bytes 16 (unat rid) @ str_bytes event_type);
         prefix = (ucast (drop_bit 128 digest) :: uuid)
     in ((prefix AND NOT (push_bit 76 0xF)) OR push_bit 76 0x4) AND NOT (push_bit 62 0x3)
        OR push_bit 62 0x2)"

definition session_events :: "'z store_scheme \<Rightarrow> session_id \<Rightarrow> event_row list" where
  "session_events s sid = filter (\<lambda>e. ew_session_id e = sid) (st_events s)"

text \<open>\<open>ORDER BY position DESC LIMIT 1\<close>.\<close>

definition last_event :: "event_row list \<Rightarrow> event_row option" where
  "last_event es =
    (case es of [] \<Rightarrow> None | e # es' \<Rightarrow>
       Some (fold (\<lambda>x best. if ew_position best < ew_position x then x else best) es' e))"

definition append_event_data ::
  "env \<Rightarrow> request_id \<Rightarrow> session_id \<Rightarrow> revision \<Rightarrow> string \<Rightarrow> bytes \<Rightarrow> timestamp
    \<Rightarrow> ('z store_scheme, store_error, unit) io" where
  "append_event_data en rid sid revno event_type data occurred_at =
    io_bind (\<lambda>s. io_lift (ok_or Corrupt (st_event_limits s)) s) (\<lambda>limits.
    io_bind (io_get (\<lambda>s. (session_events s sid, length (st_events s)))) (\<lambda>(used, global_used).
    if length used \<ge> fst limits then io_fail (CapacityExceeded (SessionLimit RetainedEvents))
    else if global_used \<ge> snd limits then io_fail (CapacityExceeded (GlobalLimit RetainedEvents))
    else
      io_bind (io_lift (case last_event used of
          None \<Rightarrow> Ok None
        | Some e \<Rightarrow> and_then (decode_timestamp en (ew_occurred_at e)) (\<lambda>t. Ok (Some t)))) (\<lambda>previous.
      let occurred = (case previous of None \<Rightarrow> occurred_at | Some t \<Rightarrow> max t occurred_at);
          position = (case last_event used of None \<Rightarrow> 1 | Some e \<Rightarrow> ew_position e + 1);
          event_id = event_identity en rid event_type
      in io_bind (io_lift (to_i64 revno)) (\<lambda>stored_revision.
         if list_ex (\<lambda>e. ew_event_id e = event_id) used then io_fail StoreUnavailable
         else io_modify (\<lambda>s. s\<lparr>st_events := st_events s @
           [\<lparr>ew_session_id = sid, ew_position = position, ew_event_id = event_id,
             ew_revision = stored_revision, ew_event_type = event_type, ew_schema_version = 1,
             ew_related_request_id = Some rid, ew_data = data, ew_occurred_at = occurred\<rparr>]\<rparr>)))))"

text \<open>\<open>append_event\<close> writes the empty JSON object.\<close>

definition append_event ::
  "env \<Rightarrow> request_id \<Rightarrow> session_id \<Rightarrow> revision \<Rightarrow> string \<Rightarrow> timestamp
    \<Rightarrow> ('z store_scheme, store_error, unit) io" where
  "append_event en rid sid revno event_type occurred_at =
    append_event_data en rid sid revno event_type (str_bytes ''{}'') occurred_at"


section \<open>The request ledger\<close>

text \<open>A request as the ledger sees it.\<close>

record ledger_request =
  lq_context :: request_context
  lq_action :: store_action
  lq_digest :: digest32

definition request_of :: "env \<Rightarrow> command \<Rightarrow> ledger_request" where
  "request_of en c =
    \<lparr>lq_context = command_context c, lq_action = command_action c,
     lq_digest = command_digest (en_sha256 en) c\<rparr>"

definition replay_bytes ::
  "'z store_scheme \<Rightarrow> ledger_request \<Rightarrow> store_error + ledger_value option" where
  "replay_bytes s q =
    (let rid = rc_request_id (lq_context q)
     in case find_row lr_request_id rid (st_ledger s) of
          None \<Rightarrow> if rid \<in> set (st_journal_requests s) then Err (RequestConflict rid) else Ok None
        | Some row \<Rightarrow>
            if lr_caller row \<noteq> rc_caller (lq_context q)
               \<or> lr_action row \<noteq> store_action_as_str (lq_action q) \<or> lr_digest row \<noteq> lq_digest q
            then Err (RequestConflict rid)
            else (case lr_outcome row of
                LedgerFailed wire \<Rightarrow> Err (failure_from_wire wire)
              | LedgerSucceeded _ result \<Rightarrow> Ok (Some result)))"

definition insert_ledger ::
  "session_id \<Rightarrow> ledger_request \<Rightarrow> ledger_outcome \<Rightarrow> ('z store_scheme, store_error, unit) io" where
  "insert_ledger sid q outcome s =
    (if find_row lr_request_id (rc_request_id (lq_context q)) (st_ledger s) \<noteq> None
     then (Inl StoreUnavailable, s)
     else (Inr (), s\<lparr>st_ledger := st_ledger s @
       [\<lparr>lr_request_id = rc_request_id (lq_context q), lr_session_id = sid,
         lr_caller = rc_caller (lq_context q), lr_action = store_action_as_str (lq_action q),
         lr_digest = lq_digest q, lr_outcome = outcome\<rparr>]\<rparr>))"

text \<open>\<open>record_bytes\<close>, with \<open>record_json\<close> and \<open>record_json_with_effect\<close>.\<close>

definition record_bytes ::
  "session_id \<Rightarrow> ledger_request \<Rightarrow> stored_effect \<Rightarrow> ledger_value
    \<Rightarrow> ('z store_scheme, store_error, unit) io" where
  "record_bytes sid q effect result = insert_ledger sid q (LedgerSucceeded effect result)"

definition record_failure ::
  "session_id \<Rightarrow> ledger_request \<Rightarrow> store_error \<Rightarrow> ('z store_scheme, store_error, unit) io" where
  "record_failure sid q error = insert_ledger sid q (LedgerFailed (failure_to_wire error))"

definition finish_failure ::
  "session_id \<Rightarrow> ledger_request \<Rightarrow> store_error \<Rightarrow> ('z, 'a) transaction" where
  "finish_failure sid q error = io_bind (record_failure sid q error) (\<lambda>_. io_return (Err error))"

definition session_snapshot_deserialize :: "env \<Rightarrow> session_snapshot \<Rightarrow> store_error + session_snapshot" where
  "session_snapshot_deserialize en w =
    and_then (parse_id (ss_id w)) (\<lambda>sid.
    and_then (map_err (\<lambda>_. Corrupt) (consumer_key_new (ss_consumer_key w))) (\<lambda>key.
    and_then (decode_revision (ss_revision w)) (\<lambda>revno.
    and_then (decode_timestamp en (ss_created_at w)) (\<lambda>created_at.
    and_then (decode_timestamp en (ss_updated_at w)) (\<lambda>updated_at.
    map_err (\<lambda>_. Corrupt) (session_snapshot_new sid key (ss_compatibility w) (ss_status w) revno
      created_at updated_at))))))"

definition from_lease :: "ownership_lease \<Rightarrow> timestamp \<Rightarrow> lease_wire" where
  "from_lease lease issued_at =
    \<lparr>lw_session_id = ol_session_id lease, lw_owner = ol_owner lease, lw_epoch = ol_epoch lease,
     lw_issued_seconds = unix_seconds issued_at, lw_issued_nanos = nanoseconds issued_at,
     lw_expires_seconds = unix_seconds (ol_expires_at lease),
     lw_expires_nanos = nanoseconds (ol_expires_at lease)\<rparr>"

definition into_lease :: "env \<Rightarrow> lease_wire \<Rightarrow> store_error + ownership_lease" where
  "into_lease en w =
    and_then (parse_id (lw_session_id w)) (\<lambda>sid.
    and_then (parse_id (lw_owner w)) (\<lambda>owner.
    and_then (decode_epoch (lw_epoch w)) (\<lambda>epoch.
    and_then (decode_timestamp en (Timestamp (lw_issued_seconds w) (lw_issued_nanos w))) (\<lambda>issued.
    and_then (decode_timestamp en (Timestamp (lw_expires_seconds w) (lw_expires_nanos w))) (\<lambda>expires.
    map_err (\<lambda>_. Corrupt) (ownership_lease_new sid owner epoch issued expires))))))"

definition encode_lease :: "ownership_lease \<Rightarrow> timestamp \<Rightarrow> ledger_value" where
  "encode_lease lease issued_at = LeaseValue (from_lease lease issued_at)"

definition decode_lease :: "env \<Rightarrow> ledger_value \<Rightarrow> store_error + ownership_lease" where
  "decode_lease en v = (case v of LeaseValue w \<Rightarrow> into_lease en w | _ \<Rightarrow> Err Corrupt)"

definition decode_session_value :: "env \<Rightarrow> ledger_value \<Rightarrow> store_error + session_snapshot" where
  "decode_session_value en v =
    (case v of SessionValue w \<Rightarrow> session_snapshot_deserialize en w | _ \<Rightarrow> Err Corrupt)"


section \<open>Committed computations\<close>

text \<open>The equations of the collection \<open>commit_simps\<close> say when a computation succeeds and with which
  state, so that the committed runs of an operation are found by rewriting.\<close>

named_theorems commit_simps \<open>successful runs of transactions\<close>

lemma io_bind_commit [commit_simps]:
  "io_bind m f s = (Inr b, t) \<longleftrightarrow> (\<exists>a u. m s = (Inr a, u) \<and> f a u = (Inr b, t))"
  by (auto simp: io_bind_def split: prod.splits sum.splits)

lemma io_lift_commit [commit_simps]: "io_lift r s = (Inr a, t) \<longleftrightarrow> r = Inr a \<and> t = s"
  by (auto simp: io_lift_def)

lemma io_get_commit [commit_simps]: "io_get f s = (Inr a, t) \<longleftrightarrow> a = f s \<and> t = s"
  by (auto simp: io_get_def)

lemma io_modify_commit [commit_simps]: "io_modify f s = (Inr a, t) \<longleftrightarrow> t = f s"
  by (auto simp: io_modify_def)

lemma io_return_commit [commit_simps]: "io_return b s = (Inr a, t) \<longleftrightarrow> a = b \<and> t = s"
  by auto

lemma io_fail_commit [commit_simps]: "io_fail e s = (Inr a, t) \<longleftrightarrow> False"
  by simp

lemma run_transaction_cases:
  assumes "run_transaction m s = (t, r)"
  obtains (rolled_back) e where "t = s" "r = Inl e" "fst (m s) = Inl e"
    | (committed) "m s = (Inr r, t)"
  using assms by (auto simp: run_transaction_def split: prod.splits sum.splits)

lemma run_transaction_committed: "m s = (Inr r, t) \<Longrightarrow> run_transaction m s = (t, r)"
  by (simp add: run_transaction_def)

lemma run_transaction_rolled_back: "fst (m s) = Inl e \<Longrightarrow> run_transaction m s = (s, Inl e)"
  by (cases "m s") (simp add: run_transaction_def)

text \<open>The state changes the operations are made of.\<close>

definition set_session ::
  "session_id \<Rightarrow> (session_table_row \<Rightarrow> session_table_row) \<Rightarrow> 'z store_scheme \<Rightarrow> 'z store_scheme" where
  "set_session sid f s =
    s\<lparr>st_sessions := map (\<lambda>r. if sw_session_id r = sid then f r else r) (st_sessions s)\<rparr>"

definition add_ledger :: "ledger_row \<Rightarrow> 'z store_scheme \<Rightarrow> 'z store_scheme" where
  "add_ledger row s = s\<lparr>st_ledger := st_ledger s @ [row]\<rparr>"

definition add_event :: "event_row \<Rightarrow> 'z store_scheme \<Rightarrow> 'z store_scheme" where
  "add_event e s = s\<lparr>st_events := st_events s @ [e]\<rparr>"

definition ledger_entry :: "session_id \<Rightarrow> ledger_request \<Rightarrow> ledger_outcome \<Rightarrow> ledger_row" where
  "ledger_entry sid q outcome =
    \<lparr>lr_request_id = rc_request_id (lq_context q), lr_session_id = sid,
     lr_caller = rc_caller (lq_context q), lr_action = store_action_as_str (lq_action q),
     lr_digest = lq_digest q, lr_outcome = outcome\<rparr>"

definition fresh_request :: "'z store_scheme \<Rightarrow> request_id \<Rightarrow> bool" where
  "fresh_request s rid \<longleftrightarrow> find_row lr_request_id rid (st_ledger s) = None"

lemma ledger_entry_simps [simp]:
  "lr_request_id (ledger_entry sid q oc) = rc_request_id (lq_context q)"
  "lr_session_id (ledger_entry sid q oc) = sid"
  "lr_outcome (ledger_entry sid q oc) = oc"
  "lr_caller (ledger_entry sid q oc) = rc_caller (lq_context q)"
  "lr_action (ledger_entry sid q oc) = store_action_as_str (lq_action q)"
  "lr_digest (ledger_entry sid q oc) = lq_digest q"
  by (simp_all add: ledger_entry_def)

lemma state_change_tables [simp]:
  "st_sessions (add_ledger w s) = st_sessions s" "st_sessions (add_event e s) = st_sessions s"
  "st_ledger (add_event e s) = st_ledger s" "st_ledger (set_session sid f s) = st_ledger s"
  "st_events (add_ledger w s) = st_events s" "st_events (set_session sid f s) = st_events s"
  "st_manifests (add_ledger w s) = st_manifests s" "st_manifests (add_event e s) = st_manifests s"
  "st_manifests (set_session sid f s) = st_manifests s"
  "st_templates (add_ledger w s) = st_templates s" "st_templates (add_event e s) = st_templates s"
  "st_templates (set_session sid f s) = st_templates s"
  "st_journal_requests (add_ledger w s) = st_journal_requests s"
  "st_journal_requests (add_event e s) = st_journal_requests s"
  "st_journal_requests (set_session sid f s) = st_journal_requests s"
  "st_event_limits (add_ledger w s) = st_event_limits s"
  "st_event_limits (add_event e s) = st_event_limits s"
  "st_event_limits (set_session sid f s) = st_event_limits s"
  "st_ledger (add_ledger w s) = st_ledger s @ [w]"
  "st_events (add_event e s) = st_events s @ [e]"
  "st_sessions (set_session sid f s) =
    map (\<lambda>r. if sw_session_id r = sid then f r else r) (st_sessions s)"
  by (simp_all add: add_ledger_def add_event_def set_session_def)

lemma fresh_request_simps [simp]:
  "fresh_request (add_event e s) rid = fresh_request s rid"
  "fresh_request (set_session sid f s) rid = fresh_request s rid"
  by (simp_all add: fresh_request_def)

lemma insert_ledger_commit [commit_simps]:
  "insert_ledger sid q oc s = (Inr a, t) \<longleftrightarrow>
    fresh_request s (rc_request_id (lq_context q)) \<and> t = add_ledger (ledger_entry sid q oc) s"
  by (auto simp: insert_ledger_def add_ledger_def ledger_entry_def fresh_request_def)

lemma record_bytes_commit [commit_simps]:
  "record_bytes sid q eff v s = (Inr a, t) \<longleftrightarrow>
    fresh_request s (rc_request_id (lq_context q))
    \<and> t = add_ledger (ledger_entry sid q (LedgerSucceeded eff v)) s"
  by (simp add: record_bytes_def commit_simps)

lemma finish_failure_commit [commit_simps]:
  "finish_failure sid q e s = (Inr r, t) \<longleftrightarrow>
    r = Inl e \<and> fresh_request s (rc_request_id (lq_context q))
    \<and> t = add_ledger (ledger_entry sid q (LedgerFailed (failure_to_wire e))) s"
  by (auto simp: finish_failure_def record_failure_def commit_simps)


section \<open>Session rows\<close>

definition sessions_distinct :: "'z store_scheme \<Rightarrow> bool" where
  "sessions_distinct s \<longleftrightarrow> distinct (map sw_session_id (st_sessions s))"

abbreviation session_of :: "'z store_scheme \<Rightarrow> session_id \<Rightarrow> session_table_row option" where
  "session_of s sid \<equiv> find_row sw_session_id sid (st_sessions s)"

lemma find_row_map_other:
  assumes "\<And>r. key (f r) = key r"
  shows "find_row key k (map (\<lambda>r. if key r = j then f r else r) rs) =
    (if k = j then map_option f (find_row key k rs) else find_row key k rs)"
  using assms by (induction rs) auto

lemma session_of_set_session:
  assumes "\<And>r. sw_session_id (f r) = sw_session_id r"
  shows "session_of (set_session sid f s) i =
    (if i = sid then map_option f (session_of s i) else session_of s i)"
  using find_row_map_other [of sw_session_id f] assms by simp

lemma set_session_compose:
  "(\<And>r. sw_session_id (f r) = sw_session_id r) \<Longrightarrow>
   set_session sid g (set_session sid f s) = set_session sid (\<lambda>r. g (f r)) s"
  by (simp add: set_session_def comp_def) 

lemma sessions_distinct_set_session [simp]:
  assumes "\<And>r. sw_session_id (f r) = sw_session_id r"
  shows "sessions_distinct (set_session sid f s) = sessions_distinct s"
proof -
  have "map sw_session_id (st_sessions (set_session sid f s)) = map sw_session_id (st_sessions s)"
    using assms by simp
  then show ?thesis by (simp only: sessions_distinct_def)
qed

lemma distinct_find_row:
  "distinct (map key rs) \<Longrightarrow> r \<in> set rs \<Longrightarrow> find_row key (key r) rs = Some r"
  by (induction rs) auto

lemma update_session_commit [commit_simps]:
  "update_session sid cond f s = (Inr n, t) \<longleftrightarrow>
    n = length (filter (\<lambda>r. sw_session_id r = sid \<and> cond r) (st_sessions s))
    \<and> t = s\<lparr>st_sessions := map (\<lambda>r. if sw_session_id r = sid \<and> cond r then f r else r) (st_sessions s)\<rparr>"
  by (auto simp: update_session_def Let_def)

lemma require_one_row_commit [commit_simps]: "require_one_row n = Inr u \<longleftrightarrow> n = 1"
  by (simp add: require_one_row_def)

text \<open>An update that affected one row of a table without duplicates updated the row of the session.\<close>

lemma filter_one_session:
  assumes "sessions_distinct s"
    and "length (filter (\<lambda>r. sw_session_id r = sid \<and> cond r) (st_sessions s)) = 1"
  shows "\<exists>r. session_of s sid = Some r \<and> cond r
    \<and> s\<lparr>st_sessions := map (\<lambda>r. if sw_session_id r = sid \<and> cond r then f r else r) (st_sessions s)\<rparr>
      = set_session sid f s"
proof -
  obtain r where "filter (\<lambda>r. sw_session_id r = sid \<and> cond r) (st_sessions s) = [r]"
    using assms(2) by (auto simp: length_Suc_conv)
  then have r: "r \<in> set (st_sessions s)" "sw_session_id r = sid" "cond r"
    by (auto dest: filter_eq_ConsD arg_cong [where f = set])
  have found: "session_of s sid = Some r"
    using distinct_find_row [of sw_session_id "st_sessions s" r] assms(1) r(1,2)
    by (simp add: sessions_distinct_def)
  have unique: "q = r" if "q \<in> set (st_sessions s)" "sw_session_id q = sid" for q
    using distinct_find_row [of sw_session_id "st_sessions s" q] assms(1) that found
    by (simp add: sessions_distinct_def)
  have "map (\<lambda>r. if sw_session_id r = sid \<and> cond r then f r else r) (st_sessions s)
    = map (\<lambda>r. if sw_session_id r = sid then f r else r) (st_sessions s)"
    using unique r(3) by (intro map_cong) auto
  then show ?thesis using found r(3) by (auto simp: set_session_def)
qed

lemma advance_time_floor_commit [commit_simps]:
  "advance_time_floor sid p t s = (Inr now, u) \<longleftrightarrow>
    now = max p t \<and> u = set_session sid (\<lambda>r. r\<lparr>sw_time_floor := max p t\<rparr>) s"
  by (auto simp: advance_time_floor_def commit_simps Let_def set_session_def)


section \<open>Time\<close>

text \<open>The documented behaviour of the \<open>time\<close> crate: a date-time exists for the nanoseconds of a second
  in a range of years, and adding a duration gives the later date-time where it exists.\<close>

definition unix_range_law :: "(int \<Rightarrow> nat \<Rightarrow> offset_datetime option) \<Rightarrow> int \<Rightarrow> int \<Rightarrow> bool" where
  "unix_range_law f lo hi \<longleftrightarrow>
    (\<forall>s n. f s n = (if n < 1000000000 \<and> lo \<le> s \<and> s \<le> hi then Some (s * 1000000000 + int n) else None))"

definition valid_time :: "env \<Rightarrow> timestamp \<Rightarrow> bool" where
  "valid_time en t \<longleftrightarrow>
    nanoseconds t < 1000000000 \<and> en_from_unix en (unix_seconds t) (nanoseconds t) \<noteq> None"

definition env_laws :: "env \<Rightarrow> bool" where
  "env_laws en \<longleftrightarrow>
    (\<exists>lo hi. unix_range_law (en_from_unix en) lo hi)
    \<and> (\<forall>v ms w. en_add_millis en v ms = Some w \<longrightarrow>
         w = v + ms * 1000000 \<and> valid_time en (from_datetime w))"

lemma decode_timestamp_Ok [outcome_simps]:
  "decode_timestamp en t = Inr u \<longleftrightarrow> u = t \<and> valid_time en t"
  by (cases t) (auto simp: decode_timestamp_def timestamp_new_def valid_time_def split: option.splits)

lemma decode_timestamp_valid: "valid_time en t \<Longrightarrow> decode_timestamp en t = Inr t"
  by (simp add: decode_timestamp_Ok)

lemma decode_revision_Ok [outcome_simps]: "decode_revision v = Inr w \<longleftrightarrow> w = v \<and> v \<noteq> 0"
  by (auto simp: decode_revision_def revision_new_def)

lemma decode_epoch_Ok [outcome_simps]: "decode_epoch v = Inr w \<longleftrightarrow> w = v \<and> v \<noteq> 0"
  by (auto simp: decode_epoch_def fencing_epoch_new_def)

lemma parse_id_Ok [outcome_simps]: "parse_id v = Inr w \<longleftrightarrow> w = v \<and> v \<noteq> 0"
  by (simp add: parse_id_def outcome_simps)

lemma to_i64_Ok [outcome_simps]: "to_i64 v = Inr w \<longleftrightarrow> w = v \<and> v \<le> 0x7FFFFFFFFFFFFFFF"
  by (auto simp: to_i64_def)

lemma timestamp_before_less:
  "timestamp_before en t = Inr u \<Longrightarrow> u < t"
  by (cases t) (auto simp: timestamp_before_def timestamp_new_def split: if_splits option.splits)

lemma timestamp_before_valid:
  assumes "env_laws en" "valid_time en t" "valid_time en u" "u < t"
  shows "\<exists>w. timestamp_before en t = Inr w"
proof -
  obtain lo hi where f: "unix_range_law (en_from_unix en) lo hi"
    using assms(1) by (auto simp: env_laws_def)
  then show ?thesis
    using assms(2-4)
    by (cases t; cases u)
      (auto simp: timestamp_before_def timestamp_new_def valid_time_def unix_range_law_def)
qed

lemma to_datetime_valid:
  assumes "env_laws en" "valid_time en t"
  shows "to_datetime (en_from_unix en) t = Inr (unix_seconds t * 1000000000 + int (nanoseconds t))"
proof -
  obtain lo hi where "unix_range_law (en_from_unix en) lo hi"
    using assms(1) by (auto simp: env_laws_def)
  then show ?thesis
    using assms(2) by (auto simp: unix_range_law_def valid_time_def to_datetime_def split: if_splits)
qed

lemma valid_time_max: "valid_time en t \<Longrightarrow> valid_time en u \<Longrightarrow> valid_time en (max t u)"
  by (simp add: max_def)


section \<open>Decoding what was written\<close>

text \<open>The rows the decoding accepts.\<close>

definition row_wf :: "env \<Rightarrow> session_table_row \<Rightarrow> bool" where
  "row_wf en r \<longleftrightarrow>
    sw_session_id r \<noteq> 0 \<and> sw_public_consumer_key r \<noteq> [] \<and> length (sw_public_consumer_key r) \<le> 256
    \<and> sw_revision r \<noteq> 0 \<and> (sw_closed r \<longrightarrow> sw_revision r \<noteq> revision_initial)
    \<and> valid_time en (sw_created_at r) \<and> valid_time en (sw_updated_at r)
    \<and> valid_time en (sw_time_floor r)
    \<and> sw_created_at r \<le> sw_updated_at r \<and> sw_updated_at r \<le> sw_time_floor r
    \<and> (\<forall>e. sw_owner_epoch r = Some e \<longrightarrow> e \<noteq> 0 \<and> e = sw_epoch_high_water r)
    \<and> (case sw_owner_host r of
         None \<Rightarrow> sw_owner_expires_at r = None
       | Some h \<Rightarrow> h \<noteq> 0 \<and> sw_owner_epoch r \<noteq> None \<and> \<not> sw_closed r
           \<and> (\<exists>x u. sw_owner_expires_at r = Some x \<and> valid_time en x \<and> valid_time en u \<and> u < x))"

definition row_owner :: "session_table_row \<Rightarrow> ownership_lease option" where
  "row_owner r =
    map_option (\<lambda>h. \<lparr>ol_session_id = sw_session_id r, ol_owner = h,
      ol_epoch = the (sw_owner_epoch r), ol_expires_at = the (sw_owner_expires_at r)\<rparr>) (sw_owner_host r)"

definition row_snapshot :: "session_table_row \<Rightarrow> session_snapshot" where
  "row_snapshot r =
    \<lparr>ss_id = sw_session_id r, ss_consumer_key = sw_public_consumer_key r,
     ss_compatibility = sw_compatibility r, ss_status = (if sw_closed r then Closed else Open),
     ss_revision = sw_revision r, ss_created_at = sw_created_at r, ss_updated_at = sw_updated_at r\<rparr>"

definition row_view :: "session_table_row \<Rightarrow> session_row" where
  "row_view r =
    \<lparr>sv_snapshot = row_snapshot r, sv_owner = row_owner r,
     sv_epoch_high_water = sw_epoch_high_water r, sv_time_floor = sw_time_floor r\<rparr>"

lemma row_view_simps [simp]:
  "sv_snapshot (row_view r) = row_snapshot r" "sv_owner (row_view r) = row_owner r"
  "sv_epoch_high_water (row_view r) = sw_epoch_high_water r"
  "sv_time_floor (row_view r) = sw_time_floor r"
  by (simp_all add: row_view_def)

lemma row_snapshot_simps [simp]:
  "ss_id (row_snapshot r) = sw_session_id r"
  "ss_consumer_key (row_snapshot r) = sw_public_consumer_key r"
  "ss_compatibility (row_snapshot r) = sw_compatibility r"
  "ss_status (row_snapshot r) = (if sw_closed r then Closed else Open)"
  "ss_revision (row_snapshot r) = sw_revision r"
  "ss_created_at (row_snapshot r) = sw_created_at r"
  "ss_updated_at (row_snapshot r) = sw_updated_at r"
  by (simp_all add: row_snapshot_def)

lemma consumer_key_new_Ok [outcome_simps]:
  "consumer_key_new v = Inr w \<longleftrightarrow> w = v \<and> v \<noteq> [] \<and> length v \<le> 256"
  by (simp add: consumer_key_new_def outcome_simps)

lemma session_snapshot_new_Ok [outcome_simps]:
  "session_snapshot_new i k c st r t u = Inr s \<longleftrightarrow>
    t \<le> u \<and> \<not> (st = Closed \<and> r = revision_initial)
    \<and> s = \<lparr>ss_id = i, ss_consumer_key = k, ss_compatibility = c, ss_status = st, ss_revision = r,
           ss_created_at = t, ss_updated_at = u\<rparr>"
  by (auto simp: session_snapshot_new_def)

lemma decode_owner_row:
  assumes "decode_owner en (sw_session_id r) r = Inr w"
  shows "w = row_owner r"
  using assms
  by (cases "sw_owner_host r") (auto simp: decode_owner_def row_owner_def outcome_simps)

text \<open>Whatever a row decodes to is its view.\<close>

lemma decode_session_row: "decode_session en r = Inr v \<Longrightarrow> v = row_view r"
  by (auto simp: decode_session_def outcome_simps row_view_def row_snapshot_def
      dest!: decode_owner_row split: if_splits)

lemma decode_owner_wf:
  assumes "env_laws en" "row_wf en r"
  shows "decode_owner en (sw_session_id r) r = Inr (row_owner r)"
proof (cases "sw_owner_host r")
  case None
  then show ?thesis by (simp add: decode_owner_def row_owner_def)
next
  case (Some h)
  then obtain x u e where x: "sw_owner_expires_at r = Some x" "valid_time en x" "valid_time en u" "u < x"
    and e: "sw_owner_epoch r = Some e" "e \<noteq> 0" and h: "h \<noteq> 0"
    using assms(2) by (auto simp: row_wf_def)
  obtain w where w: "timestamp_before en x = Inr w"
    using timestamp_before_valid [OF assms(1) x(2-4)] by blast
  have "w < x" by (rule timestamp_before_less [OF w])
  then have "ownership_lease_new (sw_session_id r) h e w x = Inr (the (row_owner r))"
    using Some x(1) e(1) by (simp add: outcome_simps row_owner_def)
  moreover have "parse_id h = Inr h" "decode_epoch e = Inr e"
    using h e(2) by (simp_all add: outcome_simps)
  ultimately show ?thesis
    using Some x e(1) w
    by (simp add: decode_owner_def decode_timestamp_valid row_owner_def)
qed

lemma decode_session_wf:
  assumes "env_laws en" "row_wf en r"
  shows "decode_session en r = Inr (row_view r)"
proof -
  have "parse_id (sw_session_id r) = Inr (sw_session_id r)"
    "consumer_key_new (sw_public_consumer_key r) = Inr (sw_public_consumer_key r)"
    "decode_revision (sw_revision r) = Inr (sw_revision r)"
    using assms(2) by (simp_all add: row_wf_def outcome_simps)
  moreover have "session_snapshot_new (sw_session_id r) (sw_public_consumer_key r) (sw_compatibility r)
      (if sw_closed r then Closed else Open) (sw_revision r) (sw_created_at r) (sw_updated_at r)
    = Inr (row_snapshot r)"
    using assms(2) by (auto simp: row_wf_def outcome_simps row_snapshot_def)
  moreover have "\<not> (case row_owner r of None \<Rightarrow> False | Some lease \<Rightarrow> ol_epoch lease > sw_epoch_high_water r)"
    using assms(2) by (cases "sw_owner_host r") (auto simp: row_wf_def row_owner_def not_less)
  ultimately show ?thesis
    using assms decode_owner_wf [OF assms]
    by (simp add: decode_session_def decode_timestamp_valid row_wf_def row_view_def)
qed


section \<open>Appending events\<close>

text \<open>A session's log in insertion order: positions count from one, times do not decrease, identities
  do not repeat.\<close>

definition event_log_wf :: "event_row list \<Rightarrow> bool" where
  "event_log_wf es \<longleftrightarrow>
    map ew_position es = [1..<Suc (length es)] \<and> sorted (map ew_occurred_at es)
    \<and> distinct (map ew_event_id es)"

definition event_after :: "event_row list \<Rightarrow> timestamp \<Rightarrow> event_row \<Rightarrow> bool" where
  "event_after used at e \<longleftrightarrow>
    ew_position e = (case last_event used of None \<Rightarrow> 1 | Some l \<Rightarrow> ew_position l + 1)
    \<and> ew_occurred_at e = (case last_event used of None \<Rightarrow> at | Some l \<Rightarrow> max (ew_occurred_at l) at)
    \<and> ew_event_id e \<notin> ew_event_id ` set used"

lemma append_event_data_commit:
  assumes "append_event_data en rid sid revno ty data at s = (Inr u, t)"
  shows "\<exists>e. t = add_event e s \<and> event_after (session_events s sid) at e \<and> ew_session_id e = sid
    \<and> ew_revision e = revno \<and> ew_event_type e = ty \<and> ew_related_request_id e = Some rid
    \<and> ew_data e = data \<and> ew_schema_version e = 1 \<and> revno \<le> 0x7FFFFFFFFFFFFFFF"
proof -
  let ?e = "\<lparr>ew_session_id = sid,
     ew_position = (case last_event (session_events s sid) of None \<Rightarrow> 1 | Some l \<Rightarrow> ew_position l + 1),
     ew_event_id = event_identity en rid ty, ew_revision = revno, ew_event_type = ty,
     ew_schema_version = 1, ew_related_request_id = Some rid, ew_data = data,
     ew_occurred_at = (case last_event (session_events s sid) of None \<Rightarrow> at
       | Some l \<Rightarrow> max (ew_occurred_at l) at)\<rparr>"
  have "t = add_event ?e s \<and> event_identity en rid ty \<notin> ew_event_id ` set (session_events s sid)
      \<and> revno \<le> 0x7FFFFFFFFFFFFFFF"
    using assms
    by (auto simp: append_event_data_def commit_simps outcome_simps Let_def add_event_def
        list_ex_iff image_iff split: if_splits option.splits)
  then show ?thesis by (intro exI [of _ ?e]) (simp add: event_after_def)
qed

lemma fold_last_position:
  assumes "\<forall>x \<in> set es. ew_position b < ew_position x" "sorted_wrt (<) (map ew_position es)"
  shows "fold (\<lambda>x best. if ew_position best < ew_position x then x else best) es b = last (b # es)"
  using assms by (induction es arbitrary: b) auto

lemma last_event_wf:
  assumes "map ew_position es = [k..<k + length es]" "es \<noteq> []"
  shows "last_event es = Some (last es)"
proof -
  obtain e es' where es: "es = e # es'" using assms(2) by (cases es) auto
  have "sorted_wrt (<) (map ew_position es)"
    using assms(1) by (simp only: sorted_wrt_upt)
  then show ?thesis using fold_last_position [of es' e] by (simp add: last_event_def es)
qed

lemma event_log_wf_append:
  assumes "event_log_wf es" "event_after es at e"
  shows "event_log_wf (es @ [e])"
proof (cases "es = []")
  case True
  then show ?thesis using assms by (simp add: event_log_wf_def event_after_def last_event_def)
next
  case False
  have last: "last_event es = Some (last es)"
    using assms(1) False last_event_wf [of es 1] by (simp add: event_log_wf_def)
  have "ew_position (last es) = last (map ew_position es)" using False by (simp add: last_map)
  also have "\<dots> = length es" using assms(1) False by (cases es) (simp_all add: event_log_wf_def)
  finally have "ew_position (last es) = length es" .
  moreover have "ew_occurred_at x \<le> ew_occurred_at (last es)" if "x \<in> set es" for x
  proof -
    have "sorted (map ew_occurred_at (butlast es @ [last es]))"
      using assms(1) False by (simp add: event_log_wf_def)
    moreover have "x \<in> set (butlast es @ [last es])" using that False by simp
    ultimately show ?thesis by (auto simp: sorted_append)
  qed
  ultimately show ?thesis
    using assms last by (auto simp: event_log_wf_def event_after_def sorted_append le_max_iff_disj)
qed

lemma event_after_occurred:
  assumes "event_after es at e" "event_log_wf es" "\<forall>x \<in> set es. ew_occurred_at x \<le> at"
  shows "ew_occurred_at e = at"
proof (cases "es = []")
  case True
  then show ?thesis using assms(1) by (simp add: event_after_def last_event_def)
next
  case False
  then have "last_event es = Some (last es)"
    using assms(2) last_event_wf [of es 1] by (simp add: event_log_wf_def)
  then show ?thesis using assms(1,3) False by (auto simp: event_after_def max_absorb2)
qed


section \<open>Replay\<close>

lemma failure_wire_roundtrip [simp]: "failure_from_wire (failure_to_wire e) = e"
  by (cases e) simp_all

lemma failure_wire_inverse [simp]: "failure_to_wire (failure_from_wire w) = w"
  by (cases w) simp_all

text \<open>The ledger's answer to a request whose entry it holds.\<close>

definition ledger_answer :: "ledger_outcome \<Rightarrow> store_error + ledger_value option" where
  "ledger_answer oc =
    (case oc of LedgerFailed w \<Rightarrow> Inl (failure_from_wire w) | LedgerSucceeded _ v \<Rightarrow> Inr (Some v))"

lemma replay_bytes_entry:
  assumes "find_row lr_request_id (rc_request_id (lq_context q)) (st_ledger s) = Some (ledger_entry sid q oc)"
  shows "replay_bytes s q = ledger_answer oc"
  using assms by (auto simp: replay_bytes_def ledger_answer_def Let_def split: ledger_outcome.splits)

lemma replay_bytes_None:
  "replay_bytes s q = Inr None \<Longrightarrow> fresh_request s (rc_request_id (lq_context q))"
  by (auto simp: replay_bytes_def fresh_request_def Let_def split: option.splits if_splits ledger_outcome.splits)

lemma replay_bytes_conflict:
  assumes "find_row lr_request_id (rc_request_id (lq_context q)) (st_ledger s) = Some row"
    and "lr_caller row \<noteq> rc_caller (lq_context q)
      \<or> lr_action row \<noteq> store_action_as_str (lq_action q) \<or> lr_digest row \<noteq> lq_digest q"
  shows "replay_bytes s q = Inl (RequestConflict (rc_request_id (lq_context q)))"
  using assms by (auto simp: replay_bytes_def Let_def)

lemma session_snapshot_roundtrip:
  assumes "session_snapshot_deserialize en w = Inr v"
  shows "v = w"
  using assms by (cases w) (auto simp: session_snapshot_deserialize_def outcome_simps)

lemma row_snapshot_deserialize:
  assumes "row_wf en r"
  shows "session_snapshot_deserialize en (row_snapshot r) = Inr (row_snapshot r)"
proof -
  have "parse_id (sw_session_id r) = Inr (sw_session_id r)"
    "consumer_key_new (sw_public_consumer_key r) = Inr (sw_public_consumer_key r)"
    "decode_revision (sw_revision r) = Inr (sw_revision r)"
    using assms by (simp_all add: row_wf_def outcome_simps)
  moreover have "session_snapshot_new (sw_session_id r) (sw_public_consumer_key r) (sw_compatibility r)
      (if sw_closed r then Closed else Open) (sw_revision r) (sw_created_at r) (sw_updated_at r)
    = Inr (row_snapshot r)"
    using assms by (auto simp: row_wf_def outcome_simps row_snapshot_def)
  ultimately show ?thesis
    using assms by (simp add: session_snapshot_deserialize_def decode_timestamp_valid row_wf_def)
qed

lemma lease_wire_roundtrip:
  assumes "valid_time en at" "valid_time en (ol_expires_at lease)" "at < ol_expires_at lease"
    and "ol_session_id lease \<noteq> 0" "ol_owner lease \<noteq> 0" "ol_epoch lease \<noteq> 0"
  shows "into_lease en (from_lease lease at) = Inr lease"
proof -
  have "parse_id (ol_session_id lease) = Inr (ol_session_id lease)"
    "parse_id (ol_owner lease) = Inr (ol_owner lease)"
    "decode_epoch (ol_epoch lease) = Inr (ol_epoch lease)"
    using assms(4-6) by (simp_all add: outcome_simps)
  moreover have "ownership_lease_new (ol_session_id lease) (ol_owner lease) (ol_epoch lease) at
      (ol_expires_at lease) = Inr lease"
    using assms(3) by (simp add: outcome_simps)
  ultimately show ?thesis
    using assms(1,2) by (simp add: into_lease_def from_lease_def decode_timestamp_valid)
qed


section \<open>Sequencing\<close>

text \<open>The collection \<open>bind_simps\<close> runs one primitive of a committed sequence at a time.\<close>

named_theorems bind_simps \<open>committed sequences by their first primitive\<close>

lemma bind_lift [bind_simps]:
  "io_bind (io_lift r) k s = (Inr b, t) \<longleftrightarrow> (\<exists>a. r = Inr a \<and> k a s = (Inr b, t))"
  "io_bind (\<lambda>s. io_lift (g s) s) k s = (Inr b, t) \<longleftrightarrow> (\<exists>a. g s = Inr a \<and> k a s = (Inr b, t))"
  by (auto simp: commit_simps)

lemma bind_record [bind_simps]:
  "io_bind (record_bytes sid q eff v) k s = (Inr b, t) \<longleftrightarrow>
    fresh_request s (rc_request_id (lq_context q))
    \<and> k () (add_ledger (ledger_entry sid q (LedgerSucceeded eff v)) s) = (Inr b, t)"
  by (auto simp: commit_simps)

lemma bind_update_one:
  assumes "io_bind (update_session sid cond f) (\<lambda>n. io_bind (io_lift (require_one_row n)) k) s = (Inr b, t)"
    and "sessions_distinct s"
  shows "\<exists>r. session_of s sid = Some r \<and> cond r \<and> k () (set_session sid f s) = (Inr b, t)"
  using assms(1) filter_one_session [OF assms(2), of sid cond f] by (auto simp: commit_simps)

lemma bind_append:
  assumes "io_bind (append_event_data en rid sid revno ty data at) k s = (Inr b, t)"
  shows "\<exists>e. event_after (session_events s sid) at e \<and> ew_session_id e = sid \<and> ew_revision e = revno
    \<and> ew_event_type e = ty \<and> ew_related_request_id e = Some rid \<and> ew_data e = data
    \<and> k () (add_event e s) = (Inr b, t)"
  using assms by (auto simp: commit_simps dest!: append_event_data_commit)

lemmas bind_append_empty = bind_append [of en rid sid revno ty "str_bytes ''{}''" at, folded append_event_def] for en rid sid revno ty at

end
