(* ===== verification/Session_Store.thy ===== *)
theory Session_Store
  imports Store_State
begin

text \<open>
  The session operations of the SQLite store (\<open>impl SessionStore for SqliteStore\<close> in
  \<open>crates/navigator-store-sqlite/src/store.rs\<close>): opening and closing sessions, acquiring, renewing and
  releasing ownership, and the reads.  Each operation takes the environment, the observed time
  (\<open>self.now()\<close>) and its command, and is one transaction.
\<close>

text \<open>\<open>match r { Ok(v) => \<dots>, Err(error) => return Err(finish_failure(\<dots>)) }\<close>.\<close>

definition or_fail ::
  "session_id \<Rightarrow> ledger_request \<Rightarrow> store_error + 'b \<Rightarrow> ('b \<Rightarrow> ('z, 'a) transaction) \<Rightarrow> ('z, 'a) transaction" where
  "or_fail sid q r k = (case r of Inl e \<Rightarrow> finish_failure sid q e | Inr v \<Rightarrow> k v)"

text \<open>\<open>Ok(Mutation::\<dots>)\<close> after the commit.\<close>

definition finish_with :: "'a \<Rightarrow> ('z, 'a) transaction" where
  "finish_with v = io_return (Ok v)"


section \<open>Opening a session\<close>

definition timestamp_json :: "timestamp \<Rightarrow> json" where
  "timestamp_json t =
    JObject [(''nanoseconds'', JNumber (IntNumber (int (nanoseconds t)))),
             (''unix_seconds'', JNumber (IntNumber (unix_seconds t)))]"

definition session_event_payload :: "env \<Rightarrow> session_snapshot \<Rightarrow> bytes" where
  "session_event_payload en s =
    en_print en (JObject
      [(''created_at'', timestamp_json (ss_created_at s)),
       (''revision'', JNumber (IntNumber (uint (ss_revision s)))),
       (''schema_version'', JNumber (IntNumber 1)),
       (''session_id'', JString (en_uuid_string en (ss_id s))),
       (''status'', JString (case ss_status s of Open \<Rightarrow> ''open'' | Closed \<Rightarrow> ''closed'')),
       (''updated_at'', timestamp_json (ss_updated_at s))])"

definition validate_open_replay :: "session_snapshot \<Rightarrow> open_session_cmd \<Rightarrow> store_error + unit" where
  "validate_open_replay snapshot c =
    (if ss_id snapshot \<noteq> os_session_id c \<or> ss_consumer_key snapshot \<noteq> os_consumer_key c
        \<or> ss_compatibility snapshot \<noteq> os_compatibility c
     then Err Corrupt else Ok ())"

definition manifest_conflict :: "open_session_cmd \<Rightarrow> store_error" where
  "manifest_conflict c =
    CompatibilityConflict (os_session_id c) (os_compatibility c) (os_compatibility c)"

fun compare_bindings :: "open_session_cmd \<Rightarrow> manifest_row list \<Rightarrow> template_binding list \<Rightarrow> store_error + unit" where
  "compare_bindings c (row # rows) (expected # rest) =
    and_then (parse_id (mw_template_id row)) (\<lambda>template_id.
    if template_id \<noteq> tb_template_id expected \<or> mw_compatibility row \<noteq> tb_compatibility expected
    then Err (manifest_conflict c)
    else compare_bindings c rows rest)"
| "compare_bindings c _ _ = Ok ()"

definition validate_session_manifest_in ::
  "'z store_scheme \<Rightarrow> open_session_cmd \<Rightarrow> store_error + unit" where
  "validate_session_manifest_in s c =
    (case find_row sw_session_id (os_session_id c) (st_sessions s) of
       None \<Rightarrow> Err StoreUnavailable
     | Some r \<Rightarrow>
         (case os_manifest c of
            None \<Rightarrow> if \<not> sw_manifest_complete r then Ok () else Err (manifest_conflict c)
          | Some manifest \<Rightarrow>
              if sw_manifest_complete r then
                let rows = sort_key mw_template_id
                      (filter (\<lambda>w. mw_session_id w = os_session_id c) (st_manifests s))
                in if length rows \<noteq> length (sm_templates manifest) then Err (manifest_conflict c)
                   else compare_bindings c rows (sm_templates manifest)
              else Err (manifest_conflict c)))"

definition load_template_in ::
  "env \<Rightarrow> 'z store_scheme \<Rightarrow> template_id \<Rightarrow> store_error + template_record option" where
  "load_template_in en s tid =
    (case find_row tw_template_id tid (st_templates s) of
       None \<Rightarrow> Ok None
     | Some row \<Rightarrow>
         and_then (parse_id (tw_template_id row)) (\<lambda>identity.
         and_then (map_err (\<lambda>_. Corrupt)
           (into_template (en_sha256 en) (en_encode_template en) (tw_registration row))) (\<lambda>record.
         if tp_identity record \<noteq> identity \<or> tp_compatibility record \<noteq> tw_compatibility row
            \<or> \<not> is_ok (template_try_from (en_sha256 en) (en_encode_template en) record)
         then Err Corrupt else Ok (Some record))))"

fun bindings_registered ::
  "env \<Rightarrow> 'z store_scheme \<Rightarrow> template_binding list \<Rightarrow> store_error + bool" where
  "bindings_registered en s [] = Ok True"
| "bindings_registered en s (b # bs) =
    and_then (load_template_in en s (tb_template_id b)) (\<lambda>found.
    case found of
      Some record \<Rightarrow>
        if tp_compatibility record = tb_compatibility b then bindings_registered en s bs else Ok False
    | None \<Rightarrow> Ok False)"

definition new_session_manifest_is_registered ::
  "env \<Rightarrow> 'z store_scheme \<Rightarrow> open_session_cmd \<Rightarrow> store_error + bool" where
  "new_session_manifest_is_registered en s c =
    (case os_manifest c of None \<Rightarrow> Ok True | Some m \<Rightarrow> bindings_registered en s (sm_templates m))"

definition insert_session_row ::
  "env \<Rightarrow> open_session_cmd \<Rightarrow> timestamp \<Rightarrow> ('z store_scheme, store_error, unit) io" where
  "insert_session_row en c now s =
    (let occupied = list_ex (\<lambda>r. sw_consumer_key r = os_consumer_key c) (st_sessions s);
         storage_key = (if \<not> occupied then os_consumer_key c
                        else ''session:'' @ en_uuid_string en (os_session_id c))
     in if list_ex (\<lambda>r. sw_session_id r = os_session_id c \<or> sw_consumer_key r = storage_key
             \<or> (\<not> sw_closed r \<and> sw_public_consumer_key r = os_consumer_key c)) (st_sessions s)
        then (Inl StoreUnavailable, s)
        else (Inr (), s\<lparr>st_sessions := st_sessions s @
          [\<lparr>sw_session_id = os_session_id c, sw_consumer_key = storage_key,
            sw_public_consumer_key = os_consumer_key c, sw_compatibility = os_compatibility c,
            sw_revision = 1, sw_closed = False, sw_created_at = now, sw_updated_at = now,
            sw_owner_host = None, sw_owner_epoch = None, sw_owner_expires_at = None,
            sw_epoch_high_water = 0, sw_time_floor = now,
            sw_manifest_complete = (os_manifest c \<noteq> None),
            sw_configuration = map_option sm_configuration_identity (os_manifest c)\<rparr>]\<rparr>))"

definition insert_manifest_rows ::
  "open_session_cmd \<Rightarrow> template_binding list \<Rightarrow> ('z store_scheme, store_error, unit) io" where
  "insert_manifest_rows c bs s =
    (let rows = map (\<lambda>b. \<lparr>mw_session_id = os_session_id c, mw_template_id = tb_template_id b,
                       mw_compatibility = tb_compatibility b\<rparr>) bs
     in if \<not> distinct (map (\<lambda>w. (mw_session_id w, mw_template_id w)) (st_manifests s @ rows))
        then (Inl StoreUnavailable, s)
        else (Inr (), s\<lparr>st_manifests := st_manifests s @ rows\<rparr>))"

definition insert_session_manifest :: "open_session_cmd \<Rightarrow> ('z store_scheme, store_error, unit) io" where
  "insert_session_manifest c =
    (case os_manifest c of None \<Rightarrow> io_return () | Some m \<Rightarrow> insert_manifest_rows c (sm_templates m))"

definition open_new_session ::
  "env \<Rightarrow> timestamp \<Rightarrow> open_session_cmd \<Rightarrow> ledger_request \<Rightarrow> ('z, session_snapshot mutation) transaction" where
  "open_new_session en now c q =
    io_bind (\<lambda>s. io_lift (new_session_manifest_is_registered en s c) s) (\<lambda>registered.
    if \<not> registered then finish_failure (os_session_id c) q Invalid
    else io_bind (io_lift (map_err (\<lambda>_. Invalid)
        (session_snapshot_new (os_session_id c) (os_consumer_key c) (os_compatibility c) Open
           revision_initial now now))) (\<lambda>snapshot.
    io_bind (insert_session_row en c now) (\<lambda>_.
    io_bind (insert_session_manifest c) (\<lambda>_.
    io_bind (append_event_data en (rc_request_id (os_context c)) (os_session_id c) revision_initial
        ''session.created'' (session_event_payload en snapshot) now) (\<lambda>_.
    io_bind (record_bytes (os_session_id c) q EffectApplied (SessionValue snapshot)) (\<lambda>_.
    finish_with (Applied snapshot)))))))"

definition open_existing_session ::
  "open_session_cmd \<Rightarrow> ledger_request \<Rightarrow> session_row \<Rightarrow> ('z, session_snapshot mutation) transaction" where
  "open_existing_session c q row =
    (if ss_compatibility (sv_snapshot row) \<noteq> os_compatibility c
     then finish_failure (os_session_id c) q
       (CompatibilityConflict (os_session_id c) (ss_compatibility (sv_snapshot row)) (os_compatibility c))
     else if ss_consumer_key (sv_snapshot row) \<noteq> os_consumer_key c
     then finish_failure (os_session_id c) q
       (ConsumerConflict (os_session_id c) (ss_consumer_key (sv_snapshot row)) (os_consumer_key c))
     else (\<lambda>s. or_fail (os_session_id c) q (validate_session_manifest_in s c) (\<lambda>_.
       io_bind (record_bytes (os_session_id c) q EffectUnchanged (SessionValue (sv_snapshot row))) (\<lambda>_.
       finish_with (Unchanged (sv_snapshot row)))) s))"

definition open_session ::
  "env \<Rightarrow> timestamp \<Rightarrow> open_session_cmd \<Rightarrow> ('z, session_snapshot mutation) transaction" where
  "open_session en now c =
    (let q = request_of en (CmdOpenSession c)
     in io_bind (\<lambda>s. io_lift (replay_bytes s q) s) (\<lambda>replayed.
        case replayed of
          Some v \<Rightarrow>
            io_bind (io_lift (decode_session_value en v)) (\<lambda>snapshot.
            io_bind (io_lift (validate_open_replay snapshot c)) (\<lambda>_.
            io_bind (\<lambda>s. io_lift (validate_session_manifest_in s c) s) (\<lambda>_.
            finish_with (Replayed snapshot))))
        | None \<Rightarrow>
            io_bind (\<lambda>s. io_lift (load_session_in en s (os_session_id c)) s) (\<lambda>found.
            case found of
              Some row \<Rightarrow> open_existing_session c q row
            | None \<Rightarrow> open_new_session en now c q)))"


section \<open>Closing a session and ownership\<close>

definition close_session ::
  "env \<Rightarrow> timestamp \<Rightarrow> close_session_cmd \<Rightarrow> ('z, session_snapshot mutation) transaction" where
  "close_session en observed_at c =
    (let q = request_of en (CmdCloseSession c); sid = cs_session_id c; caller = rc_caller (cs_context c)
     in io_bind (\<lambda>s. io_lift (replay_bytes s q) s) (\<lambda>replayed.
        case replayed of
          Some v \<Rightarrow>
            io_bind (io_lift (decode_session_value en v)) (\<lambda>snapshot.
            if ss_id snapshot \<noteq> sid \<or> ss_status snapshot \<noteq> Closed then io_fail Corrupt
            else finish_with (Replayed snapshot))
        | None \<Rightarrow>
            (\<lambda>s. or_fail sid q (require_open_session en s sid CloseSession) (\<lambda>row.
            io_bind (advance_time_floor sid (sv_time_floor row) observed_at) (\<lambda>now.
            or_fail sid q (require_owner row caller (cs_epoch c) now) (\<lambda>_.
            (case session_close (sv_snapshot row) now of
               (_, Inl _) \<Rightarrow> io_fail Invalid
             | (snapshot, Inr _) \<Rightarrow>
                 io_bind (io_lift (to_i64 (ss_revision snapshot))) (\<lambda>stored_revision.
                 io_bind (io_lift (to_i64 (cs_epoch c))) (\<lambda>stored_epoch.
                 io_bind (update_session sid
                     (\<lambda>r. sw_owner_host r = Some caller \<and> sw_owner_epoch r = Some stored_epoch
                          \<and> \<not> sw_closed r)
                     (\<lambda>r. r\<lparr>sw_closed := True, sw_revision := stored_revision, sw_updated_at := now,
                            sw_owner_host := None, sw_owner_expires_at := None\<rparr>)) (\<lambda>affected.
                 io_bind (io_lift (require_one_row affected)) (\<lambda>_.
                 io_bind (append_event_data en (rc_request_id (cs_context c)) sid (ss_revision snapshot)
                     ''session.closed'' (session_event_payload en snapshot) now) (\<lambda>_.
                 io_bind (record_bytes sid q EffectApplied (SessionValue snapshot)) (\<lambda>_.
                 finish_with (Applied snapshot))))))))))) s)))"

definition expiry :: "env \<Rightarrow> timestamp \<Rightarrow> u64 \<Rightarrow> store_error + timestamp" where
  "expiry en now duration =
    (if duration > en_max_lease_millis en then Err LeaseTooLong
     else if duration > 0x7FFFFFFFFFFFFFFF then Err LeaseTooLong
     else and_then (map_err (\<lambda>_. Corrupt) (to_datetime (en_from_unix en) now)) (\<lambda>at.
       and_then (ok_or Invalid (en_add_millis en at (uint duration))) (\<lambda>v. Ok (from_datetime v))))"

definition validate_lease_replay ::
  "env \<Rightarrow> ownership_lease \<Rightarrow> ledger_value \<Rightarrow> session_id \<Rightarrow> host_id \<Rightarrow> fencing_epoch option \<Rightarrow> u64
    \<Rightarrow> store_error + unit" where
  "validate_lease_replay en lease v sid caller epoch duration =
    (case v of
       LeaseValue w \<Rightarrow>
         and_then (decode_timestamp en (Timestamp (lw_issued_seconds w) (lw_issued_nanos w))) (\<lambda>issued_at.
         and_then (map_err (\<lambda>_. Corrupt) (to_datetime (en_from_unix en) (ol_expires_at lease))) (\<lambda>expires.
         and_then (map_err (\<lambda>_. Corrupt) (to_datetime (en_from_unix en) issued_at)) (\<lambda>issued.
         let elapsed = expires - issued;
             whole_milliseconds = (if 0 \<le> elapsed then elapsed div 1000000 else - ((- elapsed) div 1000000))
         in if ol_session_id lease \<noteq> sid \<or> ol_owner lease \<noteq> caller
               \<or> (case epoch of None \<Rightarrow> False | Some expected \<Rightarrow> ol_epoch lease \<noteq> expected)
               \<or> whole_milliseconds \<noteq> uint duration
            then Err Corrupt else Ok ())))
     | _ \<Rightarrow> Err Corrupt)"

text \<open>The part of \<open>acquire_ownership\<close> after its last early return.\<close>

definition acquire_free ::
  "env \<Rightarrow> acquire_ownership_cmd \<Rightarrow> ledger_request \<Rightarrow> session_row \<Rightarrow> timestamp \<Rightarrow> timestamp
    \<Rightarrow> ('z, ownership_lease mutation) transaction" where
  "acquire_free en c q row now expires_at =
    (let sid = ao_session_id c
     in io_bind (io_lift (and_then (ok_or Corrupt (checked_add (sv_epoch_high_water row) 1))
          (\<lambda>v. map_err (\<lambda>_. Corrupt) (fencing_epoch_new v)))) (\<lambda>epoch.
        io_bind (io_lift (ok_or Corrupt (revision_next (ss_revision (sv_snapshot row))))) (\<lambda>revno.
        io_bind (io_lift (map_err (\<lambda>_. Invalid)
          (ownership_lease_new sid (rc_caller (ao_context c)) epoch now expires_at))) (\<lambda>lease.
        io_bind (io_lift (to_i64 epoch)) (\<lambda>stored_epoch.
        io_bind (io_lift (to_i64 revno)) (\<lambda>stored_revision.
        io_bind (update_session sid (\<lambda>_. True)
          (\<lambda>r. r\<lparr>sw_owner_host := Some (ol_owner lease), sw_owner_epoch := Some stored_epoch,
                 sw_owner_expires_at := Some expires_at, sw_epoch_high_water := stored_epoch,
                 sw_revision := stored_revision, sw_updated_at := now\<rparr>)) (\<lambda>affected.
        io_bind (io_lift (require_one_row affected)) (\<lambda>_.
        io_bind (append_event en (rc_request_id (ao_context c)) sid revno ''ownership.acquired'' now) (\<lambda>_.
        io_bind (record_bytes sid q EffectApplied (encode_lease lease now)) (\<lambda>_.
        finish_with (Applied lease)))))))))))"

definition acquire_ownership ::
  "env \<Rightarrow> timestamp \<Rightarrow> acquire_ownership_cmd \<Rightarrow> ('z, ownership_lease mutation) transaction" where
  "acquire_ownership en observed_at c =
    (let q = request_of en (CmdAcquireOwnership c); sid = ao_session_id c; caller = rc_caller (ao_context c)
     in io_bind (\<lambda>s. io_lift (replay_bytes s q) s) (\<lambda>replayed.
        case replayed of
          Some v \<Rightarrow>
            io_bind (io_lift (decode_lease en v)) (\<lambda>lease.
            io_bind (io_lift (validate_lease_replay en lease v sid caller None (ao_duration c))) (\<lambda>_.
            finish_with (Replayed lease)))
        | None \<Rightarrow>
            (\<lambda>s. or_fail sid q (require_open_session en s sid AcquireOwnership) (\<lambda>row.
            io_bind (advance_time_floor sid (sv_time_floor row) observed_at) (\<lambda>now.
            or_fail sid q (expiry en now (ao_duration c)) (\<lambda>expires_at.
            if expires_at \<le> now then finish_failure sid q Invalid
            else (case sv_owner row of
              Some owner \<Rightarrow>
                if is_effective_at owner now
                then finish_failure sid q (OwnershipHeld (ownership_snapshot_of owner))
                else acquire_free en c q row now expires_at
            | None \<Rightarrow> acquire_free en c q row now expires_at)))) s)))"

definition renew_ownership ::
  "env \<Rightarrow> timestamp \<Rightarrow> renew_ownership_cmd \<Rightarrow> ('z, ownership_lease mutation) transaction" where
  "renew_ownership en observed_at c =
    (let q = request_of en (CmdRenewOwnership c); sid = rn_session_id c; caller = rc_caller (rn_context c)
     in io_bind (\<lambda>s. io_lift (replay_bytes s q) s) (\<lambda>replayed.
        case replayed of
          Some v \<Rightarrow>
            io_bind (io_lift (decode_lease en v)) (\<lambda>lease.
            io_bind (io_lift (validate_lease_replay en lease v sid caller (Some (rn_epoch c))
              (rn_duration c))) (\<lambda>_.
            finish_with (Replayed lease)))
        | None \<Rightarrow>
            (\<lambda>s. or_fail sid q (require_open_session en s sid RenewOwnership) (\<lambda>row.
            io_bind (advance_time_floor sid (sv_time_floor row) observed_at) (\<lambda>now.
            or_fail sid q (require_owner row caller (rn_epoch c) now) (\<lambda>_.
            or_fail sid q (expiry en now (rn_duration c)) (\<lambda>expires_at.
            if expires_at \<le> now then finish_failure sid q Invalid
            else io_bind (io_lift (map_err (\<lambda>_. Invalid)
                (ownership_lease_new sid caller (rn_epoch c) now expires_at))) (\<lambda>lease.
              io_bind (io_lift (to_i64 (rn_epoch c))) (\<lambda>stored_epoch.
              io_bind (update_session sid
                (\<lambda>r. sw_owner_host r = Some caller \<and> sw_owner_epoch r = Some stored_epoch)
                (\<lambda>r. r\<lparr>sw_owner_expires_at := Some expires_at\<rparr>)) (\<lambda>affected.
              io_bind (io_lift (require_one_row affected)) (\<lambda>_.
              io_bind (record_bytes sid q EffectApplied (encode_lease lease now)) (\<lambda>_.
              finish_with (Applied lease)))))))))) s)))"

definition release_ownership ::
  "env \<Rightarrow> timestamp \<Rightarrow> release_ownership_cmd \<Rightarrow> ('z, ownership_snapshot mutation) transaction" where
  "release_ownership en observed_at c =
    (let q = request_of en (CmdReleaseOwnership c); sid = ro_session_id c; caller = rc_caller (ro_context c)
     in io_bind (\<lambda>s. io_lift (replay_bytes s q) s) (\<lambda>replayed.
        case replayed of
          Some v \<Rightarrow> if v \<noteq> UnownedValue then io_fail Corrupt else finish_with (Replayed Unowned)
        | None \<Rightarrow>
            (\<lambda>s. or_fail sid q (require_open_session en s sid ReleaseOwnership) (\<lambda>row.
            io_bind (advance_time_floor sid (sv_time_floor row) observed_at) (\<lambda>now.
            or_fail sid q (require_owner row caller (ro_epoch c) now) (\<lambda>_.
            io_bind (io_lift (ok_or Corrupt (revision_next (ss_revision (sv_snapshot row))))) (\<lambda>revno.
            io_bind (io_lift (to_i64 revno)) (\<lambda>stored_revision.
            io_bind (io_lift (to_i64 (ro_epoch c))) (\<lambda>stored_epoch.
            io_bind (update_session sid
              (\<lambda>r. sw_owner_host r = Some caller \<and> sw_owner_epoch r = Some stored_epoch)
              (\<lambda>r. r\<lparr>sw_owner_host := None, sw_owner_expires_at := None, sw_revision := stored_revision,
                     sw_updated_at := now\<rparr>)) (\<lambda>affected.
            io_bind (io_lift (require_one_row affected)) (\<lambda>_.
            io_bind (append_event en (rc_request_id (ro_context c)) sid revno ''ownership.released'' now) (\<lambda>_.
            io_bind (record_bytes sid q EffectApplied UnownedValue) (\<lambda>_.
            finish_with (Applied Unowned))))))))))) s)))"


section \<open>Reads\<close>

definition load_session :: "env \<Rightarrow> 'z store_scheme \<Rightarrow> session_id \<Rightarrow> store_error + session_snapshot" where
  "load_session en s sid =
    and_then (load_session_in en s sid) (\<lambda>found.
    ok_or (SessionNotFound sid) (map_option sv_snapshot found))"

definition read_ownership ::
  "env \<Rightarrow> timestamp \<Rightarrow> 'z store_scheme \<Rightarrow> session_id \<Rightarrow> store_error + ownership_snapshot" where
  "read_ownership en now s sid =
    and_then (load_session_in en s sid) (\<lambda>found.
    and_then (ok_or (SessionNotFound sid) found) (\<lambda>row.
    let observed_at = max (sv_time_floor row) now
    in Ok (case sv_owner row of
             None \<Rightarrow> Unowned
           | Some lease \<Rightarrow>
               if is_effective_at lease observed_at then ownership_snapshot_of lease else Unowned)))"

definition parse_action :: "string \<Rightarrow> store_error + store_action" where
  "parse_action v =
    ok_or Corrupt (map_of
      [(''session.open'', OpenSession), (''session.close'', CloseSession),
       (''ownership.acquire'', AcquireOwnership), (''ownership.renew'', RenewOwnership),
       (''ownership.release'', ReleaseOwnership),
       (''instance.prepare_launch'', PrepareLaunch), (''instance.attach_launch'', AttachLaunch),
       (''instance.transition_launch'', TransitionLaunch),
       (''participant.create_root'', CreateRootParticipant),
       (''participant.create_child'', CreateChildParticipant),
       (''operation.start'', StartOperation), (''operation.transition'', TransitionOperation),
       (''message.enqueue'', EnqueueMessage), (''message.lease_next'', LeaseNextMessage),
       (''message.transition_delivery'', TransitionMessageDelivery),
       (''authority.put_policy'', PutAuthorityPolicy), (''authority.issue_grant'', IssueGrant),
       (''authority.revoke_grant'', RevokeGrant), (''authority.check_effect'', CheckAuthorityEffect),
       (''authority.create_child'', CreateAuthorizedChild),
       (''hierarchy.apply_effect'', ApplyHierarchyEffect),
       (''authority.register_template_policy'', RegisterAuthorityTemplatePolicy)] v)"

text \<open>The result of a succeeded request, decoded by its action; the values of the authority, artifact
  and tool commands are kept as JSON documents.\<close>

definition decode_result :: "env \<Rightarrow> store_action \<Rightarrow> ledger_value \<Rightarrow> store_error + stored_result" where
  "decode_result en action v =
    (if action \<in> {OpenSession, CloseSession} then
       and_then (decode_session_value en v) (\<lambda>w. Ok (SessionResult w))
     else if action \<in> {AcquireOwnership, RenewOwnership} then
       and_then (decode_lease en v) (\<lambda>w. Ok (OwnershipLeaseResult w))
     else if action = ReleaseOwnership then Ok (OwnershipResult Unowned)
     else if action \<in> {PrepareLaunch, AttachLaunch, TransitionLaunch} then
       (case v of LaunchValue w \<Rightarrow> Ok (LaunchResult w) | _ \<Rightarrow> Err Corrupt)
     else if action \<in> {CreateRootParticipant, CreateChildParticipant} then
       (case v of ParticipantValue w \<Rightarrow> Ok (ParticipantResult w) | _ \<Rightarrow> Err Corrupt)
     else if action \<in> {StartOperation, TransitionOperation} then
       (case v of OperationValue w \<Rightarrow> Ok (OperationResult w) | _ \<Rightarrow> Err Corrupt)
     else if action \<in> {EnqueueMessage, LeaseNextMessage, TransitionMessageDelivery} then
       (case v of MessageValue w \<Rightarrow> Ok (MessageResult w) | _ \<Rightarrow> Err Corrupt)
     else if action \<in> {ReserveEffect, StartEffect, ResolveEffect, TakeoverEffect,
         ResolveAuthorizedEffect, ReserveToolInvocation, TransitionToolInvocation} then Err Corrupt
     else (case v of
         JsonValue w \<Rightarrow>
           Ok (if action = PutAuthorityPolicy then AuthorityPolicyResult w
               else if action \<in> {IssueGrant, RevokeGrant} then GrantResult w
               else if action = CheckAuthorityEffect then AuthorityEffectResult w
               else if action = CreateAuthorizedChild then AuthorizedChildResult w
               else if action = ApplyHierarchyEffect then HierarchyEffectResult w
               else if action = CancelSubtree then CancellationResult w
               else if action \<in> {PublishArtifact, DeleteArtifact, EraseArtifact} then ArtifactResult w
               else if action = RegisterAuthorityTemplatePolicy then AuthorityTemplatePolicyResult w
               else if action = RegisterTool then ToolRegistrationResult w
               else ToolProviderConnectionResult w)
       | _ \<Rightarrow> Err Corrupt))"

definition decode_stored_request :: "env \<Rightarrow> ledger_row \<Rightarrow> request_id \<Rightarrow> store_error + stored_request" where
  "decode_stored_request en row rid =
    and_then (parse_id (lr_caller row)) (\<lambda>caller.
    and_then (parse_action (lr_action row)) (\<lambda>action.
    and_then (case lr_outcome row of
        LedgerFailed wire \<Rightarrow> Ok (StoredFailed (failure_from_wire wire))
      | LedgerSucceeded effect v \<Rightarrow>
          and_then (decode_result en action v) (\<lambda>result. Ok (StoredSucceeded effect result))) (\<lambda>outcome.
    map_err (\<lambda>_. Corrupt) (stored_request_new rid caller action (lr_digest row) outcome))))"

definition read_request ::
  "env \<Rightarrow> 'z store_scheme \<Rightarrow> request_id \<Rightarrow> store_error + stored_request option" where
  "read_request en s rid =
    (case find_row lr_request_id rid (st_ledger s) of
       None \<Rightarrow> Ok None
     | Some row \<Rightarrow> and_then (decode_stored_request en row rid) (\<lambda>v. Ok (Some v)))"

definition decode_event :: "env \<Rightarrow> event_row \<Rightarrow> session_id \<Rightarrow> store_error + session_event" where
  "decode_event en row sid =
    and_then (parse_id (ew_event_id row)) (\<lambda>event_id.
    and_then (map_err (\<lambda>_. Corrupt) (event_position_new (word_of_nat (ew_position row)))) (\<lambda>position.
    and_then (decode_revision (ew_revision row)) (\<lambda>revno.
    and_then (map_err (\<lambda>_. Corrupt) (event_type_new (ew_event_type row))) (\<lambda>event_type.
    and_then (map_err (\<lambda>_. Corrupt) (event_schema_version_new (ew_schema_version row))) (\<lambda>version.
    and_then (case ew_related_request_id row of None \<Rightarrow> Ok None
        | Some v \<Rightarrow> and_then (parse_id v) (\<lambda>i. Ok (Some i))) (\<lambda>related.
    and_then (map_err (\<lambda>_. Corrupt) (redacted_event_data_new (ew_data row))) (\<lambda>data.
    and_then (decode_timestamp en (ew_occurred_at row)) (\<lambda>occurred_at.
    Ok \<lparr>ev_id = event_id, ev_session_id = sid, ev_position = position, ev_revision = revno,
        ev_event_type = event_type, ev_schema_version = version, ev_related_request_id = related,
        ev_data = data, ev_occurred_at = occurred_at\<rparr>))))))))"

fun decode_events :: "env \<Rightarrow> session_id \<Rightarrow> event_row list \<Rightarrow> store_error + session_event list" where
  "decode_events en sid [] = Ok []"
| "decode_events en sid (row # rows) =
    and_then (decode_event en row sid) (\<lambda>e.
    and_then (decode_events en sid rows) (\<lambda>es. Ok (e # es)))"

definition read_events ::
  "env \<Rightarrow> 'z store_scheme \<Rightarrow> read_events_query \<Rightarrow> store_error + event_page" where
  "read_events en s query =
    and_then (load_session_in en s (re_session_id query)) (\<lambda>found.
    and_then (ok_or (SessionNotFound (re_session_id query)) found) (\<lambda>row.
    if ss_consumer_key (sv_snapshot row) \<noteq> re_consumer query then Err Invalid
    else and_then (to_i64 (case re_after query of None \<Rightarrow> 0 | Some p \<Rightarrow> p)) (\<lambda>after.
      let limit = unat (re_limit query);
          rows = take (limit + 1) (sort_key ew_position
            (filter (\<lambda>e. unat after < ew_position e) (session_events s (re_session_id query))));
          has_more = length rows > limit
      in and_then (decode_events en (re_session_id query) (take limit rows)) (\<lambda>events.
         Ok \<lparr>ep_events = events,
             ep_last_position = (if events = [] then None else Some (ev_position (last events))),
             ep_has_more = has_more\<rparr>))))"

end
