(* ===== verification/Tool_Domain.thy ===== *)
theory Tool_Domain
  imports Json_Domain Recovery_Domain
begin

text \<open>
  Tools and artifacts of \<open>crates/navigator-domain/src/tool.rs\<close> and \<open>artifact.rs\<close>: canonical JSON,
  tool definitions with their closed JSON-Schema subset, invocations, results, artifact
  references and artifact snapshots.

  Parameters: \<open>parse_value\<close> and \<open>print_value\<close> stand for \<open>serde_json::from_slice\<close> (to a \<open>Value\<close>)
  and \<open>serde_json::to_vec\<close>.
\<close>

datatype tool_domain_error =
    InvalidJson | ToolTooLarge | InvalidStableIdentifier | InvalidTimeout
  | ContradictoryIdempotency | TooManyArtifacts | SchemaMustBeObject | UnsupportedSchema
  | SchemaMismatch


datatype tool_cancellation = Cooperative | ToolCancellationUnsupported

datatype idempotency_contract =
  NoExternalEffect | InvocationIdentity | ExternalTransactionProof | NeverReplay

definition tool_timeout_from_millis :: "u64 \<Rightarrow> tool_domain_error + u64" where
  "tool_timeout_from_millis v =
    (if v = 0 then Err InvalidTimeout
     else if v > 3600000 then Err InvalidTimeout
     else Ok v)"

definition is_ascii_alphanumeric :: "char \<Rightarrow> bool" where
  "is_ascii_alphanumeric c =
    (is_ascii_lowercase c \<or> is_ascii_digit c
     \<or> (65 \<le> (of_char c :: nat) \<and> (of_char c :: nat) \<le> 90))"

definition validate_stable_identifier :: "string \<Rightarrow> tool_domain_error + unit" where
  "validate_stable_identifier v =
    (let seps = {CHR ''.'', CHR ''_'', CHR ''-''}
     in if list_all (\<lambda>c. is_ascii_alphanumeric c \<or> c \<in> seps) v
          \<and> \<not> (v \<noteq> [] \<and> hd v \<in> seps) \<and> \<not> (v \<noteq> [] \<and> last v \<in> seps)
        then Ok () else Err InvalidStableIdentifier)"

definition json_is_object :: "(bytes \<Rightarrow> json option) \<Rightarrow> bytes \<Rightarrow> bool" where
  "json_is_object parse_value b =
    (case parse_value b of Some v \<Rightarrow> json_is_object_value v | None \<Rightarrow> False)"

text \<open>A \<open>for\<close> loop whose body may return early with an error.\<close>

primrec for_each :: "('a \<Rightarrow> 'e + unit) \<Rightarrow> 'a list \<Rightarrow> 'e + unit" where
  "for_each f [] = Ok ()"
| "for_each f (x # xs) = and_then (f x) (\<lambda>_. for_each f xs)"

definition schema_keywords :: "string set" where
  "schema_keywords = {''type'', ''required'', ''properties'', ''items'', ''additionalProperties''}"

definition schema_types :: "string set" where
  "schema_types = {''object'', ''array'', ''string'', ''integer'', ''number'', ''boolean'', ''null''}"

definition is_json_string :: "json \<Rightarrow> bool" where
  "is_json_string v = (case v of JString _ \<Rightarrow> True | _ \<Rightarrow> False)"

definition is_json_bool :: "json \<Rightarrow> bool" where
  "is_json_bool v = (case v of JBool _ \<Rightarrow> True | _ \<Rightarrow> False)"

function validate_schema_shape :: "json \<Rightarrow> nat \<Rightarrow> tool_domain_error + unit" where
  "validate_schema_shape schema depth =
    (if depth > 32 then Err UnsupportedSchema
     else case schema of
       JObject object \<Rightarrow>
         if object = [] then Ok ()
         else if list_ex (\<lambda>e. fst e \<notin> schema_keywords) object then Err UnsupportedSchema
         else (case map_of object ''type'' of
             Some (JString kind) \<Rightarrow>
               if kind \<notin> schema_types then Err UnsupportedSchema
               else and_then
                 (case map_of object ''required'' of
                    None \<Rightarrow> Ok ()
                  | Some (JArray values) \<Rightarrow>
                      if list_ex (\<lambda>v. \<not> is_json_string v) values then Err UnsupportedSchema else Ok ()
                  | Some _ \<Rightarrow> Err UnsupportedSchema)
                 (\<lambda>_. and_then
                   (case map_of object ''properties'' of
                      None \<Rightarrow> Ok ()
                    | Some (JObject values) \<Rightarrow>
                        for_each (\<lambda>e. validate_schema_shape (snd e) (depth + 1)) values
                    | Some _ \<Rightarrow> Err UnsupportedSchema)
                   (\<lambda>_. and_then
                     (case map_of object ''items'' of
                        None \<Rightarrow> Ok ()
                      | Some items \<Rightarrow> validate_schema_shape items (depth + 1))
                     (\<lambda>_. case map_of object ''additionalProperties'' of
                        None \<Rightarrow> Ok ()
                      | Some v \<Rightarrow> if is_json_bool v then Ok () else Err UnsupportedSchema)))
           | _ \<Rightarrow> Err UnsupportedSchema)
     | _ \<Rightarrow> Err UnsupportedSchema)"
  by pat_completeness auto

termination
  by (relation "measure (\<lambda>(_, depth). 33 - depth)") auto

declare validate_schema_shape.simps [simp del]

definition schema_type_matches :: "string \<Rightarrow> json \<Rightarrow> bool" where
  "schema_type_matches expected value =
    (if expected = ''object'' then json_is_object_value value
     else if expected = ''array'' then (case value of JArray _ \<Rightarrow> True | _ \<Rightarrow> False)
     else if expected = ''string'' then is_json_string value
     else if expected = ''integer'' then (case value of JNumber (IntNumber _) \<Rightarrow> True | _ \<Rightarrow> False)
     else if expected = ''number'' then (case value of JNumber _ \<Rightarrow> True | _ \<Rightarrow> False)
     else if expected = ''boolean'' then is_json_bool value
     else (case value of JNull \<Rightarrow> True | _ \<Rightarrow> False))"

definition check_required_key :: "(string \<times> json) list \<Rightarrow> json \<Rightarrow> tool_domain_error + unit" where
  "check_required_key values key =
    (case key of
       JString k \<Rightarrow> if k \<notin> fst ` set values then Err SchemaMismatch else Ok ()
     | _ \<Rightarrow> Err UnsupportedSchema)"

function validate_schema_node :: "json \<Rightarrow> json \<Rightarrow> nat \<Rightarrow> tool_domain_error + unit" where
  "validate_schema_node schema value depth =
    (if depth > 32 then Err UnsupportedSchema
     else case schema of
       JObject object \<Rightarrow>
         if object = [] then Ok ()
         else if list_ex (\<lambda>e. fst e \<notin> schema_keywords) object then Err UnsupportedSchema
         else (case map_of object ''type'' of
             Some (JString expected) \<Rightarrow>
               if expected \<notin> schema_types then Err UnsupportedSchema
               else if \<not> schema_type_matches expected value then Err SchemaMismatch
               else (case value of
                 JObject values \<Rightarrow>
                   let properties = (case map_of object ''properties'' of
                       Some (JObject p) \<Rightarrow> Some p | _ \<Rightarrow> None)
                   in and_then
                     (case map_of object ''required'' of
                        None \<Rightarrow> Ok ()
                      | Some (JArray required) \<Rightarrow> for_each (check_required_key values) required
                      | Some _ \<Rightarrow> Err UnsupportedSchema)
                     (\<lambda>_. if map_of object ''additionalProperties'' = Some (JBool False)
                            \<and> list_ex (\<lambda>e. case properties of
                                 None \<Rightarrow> True | Some p \<Rightarrow> fst e \<notin> fst ` set p) values
                       then Err SchemaMismatch
                       else (case properties of
                           None \<Rightarrow> Ok ()
                         | Some p \<Rightarrow> for_each (\<lambda>e. case map_of values (fst e) of
                             None \<Rightarrow> Ok ()
                           | Some child_value \<Rightarrow>
                               validate_schema_node (snd e) child_value (depth + 1)) p))
               | JArray elements \<Rightarrow>
                   (case map_of object ''items'' of
                      None \<Rightarrow> Ok ()
                    | Some items \<Rightarrow>
                        for_each (\<lambda>item. validate_schema_node items item (depth + 1)) elements)
               | _ \<Rightarrow> Ok ())
           | _ \<Rightarrow> Err UnsupportedSchema)
     | _ \<Rightarrow> Err UnsupportedSchema)"
  by pat_completeness auto

termination
  by (relation "measure (\<lambda>(_, _, depth). 33 - depth)") auto

declare validate_schema_node.simps [simp del]

definition validate_json_value ::
  "(bytes \<Rightarrow> json option) \<Rightarrow> bytes \<Rightarrow> bytes \<Rightarrow> tool_domain_error + unit" where
  "validate_json_value parse_value schema value =
    and_then (ok_or InvalidJson (parse_value schema)) (\<lambda>s.
    and_then (ok_or InvalidJson (parse_value value)) (\<lambda>v.
    validate_schema_node s v 0))"

record tool_definition =
  td_name :: string
  td_version :: string
  td_input_schema :: bytes
  td_output_schema :: bytes
  td_required_authority :: capability
  td_timeout :: u64
  td_cancellation :: tool_cancellation
  td_effect_class :: effect_class
  td_idempotency :: idempotency_contract
  td_requires_approval :: bool

definition idempotency_coherent :: "effect_class \<Rightarrow> idempotency_contract \<Rightarrow> bool" where
  "idempotency_coherent c i =
    ((c = ReadOnly \<and> i = NoExternalEffect)
     \<or> (c = Idempotent \<and> i = InvocationIdentity)
     \<or> (c = Transactional \<and> i = ExternalTransactionProof)
     \<or> (c \<in> {NonIdempotent, Unknown} \<and> i = NeverReplay))"

definition tool_definition_new ::
  "(bytes \<Rightarrow> json option) \<Rightarrow> string \<Rightarrow> string \<Rightarrow> bytes \<Rightarrow> bytes \<Rightarrow> capability \<Rightarrow> u64
    \<Rightarrow> tool_cancellation \<Rightarrow> effect_class \<Rightarrow> idempotency_contract
    \<Rightarrow> tool_domain_error + tool_definition" where
  "tool_definition_new parse_value name version input_schema output_schema authority timeout
     cancellation effect idempotency =
    and_then (validate_stable_identifier name) (\<lambda>_.
    and_then (validate_stable_identifier version) (\<lambda>_.
    if \<not> json_is_object parse_value input_schema \<or> \<not> json_is_object parse_value output_schema
    then Err SchemaMustBeObject
    else and_then (ok_or InvalidJson (parse_value input_schema)) (\<lambda>i.
    and_then (validate_schema_shape i 0) (\<lambda>_.
    and_then (ok_or InvalidJson (parse_value output_schema)) (\<lambda>out.
    and_then (validate_schema_shape out 0) (\<lambda>_.
    if \<not> idempotency_coherent effect idempotency then Err ContradictoryIdempotency
    else Ok \<lparr>td_name = name, td_version = version, td_input_schema = input_schema,
             td_output_schema = output_schema, td_required_authority = authority,
             td_timeout = timeout, td_cancellation = cancellation, td_effect_class = effect,
             td_idempotency = idempotency, td_requires_approval = False\<rparr>))))))"

definition with_required_approval :: "tool_definition \<Rightarrow> tool_definition" where
  "with_required_approval t = t\<lparr>td_requires_approval := True\<rparr>"

definition validate_input ::
  "(bytes \<Rightarrow> json option) \<Rightarrow> tool_definition \<Rightarrow> bytes \<Rightarrow> tool_domain_error + unit" where
  "validate_input parse_value t v = validate_json_value parse_value (td_input_schema t) v"

definition validate_output ::
  "(bytes \<Rightarrow> json option) \<Rightarrow> tool_definition \<Rightarrow> bytes \<Rightarrow> tool_domain_error + unit" where
  "validate_output parse_value t v = validate_json_value parse_value (td_output_schema t) v"

record tool_invocation =
  ti_invocation_id :: tool_invocation_id
  ti_request_id :: request_id
  ti_session_id :: session_id
  ti_participant_id :: participant_id
  ti_operation_id :: operation_id
  ti_tool_name :: string
  ti_tool_version :: string
  ti_input :: bytes
  ti_authority_grant_id :: "grant_id option"
  ti_approval_grant_id :: "grant_id option"
  ti_approval_effect_id :: "request_id option"

definition tool_invocation_new ::
  "tool_invocation_id \<Rightarrow> request_id \<Rightarrow> session_id \<Rightarrow> participant_id \<Rightarrow> operation_id \<Rightarrow> string \<Rightarrow> string
    \<Rightarrow> bytes \<Rightarrow> tool_domain_error + tool_invocation" where
  "tool_invocation_new i r s p o' name version input =
    and_then (validate_stable_identifier name) (\<lambda>_.
    and_then (validate_stable_identifier version) (\<lambda>_.
    Ok \<lparr>ti_invocation_id = i, ti_request_id = r, ti_session_id = s, ti_participant_id = p,
        ti_operation_id = o', ti_tool_name = name, ti_tool_version = version, ti_input = input,
        ti_authority_grant_id = None, ti_approval_grant_id = None, ti_approval_effect_id = None\<rparr>))"

definition with_authority_grant :: "tool_invocation \<Rightarrow> grant_id \<Rightarrow> tool_invocation" where
  "with_authority_grant t g = t\<lparr>ti_authority_grant_id := Some g\<rparr>"

definition with_approval_grant :: "tool_invocation \<Rightarrow> grant_id \<Rightarrow> request_id \<Rightarrow> tool_invocation" where
  "with_approval_grant t g e = t\<lparr>ti_approval_grant_id := Some g, ti_approval_effect_id := Some e\<rparr>"

datatype tool_failure_kind =
    InvalidInput | InvalidOutput | Unauthorized | TimedOut | ToolCancelled
  | ProviderUnavailable | HandlerFailed | ToolEffectUncertain

record tool_failure =
  tf_invocation_id :: tool_invocation_id
  tf_kind :: tool_failure_kind
  tf_message :: string
  tf_retryable :: bool

datatype artifact_state = Available | LogicallyDeleted | PhysicallyErased

record artifact_ref =
  ar_artifact_id :: artifact_id
  ar_session_id :: session_id
  ar_creator_participant_id :: participant_id
  ar_creator_operation_id :: operation_id
  ar_media_type :: string
  ar_size :: u64
  ar_digest :: digest32

datatype artifact_ref_error = ArtifactTooLarge

definition artifact_ref_new ::
  "artifact_id \<Rightarrow> session_id \<Rightarrow> participant_id \<Rightarrow> operation_id \<Rightarrow> string \<Rightarrow> u64 \<Rightarrow> digest32
    \<Rightarrow> artifact_ref_error + artifact_ref" where
  "artifact_ref_new a s p o' media sz d =
    (if sz > 67108864 then Err ArtifactTooLarge
     else Ok \<lparr>ar_artifact_id = a, ar_session_id = s, ar_creator_participant_id = p,
              ar_creator_operation_id = o', ar_media_type = media, ar_size = sz, ar_digest = d\<rparr>)"

record tool_result =
  tr_invocation_id :: tool_invocation_id
  tr_output :: bytes
  tr_artifacts :: "artifact_ref list"

definition tool_result_new ::
  "tool_invocation_id \<Rightarrow> bytes \<Rightarrow> artifact_ref list \<Rightarrow> tool_domain_error + tool_result" where
  "tool_result_new i output artifacts =
    (if length artifacts > 32 then Err TooManyArtifacts
     else Ok \<lparr>tr_invocation_id = i, tr_output = output, tr_artifacts = artifacts\<rparr>)"

record artifact_snapshot =
  as_artifact_id :: artifact_id
  as_session_id :: session_id
  as_creator_participant_id :: participant_id
  as_creator_operation_id :: operation_id
  as_media_type :: string
  as_size :: u64
  as_digest :: digest32
  as_locator :: string
  as_state :: artifact_state
  as_revision :: revision
  as_retention_until :: timestamp
  as_created_at :: timestamp
  as_deleted_at :: "timestamp option"

text \<open>\<open>str::split('/')\<close>: the pieces between separators, the empty ones included.\<close>

fun split_slash :: "string \<Rightarrow> string list" where
  "split_slash [] = [[]]"
| "split_slash (c # cs) =
    (if c = CHR ''/'' then [] # split_slash cs
     else (case split_slash cs of [] \<Rightarrow> [[c]] | p # ps \<Rightarrow> (c # p) # ps))"

definition structurally_valid :: "artifact_snapshot \<Rightarrow> bool" where
  "structurally_valid a =
    (as_size a \<le> 67108864 \<and> as_locator a \<noteq> []
     \<and> hd (as_locator a) \<noteq> CHR ''/''
     \<and> \<not> list_ex (\<lambda>part. part = [] \<or> part = ''.'' \<or> part = ''..'') (split_slash (as_locator a))
     \<and> (case as_state a of
          Available \<Rightarrow> as_deleted_at a = None
        | _ \<Rightarrow> as_deleted_at a \<noteq> None))"


section \<open>Canonical JSON\<close>











section \<open>Schemas\<close>

lemma for_each_Ok_iff [outcome_simps]:
  "for_each f xs = Inr u \<longleftrightarrow> (\<forall>x \<in> set xs. f x = Inr ())"
  by (induction xs) (auto simp: outcome_simps)

lemma for_each_outcome:
  "(\<And>x. x \<in> set xs \<Longrightarrow> f x \<in> {Inr (), Inl e}) \<Longrightarrow> for_each f xs \<in> {Inr (), Inl e}"
proof (induction xs)
  case (Cons x xs)
  have "f x = Inr () \<or> f x = Inl e" using Cons.prems [of x] by simp
  moreover have "for_each f xs \<in> {Inr (), Inl e}" using Cons by simp
  ultimately show ?case by auto
qed simp

definition schema_shape_ok :: "(string \<times> json) list \<Rightarrow> nat \<Rightarrow> bool" where
  "schema_shape_ok object depth \<longleftrightarrow>
    fst ` set object \<subseteq> schema_keywords \<and>
    (\<exists>kind \<in> schema_types. map_of object ''type'' = Some (JString kind)) \<and>
    (\<forall>v. map_of object ''required'' = Some v \<longrightarrow> (\<exists>ks. v = JArray ks \<and> list_all is_json_string ks)) \<and>
    (\<forall>v. map_of object ''properties'' = Some v \<longrightarrow>
      (\<exists>es. v = JObject es \<and> (\<forall>e \<in> set es. validate_schema_shape (snd e) (depth + 1) = Inr ()))) \<and>
    (\<forall>v. map_of object ''items'' = Some v \<longrightarrow> validate_schema_shape v (depth + 1) = Inr ()) \<and>
    (\<forall>v. map_of object ''additionalProperties'' = Some v \<longrightarrow> is_json_bool v)"

lemma validate_schema_shape_object:
  assumes "validate_schema_shape (JObject object) depth = Inr ()" "object \<noteq> []"
  shows "schema_shape_ok object depth"
proof -
  note shape = assms [unfolded validate_schema_shape.simps [of "JObject object"]]
  have keys: "\<not> list_ex (\<lambda>e. fst e \<notin> schema_keywords) object"
    using shape by (simp split: if_splits)
  have depth: "\<not> 32 < depth" using shape by (simp split: if_splits)
  obtain kind where kind: "map_of object ''type'' = Some (JString kind)"
  proof (cases "map_of object ''type''")
    case None
    then show ?thesis using shape keys depth by simp
  next
    case (Some v)
    then show ?thesis using shape keys depth that by (cases v) simp_all
  qed
  note parts = shape(1) [simplified kind if_not_P [OF keys] if_not_P [OF assms(2)] option.case json.case,
      unfolded and_then_eq_Inr]
  have known: "kind \<in> schema_types" using parts by (auto split: if_splits)
  note checks = parts [simplified known]
  have required: "\<exists>ks. v = JArray ks \<and> list_all is_json_string ks" if "map_of object ''required'' = Some v" for v
    using checks that by (cases v) (auto simp: and_then_eq_Inr list_ex_iff list_all_iff split: if_splits)
  have properties: "\<exists>es. v = JObject es \<and> (\<forall>e \<in> set es. validate_schema_shape (snd e) (depth + 1) = Inr ())"
    if "map_of object ''properties'' = Some v" for v
    using checks that by (cases v) (auto simp: outcome_simps for_each_Ok_iff split: if_splits)
  have items: "validate_schema_shape v (depth + 1) = Inr ()" if "map_of object ''items'' = Some v" for v
    using checks that by (auto simp: outcome_simps split: if_splits)
  have additional: "is_json_bool v" if "map_of object ''additionalProperties'' = Some v" for v
    using checks that by (auto simp: outcome_simps split: if_splits)
  show ?thesis
    unfolding schema_shape_ok_def
    using keys kind known required properties items additional by (auto simp: list_ex_iff)
qed

lemma validate_schema_shape_Ok:
  assumes "validate_schema_shape schema depth = Inr ()"
  shows "depth \<le> 32 \<and> (\<exists>object. schema = JObject object \<and> (object = [] \<or> schema_shape_ok object depth))"
proof -
  obtain object where obj: "depth \<le> 32" "schema = JObject object"
    using assms by (auto simp: validate_schema_shape.simps [of schema] split: if_splits json.splits)
  then show ?thesis using assms validate_schema_shape_object by blast
qed

lemma check_required_key_outcome:
  "is_json_string k \<Longrightarrow> check_required_key values k \<in> {Inr (), Inl SchemaMismatch}"
  by (cases k) (auto simp: check_required_key_def is_json_string_def)

text \<open>One level of \<open>validate_schema_node\<close> under a well-shaped, non-empty object schema.\<close>

lemma validate_schema_node_step:
  assumes "\<not> 32 < depth" "object \<noteq> []" "schema_shape_ok object depth"
    and node: "\<And>s v. validate_schema_shape s (depth + 1) = Inr () \<Longrightarrow>
      validate_schema_node s v (depth + 1) \<in> {Inr (), Inl SchemaMismatch}"
  shows "validate_schema_node (JObject object) value depth \<in> {Inr (), Inl SchemaMismatch}"
proof -
  obtain kind where kind: "kind \<in> schema_types" "map_of object ''type'' = Some (JString kind)"
    using assms(3) by (auto simp: schema_shape_ok_def)
  have keys: "\<not> list_ex (\<lambda>e. fst e \<notin> schema_keywords) object"
    using assms(3) by (auto simp: schema_shape_ok_def list_ex_iff)
  have items: "for_each (\<lambda>item. validate_schema_node v item (depth + 1)) vs \<in> {Inr (), Inl SchemaMismatch}"
    if "map_of object ''items'' = Some v" for v vs
    using assms(3) that by (intro for_each_outcome node) (auto simp: schema_shape_ok_def)
  have required: "(case map_of object ''required'' of None \<Rightarrow> Ok ()
      | Some (JArray required) \<Rightarrow> for_each (check_required_key vs) required
      | Some _ \<Rightarrow> Err UnsupportedSchema) \<in> {Inr (), Inl SchemaMismatch}" for vs
  proof (cases "map_of object ''required''")
    case (Some v)
    then obtain ks where "v = JArray ks" "list_all is_json_string ks"
      using assms(3) by (auto simp: schema_shape_ok_def)
    then show ?thesis
      using Some for_each_outcome [of ks "check_required_key vs"] check_required_key_outcome
      by (auto simp: list_all_iff)
  qed simp
  have props: "for_each (\<lambda>e. case map_of vs (fst e) of None \<Rightarrow> Ok ()
      | Some c \<Rightarrow> validate_schema_node (snd e) c (depth + 1)) p \<in> {Inr (), Inl SchemaMismatch}"
    if "map_of object ''properties'' = Some (JObject p)" for p vs
    using assms(3) that node
    by (intro for_each_outcome) (fastforce simp: schema_shape_ok_def split: option.splits)
  show ?thesis
  proof (cases "schema_type_matches kind value")
    case False
    then show ?thesis using assms(1,2) kind keys by (simp add: validate_schema_node.simps [of "JObject object"])
  next
    case True
    note step = validate_schema_node.simps [of "JObject object"] assms(1,2) kind keys True
    show ?thesis
    proof (cases "value")
      case (JArray vs)
      then show ?thesis using items [of _ vs] by (auto simp: step split: option.splits)
    next
      case (JObject vs)
      then show ?thesis
        using required [of vs] props [of _ vs]
        by (auto simp: step Let_def split: option.splits json.splits)
    qed (simp_all add: step)
  qed
qed

lemma validate_schema_node_outcome:
  "validate_schema_shape schema depth = Inr () \<Longrightarrow>
   validate_schema_node schema value depth \<in> {Inr (), Inl SchemaMismatch}"
proof (induction "33 - depth" arbitrary: schema "value" depth rule: less_induct)
  case less
  from validate_schema_shape_Ok [OF less(2)] obtain object where
    obj: "\<not> 32 < depth" "schema = JObject object" "object = [] \<or> schema_shape_ok object depth"
    by (auto simp: not_less)
  show ?case
  proof (cases "object = []")
    case True
    then show ?thesis using obj by (simp add: validate_schema_node.simps [of "JObject []"])
  next
    case False
    have "validate_schema_shape s (depth + 1) = Inr () \<Longrightarrow>
        validate_schema_node s v (depth + 1) \<in> {Inr (), Inl SchemaMismatch}" for s v
      using less(1) [of "depth + 1"] obj(1) by simp
    then show ?thesis using validate_schema_node_step [of depth object] obj False by blast
  qed
qed

text \<open>What the supported subset of JSON Schema means, without a depth bound: the value has the
  declared type; an object has the required keys, no undeclared key when additional properties are
  excluded, and conforming values at the declared keys; the elements of an array conform.\<close>

definition declared_keys :: "(string \<times> json) list \<Rightarrow> string set" where
  "declared_keys object =
    (case map_of object ''properties'' of Some (JObject p) \<Rightarrow> fst ` set p | _ \<Rightarrow> {})"

definition required_met :: "(string \<times> json) list \<Rightarrow> (string \<times> json) list \<Rightarrow> bool" where
  "required_met object vs \<longleftrightarrow>
    (\<forall>ks k. map_of object ''required'' = Some (JArray ks) \<longrightarrow> JString k \<in> set ks \<longrightarrow> k \<in> fst ` set vs)"

definition closed_met :: "(string \<times> json) list \<Rightarrow> (string \<times> json) list \<Rightarrow> bool" where
  "closed_met object vs \<longleftrightarrow>
    (map_of object ''additionalProperties'' = Some (JBool False) \<longrightarrow> fst ` set vs \<subseteq> declared_keys object)"

inductive conforms :: "json \<Rightarrow> json \<Rightarrow> bool" where
  conforms_any: "conforms (JObject []) v"
| conforms_typed:
    "\<lbrakk> object \<noteq> []; map_of object ''type'' = Some (JString kind); schema_type_matches kind v;
       \<And>vs. v = JObject vs \<Longrightarrow> required_met object vs \<and> closed_met object vs;
       \<And>vs p k s c. v = JObject vs \<Longrightarrow> map_of object ''properties'' = Some (JObject p) \<Longrightarrow>
         (k, s) \<in> set p \<Longrightarrow> map_of vs k = Some c \<Longrightarrow> conforms s c;
       \<And>vs items x. v = JArray vs \<Longrightarrow> map_of object ''items'' = Some items \<Longrightarrow>
         x \<in> set vs \<Longrightarrow> conforms items x \<rbrakk>
     \<Longrightarrow> conforms (JObject object) v"

inductive_simps conforms_object: "conforms (JObject object) v"

text \<open>One level of the equivalence between the checker and \<^const>\<open>conforms\<close>.\<close>

lemma validate_schema_node_conforms_step:
  assumes "\<not> 32 < depth" "object \<noteq> []" "schema_shape_ok object depth"
    and node: "\<And>s v. validate_schema_shape s (depth + 1) = Inr () \<Longrightarrow>
      validate_schema_node s v (depth + 1) = Inr () \<longleftrightarrow> conforms s v"
  shows "validate_schema_node (JObject object) value depth = Inr () \<longleftrightarrow> conforms (JObject object) value"
proof -
  obtain kind where kind: "kind \<in> schema_types" "map_of object ''type'' = Some (JString kind)"
    using assms(3) by (auto simp: schema_shape_ok_def)
  have keys: "\<not> list_ex (\<lambda>e. fst e \<notin> schema_keywords) object"
    using assms(3) by (auto simp: schema_shape_ok_def list_ex_iff)
  note step = validate_schema_node.simps [of "JObject object"] assms(1,2) kind keys
  show ?thesis
  proof (cases "value")
    case (JArray vs)
    have "validate_schema_node items x (depth + 1) = Inr () \<longleftrightarrow> conforms items x"
      if "map_of object ''items'' = Some items" for items x
      using assms(3) that by (intro node) (auto simp: schema_shape_ok_def)
    then show ?thesis
      using JArray by (auto simp: step conforms_object outcome_simps split: option.splits)
  next
    case (JObject vs)
    have required: "(case map_of object ''required'' of None \<Rightarrow> Ok ()
        | Some (JArray required) \<Rightarrow> for_each (check_required_key vs) required
        | Some _ \<Rightarrow> Err UnsupportedSchema) = Inr u \<longleftrightarrow> required_met object vs" for u
    proof (cases "map_of object ''required''")
      case (Some v)
      then obtain ks where ks: "v = JArray ks" "list_all is_json_string ks"
        using assms(3) by (auto simp: schema_shape_ok_def)
      have "check_required_key vs x = Inr () \<longleftrightarrow> (\<forall>k. x = JString k \<longrightarrow> k \<in> fst ` set vs)"
        if "x \<in> set ks" for x
      proof -
        have "is_json_string x" using that ks(2) by (simp add: list_all_iff)
        then show ?thesis by (cases x) (simp_all add: is_json_string_def check_required_key_def)
      qed
      then show ?thesis using Some ks(1) by (auto simp: required_met_def for_each_Ok_iff)
    qed (simp add: required_met_def)
    have closed: "list_ex (\<lambda>e. case (case map_of object ''properties'' of
          Some (JObject p) \<Rightarrow> Some p | _ \<Rightarrow> None) of None \<Rightarrow> True | Some p \<Rightarrow> fst e \<notin> fst ` set p) vs
        \<longleftrightarrow> \<not> fst ` set vs \<subseteq> declared_keys object"
      by (cases vs) (auto simp: declared_keys_def list_ex_iff split: option.splits json.splits)
    have props: "(case (case map_of object ''properties'' of Some (JObject p) \<Rightarrow> Some p | _ \<Rightarrow> None) of
          None \<Rightarrow> Ok ()
        | Some p \<Rightarrow> for_each (\<lambda>e. case map_of vs (fst e) of None \<Rightarrow> Ok ()
            | Some c \<Rightarrow> validate_schema_node (snd e) c (depth + 1)) p) = Inr u
        \<longleftrightarrow> (\<forall>p k s c. map_of object ''properties'' = Some (JObject p) \<longrightarrow> (k, s) \<in> set p \<longrightarrow>
          map_of vs k = Some c \<longrightarrow> conforms s c)" for u
    proof (cases "map_of object ''properties''")
      case (Some v)
      then obtain p where p: "v = JObject p"
        and shapes: "\<And>e. e \<in> set p \<Longrightarrow> validate_schema_shape (snd e) (depth + 1) = Inr ()"
        using assms(3) unfolding schema_shape_ok_def by blast
      have "(case map_of vs (fst e) of None \<Rightarrow> Ok ()
            | Some c \<Rightarrow> validate_schema_node (snd e) c (depth + 1)) = Inr ()
          \<longleftrightarrow> (\<forall>c. map_of vs (fst e) = Some c \<longrightarrow> conforms (snd e) c)" if "e \<in> set p" for e
        using node [OF shapes [OF that]] by (cases "map_of vs (fst e)") auto
      then show ?thesis using Some p by (auto simp: for_each_Ok_iff)
    qed simp
    have "validate_schema_node (JObject object) value depth = Inr () \<longleftrightarrow>
        schema_type_matches kind value \<and> required_met object vs \<and> closed_met object vs \<and>
        (\<forall>p k s c. map_of object ''properties'' = Some (JObject p) \<longrightarrow> (k, s) \<in> set p \<longrightarrow>
          map_of vs k = Some c \<longrightarrow> conforms s c)"
      using JObject props by (simp add: step Let_def and_then_eq_Inr required closed closed_met_def)
    then show ?thesis using JObject kind(2) assms(2) by (auto simp: conforms_object)
  qed (auto simp: step conforms_object)
qed

lemma validate_schema_node_conforms:
  "validate_schema_shape schema depth = Inr () \<Longrightarrow>
   validate_schema_node schema value depth = Inr () \<longleftrightarrow> conforms schema value"
proof (induction "33 - depth" arbitrary: schema "value" depth rule: less_induct)
  case less
  from validate_schema_shape_Ok [OF less(2)] obtain object where
    obj: "\<not> 32 < depth" "schema = JObject object" "object = [] \<or> schema_shape_ok object depth"
    by (auto simp: not_less)
  show ?case
  proof (cases "object = []")
    case True
    then show ?thesis
      using obj by (simp add: validate_schema_node.simps [of "JObject []"] conforms_any)
  next
    case False
    have "validate_schema_shape s (depth + 1) = Inr () \<Longrightarrow>
        validate_schema_node s v (depth + 1) = Inr () \<longleftrightarrow> conforms s v" for s v
      using less(1) [of "depth + 1"] obj(1) by simp
    then show ?thesis using validate_schema_node_conforms_step [of depth object] obj False by blast
  qed
qed


section \<open>Properties\<close>

text \<open>Property C24.  A tool definition that was accepted can always be checked against: for every
  parsable input (and output) the check succeeds exactly when the value conforms to the schema, in
  the depth-free reading of the schema, and otherwise answers \<open>SchemaMismatch\<close>; neither
  \<open>UnsupportedSchema\<close> nor the depth limit can surface at invocation time.\<close>

theorem accepted_tool_validates_by_schema:
  assumes "tool_definition_new parse_value name version i out authority timeout cancel effect idem = Inr t"
    and "parse_value v = Some value"
  shows "\<exists>si so. parse_value i = Some si \<and> parse_value out = Some so
    \<and> validate_input parse_value t v = (if conforms si value then Inr () else Inl SchemaMismatch)
    \<and> validate_output parse_value t v = (if conforms so value then Inr () else Inl SchemaMismatch)"
proof -
  from assms(1) obtain si so where parsed: "parse_value i = Some si" "parse_value out = Some so"
    and shape: "validate_schema_shape si 0 = Inr ()" "validate_schema_shape so 0 = Inr ()"
    and t: "td_input_schema t = i" "td_output_schema t = out"
    by (auto simp: tool_definition_new_def outcome_simps split: if_splits)
  show ?thesis
    using parsed t assms(2) validate_schema_node_conforms [OF shape(1), of "value"]
      validate_schema_node_outcome [OF shape(1), of "value"]
      validate_schema_node_conforms [OF shape(2), of "value"]
      validate_schema_node_outcome [OF shape(2), of "value"]
    by (auto simp: validate_input_def validate_output_def validate_json_value_def)
qed

definition sample_parse :: "bytes \<Rightarrow> json option" where
  "sample_parse b =
    (if b = [] then Some (JObject [(''type'', JString ''array''),
       (''items'', JObject [(''type'', JString ''string'')])])
     else if b = [1] then Some (JArray [JString ''a''])
     else None)"

theorem accepted_tool_validates_by_schema_witness:
  "\<exists>t. tool_definition_new sample_parse ''t'' ''v'' [] [] ''c'' 5 Cooperative ReadOnly
      NoExternalEffect = Inr t
    \<and> sample_parse [1] = Some (JArray [JString ''a''])
    \<and> validate_input sample_parse t [1] = Inr ()"
proof -
  have shape: "validate_schema_shape (JObject [(''type'', JString ''array''),
      (''items'', JObject [(''type'', JString ''string'')])]) 0 = Inr ()"
    by (simp add: validate_schema_shape.simps schema_keywords_def schema_types_def)
  obtain t where t: "tool_definition_new sample_parse ''t'' ''v'' [] [] ''c'' 5 Cooperative ReadOnly
      NoExternalEffect = Inr t"
    using shape by (simp add: tool_definition_new_def sample_parse_def validate_stable_identifier_def
        is_ascii_alphanumeric_def is_ascii_lowercase_def is_ascii_digit_def json_is_object_def
        json_is_object_value_def idempotency_coherent_def)
  have "conforms (JObject [(''type'', JString ''array''),
      (''items'', JObject [(''type'', JString ''string'')])]) (JArray [JString ''a''])"
    by (simp add: conforms_object schema_type_matches_def is_json_string_def)
  then show ?thesis
    using t accepted_tool_validates_by_schema [OF t, of "[1]"] by (auto simp: sample_parse_def)
qed




text \<open>Walking a relative path from a directory: the components below it, or \<open>None\<close> when the walk
  leaves the directory.\<close>

primrec walk_path :: "string list \<Rightarrow> string list \<Rightarrow> string list option" where
  "walk_path here [] = Some here"
| "walk_path here (p # ps) =
    (if p = [] \<or> p = ''.'' then walk_path here ps
     else if p = ''..'' then (if here = [] then None else walk_path (butlast here) ps)
     else walk_path (here @ [p]) ps)"

lemma walk_path_plain:
  "list_all (\<lambda>p. p \<noteq> [] \<and> p \<noteq> ''.'' \<and> p \<noteq> ''..'') ps \<Longrightarrow> walk_path here ps = Some (here @ ps)"
  by (induction ps arbitrary: here) auto

lemma split_slash_not_Nil [simp]: "split_slash s \<noteq> []"
  by (induction s rule: split_slash.induct) (auto split: list.splits)

lemma split_slash_no_slash: "p \<in> set (split_slash s) \<Longrightarrow> CHR ''/'' \<notin> set p"
  by (induction s arbitrary: p rule: split_slash.induct) (auto split: if_splits list.splits)

text \<open>Property C26.  A structurally valid artifact names a file strictly below the artifact root: walking
  its locator from the root never leaves it, along every prefix, visits exactly the written components
  (so different locators name different files) and none of them contains a separator.\<close>

theorem artifact_locator_confined:
  assumes "structurally_valid a" "split_slash (as_locator a) = before @ after"
  shows "walk_path [] before = Some before \<and> split_slash (as_locator a) \<noteq> []
    \<and> (\<forall>p \<in> set before. p \<noteq> [] \<and> CHR ''/'' \<notin> set p)"
proof -
  have "list_all (\<lambda>p. p \<noteq> [] \<and> p \<noteq> ''.'' \<and> p \<noteq> ''..'') (split_slash (as_locator a))"
    using assms(1) by (auto simp: structurally_valid_def list_ex_iff list_all_iff)
  then have plain: "list_all (\<lambda>p. p \<noteq> [] \<and> p \<noteq> ''.'' \<and> p \<noteq> ''..'') before"
    using assms(2) by simp
  then show ?thesis
    using walk_path_plain [OF plain, of "[]"] split_slash_no_slash [of _ "as_locator a"] assms(2)
    by (auto simp: list_all_iff)
qed

definition sample_artifact :: artifact_snapshot where
  "sample_artifact = \<lparr>as_artifact_id = 3, as_session_id = 4, as_creator_participant_id = 5,
     as_creator_operation_id = 6, as_media_type = ''text'', as_size = 10, as_digest = 7,
     as_locator = ''s/a'', as_state = Available, as_revision = 2,
     as_retention_until = Timestamp 9 0, as_created_at = Timestamp 8 0, as_deleted_at = None\<rparr>"

theorem artifact_locator_confined_witness:
  "structurally_valid sample_artifact \<and> walk_path [] [''s''] = Some [''s'']"
proof -
  have "structurally_valid sample_artifact"
    by (simp add: structurally_valid_def sample_artifact_def)
  then show ?thesis
    using artifact_locator_confined [of sample_artifact "[''s'']" "[''a'']"]
    by (simp add: sample_artifact_def)
qed

end
