(* ===== verification/Work_State.thy ===== *)
theory Work_State
  imports Session_Store Authority_Domain Tool_Domain
begin

text \<open>
  The tables behind launches, participants, operations and mailboxes in
  \<open>crates/navigator-store-sqlite/src/store.rs\<close>: their rows and decoding, the authorisation every
  mutation of them starts with, the capacity check, and the mailbox primitives (sequence counters,
  snapshot updates, message events).

  The tables extend the record of the session store, so the session operations run unchanged on the
  extended store.  A column that encodes a value holds it, as in the session tables; the counters are
  SQLite integers, so additions are checked against \<open>i64::MAX\<close>.

  The configuration holds the limit profile of the store and the serialisers of \<open>serde_json\<close>: the wire
  form of an envelope, of a terminal outcome, the length of a stored message snapshot, and the parser
  of task inputs.  A limit profile has every resource (\<open>limit_profile_new\<close>); the panic of indexing an
  absent one unwinds the transaction and is modelled as its rollback.
\<close>

record participant_row =
  pr_snapshot :: participant_snapshot
  pr_cancellation_requested :: nat

record operation_row =
  ow_snapshot :: operation_snapshot
  ow_terminal_name :: "string option"
  ow_input :: bytes

record message_row =
  wm_message_id :: message_id
  wm_session_id :: session_id
  wm_source :: participant_id
  wm_destination :: participant_id
  wm_mailbox_sequence :: nat
  wm_priority :: nat
  wm_snapshot :: message_snapshot

record counter_row =
  cw_destination :: participant_id
  cw_next_sequence :: nat
  cw_queued_bytes :: nat
  cw_queued_messages :: nat

record authority_policy_snapshot =
  aq_session_id :: session_id
  aq_participant_id :: participant_id
  aq_ceilings :: authority_ceilings

record work_store = store +
  ws_participants :: "participant_row list"
  ws_operations :: "operation_row list"
  ws_messages :: "message_row list"
  ws_counters :: "counter_row list"
  ws_policies :: "authority_policy_snapshot list"
  ws_artifacts :: "artifact_snapshot list"
  ws_session_usage :: "((session_id \<times> capacity_resource) \<times> nat) list"
  ws_global_usage :: "(capacity_resource \<times> nat) list"

record work_config =
  wc_limits :: limit_profile
  wc_encode_wire :: "u16 \<Rightarrow> message_body \<Rightarrow> bytes"
  wc_encode_outcome :: "operation_terminal_outcome \<Rightarrow> bytes"
  wc_snapshot_length :: "message_snapshot \<Rightarrow> nat"
  wc_parse_object :: "bytes \<Rightarrow> (string \<times> json) list option"

abbreviation pr_participant_id :: "participant_row \<Rightarrow> participant_id" where
  "pr_participant_id r \<equiv> ps_participant_id (pr_snapshot r)"

abbreviation ow_operation_id :: "operation_row \<Rightarrow> operation_id" where
  "ow_operation_id r \<equiv> opn_operation_id (ow_snapshot r)"

definition i64_max :: nat where
  "i64_max = 0x7FFFFFFFFFFFFFFF"

text \<open>\<open>.map(parse).transpose()\<close> of an optional column.\<close>

definition parse_optional_id :: "uuid option \<Rightarrow> store_error + uuid option" where
  "parse_optional_id v =
    (case v of None \<Rightarrow> Ok None | Some i \<Rightarrow> and_then (parse_id i) (\<lambda>i'. Ok (Some i')))"


section \<open>Authorisation\<close>

text \<open>An error of \<open>authorize_launch\<close> is a value: its callers record it and commit, the time floor it
  advanced included.\<close>

definition authorize_launch ::
  "env \<Rightarrow> session_id \<Rightarrow> request_context \<Rightarrow> fencing_epoch \<Rightarrow> store_action \<Rightarrow> timestamp
    \<Rightarrow> ('z, unit) transaction" where
  "authorize_launch en sid context epoch action observed_at s =
    (case require_open_session en s sid action of
       Inl e \<Rightarrow> (Inr (Err e), s)
     | Inr row \<Rightarrow>
         io_bind (advance_time_floor sid (sv_time_floor row) observed_at) (\<lambda>now.
         io_return (require_owner row (rc_caller context) epoch now)) s)"

text \<open>\<open>load_session_in(\<dots>).ok_or(Corrupt)?.time_floor\<close> after the authorisation.\<close>

definition session_time_floor :: "env \<Rightarrow> session_id \<Rightarrow> ('z store_scheme, store_error, timestamp) io" where
  "session_time_floor en sid s =
    io_lift (and_then (load_session_in en s sid) (\<lambda>found.
      and_then (ok_or Corrupt found) (\<lambda>row. Ok (sv_time_floor row)))) s"


section \<open>Participants\<close>

definition decode_participant :: "participant_row \<Rightarrow> store_error + participant_snapshot" where
  "decode_participant r =
    (let p = pr_snapshot r
     in and_then (parse_id (ps_participant_id p)) (\<lambda>_.
        and_then (parse_id (ps_session_id p)) (\<lambda>_.
        and_then (parse_optional_id (ps_parent_participant_id p)) (\<lambda>_.
        and_then (parse_id (ps_template_id p)) (\<lambda>_.
        and_then (decode_revision (ps_revision p)) (\<lambda>_.
        if ps_depth p = 0 \<or> ps_depth p > 8
           \<or> (ps_parent_participant_id p = None \<and> ps_depth p \<noteq> 1)
           \<or> (ps_parent_participant_id p \<noteq> None \<and> ps_depth p = 1)
        then Err Corrupt else Ok p))))))"

definition load_participant_in ::
  "'w work_store_scheme \<Rightarrow> participant_id \<Rightarrow> store_error + participant_snapshot option" where
  "load_participant_in s pid =
    (case find_row pr_participant_id pid (ws_participants s) of
       None \<Rightarrow> Ok None
     | Some r \<Rightarrow> and_then (decode_participant r) (\<lambda>p. Ok (Some p)))"

definition participant_cancellation_requested ::
  "'w work_store_scheme \<Rightarrow> participant_id \<Rightarrow> store_error + bool" where
  "participant_cancellation_requested s pid =
    (case find_row pr_participant_id pid (ws_participants s) of
       None \<Rightarrow> Ok False
     | Some r \<Rightarrow>
         if pr_cancellation_requested r = 0 then Ok False
         else if pr_cancellation_requested r = 1 then Ok True
         else Err Corrupt)"


section \<open>Operations\<close>

definition terminal_outcome_name :: "operation_terminal_outcome \<Rightarrow> string" where
  "terminal_outcome_name out =
    (case out of
       OutcomeSucceeded _ \<Rightarrow> ''succeeded''
     | OutcomeFailed _ _ \<Rightarrow> ''failed''
     | OutcomeCancelled \<Rightarrow> ''cancelled''
     | OutcomeBlocked _ \<Rightarrow> ''blocked''
     | OutcomeUncertain _ \<Rightarrow> ''uncertain'')"

definition terminal_matches_state :: "operation_state \<Rightarrow> operation_terminal_outcome \<Rightarrow> bool" where
  "terminal_matches_state state out =
    (case out of
       OutcomeSucceeded _ \<Rightarrow> state = Succeeded
     | OutcomeFailed _ _ \<Rightarrow> state = Failed
     | OutcomeCancelled \<Rightarrow> state = Cancelled
     | OutcomeBlocked _ \<Rightarrow> state = Blocked
     | OutcomeUncertain _ \<Rightarrow> state = Uncertain)"

definition decode_operation :: "env \<Rightarrow> operation_row \<Rightarrow> store_error + operation_snapshot" where
  "decode_operation en r =
    (let x = ow_snapshot r; terminal = opn_terminal_outcome x
     in and_then (decode_timestamp en (opn_created_at x)) (\<lambda>created_at.
        and_then (decode_timestamp en (opn_updated_at x)) (\<lambda>updated_at.
        if updated_at < created_at \<or> op_is_terminal (opn_state x) \<noteq> (terminal \<noteq> None)
           \<or> ow_terminal_name r \<noteq> map_option terminal_outcome_name terminal
           \<or> (case terminal of None \<Rightarrow> False | Some out \<Rightarrow> \<not> terminal_matches_state (opn_state x) out)
        then Err Corrupt
        else and_then (parse_id (opn_operation_id x)) (\<lambda>_.
        and_then (parse_id (opn_session_id x)) (\<lambda>_.
        and_then (parse_id (opn_participant_id x)) (\<lambda>_.
        and_then (parse_id (opn_start_request_id x)) (\<lambda>_.
        and_then (parse_id (opn_input_message_id x)) (\<lambda>_.
        and_then (parse_optional_id (opn_waiting_on_message_id x)) (\<lambda>_.
        and_then (decode_revision (opn_revision x)) (\<lambda>_.
        if (opn_state x = Waiting) \<noteq> (opn_waiting_on_message_id x \<noteq> None) then Err Corrupt
        else Ok x))))))))))"

definition load_operation_in ::
  "env \<Rightarrow> 'w work_store_scheme \<Rightarrow> operation_id \<Rightarrow> store_error + operation_snapshot option" where
  "load_operation_in en s oid =
    (case find_row ow_operation_id oid (ws_operations s) of
       None \<Rightarrow> Ok None
     | Some r \<Rightarrow> and_then (decode_operation en r) (\<lambda>x. Ok (Some x)))"

definition operation_state_name :: "operation_state \<Rightarrow> string" where
  "operation_state_name s =
    (case s of
       Queued \<Rightarrow> ''queued'' | Starting \<Rightarrow> ''starting'' | Running \<Rightarrow> ''running'' | Waiting \<Rightarrow> ''waiting''
     | Cancelling \<Rightarrow> ''cancelling'' | Succeeded \<Rightarrow> ''succeeded'' | Failed \<Rightarrow> ''failed''
     | Cancelled \<Rightarrow> ''cancelled'' | Blocked \<Rightarrow> ''blocked'' | Uncertain \<Rightarrow> ''uncertain'')"

definition operation_event_name :: "operation_state \<Rightarrow> string" where
  "operation_event_name s =
    (case s of
       Queued \<Rightarrow> ''operation.queued'' | Starting \<Rightarrow> ''operation.starting''
     | Running \<Rightarrow> ''operation.running'' | Waiting \<Rightarrow> ''operation.waiting''
     | Cancelling \<Rightarrow> ''operation.cancelling'' | Succeeded \<Rightarrow> ''operation.succeeded''
     | Failed \<Rightarrow> ''operation.failed'' | Cancelled \<Rightarrow> ''operation.cancelled''
     | Blocked \<Rightarrow> ''operation.blocked'' | Uncertain \<Rightarrow> ''operation.uncertain'')"

definition terminal_public_digest :: "env \<Rightarrow> work_config \<Rightarrow> operation_terminal_outcome \<Rightarrow> digest32" where
  "terminal_public_digest en cfg out =
    semantic_digest_v1 (en_sha256 en) ''operation.public-outcome.v1'' (wc_encode_outcome cfg out)"

definition uuid_json :: "env \<Rightarrow> uuid \<Rightarrow> json" where
  "uuid_json en i = JString (en_uuid_string en i)"

definition optional_json :: "('a \<Rightarrow> json) \<Rightarrow> 'a option \<Rightarrow> json" where
  "optional_json f v = (case v of None \<Rightarrow> JNull | Some x \<Rightarrow> f x)"

definition number_json :: "int \<Rightarrow> json" where
  "number_json n = JNumber (IntNumber n)"

definition operation_event_payload :: "env \<Rightarrow> work_config \<Rightarrow> operation_snapshot \<Rightarrow> bytes" where
  "operation_event_payload en cfg x =
    en_print en (JObject
      [(''created_at'', timestamp_json (opn_created_at x)),
       (''input_message_id'', uuid_json en (opn_input_message_id x)),
       (''operation_id'', uuid_json en (opn_operation_id x)),
       (''participant_id'', uuid_json en (opn_participant_id x)),
       (''revision'', number_json (uint (opn_revision x))),
       (''schema_version'', number_json 1),
       (''session_id'', uuid_json en (opn_session_id x)),
       (''state'', JString (operation_state_name (opn_state x))),
       (''terminal_outcome'', optional_json (\<lambda>out. JString (terminal_outcome_name out))
          (opn_terminal_outcome x)),
       (''terminal_public_digest'', optional_json
          (\<lambda>out. JArray (map (\<lambda>b. number_json (uint b))
             (be_bytes 32 (unat (terminal_public_digest en cfg out))))) (opn_terminal_outcome x)),
       (''updated_at'', timestamp_json (opn_updated_at x)),
       (''waiting_on_message_id'', optional_json (uuid_json en) (opn_waiting_on_message_id x))])"


section \<open>Messages\<close>

definition priority_column :: "message_priority \<Rightarrow> nat" where
  "priority_column p = (case p of ControlPriority \<Rightarrow> 0 | Ordinary \<Rightarrow> 1)"

definition decode_message_row :: "message_row \<Rightarrow> store_error + message_snapshot" where
  "decode_message_row r =
    (let m = wm_snapshot r
     in if wm_message_id r \<noteq> ms_message_id m \<or> wm_session_id r \<noteq> ms_session_id m
          \<or> wm_source r \<noteq> ms_source m \<or> wm_destination r \<noteq> ms_destination m
          \<or> unat (ms_mailbox_sequence m) > i64_max
          \<or> wm_mailbox_sequence r \<noteq> unat (ms_mailbox_sequence m)
          \<or> wm_priority r \<noteq> priority_column (ms_priority m)
          \<or> \<not> message_structurally_valid m
        then Err Corrupt else Ok m)"

definition load_message_in ::
  "'w work_store_scheme \<Rightarrow> message_id \<Rightarrow> store_error + message_snapshot option" where
  "load_message_in s mid =
    (case find_row wm_message_id mid (ws_messages s) of
       None \<Rightarrow> Ok None
     | Some r \<Rightarrow> and_then (decode_message_row r) (\<lambda>m. Ok (Some m)))"

text \<open>The generated column \<open>delivery_state\<close>.\<close>

definition delivery_state_name :: "message_delivery_state \<Rightarrow> string" where
  "delivery_state_name st =
    (case st of
       MessageQueued \<Rightarrow> ''queued''
     | RetryScheduled _ \<Rightarrow> ''retry_scheduled''
     | Leased _ \<Rightarrow> ''leased''
     | AcceptancePending _ \<Rightarrow> ''acceptance_pending''
     | AcceptanceUnknown _ \<Rightarrow> ''acceptance_unknown''
     | Accepted _ _ _ \<Rightarrow> ''accepted''
     | DeliveryUncertain _ _ \<Rightarrow> ''uncertain''
     | DeadLetter _ \<Rightarrow> ''dead_letter'')"

definition message_event_names :: "message_delivery_state \<Rightarrow> string \<times> string" where
  "message_event_names st =
    (case st of
       MessageQueued \<Rightarrow> (''message.enqueued'', ''queued'')
     | RetryScheduled _ \<Rightarrow> (''message.retry_scheduled'', ''retry_scheduled'')
     | Leased _ \<Rightarrow> (''message.leased'', ''leased'')
     | AcceptancePending _ \<Rightarrow> (''message.acceptance_pending'', ''acceptance_pending'')
     | AcceptanceUnknown _ \<Rightarrow> (''message.acceptance_unknown'', ''acceptance_unknown'')
     | Accepted _ _ _ \<Rightarrow> (''message.accepted'', ''accepted'')
     | DeliveryUncertain _ _ \<Rightarrow> (''message.uncertain'', ''uncertain'')
     | DeadLetter _ \<Rightarrow> (''message.dead_lettered'', ''dead_lettered''))"

definition append_message_event ::
  "env \<Rightarrow> request_id \<Rightarrow> message_snapshot \<Rightarrow> timestamp \<Rightarrow> ('z store_scheme, store_error, unit) io" where
  "append_message_event en rid m observed_at =
    (let (event_type, state) = message_event_names (ms_state m);
         data = en_print en (JObject
           [(''attempt_count'', number_json (uint (ms_attempt_count m))),
            (''created_at'', timestamp_json (ms_created_at m)),
            (''destination'', uuid_json en (ms_destination m)),
            (''in_reply_to'', optional_json (uuid_json en) (mc_in_reply_to (ms_correlation m))),
            (''mailbox_sequence'', number_json (uint (ms_mailbox_sequence m))),
            (''message_id'', uuid_json en (ms_message_id m)),
            (''operation_id'', optional_json (uuid_json en) (mc_operation_id (ms_correlation m))),
            (''priority'', JString (case ms_priority m of
               ControlPriority \<Rightarrow> ''control'' | Ordinary \<Rightarrow> ''ordinary'')),
            (''revision'', number_json (uint (ms_revision m))),
            (''schema_version'', number_json 1),
            (''session_id'', uuid_json en (ms_session_id m)),
            (''source'', uuid_json en (ms_source m)),
            (''state'', JString state),
            (''updated_at'', timestamp_json (ms_updated_at m))])
     in append_event_data en rid (ms_session_id m) (ms_revision m) event_type data observed_at)"

definition update_message_snapshot ::
  "message_snapshot \<Rightarrow> ('w work_store_scheme, store_error, unit) io" where
  "update_message_snapshot m s =
    (let hit = (\<lambda>r. wm_message_id r = ms_message_id m)
     in if length (filter hit (ws_messages s)) = 1
        then (Inr (), s\<lparr>ws_messages :=
          map (\<lambda>r. if hit r then r\<lparr>wm_snapshot := m\<rparr> else r) (ws_messages s)\<rparr>)
        else (Inl Corrupt, s))"

definition decrement_mailbox_bytes ::
  "message_snapshot \<Rightarrow> ('w work_store_scheme, store_error, unit) io" where
  "decrement_mailbox_bytes m s =
    (let bytes = length (me_encoded (ms_envelope m));
         hit = (\<lambda>r. cw_destination r = ms_destination m \<and> cw_queued_bytes r \<ge> bytes
           \<and> cw_queued_messages r > 0)
     in if bytes > i64_max then (Inl Corrupt, s)
        else if length (filter hit (ws_counters s)) = 1
        then (Inr (), s\<lparr>ws_counters :=
          map (\<lambda>r. if hit r then r\<lparr>cw_queued_bytes := cw_queued_bytes r - bytes,
              cw_queued_messages := cw_queued_messages r - 1\<rparr> else r) (ws_counters s)\<rparr>)
        else (Inl Corrupt, s))"

text \<open>\<open>SELECT next_sequence, queued_bytes, queued_messages \<dots>\<close> with \<open>unwrap_or((1, 0, 0))\<close>.\<close>

definition mailbox_counter :: "'w work_store_scheme \<Rightarrow> participant_id \<Rightarrow> nat \<times> nat \<times> nat" where
  "mailbox_counter s destination =
    (case find_row cw_destination destination (ws_counters s) of
       None \<Rightarrow> (1, 0, 0)
     | Some r \<Rightarrow> (cw_next_sequence r, cw_queued_bytes r, cw_queued_messages r))"

text \<open>\<open>INSERT INTO mailbox_counters \<dots> ON CONFLICT DO UPDATE\<close>.\<close>

definition upsert_row :: "('r \<Rightarrow> 'k) \<Rightarrow> 'r \<Rightarrow> 'r list \<Rightarrow> 'r list" where
  "upsert_row key r rs = (if find_row key (key r) rs = None then rs @ [r] else put_row key r rs)"

definition put_counter ::
  "participant_id \<Rightarrow> nat \<Rightarrow> nat \<Rightarrow> nat \<Rightarrow> ('w work_store_scheme, store_error, unit) io" where
  "put_counter destination sequence bytes messages s =
    (if sequence \<ge> i64_max \<or> bytes > i64_max \<or> messages > i64_max then (Inl Corrupt, s)
     else let row = \<lparr>cw_destination = destination, cw_next_sequence = sequence + 1,
            cw_queued_bytes = bytes, cw_queued_messages = messages\<rparr>
          in (Inr (), s\<lparr>ws_counters := upsert_row cw_destination row (ws_counters s)\<rparr>))"

text \<open>\<open>INSERT INTO messages\<close>: the message identity is the primary key, and a destination has each
  mailbox sequence once.\<close>

definition insert_message ::
  "message_snapshot \<Rightarrow> nat \<Rightarrow> ('w work_store_scheme, store_error, unit) io" where
  "insert_message m sequence s =
    (if list_ex (\<lambda>r. wm_message_id r = ms_message_id m
           \<or> (wm_destination r = ms_destination m \<and> wm_mailbox_sequence r = sequence)) (ws_messages s)
     then (Inl StoreUnavailable, s)
     else (Inr (), s\<lparr>ws_messages := ws_messages s @
       [\<lparr>wm_message_id = ms_message_id m, wm_session_id = ms_session_id m, wm_source = ms_source m,
         wm_destination = ms_destination m, wm_mailbox_sequence = sequence,
         wm_priority = priority_column (ms_priority m), wm_snapshot = m\<rparr>]\<rparr>))"


section \<open>Capacity\<close>

definition artifact_state_column :: "artifact_state \<Rightarrow> string" where
  "artifact_state_column st =
    (case st of
       Available \<Rightarrow> ''available''
     | LogicallyDeleted \<Rightarrow> ''logically_deleted''
     | PhysicallyErased \<Rightarrow> ''physically_erased'')"

text \<open>\<open>SELECT COUNT(*) \<dots>\<close> and \<open>SUM\<close> over the rows of a session and over all rows.\<close>

definition session_and_global ::
  "('r \<Rightarrow> session_id) \<Rightarrow> ('r \<Rightarrow> bool) \<Rightarrow> ('r \<Rightarrow> nat) \<Rightarrow> 'r list \<Rightarrow> session_id \<Rightarrow> nat \<times> nat" where
  "session_and_global session_of_row cond weight rows sid =
    (sum_list (map weight (filter (\<lambda>r. session_of_row r = sid \<and> cond r) rows)),
     sum_list (map weight (filter cond rows)))"

definition derived_capacity_usage ::
  "work_config \<Rightarrow> 'w work_store_scheme \<Rightarrow> session_id \<Rightarrow> capacity_resource \<Rightarrow> nat \<times> nat" where
  "derived_capacity_usage cfg s sid resource =
    (let operations = (\<lambda>cond. session_and_global (\<lambda>r. opn_session_id (ow_snapshot r)) cond (\<lambda>_. 1)
           (ws_operations s) sid);
         messages = (\<lambda>cond weight. session_and_global wm_session_id
           (\<lambda>r. cond (delivery_state_name (ms_state (wm_snapshot r)))) weight (ws_messages s) sid);
         artifacts = (\<lambda>weight. session_and_global as_session_id
           (\<lambda>r. artifact_state_column (as_state r) \<noteq> ''erased'') weight (ws_artifacts s) sid)
     in case resource of
          Participants \<Rightarrow> session_and_global (\<lambda>r. ps_session_id (pr_snapshot r)) (\<lambda>_. True) (\<lambda>_. 1)
            (ws_participants s) sid
        | ActiveOperations \<Rightarrow> operations (\<lambda>r. ow_terminal_name r = None
            \<and> opn_state (ow_snapshot r) \<noteq> Queued)
        | QueuedOperations \<Rightarrow> operations (\<lambda>r. opn_state (ow_snapshot r) = Queued)
        | Messages \<Rightarrow> messages (\<lambda>st. st \<notin> {''accepted'', ''retired''}) (\<lambda>_. 1)
        | MessageBytes \<Rightarrow> messages (\<lambda>st. st \<notin> {''accepted'', ''retired''})
            (\<lambda>r. wc_snapshot_length cfg (wm_snapshot r))
        | Artifacts \<Rightarrow> artifacts (\<lambda>_. 1)
        | ArtifactBytes \<Rightarrow> artifacts (\<lambda>r. unat (as_size r))
        | Retries \<Rightarrow> messages (\<lambda>st. st = ''retry_scheduled'') (\<lambda>_. 1)
        | RetainedEvents \<Rightarrow> session_and_global ew_session_id (\<lambda>_. True) (\<lambda>_. 1) (st_events s) sid
        | PendingRequests \<Rightarrow> (0, 0)
        | Subscriptions \<Rightarrow> (0, 0))"

text \<open>\<open>checked_add\<close> twice, then \<open>is_none_or(|used| used > limit)\<close>.\<close>

definition exceeds :: "nat \<Rightarrow> nat \<Rightarrow> nat \<Rightarrow> u64 \<Rightarrow> bool" where
  "exceeds derived reserved amount limit =
    (derived + reserved \<ge> 2 ^ 64 \<or> derived + reserved + amount \<ge> 2 ^ 64
     \<or> derived + reserved + amount > unat limit)"

definition ensure_derived_capacity ::
  "work_config \<Rightarrow> 'w work_store_scheme \<Rightarrow> session_id \<Rightarrow> capacity_resource \<Rightarrow> nat \<Rightarrow> store_error + unit" where
  "ensure_derived_capacity cfg s sid resource amount =
    (let (derived_session, derived_global) = derived_capacity_usage cfg s sid resource;
         reserved_session = (case map_of (ws_session_usage s) (sid, resource) of None \<Rightarrow> 0 | Some used \<Rightarrow> used);
         reserved_global = (case map_of (ws_global_usage s) resource of None \<Rightarrow> 0 | Some used \<Rightarrow> used)
     in case limit_profile_get (wc_limits cfg) resource of
          None \<Rightarrow> Err StoreUnavailable
        | Some limit \<Rightarrow>
            if exceeds derived_session reserved_session amount (rl_per_session limit)
            then Err (CapacityExceeded (SessionLimit resource))
            else if exceeds derived_global reserved_global amount (rl_global limit)
            then Err (CapacityExceeded (GlobalLimit resource))
            else Ok ())"

definition require_capacity ::
  "work_config \<Rightarrow> session_id \<Rightarrow> capacity_resource \<Rightarrow> nat \<Rightarrow> ('w work_store_scheme, store_error, unit) io" where
  "require_capacity cfg sid resource amount s =
    io_lift (ensure_derived_capacity cfg s sid resource amount) s"

end
