(* ===== verification/Launch_Store.thy ===== *)
theory Launch_Store
  imports Work_State
begin

text \<open>
  The launch operations of the SQLite store (\<open>impl InstanceStore for SqliteStore\<close> in
  \<open>crates/navigator-store-sqlite/src/store.rs\<close>): validating launch authority, preparing, attaching and
  transitioning launches, and the reads.

  \<open>validate_launch_authority\<close> reads outside a transaction and may then seal an observed expiry in one;
  other operations can run in between, so it takes the store it reads and the store the transaction
  finds.  The in-memory floors of the process (\<open>authority_time_floors\<close>) are a map that a restart empties.
\<close>

section \<open>Launch authority\<close>

type_synonym authority_floors = "session_id \<Rightarrow> timestamp option"

definition seal_expiry ::
  "env \<Rightarrow> session_id \<Rightarrow> host_id \<Rightarrow> fencing_epoch \<Rightarrow> timestamp \<Rightarrow> ('z, unit) transaction" where
  "seal_expiry en sid host epoch effective s =
    (io_bind (io_lift (require_open_session en s sid PrepareLaunch)) (\<lambda>current.
     io_bind (advance_time_floor sid (sv_time_floor current) effective) (\<lambda>sealed.
     io_return (require_owner current host epoch sealed)))) s"

definition validate_launch_authority ::
  "env \<Rightarrow> timestamp \<Rightarrow> authority_floors \<Rightarrow> session_id \<Rightarrow> host_id \<Rightarrow> fencing_epoch
    \<Rightarrow> 'z store_scheme \<Rightarrow> 'z store_scheme \<Rightarrow> authority_floors \<times> 'z store_scheme \<times> (store_error + unit)" where
  "validate_launch_authority en now floors sid host epoch s_read s =
    (case and_then (load_session_in en s_read sid) (ok_or (SessionNotFound sid)) of
       Inl e \<Rightarrow> (floors, s, Err e)
     | Inr row \<Rightarrow>
         if ss_status (sv_snapshot row) = Closed then (floors, s, Err (SessionClosed sid))
         else
           let observed_at = max (sv_time_floor row) now;
               effective = (case floors sid of None \<Rightarrow> observed_at | Some floor \<Rightarrow> max floor observed_at);
               floors' = floors(sid \<mapsto> effective)
           in case require_owner row host epoch effective of
                Inr _ \<Rightarrow> (floors', s, Ok ())
              | Inl e \<Rightarrow>
                  (case e of
                     OwnershipExpired _ _ \<Rightarrow>
                       (floors', run_transaction (seal_expiry en sid host epoch effective) s)
                   | _ \<Rightarrow> (floors', s, Err e)))"


section \<open>The launch table\<close>

definition decode_launch :: "launch_snapshot \<Rightarrow> store_error + launch_snapshot" where
  "decode_launch w =
    and_then (parse_id (ls_attempt_id w)) (\<lambda>_.
    and_then (parse_id (ls_session_id w)) (\<lambda>_.
    and_then (case ls_ownership_epoch w of None \<Rightarrow> Ok () | Some e \<Rightarrow> and_then (decode_epoch e) (\<lambda>_. Ok ())) (\<lambda>_.
    and_then (parse_id (ls_participant_id w)) (\<lambda>_.
    and_then (parse_id (ls_driver_id w)) (\<lambda>_.
    and_then (parse_optional_id (ls_instance_id w)) (\<lambda>_.
    and_then (decode_revision (ls_revision w)) (\<lambda>_.
    and_then (case ls_cleanup_reason w of
        None \<Rightarrow> Ok ()
      | Some r \<Rightarrow> and_then (map_err (\<lambda>_. Corrupt) (bounded_text_new 1024 r)) (\<lambda>_. Ok ())) (\<lambda>_.
    Ok w))))))))"

definition load_launch_in ::
  "'z store_scheme \<Rightarrow> launch_attempt_id \<Rightarrow> store_error + launch_snapshot option" where
  "load_launch_in s aid =
    (case find_row ls_attempt_id aid (st_launches s) of
       None \<Rightarrow> Ok None
     | Some w \<Rightarrow> and_then (decode_launch w) (\<lambda>w'. Ok (Some w')))"

definition optional_i64 :: "u64 option \<Rightarrow> store_error + u64 option" where
  "optional_i64 v = (case v of None \<Rightarrow> Ok None | Some x \<Rightarrow> and_then (to_i64 x) (\<lambda>y. Ok (Some y)))"

definition insert_launch :: "launch_snapshot \<Rightarrow> ('z store_scheme, store_error, unit) io" where
  "insert_launch w =
    io_bind (io_lift (optional_i64 (ls_ownership_epoch w))) (\<lambda>_.
    io_bind (io_lift (to_i64 (ls_revision w))) (\<lambda>_.
    (\<lambda>s. if list_ex (\<lambda>r. ls_attempt_id r = ls_attempt_id w
            \<or> (ls_instance_id w \<noteq> None \<and> ls_instance_id r = ls_instance_id w)) (st_launches s)
         then (Inl StoreUnavailable, s)
         else (Inr (), s\<lparr>st_launches := st_launches s @ [w]\<rparr>))))"

definition update_launch ::
  "launch_snapshot \<Rightarrow> revision \<Rightarrow> ('z store_scheme, store_error, unit) io" where
  "update_launch w expected_revision =
    io_bind (io_lift (to_i64 (ls_revision w))) (\<lambda>_.
    io_bind (io_lift (to_i64 expected_revision)) (\<lambda>_.
    (\<lambda>s. let hit = (\<lambda>r. ls_attempt_id r = ls_attempt_id w \<and> ls_revision r = expected_revision);
             changed = (\<lambda>r. r\<lparr>ls_instance_id := ls_instance_id w, ls_state := ls_state w,
               ls_revision := ls_revision w, ls_evidence := ls_evidence w,
               ls_cleanup_reason := ls_cleanup_reason w\<rparr>)
         in if list_ex (\<lambda>r. \<not> hit r \<and> ls_instance_id w \<noteq> None \<and> ls_instance_id r = ls_instance_id w)
                 (st_launches s)
               \<and> list_ex hit (st_launches s)
            then (Inl StoreUnavailable, s)
            else if length (filter hit (st_launches s)) = 1
            then (Inr (), s\<lparr>st_launches := map (\<lambda>r. if hit r then changed r else r) (st_launches s)\<rparr>)
            else (Inl Invalid, s))))"

definition valid_launch_transition :: "launch_state \<Rightarrow> launch_state \<Rightarrow> bool" where
  "valid_launch_transition from to =
    ((from = Attached \<and> to = Ready)
     \<or> (from \<in> {Attached, Ready} \<and> to = Stopping)
     \<or> (from \<in> {Prepared, Attached, Ready, Stopping, LaunchCleanupRequired} \<and> to = LaunchCleanupRequired)
     \<or> (from \<in> {Stopping, LaunchCleanupRequired} \<and> to = Stopped))"

definition parse_launch_state :: "string \<Rightarrow> store_error + launch_state" where
  "parse_launch_state v =
    ok_or Corrupt (map_of
      [(''prepared'', Prepared), (''attached'', Attached), (''ready'', Ready),
       (''stopping'', Stopping), (''stopped'', Stopped),
       (''cleanup_required'', LaunchCleanupRequired)] v)"


section \<open>Operations\<close>

text \<open>\<open>replay_json::<LaunchSnapshot>\<close>.\<close>

definition replay_launch ::
  "'z store_scheme \<Rightarrow> ledger_request \<Rightarrow> store_error + launch_snapshot option" where
  "replay_launch s q =
    and_then (replay_bytes s q) (\<lambda>found.
    case found of
      None \<Rightarrow> Ok None
    | Some (LaunchValue w) \<Rightarrow> Ok (Some w)
    | Some _ \<Rightarrow> Err Corrupt)"

definition prepared_launch :: "prepare_launch_cmd \<Rightarrow> launch_snapshot" where
  "prepared_launch c =
    \<lparr>ls_session_id = pl_session_id c, ls_ownership_epoch = Some (pl_epoch c),
     ls_participant_id = pl_participant_id c, ls_driver_id = pl_driver_id c,
     ls_driver_configuration_digest = pl_driver_configuration_digest c,
     ls_attempt_id = pl_attempt_id c, ls_instance_id = None, ls_state = Prepared,
     ls_revision = revision_initial, ls_credential_digest = pl_credential_digest c,
     ls_evidence = None, ls_cleanup_reason = None\<rparr>"

definition prepare_launch ::
  "env \<Rightarrow> timestamp \<Rightarrow> prepare_launch_cmd \<Rightarrow> ('w work_store_ext, launch_snapshot mutation) transaction" where
  "prepare_launch en observed_at c =
    (let q = request_of en (CmdPrepareLaunch c); sid = pl_session_id c
     in io_bind (\<lambda>s. io_lift (replay_launch s q) s) (\<lambda>replayed.
        case replayed of
          Some w \<Rightarrow>
            io_bind (\<lambda>s. io_lift (participant_cancellation_requested s (pl_participant_id c)) s) (\<lambda>cancelled.
            if cancelled then io_fail Invalid else finish_with (Replayed w))
        | None \<Rightarrow>
            io_bind (authorize_launch en sid (pl_context c) (pl_epoch c) PrepareLaunch observed_at) (\<lambda>r.
            or_fail sid q r (\<lambda>_.
            io_bind (\<lambda>s. io_lift (participant_cancellation_requested s (pl_participant_id c)) s) (\<lambda>cancelled.
            if cancelled then finish_failure sid q Invalid
            else
            io_bind (\<lambda>s. io_lift (load_launch_in s (pl_attempt_id c)) s) (\<lambda>found.
            case found of
              Some existing \<Rightarrow>
                if ls_session_id existing \<noteq> sid \<or> ls_participant_id existing \<noteq> pl_participant_id c
                   \<or> ls_driver_id existing \<noteq> pl_driver_id c
                   \<or> ls_driver_configuration_digest existing \<noteq> pl_driver_configuration_digest c
                   \<or> ls_credential_digest existing \<noteq> pl_credential_digest c
                then finish_failure sid q Invalid
                else io_bind (record_bytes sid q EffectUnchanged (LaunchValue existing)) (\<lambda>_.
                  finish_with (Unchanged existing))
            | None \<Rightarrow>
                io_bind (insert_launch (prepared_launch c)) (\<lambda>_.
                io_bind (record_bytes sid q EffectApplied (LaunchValue (prepared_launch c))) (\<lambda>_.
                finish_with (Applied (prepared_launch c))))))))))"

definition mutate_launch ::
  "env \<Rightarrow> timestamp \<Rightarrow> session_id \<Rightarrow> request_context \<Rightarrow> fencing_epoch \<Rightarrow> launch_attempt_id \<Rightarrow> revision
    \<Rightarrow> command \<Rightarrow> (launch_snapshot \<Rightarrow> store_error + launch_snapshot)
    \<Rightarrow> ('z, launch_snapshot mutation) transaction" where
  "mutate_launch en observed_at sid context epoch aid expected_revision request apply_change =
    (let q = request_of en request
     in io_bind (\<lambda>s. io_lift (replay_launch s q) s) (\<lambda>replayed.
        case replayed of
          Some w \<Rightarrow> finish_with (Replayed w)
        | None \<Rightarrow>
            io_bind (authorize_launch en sid context epoch (command_action request) observed_at) (\<lambda>r.
            or_fail sid q r (\<lambda>_.
            io_bind (\<lambda>s. io_lift (load_launch_in s aid) s) (\<lambda>found.
            case found of
              None \<Rightarrow> finish_failure sid q Invalid
            | Some w \<Rightarrow>
                if ls_session_id w \<noteq> sid then finish_failure sid q Invalid
                else if ls_revision w \<noteq> expected_revision then finish_failure sid q Invalid
                else or_fail sid q (apply_change w) (\<lambda>changed.
                  io_bind (io_get (\<lambda>s. case ls_instance_id changed of
                      None \<Rightarrow> False
                    | Some i \<Rightarrow> list_ex (\<lambda>r. ls_instance_id r = Some i \<and> ls_attempt_id r \<noteq> aid)
                        (st_launches s))) (\<lambda>conflicting.
                  if conflicting then finish_failure sid q Invalid
                  else
                  io_bind (io_lift (ok_or Corrupt (revision_next (ls_revision changed)))) (\<lambda>revno.
                  let snapshot = changed\<lparr>ls_revision := revno\<rparr>
                  in io_bind (update_launch snapshot expected_revision) (\<lambda>_.
                     io_bind (record_bytes sid q EffectApplied (LaunchValue snapshot)) (\<lambda>_.
                     finish_with (Applied snapshot)))))))))))"

definition attach_change :: "attach_launch_cmd \<Rightarrow> launch_snapshot \<Rightarrow> store_error + launch_snapshot" where
  "attach_change c w =
    (if ls_state w \<noteq> Prepared \<or> ls_instance_id w \<noteq> None
        \<or> pe_process_id (al_evidence c) = 0 \<or> pe_process_group_id (al_evidence c) = 0
        \<or> pe_parent_process_id (al_evidence c) = 0 \<or> pe_creation_marker (al_evidence c) = 0
        \<or> pe_executable_identity (al_evidence c) = 0
     then Err Invalid
     else Ok (w\<lparr>ls_instance_id := Some (al_instance_id c), ls_evidence := Some (al_evidence c),
                ls_state := Attached\<rparr>))"

definition attach_launch ::
  "env \<Rightarrow> timestamp \<Rightarrow> attach_launch_cmd \<Rightarrow> ('z, launch_snapshot mutation) transaction" where
  "attach_launch en observed_at c =
    mutate_launch en observed_at (al_session_id c) (al_context c) (al_epoch c) (al_attempt_id c)
      (al_expected_revision c) (CmdAttachLaunch c) (attach_change c)"

definition transition_change ::
  "transition_launch_cmd \<Rightarrow> launch_snapshot \<Rightarrow> store_error + launch_snapshot" where
  "transition_change c w =
    (if \<not> valid_launch_transition (ls_state w) (tl_target c)
        \<or> (tl_target c = LaunchCleanupRequired) \<noteq> (tl_cleanup_reason c \<noteq> None)
     then Err Invalid
     else Ok (w\<lparr>ls_state := tl_target c, ls_cleanup_reason := tl_cleanup_reason c\<rparr>))"

definition transition_launch ::
  "env \<Rightarrow> timestamp \<Rightarrow> transition_launch_cmd \<Rightarrow> ('z, launch_snapshot mutation) transaction" where
  "transition_launch en observed_at c =
    mutate_launch en observed_at (tl_session_id c) (tl_context c) (tl_epoch c) (tl_attempt_id c)
      (tl_expected_revision c) (CmdTransitionLaunch c) (transition_change c)"


section \<open>Reads\<close>

definition load_launch :: "'z store_scheme \<Rightarrow> launch_attempt_id \<Rightarrow> store_error + launch_snapshot" where
  "load_launch s aid = and_then (load_launch_in s aid) (ok_or (LaunchNotFound aid))"

definition session_has_launches :: "'z store_scheme \<Rightarrow> session_id \<Rightarrow> bool" where
  "session_has_launches s sid = list_ex (\<lambda>w. ls_session_id w = sid) (st_launches s)"

definition session_has_unresolved_launches :: "'z store_scheme \<Rightarrow> session_id \<Rightarrow> bool" where
  "session_has_unresolved_launches s sid =
    list_ex (\<lambda>w. ls_session_id w = sid \<and> ls_state w \<noteq> Stopped) (st_launches s)"

end
