(* ===== verification/Operation_Store.thy ===== *)
theory Operation_Store
  imports Launch_Store
begin

text \<open>
  Templates, participants and operations in the SQLite store (\<open>impl OperationStore for SqliteStore\<close> in
  \<open>crates/navigator-store-sqlite/src/store.rs\<close>): registering templates, creating root and child
  participants, starting an operation together with its input message, transitioning an operation
  together with the retirement of its messages and the upward outcome, and the reads.

  The constructors of envelopes panic on an oversized encoding; the panic unwinds the transaction and is
  modelled as its rollback.
\<close>

section \<open>Templates\<close>

text \<open>\<open>INSERT INTO templates\<close>.\<close>

definition insert_template :: "template_record \<Rightarrow> ('z store_scheme, store_error, unit) io" where
  "insert_template t s =
    (if find_row tw_template_id (tp_identity t) (st_templates s) \<noteq> None then (Inl StoreUnavailable, s)
     else (Inr (), s\<lparr>st_templates := st_templates s @
       [\<lparr>tw_template_id = tp_identity t, tw_compatibility = tp_compatibility t,
         tw_registration = registration_of t\<rparr>]\<rparr>))"

definition register_template ::
  "env \<Rightarrow> template_record \<Rightarrow> ('z, template_record mutation) transaction" where
  "register_template en t =
    io_bind (io_lift (map_err (\<lambda>_. Invalid) (template_try_from (en_sha256 en) (en_encode_template en) t)))
      (\<lambda>_.
    io_bind (\<lambda>s. io_lift (load_template_in en s (tp_identity t)) s) (\<lambda>found.
    case found of
      Some existing \<Rightarrow> if existing = t then finish_with (Unchanged existing) else io_return (Err Invalid)
    | None \<Rightarrow> io_bind (insert_template t) (\<lambda>_. finish_with (Applied t))))"

definition session_allows_template :: "'z store_scheme \<Rightarrow> session_id \<Rightarrow> template_record \<Rightarrow> bool" where
  "session_allows_template s sid t =
    (case find_row sw_session_id sid (st_sessions s) of
       None \<Rightarrow> False
     | Some r \<Rightarrow>
         if \<not> sw_manifest_complete r then sw_compatibility r = tp_compatibility t
         else (case filter (\<lambda>w. mw_session_id w = sid \<and> mw_template_id w = tp_identity t)
                 (st_manifests s) of
             [] \<Rightarrow> False
           | w # _ \<Rightarrow> mw_compatibility w = tp_compatibility t))"


section \<open>Participants\<close>

definition replay_participant ::
  "'z store_scheme \<Rightarrow> ledger_request \<Rightarrow> store_error + participant_snapshot option" where
  "replay_participant s q =
    and_then (replay_bytes s q) (\<lambda>found.
    case found of
      None \<Rightarrow> Ok None
    | Some (ParticipantValue p) \<Rightarrow> Ok (Some p)
    | Some _ \<Rightarrow> Err Corrupt)"

text \<open>A replayed participant must still be the stored one.\<close>

definition confirm_participant ::
  "participant_snapshot \<Rightarrow> ('w work_store_ext, participant_snapshot mutation) transaction" where
  "confirm_participant p =
    io_bind (\<lambda>s. io_lift (and_then (load_participant_in s (ps_participant_id p)) (ok_or Corrupt)) s)
      (\<lambda>current. if current \<noteq> p then io_fail Corrupt else finish_with (Replayed current))"

definition participant_event_payload :: "env \<Rightarrow> participant_snapshot \<Rightarrow> bytes" where
  "participant_event_payload en p =
    en_print en (JObject
      [(''depth'', number_json (uint (ps_depth p))),
       (''lifecycle'', JString ''registered''),
       (''parent_participant_id'', optional_json (uuid_json en) (ps_parent_participant_id p)),
       (''participant_id'', uuid_json en (ps_participant_id p)),
       (''revision'', number_json (uint (ps_revision p))),
       (''schema_version'', number_json 1),
       (''session_id'', uuid_json en (ps_session_id p)),
       (''template_id'', uuid_json en (ps_template_id p))])"

text \<open>\<open>INSERT INTO participants\<close>: the identity is the primary key, a session has one root.\<close>

definition insert_participant ::
  "participant_snapshot \<Rightarrow> ('w work_store_scheme, store_error, unit) io" where
  "insert_participant p s =
    (if list_ex (\<lambda>r. pr_participant_id r = ps_participant_id p
           \<or> (ps_parent_participant_id p = None \<and> ps_parent_participant_id (pr_snapshot r) = None
              \<and> ps_session_id (pr_snapshot r) = ps_session_id p)) (ws_participants s)
     then (Inl StoreUnavailable, s)
     else (Inr (), s\<lparr>ws_participants := ws_participants s @
       [\<lparr>pr_snapshot = p, pr_cancellation_requested = 0\<rparr>]\<rparr>))"

text \<open>\<open>commit_root_participant\<close>, and the same sequence at the end of \<open>create_child_participant\<close>.\<close>

definition commit_participant ::
  "env \<Rightarrow> request_id \<Rightarrow> ledger_request \<Rightarrow> participant_snapshot \<Rightarrow> timestamp
    \<Rightarrow> ('w work_store_ext, participant_snapshot mutation) transaction" where
  "commit_participant en rid q p observed_at =
    io_bind (insert_participant p) (\<lambda>_.
    io_bind (append_event_data en rid (ps_session_id p) (ps_revision p) ''participant.created''
      (participant_event_payload en p) observed_at) (\<lambda>_.
    io_bind (record_bytes (ps_session_id p) q EffectApplied (ParticipantValue p)) (\<lambda>_.
    finish_with (Applied p))))"

definition create_root_participant ::
  "env \<Rightarrow> work_config \<Rightarrow> timestamp \<Rightarrow> create_root_cmd
    \<Rightarrow> ('w work_store_ext, participant_snapshot mutation) transaction" where
  "create_root_participant en cfg observed_at c =
    (let q = request_of en (CmdCreateRootParticipant c); sid = cr_session_id c
     in io_bind (\<lambda>s. io_lift (replay_participant s q) s) (\<lambda>replayed.
        case replayed of
          Some p \<Rightarrow> confirm_participant p
        | None \<Rightarrow>
            io_bind (authorize_launch en sid (cr_context c) (cr_epoch c) CreateRootParticipant observed_at) (\<lambda>r.
            or_fail sid q r (\<lambda>_.
            io_bind (\<lambda>s. io_lift (load_template_in en s (cr_template_id c)) s) (\<lambda>template.
            case template of
              None \<Rightarrow> finish_failure sid q Invalid
            | Some t \<Rightarrow>
                if tp_compatibility t \<noteq> cr_expected_compatibility c then finish_failure sid q Invalid
                else
                io_bind (io_get (\<lambda>s. session_allows_template s sid t)) (\<lambda>allowed.
                if \<not> allowed then finish_failure sid q Invalid
                else
                io_bind (\<lambda>s. io_lift (load_participant_in s (cr_participant_id c)) s) (\<lambda>found.
                case found of
                  Some existing \<Rightarrow>
                    if ps_session_id existing \<noteq> sid \<or> ps_template_id existing \<noteq> cr_template_id c
                    then finish_failure sid q Invalid
                    else io_bind (record_bytes sid q EffectUnchanged (ParticipantValue existing)) (\<lambda>_.
                      finish_with (Unchanged existing))
                | None \<Rightarrow>
                    io_bind (io_get (\<lambda>s. list_ex (\<lambda>r. ps_session_id (pr_snapshot r) = sid
                      \<and> ps_parent_participant_id (pr_snapshot r) = None) (ws_participants s))) (\<lambda>root_exists.
                    if root_exists then finish_failure sid q Invalid
                    else
                    io_bind (require_capacity cfg sid Participants 1) (\<lambda>_.
                    commit_participant en (rc_request_id (cr_context c)) q
                      \<lparr>ps_session_id = sid, ps_participant_id = cr_participant_id c,
                       ps_parent_participant_id = None, ps_depth = 1, ps_template_id = cr_template_id c,
                       ps_template_compatibility = tp_compatibility t, ps_revision = revision_initial\<rparr>
                      observed_at)))))))))"

text \<open>The part of \<open>create_child_participant\<close> after its parent and template are loaded.\<close>

definition create_child_of ::
  "env \<Rightarrow> work_config \<Rightarrow> timestamp \<Rightarrow> create_child_cmd \<Rightarrow> ledger_request \<Rightarrow> participant_snapshot
    \<Rightarrow> template_record \<Rightarrow> ('w work_store_ext, participant_snapshot mutation) transaction" where
  "create_child_of en cfg observed_at c q parent t =
    (let sid = cc_session_id c
     in if ps_session_id parent \<noteq> sid \<or> tp_compatibility t \<noteq> cc_expected_compatibility c
           \<or> cc_participant_id c = cc_parent_participant_id c \<or> ps_depth parent \<ge> 8
        then finish_failure sid q Invalid
        else
        io_bind (io_get (\<lambda>s. session_allows_template s sid t)) (\<lambda>allowed.
        if \<not> allowed then finish_failure sid q Invalid
        else
        io_bind (\<lambda>s. io_lift (load_participant_in s (cc_participant_id c)) s) (\<lambda>found.
        if found \<noteq> None then finish_failure sid q Invalid
        else
        io_bind (io_get (\<lambda>s.
          (length (filter (\<lambda>r. ps_session_id (pr_snapshot r) = sid
             \<and> ps_parent_participant_id (pr_snapshot r) = Some (cc_parent_participant_id c)) (ws_participants s)),
           length (filter (\<lambda>r. ps_session_id (pr_snapshot r) = sid) (ws_participants s))))) (\<lambda>(direct, total).
        if direct \<ge> 64 \<or> total \<ge> 1024 then finish_failure sid q Invalid
        else
        io_bind (require_capacity cfg sid Participants 1) (\<lambda>_.
        io_bind (io_lift (ok_or Corrupt (checked_add (ps_depth parent) 1))) (\<lambda>depth.
        commit_participant en (rc_request_id (cc_context c)) q
          \<lparr>ps_session_id = sid, ps_participant_id = cc_participant_id c,
           ps_parent_participant_id = Some (cc_parent_participant_id c), ps_depth = depth,
           ps_template_id = cc_template_id c, ps_template_compatibility = tp_compatibility t,
           ps_revision = revision_initial\<rparr> observed_at))))))"

definition create_child_participant ::
  "env \<Rightarrow> work_config \<Rightarrow> timestamp \<Rightarrow> create_child_cmd
    \<Rightarrow> ('w work_store_ext, participant_snapshot mutation) transaction" where
  "create_child_participant en cfg observed_at c =
    (let q = request_of en (CmdCreateChildParticipant c); sid = cc_session_id c
     in io_bind (\<lambda>s. io_lift (replay_participant s q) s) (\<lambda>replayed.
        case replayed of
          Some p \<Rightarrow> confirm_participant p
        | None \<Rightarrow>
            io_bind (authorize_launch en sid (cc_context c) (cc_epoch c) CreateChildParticipant observed_at) (\<lambda>r.
            or_fail sid q r (\<lambda>_.
            io_bind (\<lambda>s. io_lift (load_participant_in s (cc_parent_participant_id c)) s) (\<lambda>found.
            case found of
              None \<Rightarrow> finish_failure sid q Invalid
            | Some parent \<Rightarrow>
                io_bind (\<lambda>s. io_lift (participant_cancellation_requested s (cc_parent_participant_id c)) s)
                  (\<lambda>cancelled.
                if cancelled then finish_failure sid q Invalid
                else
                io_bind (\<lambda>s. io_lift (load_template_in en s (cc_template_id c)) s) (\<lambda>template.
                case template of
                  None \<Rightarrow> finish_failure sid q Invalid
                | Some t \<Rightarrow> create_child_of en cfg observed_at c q parent t)))))))"


section \<open>Starting an operation\<close>

definition replay_operation ::
  "'z store_scheme \<Rightarrow> ledger_request \<Rightarrow> store_error + operation_snapshot option" where
  "replay_operation s q =
    and_then (replay_bytes s q) (\<lambda>found.
    case found of
      None \<Rightarrow> Ok None
    | Some (OperationValue x) \<Rightarrow> Ok (Some x)
    | Some _ \<Rightarrow> Err Corrupt)"

definition input_envelope ::
  "work_config \<Rightarrow> operation_id \<Rightarrow> digest32 \<Rightarrow> store_error + message_envelope" where
  "input_envelope cfg oid digest =
    ok_or StoreUnavailable (closed_envelope (wc_encode_wire cfg) (message_body.OperationInput oid digest))"

text \<open>A replayed start answers with the operation as it is now, after checking that the operation and its
  input message are the recorded ones.\<close>

definition confirm_operation ::
  "env \<Rightarrow> work_config \<Rightarrow> operation_snapshot \<Rightarrow> ('w work_store_ext, operation_snapshot mutation) transaction" where
  "confirm_operation en cfg recorded =
    io_bind (\<lambda>s. io_lift (and_then (load_operation_in en s (opn_operation_id recorded)) (ok_or Corrupt)) s)
      (\<lambda>x.
    if opn_session_id x \<noteq> opn_session_id recorded \<or> opn_participant_id x \<noteq> opn_participant_id recorded
       \<or> opn_start_request_id x \<noteq> opn_start_request_id recorded
       \<or> opn_input_message_id x \<noteq> opn_input_message_id recorded
    then io_fail Corrupt
    else
    io_bind (\<lambda>s. io_lift (and_then (load_message_in s (opn_input_message_id x)) (ok_or Corrupt)) s) (\<lambda>m.
    io_bind (io_lift (input_envelope cfg (opn_operation_id x) (opn_input_digest x))) (\<lambda>envelope.
    if ms_session_id m \<noteq> opn_session_id x \<or> ms_source m \<noteq> opn_participant_id x
       \<or> ms_destination m \<noteq> opn_participant_id x
       \<or> mc_operation_id (ms_correlation m) \<noteq> Some (opn_operation_id x)
       \<or> mc_in_reply_to (ms_correlation m) \<noteq> None \<or> ms_envelope m \<noteq> envelope
    then io_fail Corrupt
    else finish_with (Replayed x))))"

text \<open>\<open>INSERT INTO operations\<close>: the identity is the primary key, and a participant has one unfinished
  operation.\<close>

definition insert_operation ::
  "operation_snapshot \<Rightarrow> bytes \<Rightarrow> ('w work_store_scheme, store_error, unit) io" where
  "insert_operation x input s =
    (if list_ex (\<lambda>r. ow_operation_id r = opn_operation_id x
           \<or> (ow_terminal_name r = None \<and> opn_participant_id (ow_snapshot r) = opn_participant_id x))
         (ws_operations s)
     then (Inl StoreUnavailable, s)
     else (Inr (), s\<lparr>ws_operations := ws_operations s @
       [\<lparr>ow_snapshot = x, ow_terminal_name = None, ow_input = input\<rparr>]\<rparr>))"

definition input_message :: "operation_snapshot \<Rightarrow> message_envelope \<Rightarrow> timestamp \<Rightarrow> message_snapshot" where
  "input_message x envelope observed_at =
    \<lparr>ms_session_id = opn_session_id x, ms_message_id = opn_input_message_id x,
     ms_source = opn_participant_id x, ms_destination = opn_participant_id x,
     ms_mailbox_sequence = 1, ms_priority = Ordinary,
     ms_correlation = \<lparr>mc_operation_id = Some (opn_operation_id x), mc_in_reply_to = None\<rparr>,
     ms_envelope = envelope, ms_attempt_count = 0, ms_state = MessageQueued,
     ms_revision = revision_initial, ms_created_at = observed_at, ms_updated_at = observed_at\<rparr>"

definition saturating_add :: "nat \<Rightarrow> nat \<Rightarrow> nat" where
  "saturating_add a b = min (a + b) (2 ^ 64 - 1)"

definition over_quota :: "nat \<Rightarrow> nat \<Rightarrow> nat \<Rightarrow> bool" where
  "over_quota queued_bytes bytes queued_messages =
    (saturating_add queued_bytes bytes > 4 * 1024 * 1024 \<or> saturating_add queued_messages 1 > 4096)"

definition commit_operation_start ::
  "env \<Rightarrow> work_config \<Rightarrow> start_operation_cmd \<Rightarrow> ledger_request \<Rightarrow> operation_snapshot \<Rightarrow> timestamp
    \<Rightarrow> ('w work_store_ext, operation_snapshot mutation) transaction" where
  "commit_operation_start en cfg c q x observed_at =
    (let sid = so_session_id c; rid = rc_request_id (so_context c)
     in io_bind (insert_operation x (so_input c)) (\<lambda>_.
        io_bind (io_lift (input_envelope cfg (opn_operation_id x) (opn_input_digest x))) (\<lambda>envelope.
        io_bind (io_get (\<lambda>s. mailbox_counter s (opn_participant_id x))) (\<lambda>(sequence, queued_bytes, queued_messages).
        let message_bytes = length (me_encoded envelope)
        in if message_bytes > i64_max then io_fail MessageOversize
           else if over_quota queued_bytes message_bytes queued_messages then io_fail MailboxQuotaExceeded
           else
           let message = (input_message x envelope observed_at)\<lparr>ms_mailbox_sequence := of_nat sequence\<rparr>
           in io_bind (insert_message message sequence) (\<lambda>_.
              io_bind (put_counter (opn_participant_id x) sequence (queued_bytes + message_bytes)
                (queued_messages + 1)) (\<lambda>_.
              io_bind (append_event_data en rid sid (opn_revision x) ''operation.queued''
                (operation_event_payload en cfg x) observed_at) (\<lambda>_.
              io_bind (append_message_event en rid message observed_at) (\<lambda>_.
              io_bind (record_bytes sid q EffectApplied (OperationValue x)) (\<lambda>_.
              finish_with (Applied x))))))))))"

text \<open>The admission checks of \<open>start_operation\<close> after the participant is loaded.\<close>

definition admit_operation ::
  "env \<Rightarrow> work_config \<Rightarrow> start_operation_cmd \<Rightarrow> ledger_request \<Rightarrow> participant_snapshot \<Rightarrow> timestamp
    \<Rightarrow> ('w work_store_ext, operation_snapshot mutation) transaction" where
  "admit_operation en cfg c q participant observed_at =
    (let sid = so_session_id c; pid = so_participant_id c
     in io_bind (\<lambda>s. io_lift (participant_cancellation_requested s pid) s) (\<lambda>cancelled.
        if cancelled then finish_failure sid q Invalid
        else
        io_bind (\<lambda>s. io_lift (and_then (load_template_in en s (ps_template_id participant)) (ok_or Corrupt)) s)
          (\<lambda>template.
        if ps_template_compatibility participant \<noteq> tp_compatibility template then io_fail Corrupt
        else
        io_bind (io_lift (map_err (\<lambda>_. Corrupt)
          (template_try_from (en_sha256 en) (en_encode_template en) template))) (\<lambda>registered.
        if \<not> is_ok (template_validate_input (wc_parse_object cfg) (en_print en) registered (so_input c))
        then finish_failure sid q Invalid
        else
        io_bind (io_get (\<lambda>s. list_ex (\<lambda>r. opn_participant_id (ow_snapshot r) = pid
          \<and> ow_terminal_name r = None) (ws_operations s))) (\<lambda>unfinished.
        io_bind (\<lambda>s. io_lift (if unfinished then Ok None else load_operation_in en s (so_operation_id c)) s)
          (\<lambda>existing.
        if unfinished \<or> existing \<noteq> None then finish_failure sid q Invalid
        else
        io_bind (require_capacity cfg sid QueuedOperations 1) (\<lambda>_.
        let input_digest = semantic_digest_v1 (en_sha256 en) ''operation.input.v1'' (so_input c)
        in io_bind (io_get (\<lambda>s. list_ex (\<lambda>r. wm_message_id r = so_input_message_id c) (ws_messages s)))
             (\<lambda>message_collision.
           if message_collision then finish_failure sid q Invalid
           else
           io_bind (io_get (\<lambda>s. mailbox_counter s pid)) (\<lambda>(_, queued_bytes, queued_messages).
           io_bind (io_lift (input_envelope cfg (so_operation_id c) input_digest)) (\<lambda>envelope.
           io_bind (require_capacity cfg sid Messages 1) (\<lambda>_.
           io_bind (require_capacity cfg sid MessageBytes (length (me_encoded envelope))) (\<lambda>_.
           if over_quota queued_bytes (length (me_encoded envelope)) queued_messages
           then finish_failure sid q MailboxQuotaExceeded
           else commit_operation_start en cfg c q
             \<lparr>opn_session_id = sid, opn_operation_id = so_operation_id c, opn_participant_id = pid,
              opn_start_request_id = rc_request_id (so_context c),
              opn_input_message_id = so_input_message_id c, opn_waiting_on_message_id = None,
              opn_input_digest = input_digest, opn_state = Queued, opn_revision = revision_initial,
              opn_terminal_outcome = None, opn_created_at = observed_at, opn_updated_at = observed_at\<rparr>
             observed_at))))))))))))"

definition start_operation ::
  "env \<Rightarrow> work_config \<Rightarrow> timestamp \<Rightarrow> start_operation_cmd
    \<Rightarrow> ('w work_store_ext, operation_snapshot mutation) transaction" where
  "start_operation en cfg observed_at c =
    (let q = request_of en (CmdStartOperation c); sid = so_session_id c
     in io_bind (\<lambda>s. io_lift (replay_operation s q) s) (\<lambda>replayed.
        case replayed of
          Some recorded \<Rightarrow> confirm_operation en cfg recorded
        | None \<Rightarrow>
            io_bind (authorize_launch en sid (so_context c) (so_epoch c) StartOperation observed_at) (\<lambda>r.
            or_fail sid q r (\<lambda>_.
            io_bind (session_time_floor en sid) (\<lambda>floor.
            io_bind (\<lambda>s. io_lift (load_participant_in s (so_participant_id c)) s) (\<lambda>found.
            case found of
              None \<Rightarrow> finish_failure sid q Invalid
            | Some participant \<Rightarrow>
                if ps_session_id participant \<noteq> sid then finish_failure sid q Invalid
                else admit_operation en cfg c q participant floor))))))"


section \<open>Transitions\<close>

definition next_operation_state :: "operation_state \<Rightarrow> operation_action \<Rightarrow> operation_state option" where
  "next_operation_state state action =
    (case (state, action) of
       (Queued, BeginStart) \<Rightarrow> Some Starting
     | (Starting, ReportRunning) \<Rightarrow> Some Running
     | (Waiting, operation_action.Resume) \<Rightarrow> Some Running
     | (Running, Wait) \<Rightarrow> Some Waiting
     | (_, RequestCancel) \<Rightarrow>
         if state \<in> {Queued, Starting, Running, Waiting} then Some Cancelling else None
     | (_, ReportCancelled) \<Rightarrow> if state \<in> {Queued, Cancelling} then Some Cancelled else None
     | (_, ReportFailure) \<Rightarrow>
         if state \<in> {Queued, Starting, Running, Waiting, Cancelling} then Some Failed else None
     | (Running, ReportSuccess) \<Rightarrow> Some Succeeded
     | (_, ReportBlocked) \<Rightarrow> if state \<in> {Running, Waiting} then Some Blocked else None
     | (_, ReportUncertain) \<Rightarrow>
         if state \<in> {Starting, Running, Waiting, Cancelling} then Some Uncertain else None
     | _ \<Rightarrow> None)"

definition valid_report_correlation ::
  "'w work_store_scheme \<Rightarrow> operation_snapshot \<Rightarrow> transition_operation_cmd \<Rightarrow> store_error + bool" where
  "valid_report_correlation s x c =
    (if to_action c = Wait
     then Ok (to_report_message_id c \<noteq> None
       \<and> to_report_message_id c \<noteq> Some (opn_input_message_id x) \<and> opn_waiting_on_message_id x = None)
     else if to_action c = operation_action.Resume
     then Ok (opn_waiting_on_message_id x \<noteq> None
       \<and> to_report_message_id c = opn_waiting_on_message_id x)
     else if to_action c \<in> {ReportRunning, ReportSuccess, ReportFailure, ReportCancelled, ReportBlocked,
         ReportUncertain}
     then
       if to_report_message_id c = None \<and> to_action c \<in> {ReportFailure, ReportUncertain}
          \<and> opn_state x \<in> {Queued, Starting}
       then Ok True
       else (case to_report_message_id c of
           None \<Rightarrow> Ok False
         | Some mid \<Rightarrow>
             and_then (load_message_in s mid) (\<lambda>found.
             case found of
               None \<Rightarrow> Ok False
             | Some m \<Rightarrow>
                 Ok (ms_session_id m = opn_session_id x \<and> ms_destination m = opn_participant_id x
                   \<and> mc_operation_id (ms_correlation m) = Some (opn_operation_id x)
                   \<and> (case ms_state m of Accepted _ _ _ \<Rightarrow> True | _ \<Rightarrow> False))))
     else Ok (to_report_message_id c = None))"

definition valid_terminal_outcome ::
  "operation_state \<Rightarrow> operation_terminal_outcome option \<Rightarrow> bool" where
  "valid_terminal_outcome state out =
    ((case out of None \<Rightarrow> False | Some v \<Rightarrow> terminal_matches_state state v)
     \<or> (\<not> op_is_terminal state \<and> out = None))"

definition derived_store_message_id :: "env \<Rightarrow> request_id \<Rightarrow> string \<Rightarrow> store_error + message_id" where
  "derived_store_message_id en rid domain =
    (let digest = semantic_digest_v1 (en_sha256 en) ''message.identity.v1''
           (str_bytes domain @ be_bytes 16 (unat rid));
         prefix = (ucast (drop_bit 128 digest) :: uuid);
         v = ((prefix AND NOT (push_bit 76 0xF)) OR push_bit 76 0x4) AND NOT (push_bit 62 0x3)
             OR push_bit 62 0x2
     in parse_id v)"

definition public_terminal_outcome :: "operation_terminal_outcome \<Rightarrow> public_operation_outcome" where
  "public_terminal_outcome out =
    (case out of
       OutcomeSucceeded _ \<Rightarrow> PublicSucceeded
     | OutcomeFailed _ _ \<Rightarrow> PublicFailed
     | OutcomeCancelled \<Rightarrow> PublicCancelled
     | OutcomeBlocked _ \<Rightarrow> PublicBlocked
     | OutcomeUncertain _ \<Rightarrow> PublicUncertain)"

definition load_authority_policy_in ::
  "'w work_store_scheme \<Rightarrow> participant_id \<Rightarrow> authority_policy_snapshot option" where
  "load_authority_policy_in s pid = find_row aq_participant_id pid (ws_policies s)"

definition append_authority_event ::
  "env \<Rightarrow> session_id \<Rightarrow> request_id \<Rightarrow> string \<Rightarrow> participant_id \<Rightarrow> timestamp
    \<Rightarrow> ('z store_scheme, store_error, unit) io" where
  "append_authority_event en sid rid event_type pid observed_at =
    append_event_data en rid sid revision_initial event_type
      (en_print en (JObject [(''participant_id'', uuid_json en pid), (''schema'', number_json 1)]))
      observed_at"


section \<open>Messages of a terminal operation\<close>

definition retired_state :: "message_delivery_state \<Rightarrow> store_error + message_delivery_state" where
  "retired_state st =
    (let reason = ''correlated operation became terminal''
     in case st of
          AcceptancePending lease \<Rightarrow> Ok (DeliveryUncertain (dl_attempt_id lease) reason)
        | AcceptanceUnknown lease \<Rightarrow> Ok (DeliveryUncertain (dl_attempt_id lease) reason)
        | MessageQueued \<Rightarrow> Ok (DeadLetter reason)
        | RetryScheduled _ \<Rightarrow> Ok (DeadLetter reason)
        | Leased _ \<Rightarrow> Ok (DeadLetter reason)
        | _ \<Rightarrow> Err Corrupt)"

text \<open>The body of the loop over the selected rows.\<close>

definition retire_message ::
  "env \<Rightarrow> request_id \<Rightarrow> operation_snapshot \<Rightarrow> timestamp \<Rightarrow> message_row
    \<Rightarrow> ('w work_store_scheme, store_error, unit) io" where
  "retire_message en rid x observed_at r =
    io_bind (io_lift (decode_message_row r)) (\<lambda>m.
    if ms_destination m \<noteq> opn_participant_id x then io_fail Corrupt
    else
    io_bind (io_lift (ok_or Corrupt (revision_next (ms_revision m)))) (\<lambda>revno.
    io_bind (io_lift (retired_state (ms_state m))) (\<lambda>st.
    let m' = m\<lparr>ms_revision := revno, ms_updated_at := max observed_at (ms_updated_at m), ms_state := st\<rparr>
    in io_bind (update_message_snapshot m') (\<lambda>_.
       io_bind (decrement_mailbox_bytes m') (\<lambda>_.
       append_message_event en rid m' observed_at)))))"

primrec for_each_row :: "('r \<Rightarrow> ('s, 'e, unit) io) \<Rightarrow> 'r list \<Rightarrow> ('s, 'e, unit) io" where
  "for_each_row f [] = io_return ()"
| "for_each_row f (r # rs) = io_bind (f r) (\<lambda>_. for_each_row f rs)"

definition correlated_rows :: "'w work_store_scheme \<Rightarrow> operation_snapshot \<Rightarrow> message_row list" where
  "correlated_rows s x =
    sort_key wm_mailbox_sequence
      (filter (\<lambda>r. wm_session_id r = opn_session_id x
         \<and> mc_operation_id (ms_correlation (wm_snapshot r)) = Some (opn_operation_id x)
         \<and> wm_destination r = opn_participant_id x
         \<and> delivery_state_name (ms_state (wm_snapshot r)) \<in>
             {''queued'', ''retry_scheduled'', ''leased'', ''acceptance_pending'', ''acceptance_unknown''})
       (ws_messages s))"

definition retire_correlated_messages ::
  "env \<Rightarrow> request_id \<Rightarrow> operation_snapshot \<Rightarrow> timestamp \<Rightarrow> ('w work_store_scheme, store_error, unit) io" where
  "retire_correlated_messages en rid x observed_at =
    io_bind (io_get (\<lambda>s. correlated_rows s x)) (for_each_row (retire_message en rid x observed_at))"

definition insert_hierarchy_message ::
  "env \<Rightarrow> session_id \<Rightarrow> request_id \<Rightarrow> message_id \<Rightarrow> participant_id \<Rightarrow> participant_id \<Rightarrow> message_correlation
    \<Rightarrow> message_envelope \<Rightarrow> timestamp \<Rightarrow> ('w work_store_scheme, store_error, message_snapshot) io" where
  "insert_hierarchy_message en sid rid mid source destination correlation envelope now =
    io_bind (\<lambda>s. io_lift (load_message_in s mid) s) (\<lambda>found.
    if found \<noteq> None then io_fail Invalid
    else
    io_bind (io_get (\<lambda>s. mailbox_counter s destination)) (\<lambda>(sequence, queued_bytes, queued_messages).
    let new_bytes = queued_bytes + length (me_encoded envelope);
        new_messages = queued_messages + 1;
        outcome_reserve = (envelope_kind envelope = message_kind.OperationOutcome);
        byte_limit = 4 * 1024 * 1024 + (if outcome_reserve then 64 * 1024 else 0);
        message_limit = 4096 + (if outcome_reserve then 64 else 0)
    in if new_bytes \<ge> 2 ^ 64 \<or> new_messages \<ge> 2 ^ 64 then io_fail MailboxQuotaExceeded
       else if new_bytes > byte_limit \<or> new_messages > message_limit then io_fail MailboxQuotaExceeded
       else
       let m = \<lparr>ms_session_id = sid, ms_message_id = mid, ms_source = source,
             ms_destination = destination, ms_mailbox_sequence = of_nat sequence,
             ms_priority = priority_for (envelope_kind envelope), ms_correlation = correlation,
             ms_envelope = envelope, ms_attempt_count = 0, ms_state = MessageQueued,
             ms_revision = revision_initial, ms_created_at = now, ms_updated_at = now\<rparr>
       in io_bind (insert_message m sequence) (\<lambda>_.
          io_bind (put_counter destination sequence new_bytes new_messages) (\<lambda>_.
          io_bind (append_message_event en rid m now) (\<lambda>_.
          io_return m)))))"

text \<open>\<open>map_or_else\<close> over the insertion: a refused delivery is no error of the transition.  The statements
  the insertion has executed before its error stay in the transaction.\<close>

definition delivered_or_refused ::
  "('s, store_error, message_snapshot) io \<Rightarrow> ('s, store_error, bool) io" where
  "delivered_or_refused m s =
    (case m s of
       (Inr _, s') \<Rightarrow> (Inr True, s')
     | (Inl e, s') \<Rightarrow>
         if e \<in> {Invalid, MailboxQuotaExceeded, MessageOversize} then (Inr False, s') else (Inl e, s'))"

text \<open>The upward outcome of a terminal operation whose participant has a parent.\<close>

definition report_outcome ::
  "env \<Rightarrow> work_config \<Rightarrow> transition_operation_cmd \<Rightarrow> operation_snapshot \<Rightarrow> operation_terminal_outcome
    \<Rightarrow> participant_id \<Rightarrow> ('w work_store_scheme, store_error, unit) io" where
  "report_outcome en cfg c x out parent =
    (let sid = to_session_id c; rid = rc_request_id (to_context c)
     in io_bind (io_lift (derived_store_message_id en rid ''navigator.operation.outcome.v1'')) (\<lambda>mid.
        io_bind (io_get (\<lambda>s. load_authority_policy_in s (opn_participant_id x))) (\<lambda>policy.
        io_bind (\<lambda>s. io_lift (parse_optional_id (map_option ow_operation_id
          (find (\<lambda>r. opn_session_id (ow_snapshot r) = sid \<and> opn_participant_id (ow_snapshot r) = parent
             \<and> ow_terminal_name r = None) (ws_operations s)))) s) (\<lambda>parent_operation.
        io_bind (session_time_floor en sid) (\<lambda>now.
        let requested = \<lparr>sc_capability = ''message.outcome'', sc_resource = OperationScope (opn_operation_id x)\<rparr>;
            authorized = (parent_operation \<noteq> None \<and> (case policy of
                None \<Rightarrow> False
              | Some p \<Rightarrow> is_ok (authorize_effect (aq_ceilings p) (opn_participant_id x) sid requested None now)))
        in io_bind (if authorized
             then io_bind (io_lift (ok_or StoreUnavailable (closed_envelope (wc_encode_wire cfg)
                 (message_body.OperationOutcome (opn_operation_id x) (public_terminal_outcome out)
                   (terminal_public_digest en cfg out))))) (\<lambda>envelope.
               delivered_or_refused (insert_hierarchy_message en sid rid mid (opn_participant_id x) parent
                 \<lparr>mc_operation_id = parent_operation, mc_in_reply_to = None\<rparr> envelope (opn_updated_at x)))
             else io_return False) (\<lambda>delivered.
           append_authority_event en sid rid
             (if delivered then ''authority.allowed'' else ''authority.denied'')
             (opn_participant_id x) (opn_updated_at x)))))))"

text \<open>\<open>UPDATE operations SET \<dots> WHERE operation_id = ? AND revision = ?\<close>.\<close>

definition update_operation ::
  "operation_snapshot \<Rightarrow> revision \<Rightarrow> ('w work_store_scheme, store_error, unit) io" where
  "update_operation x expected_revision =
    io_bind (io_lift (to_i64 (opn_revision x))) (\<lambda>_.
    io_bind (io_lift (to_i64 expected_revision)) (\<lambda>_.
    (\<lambda>s. let hit = (\<lambda>r. ow_operation_id r = opn_operation_id x
             \<and> opn_revision (ow_snapshot r) = expected_revision);
             changed = (\<lambda>r. r\<lparr>ow_terminal_name := map_option terminal_outcome_name (opn_terminal_outcome x),
               ow_snapshot := (ow_snapshot r)\<lparr>opn_state := opn_state x,
                 opn_waiting_on_message_id := opn_waiting_on_message_id x,
                 opn_terminal_outcome := opn_terminal_outcome x, opn_revision := opn_revision x,
                 opn_updated_at := opn_updated_at x\<rparr>\<rparr>)
         in if length (filter hit (ws_operations s)) = 1
            then (Inr (), s\<lparr>ws_operations := map (\<lambda>r. if hit r then changed r else r) (ws_operations s)\<rparr>)
            else (Inl Corrupt, s))))"

definition transitioned ::
  "operation_snapshot \<Rightarrow> transition_operation_cmd \<Rightarrow> operation_state \<Rightarrow> revision \<Rightarrow> timestamp
    \<Rightarrow> operation_snapshot" where
  "transitioned x c state revno observed_at =
    x\<lparr>opn_state := state,
      opn_waiting_on_message_id :=
        (if to_action c = Wait then to_report_message_id c
         else if state \<noteq> Waiting then None else opn_waiting_on_message_id x),
      opn_revision := revno, opn_updated_at := max observed_at (opn_updated_at x),
      opn_terminal_outcome := to_terminal_outcome c\<rparr>"

text \<open>The effects of an admitted transition.\<close>

definition apply_transition ::
  "env \<Rightarrow> work_config \<Rightarrow> timestamp \<Rightarrow> transition_operation_cmd \<Rightarrow> ledger_request \<Rightarrow> operation_snapshot
    \<Rightarrow> operation_state \<Rightarrow> ('w work_store_ext, operation_snapshot mutation) transaction" where
  "apply_transition en cfg observed_at c q x state =
    (let sid = to_session_id c; rid = rc_request_id (to_context c)
     in io_bind (if opn_state x = Queued \<and> \<not> op_is_terminal state \<and> state \<noteq> Queued
          then require_capacity cfg sid ActiveOperations 1 else io_return ()) (\<lambda>_.
        io_bind (require_capacity cfg sid RetainedEvents 1) (\<lambda>_.
        io_bind (io_lift (ok_or Corrupt (revision_next (opn_revision x)))) (\<lambda>revno.
        let x' = transitioned x c state revno observed_at
        in io_bind (update_operation x' (to_expected_revision c)) (\<lambda>_.
           io_bind (case opn_terminal_outcome x' of
               None \<Rightarrow> io_return ()
             | Some out \<Rightarrow>
                 io_bind (retire_correlated_messages en rid x' observed_at) (\<lambda>_.
                 io_bind (\<lambda>s. io_lift (and_then (load_participant_in s (opn_participant_id x')) (ok_or Corrupt)) s)
                   (\<lambda>participant.
                 case ps_parent_participant_id participant of
                   None \<Rightarrow> io_return ()
                 | Some parent \<Rightarrow> report_outcome en cfg c x' out parent))) (\<lambda>_.
           io_bind (append_event_data en rid sid (opn_revision x') (operation_event_name (opn_state x'))
             (operation_event_payload en cfg x') observed_at) (\<lambda>_.
           io_bind (record_bytes sid q EffectApplied (OperationValue x')) (\<lambda>_.
           finish_with (Applied x')))))))))"

definition transition_operation ::
  "env \<Rightarrow> work_config \<Rightarrow> timestamp \<Rightarrow> transition_operation_cmd
    \<Rightarrow> ('w work_store_ext, operation_snapshot mutation) transaction" where
  "transition_operation en cfg observed_at c =
    (let q = request_of en (CmdTransitionOperation c); sid = to_session_id c
     in io_bind (\<lambda>s. io_lift (replay_operation s q) s) (\<lambda>replayed.
        case replayed of
          Some x \<Rightarrow> finish_with (Replayed x)
        | None \<Rightarrow>
            io_bind (authorize_launch en sid (to_context c) (to_epoch c) TransitionOperation observed_at) (\<lambda>r.
            or_fail sid q r (\<lambda>_.
            io_bind (\<lambda>s. io_lift (load_operation_in en s (to_operation_id c)) s) (\<lambda>found.
            case found of
              None \<Rightarrow> finish_failure sid q Invalid
            | Some x \<Rightarrow>
                if opn_session_id x \<noteq> sid \<or> opn_revision x \<noteq> to_expected_revision c
                then finish_failure sid q Invalid
                else
                io_bind (\<lambda>s. io_lift (valid_report_correlation s x c) s) (\<lambda>correlated.
                if \<not> correlated then finish_failure sid q Invalid
                else (case next_operation_state (opn_state x) (to_action c) of
                    None \<Rightarrow> finish_failure sid q Invalid
                  | Some state \<Rightarrow>
                      if \<not> valid_terminal_outcome state (to_terminal_outcome c)
                      then finish_failure sid q Invalid
                      else apply_transition en cfg observed_at c q x state)))))))"


section \<open>Reads\<close>

definition load_participant ::
  "env \<Rightarrow> 'w work_store_scheme \<Rightarrow> participant_id \<Rightarrow> store_error + participant_snapshot" where
  "load_participant en s pid =
    and_then (and_then (load_participant_in s pid) (ok_or (ParticipantNotFound pid))) (\<lambda>p.
    and_then (and_then (load_template_in en s (ps_template_id p)) (ok_or Corrupt)) (\<lambda>t.
    if ps_template_compatibility p \<noteq> tp_compatibility t then Err Corrupt else Ok p))"

definition load_root_participant ::
  "env \<Rightarrow> 'w work_store_scheme \<Rightarrow> session_id \<Rightarrow> store_error + participant_snapshot" where
  "load_root_participant en s sid =
    (case find (\<lambda>r. ps_session_id (pr_snapshot r) = sid \<and> ps_parent_participant_id (pr_snapshot r) = None)
        (ws_participants s) of
       None \<Rightarrow> Err (RootParticipantNotFound sid)
     | Some r \<Rightarrow> and_then (parse_id (pr_participant_id r)) (load_participant en s))"

text \<open>\<open>ORDER BY participant_id\<close> compares the text of the identities, which orders them as their bytes.\<close>

definition load_direct_children ::
  "env \<Rightarrow> 'w work_store_scheme \<Rightarrow> participant_id \<Rightarrow> store_error + participant_snapshot list" where
  "load_direct_children en s parent =
    try_map (\<lambda>r. and_then (parse_id (pr_participant_id r)) (load_participant en s))
      (sort_key pr_participant_id
        (filter (\<lambda>r. ps_parent_participant_id (pr_snapshot r) = Some parent) (ws_participants s)))"

definition load_template ::
  "env \<Rightarrow> 'z store_scheme \<Rightarrow> template_id \<Rightarrow> store_error + template_record" where
  "load_template en s tid = and_then (load_template_in en s tid) (ok_or (TemplateNotFound tid))"

definition load_operation ::
  "env \<Rightarrow> 'w work_store_scheme \<Rightarrow> operation_id \<Rightarrow> store_error + operation_snapshot" where
  "load_operation en s oid = and_then (load_operation_in en s oid) (ok_or (OperationNotFound oid))"

definition load_operation_input ::
  "env \<Rightarrow> work_config \<Rightarrow> 'w work_store_scheme \<Rightarrow> operation_id \<Rightarrow> store_error + bytes" where
  "load_operation_input en cfg s oid =
    and_then (and_then (load_operation_in en s oid) (ok_or (OperationNotFound oid))) (\<lambda>x.
    and_then (and_then (load_participant_in s (opn_participant_id x)) (ok_or Corrupt)) (\<lambda>p.
    and_then (and_then (load_template_in en s (ps_template_id p)) (ok_or Corrupt)) (\<lambda>registered.
    if ps_template_compatibility p \<noteq> tp_compatibility registered then Err Corrupt
    else
    and_then (map_err (\<lambda>_. Corrupt)
      (template_try_from (en_sha256 en) (en_encode_template en) registered)) (\<lambda>template.
    and_then (ok_or (OperationNotFound oid)
      (map_option ow_input (find_row ow_operation_id oid (ws_operations s)))) (\<lambda>bytes.
    and_then (map_err (\<lambda>_. Corrupt)
      (template_validate_input (wc_parse_object cfg) (en_print en) template bytes)) (\<lambda>canonical.
    let digest = semantic_digest_v1 (en_sha256 en) ''operation.input.v1'' canonical
    in if canonical \<noteq> bytes \<or> digest \<noteq> opn_input_digest x then Err Corrupt
       else map_err (\<lambda>_. Corrupt) (bounded_bytes_new 65536 bytes)))))))"

definition find_open_session ::
  "env \<Rightarrow> 'z store_scheme \<Rightarrow> consumer_key \<Rightarrow> store_error + session_snapshot option" where
  "find_open_session en s key =
    (case find (\<lambda>r. sw_public_consumer_key r = key \<and> \<not> sw_closed r) (st_sessions s) of
       None \<Rightarrow> Ok None
     | Some r \<Rightarrow> and_then (parse_id (sw_session_id r)) (\<lambda>sid.
         and_then (load_session en s sid) (\<lambda>v. Ok (Some v))))"

end
