(* ===== verification/Mailbox_Store.thy ===== *)
theory Mailbox_Store
  imports Operation_Store
begin

text \<open>
  Mailboxes in the SQLite store (\<open>impl MailboxStore for SqliteStore\<close> in
  \<open>crates/navigator-store-sqlite/src/store.rs\<close>): enqueueing a message, leasing the next one of a
  destination, the transitions of a leased delivery, and the reads, with the query of
  \<open>queries/due_session_delivery_work.sql\<close>.
\<close>

section \<open>Enqueueing\<close>

definition replay_message ::
  "'z store_scheme \<Rightarrow> ledger_request \<Rightarrow> store_error + message_snapshot option option" where
  "replay_message s q =
    and_then (replay_bytes s q) (\<lambda>found.
    case found of
      None \<Rightarrow> Ok None
    | Some (MessageValue m) \<Rightarrow> Ok (Some m)
    | Some _ \<Rightarrow> Err Corrupt)"

definition correlation_is :: "message_correlation \<Rightarrow> operation_id \<Rightarrow> message_id option \<Rightarrow> bool" where
  "correlation_is k oid reply = (mc_operation_id k = Some oid \<and> mc_in_reply_to k = reply)"

text \<open>The match on the body: whether the message may be enqueued for the operation it names.\<close>

definition enqueue_admissible ::
  "env \<Rightarrow> work_config \<Rightarrow> 'w work_store_scheme \<Rightarrow> enqueue_message_cmd \<Rightarrow> store_error + bool" where
  "enqueue_admissible en cfg s c =
    (let k = em_correlation c; sid = em_session_id c;
         on_operation = (\<lambda>oid cond. and_then (load_operation_in en s oid) (\<lambda>found.
           Ok (case found of None \<Rightarrow> False | Some x \<Rightarrow> opn_session_id x = sid \<and> cond x)))
     in case me_body (em_envelope c) of
          message_body.OperationInput oid input_digest \<Rightarrow>
            and_then (on_operation oid (\<lambda>x. opn_participant_id x = em_destination c
              \<and> opn_input_message_id x = em_message_id c \<and> opn_input_digest x = input_digest)) (\<lambda>found.
            Ok (correlation_is k oid None \<and> found))
        | message_body.Control oid _ \<Rightarrow>
            and_then (on_operation oid (\<lambda>x. opn_participant_id x = em_destination c)) (\<lambda>found.
            Ok (correlation_is k oid None \<and> found))
        | message_body.Question oid _ \<Rightarrow>
            and_then (on_operation oid (\<lambda>x. opn_participant_id x = em_source c \<and> opn_state x = Waiting
              \<and> opn_waiting_on_message_id x = Some (em_message_id c))) (\<lambda>found.
            Ok (correlation_is k oid None \<and> found))
        | message_body.OperationOutcome oid _ result_digest \<Rightarrow>
            and_then (on_operation oid (\<lambda>x. opn_participant_id x = em_source c
              \<and> op_is_terminal (opn_state x) \<and> (case opn_terminal_outcome x of
                  None \<Rightarrow> False
                | Some out \<Rightarrow> terminal_public_digest en cfg out = result_digest))) (\<lambda>found.
            Ok (correlation_is k oid None \<and> found))
        | message_body.CorrelatedFeedback oid in_reply_to _ \<Rightarrow>
            if \<not> correlation_is k oid (Some in_reply_to) \<or> in_reply_to = em_message_id c then Ok False
            else
            and_then (on_operation oid (\<lambda>x. opn_participant_id x = em_source c)) (\<lambda>found.
            if \<not> found then Ok False
            else
            and_then (load_message_in s in_reply_to) (\<lambda>reply.
            Ok (case reply of
                None \<Rightarrow> False
              | Some m \<Rightarrow> ms_session_id m = sid \<and> ms_source m = em_destination c
                  \<and> ms_destination m = em_source c)))
        | message_body.ApprovalDecision _ _ _ _ \<Rightarrow> Ok False)"

definition participant_session :: "'w work_store_scheme \<Rightarrow> participant_id \<Rightarrow> session_id option" where
  "participant_session s pid =
    map_option (\<lambda>r. ps_session_id (pr_snapshot r)) (find_row pr_participant_id pid (ws_participants s))"

definition enqueued_message :: "enqueue_message_cmd \<Rightarrow> nat \<Rightarrow> timestamp \<Rightarrow> message_snapshot" where
  "enqueued_message c sequence now =
    \<lparr>ms_session_id = em_session_id c, ms_message_id = em_message_id c, ms_source = em_source c,
     ms_destination = em_destination c, ms_mailbox_sequence = of_nat sequence,
     ms_priority = priority_for (envelope_kind (em_envelope c)), ms_correlation = em_correlation c,
     ms_envelope = em_envelope c, ms_attempt_count = 0, ms_state = MessageQueued,
     ms_revision = revision_initial, ms_created_at = now, ms_updated_at = now\<rparr>"

text \<open>The part of \<open>enqueue_message\<close> after the admission of its body.\<close>

definition enqueue_admitted ::
  "env \<Rightarrow> timestamp \<Rightarrow> enqueue_message_cmd \<Rightarrow> ledger_request \<Rightarrow> timestamp
    \<Rightarrow> ('w work_store_ext, message_snapshot mutation) transaction" where
  "enqueue_admitted en observed_at c q now =
    (let sid = em_session_id c
     in io_bind (io_get (\<lambda>s. list_ex (\<lambda>r. wm_message_id r = em_message_id c) (ws_messages s))) (\<lambda>existing.
        if existing then finish_failure sid q Invalid
        else
        io_bind (io_get (\<lambda>s. mailbox_counter s (em_destination c))) (\<lambda>(sequence, queued, queued_messages).
        let new_queued = queued + length (me_encoded (em_envelope c)); new_count = queued_messages + 1
        in if new_queued \<ge> 2 ^ 64 \<or> new_count \<ge> 2 ^ 64 then io_fail MailboxQuotaExceeded
           else if new_queued > 4 * 1024 * 1024 \<or> new_count > 4096
           then finish_failure sid q MailboxQuotaExceeded
           else
           let m = enqueued_message c sequence now
           in io_bind (insert_message m sequence) (\<lambda>_.
              io_bind (put_counter (em_destination c) sequence new_queued new_count) (\<lambda>_.
              io_bind (append_message_event en (rc_request_id (em_context c)) m observed_at) (\<lambda>_.
              io_bind (record_bytes sid q EffectApplied (MessageValue (Some m))) (\<lambda>_.
              finish_with (Applied m))))))))"

definition enqueue_message ::
  "env \<Rightarrow> work_config \<Rightarrow> timestamp \<Rightarrow> enqueue_message_cmd
    \<Rightarrow> ('w work_store_ext, message_snapshot mutation) transaction" where
  "enqueue_message en cfg observed_at c =
    (let q = request_of en (CmdEnqueueMessage c); sid = em_session_id c
     in io_bind (\<lambda>s. io_lift (replay_message s q) s) (\<lambda>replayed.
        case replayed of
          Some m \<Rightarrow> io_return (ok_or Corrupt (map_option Replayed m))
        | None \<Rightarrow>
            io_bind (authorize_launch en sid (em_context c) (em_epoch c) EnqueueMessage observed_at) (\<lambda>r.
            or_fail sid q r (\<lambda>_.
            io_bind (session_time_floor en sid) (\<lambda>now.
            io_bind (require_capacity cfg sid Messages 1) (\<lambda>_.
            io_bind (require_capacity cfg sid MessageBytes (length (me_encoded (em_envelope c)))) (\<lambda>_.
            io_bind (io_get (\<lambda>s. participant_session s (em_source c) = Some sid
              \<and> participant_session s (em_destination c) = Some sid)) (\<lambda>in_session.
            if \<not> in_session then finish_failure sid q Invalid
            else
            io_bind (\<lambda>s. io_lift (enqueue_admissible en cfg s c) s) (\<lambda>admissible.
            if \<not> admissible then finish_failure sid q Invalid
            else enqueue_admitted en observed_at c q now)))))))))"


section \<open>Leasing\<close>

text \<open>\<open>u64::try_from(duration.as_millis())\<close> and \<open>LeaseDuration::from_millis\<close>.\<close>

definition lease_duration :: "std_duration \<Rightarrow> u64 option" where
  "lease_duration d =
    (let millis = d div 1000000
     in if millis \<ge> 2 ^ 64 then None
        else case lease_duration_from_millis (of_nat millis) of Inl _ \<Rightarrow> None | Inr v \<Rightarrow> Some v)"

text \<open>\<open>ORDER BY priority, mailbox_sequence\<close>.\<close>

definition delivery_order :: "message_row list \<Rightarrow> message_row list" where
  "delivery_order rows = sort_key wm_priority (sort_key wm_mailbox_sequence rows)"

definition expired_acceptance :: "timestamp \<Rightarrow> message_snapshot \<Rightarrow> bool" where
  "expired_acceptance now m =
    (case ms_state m of
       AcceptancePending lease \<Rightarrow> dl_expires_at lease \<le> now
     | AcceptanceUnknown lease \<Rightarrow> dl_expires_at lease \<le> now
     | _ \<Rightarrow> False)"

definition active_lease :: "timestamp \<Rightarrow> message_snapshot \<Rightarrow> bool" where
  "active_lease now m =
    (case ms_state m of
       Leased lease \<Rightarrow> dl_expires_at lease > now
     | AcceptancePending lease \<Rightarrow> dl_expires_at lease > now
     | AcceptanceUnknown lease \<Rightarrow> dl_expires_at lease > now
     | _ \<Rightarrow> False)"

definition mailbox_head :: "message_snapshot list \<Rightarrow> message_snapshot option" where
  "mailbox_head messages =
    (case find (\<lambda>m. ms_priority m = ControlPriority \<and> \<not> delivery_is_terminal (ms_state m)) messages of
       Some m \<Rightarrow> Some m
     | None \<Rightarrow> find (\<lambda>m. ms_priority m = Ordinary \<and> \<not> delivery_is_terminal (ms_state m)) messages)"

definition eligible :: "timestamp \<Rightarrow> message_snapshot \<Rightarrow> bool" where
  "eligible now m =
    (case ms_state m of
       MessageQueued \<Rightarrow> True
     | RetryScheduled not_before \<Rightarrow> not_before \<le> now
     | Leased lease \<Rightarrow> dl_expires_at lease \<le> now
     | _ \<Rightarrow> False)"

text \<open>The selection of a message: nothing while a lease is active and no acceptance has expired.\<close>

definition select_message :: "timestamp \<Rightarrow> message_snapshot list \<Rightarrow> message_snapshot option" where
  "select_message now messages =
    (let recovery = find (expired_acceptance now) messages
     in if recovery = None \<and> list_ex (active_lease now) messages then None
        else case recovery of
          Some m \<Rightarrow> Some m
        | None \<Rightarrow> (case mailbox_head messages of
            None \<Rightarrow> None
          | Some m \<Rightarrow> if eligible now m then Some m else None))"

definition lease_of ::
  "lease_next_message_cmd \<Rightarrow> timestamp \<Rightarrow> delivery_lease" where
  "lease_of c expires_at =
    \<lparr>dl_attempt_id = lm_proposed_attempt_id c, dl_owner = rc_caller (lm_context c),
     dl_ownership_epoch = lm_epoch c, dl_driver_ownership_epoch = lm_epoch c,
     dl_driver_launch_attempt_id = lm_driver_launch_attempt_id c, dl_instance_id = lm_instance_id c,
     dl_expires_at = expires_at\<rparr>"

definition replacement :: "lease_next_message_cmd \<Rightarrow> timestamp \<Rightarrow> delivery_lease \<Rightarrow> delivery_lease" where
  "replacement c expires_at lease =
    lease\<lparr>dl_owner := rc_caller (lm_context c), dl_ownership_epoch := lm_epoch c,
          dl_expires_at := expires_at\<rparr>"

text \<open>The common end: the snapshot is stored, its event appended and the request recorded.  A dead letter
  also leaves the queue counters.\<close>

definition finish_lease ::
  "env \<Rightarrow> timestamp \<Rightarrow> lease_next_message_cmd \<Rightarrow> ledger_request \<Rightarrow> bool \<Rightarrow> message_snapshot
    \<Rightarrow> ('w work_store_ext, message_snapshot option mutation) transaction" where
  "finish_lease en observed_at c q leaves_queue m =
    io_bind (update_message_snapshot m) (\<lambda>_.
    io_bind (if leaves_queue then decrement_mailbox_bytes m else io_return ()) (\<lambda>_.
    io_bind (append_message_event en (rc_request_id (lm_context c)) m observed_at) (\<lambda>_.
    io_bind (record_bytes (lm_session_id c) q EffectApplied (MessageValue (Some m))) (\<lambda>_.
    finish_with (Applied (Some m))))))"

definition instance_valid :: "'z store_scheme \<Rightarrow> lease_next_message_cmd \<Rightarrow> bool" where
  "instance_valid s c =
    list_ex (\<lambda>w. ls_attempt_id w = lm_driver_launch_attempt_id c \<and> ls_session_id w = lm_session_id c
      \<and> ls_ownership_epoch w = Some (lm_epoch c) \<and> ls_participant_id w = lm_destination c
      \<and> ls_instance_id w = Some (lm_instance_id c) \<and> ls_state w = Ready) (st_launches s)"

definition lease_selected ::
  "env \<Rightarrow> timestamp \<Rightarrow> lease_next_message_cmd \<Rightarrow> ledger_request \<Rightarrow> timestamp \<Rightarrow> timestamp \<Rightarrow> message_snapshot
    \<Rightarrow> ('w work_store_ext, message_snapshot option mutation) transaction" where
  "lease_selected en observed_at c q now expires_at m =
    (let recover = (\<lambda>st. io_bind (io_lift (ok_or Corrupt (revision_next (ms_revision m)))) (\<lambda>revno.
           finish_lease en observed_at c q False
             (m\<lparr>ms_state := st, ms_revision := revno, ms_updated_at := now\<rparr>)))
     in case ms_state m of
          AcceptancePending lease \<Rightarrow> recover (AcceptancePending (replacement c expires_at lease))
        | AcceptanceUnknown lease \<Rightarrow> recover (AcceptanceUnknown (replacement c expires_at lease))
        | _ \<Rightarrow>
            io_bind (io_lift (to_i64 (lm_epoch c))) (\<lambda>_.
            io_bind (io_get (\<lambda>s. instance_valid s c)) (\<lambda>valid.
            if \<not> valid then finish_failure (lm_session_id c) q Invalid
            else
            io_bind (io_lift (ok_or Corrupt (revision_next (ms_revision m)))) (\<lambda>revno.
            if ms_attempt_count m \<ge> 32
            then finish_lease en observed_at c q True
              (m\<lparr>ms_revision := revno, ms_updated_at := now,
                 ms_state := DeadLetter ''delivery attempt limit exhausted''\<rparr>)
            else finish_lease en observed_at c q False
              (m\<lparr>ms_attempt_count := ms_attempt_count m + 1, ms_revision := revno, ms_updated_at := now,
                 ms_state := Leased (lease_of c expires_at)\<rparr>)))))"

definition lease_next_message ::
  "env \<Rightarrow> timestamp \<Rightarrow> lease_next_message_cmd
    \<Rightarrow> ('w work_store_ext, message_snapshot option mutation) transaction" where
  "lease_next_message en observed_at c =
    (let q = request_of en (CmdLeaseNextMessage c); sid = lm_session_id c
     in io_bind (\<lambda>s. io_lift (replay_message s q) s) (\<lambda>replayed.
        case replayed of
          Some m \<Rightarrow> finish_with (Replayed m)
        | None \<Rightarrow>
            (case lease_duration (lm_lease_duration c) of
               None \<Rightarrow> finish_failure sid q LeaseTooLong
             | Some duration \<Rightarrow>
                 io_bind (authorize_launch en sid (lm_context c) (lm_epoch c) LeaseNextMessage observed_at) (\<lambda>r.
                 or_fail sid q r (\<lambda>_.
                 io_bind (session_time_floor en sid) (\<lambda>now.
                 or_fail sid q (expiry en now duration) (\<lambda>expires_at.
                 io_bind (\<lambda>s. io_lift (try_map decode_message_row (delivery_order
                   (filter (\<lambda>r. wm_session_id r = sid \<and> wm_destination r = lm_destination c) (ws_messages s)))) s)
                   (\<lambda>messages.
                 case select_message now messages of
                   None \<Rightarrow> io_bind (record_bytes sid q EffectApplied (MessageValue None)) (\<lambda>_.
                     finish_with (Applied None))
                 | Some m \<Rightarrow> lease_selected en observed_at c q now expires_at m))))))))"


section \<open>Delivery transitions\<close>

definition current_lease ::
  "transition_message_cmd \<Rightarrow> timestamp \<Rightarrow> message_delivery_state \<Rightarrow> delivery_lease option" where
  "current_lease c now st =
    (let mine = (\<lambda>lease. dl_attempt_id lease = tm_attempt_id c \<and> dl_owner lease = rc_caller (tm_context c)
           \<and> dl_ownership_epoch lease = tm_epoch c)
     in case st of
          Leased lease \<Rightarrow> if mine lease \<and> now < dl_expires_at lease then Some lease else None
        | AcceptancePending lease \<Rightarrow> if mine lease then Some lease else None
        | AcceptanceUnknown lease \<Rightarrow> if mine lease then Some lease else None
        | _ \<Rightarrow> None)"

definition in_acceptance :: "message_delivery_state \<Rightarrow> bool" where
  "in_acceptance st = (case st of AcceptancePending _ \<Rightarrow> True | AcceptanceUnknown _ \<Rightarrow> True | _ \<Rightarrow> False)"

text \<open>The match on the transition; \<open>Inl None\<close> is the refusal of its last arm.\<close>

definition next_delivery_state ::
  "transition_message_cmd \<Rightarrow> timestamp \<Rightarrow> timestamp option \<Rightarrow> delivery_lease \<Rightarrow> message_delivery_state
    \<Rightarrow> store_error option + message_delivery_state" where
  "next_delivery_state c now retry_not_before lease st =
    (case tm_transition c of
       ToAcceptancePending \<Rightarrow>
         (case st of Leased _ \<Rightarrow> Ok (AcceptancePending lease) | _ \<Rightarrow> Err None)
     | ToAcceptanceUnknown \<Rightarrow>
         (case st of AcceptancePending _ \<Rightarrow> Ok (AcceptanceUnknown lease) | _ \<Rightarrow> Err None)
     | ToRetryAfter _ \<Rightarrow>
         if in_acceptance st
         then (case retry_not_before of None \<Rightarrow> Err (Some Corrupt) | Some t \<Rightarrow> Ok (RetryScheduled t))
         else Err None
     | ToAccepted proof_digest \<Rightarrow>
         if in_acceptance st then Ok (Accepted (tm_attempt_id c) proof_digest now) else Err None
     | ToUncertain reason \<Rightarrow>
         if in_acceptance st then Ok (DeliveryUncertain (tm_attempt_id c) reason) else Err None
     | ToDeadLetter reason \<Rightarrow> Ok (DeadLetter reason))"

definition retry_time ::
  "env \<Rightarrow> transition_message_cmd \<Rightarrow> timestamp \<Rightarrow> store_error + timestamp option" where
  "retry_time en c now =
    (case tm_transition c of
       ToRetryAfter delay \<Rightarrow>
         (case lease_duration delay of
            None \<Rightarrow> Err LeaseTooLong
          | Some duration \<Rightarrow> and_then (expiry en now duration) (\<lambda>t. Ok (Some t)))
     | _ \<Rightarrow> Ok None)"

text \<open>An accepted feedback message resumes the operation that waits on the message it answers.\<close>

definition resume_operation ::
  "operation_snapshot \<Rightarrow> revision \<Rightarrow> message_id \<Rightarrow> ('w work_store_scheme, store_error, unit) io" where
  "resume_operation x previous_revision in_reply_to =
    io_bind (io_lift (to_i64 (opn_revision x))) (\<lambda>_.
    io_bind (io_lift (to_i64 previous_revision)) (\<lambda>_.
    (\<lambda>s. let hit = (\<lambda>r. ow_operation_id r = opn_operation_id x
             \<and> opn_revision (ow_snapshot r) = previous_revision \<and> opn_state (ow_snapshot r) = Waiting
             \<and> opn_waiting_on_message_id (ow_snapshot r) = Some in_reply_to);
             changed = (\<lambda>r. r\<lparr>ow_snapshot := (ow_snapshot r)\<lparr>opn_state := Running,
               opn_waiting_on_message_id := None, opn_revision := opn_revision x,
               opn_updated_at := opn_updated_at x\<rparr>\<rparr>)
         in if length (filter hit (ws_operations s)) = 1
            then (Inr (), s\<lparr>ws_operations := map (\<lambda>r. if hit r then changed r else r) (ws_operations s)\<rparr>)
            else (Inl Corrupt, s))))"

definition resume_waiting ::
  "env \<Rightarrow> work_config \<Rightarrow> timestamp \<Rightarrow> transition_message_cmd \<Rightarrow> timestamp \<Rightarrow> message_snapshot
    \<Rightarrow> ('w work_store_scheme, store_error, unit) io" where
  "resume_waiting en cfg observed_at c now m =
    (case (ms_state m, me_body (ms_envelope m)) of
       (Accepted _ _ _, message_body.CorrelatedFeedback oid in_reply_to _) \<Rightarrow>
         io_bind (\<lambda>s. io_lift (and_then (load_operation_in en s oid) (ok_or Corrupt)) s) (\<lambda>x.
         if opn_session_id x = tm_session_id c \<and> opn_participant_id x = ms_destination m
            \<and> opn_state x = Waiting \<and> opn_waiting_on_message_id x = Some in_reply_to
         then
           io_bind (io_lift (ok_or Corrupt (revision_next (opn_revision x)))) (\<lambda>revno.
           let x' = x\<lparr>opn_state := Running, opn_waiting_on_message_id := None, opn_revision := revno,
                 opn_updated_at := max now (opn_updated_at x)\<rparr>
           in io_bind (resume_operation x' (opn_revision x) in_reply_to) (\<lambda>_.
              append_event_data en (rc_request_id (tm_context c)) (tm_session_id c) revno
                ''operation.resumed'' (operation_event_payload en cfg x') observed_at))
         else io_return ())
     | _ \<Rightarrow> io_return ())"

definition transition_message_delivery ::
  "env \<Rightarrow> work_config \<Rightarrow> timestamp \<Rightarrow> transition_message_cmd
    \<Rightarrow> ('w work_store_ext, message_snapshot mutation) transaction" where
  "transition_message_delivery en cfg observed_at c =
    (let q = request_of en (CmdTransitionMessageDelivery c); sid = tm_session_id c
     in io_bind (\<lambda>s. io_lift (replay_message s q) s) (\<lambda>replayed.
        case replayed of
          Some m \<Rightarrow> io_return (ok_or Corrupt (map_option Replayed m))
        | None \<Rightarrow>
            io_bind (authorize_launch en sid (tm_context c) (tm_epoch c) TransitionMessageDelivery observed_at) (\<lambda>r.
            or_fail sid q r (\<lambda>_.
            io_bind (session_time_floor en sid) (\<lambda>now.
            or_fail sid q (retry_time en c now) (\<lambda>retry_not_before.
            io_bind (\<lambda>s. io_lift (load_message_in s (tm_message_id c)) s) (\<lambda>found.
            case found of
              None \<Rightarrow> finish_failure sid q (MessageNotFound (tm_message_id c))
            | Some m \<Rightarrow>
                if ms_session_id m \<noteq> sid \<or> ms_revision m \<noteq> tm_expected_revision c
                   \<or> delivery_is_terminal (ms_state m)
                then finish_failure sid q Invalid
                else (case current_lease c now (ms_state m) of
                  None \<Rightarrow> finish_failure sid q Invalid
                | Some lease \<Rightarrow>
                    io_bind (case tm_transition c of
                        ToRetryAfter _ \<Rightarrow> require_capacity cfg sid Retries 1
                      | _ \<Rightarrow> io_return ()) (\<lambda>_.
                    io_bind (require_capacity cfg sid RetainedEvents 1) (\<lambda>_.
                    case next_delivery_state c now retry_not_before lease (ms_state m) of
                      Inl None \<Rightarrow> finish_failure sid q Invalid
                    | Inl (Some e) \<Rightarrow> io_fail e
                    | Inr st \<Rightarrow>
                        io_bind (io_lift (ok_or Corrupt (revision_next (ms_revision m)))) (\<lambda>revno.
                        let m' = m\<lparr>ms_state := st, ms_revision := revno, ms_updated_at := now\<rparr>
                        in io_bind (update_message_snapshot m') (\<lambda>_.
                           io_bind (append_message_event en (rc_request_id (tm_context c)) m' observed_at) (\<lambda>_.
                           io_bind (resume_waiting en cfg observed_at c now m') (\<lambda>_.
                           io_bind (if delivery_is_terminal st then decrement_mailbox_bytes m'
                             else io_return ()) (\<lambda>_.
                           io_bind (record_bytes sid q EffectApplied (MessageValue (Some m'))) (\<lambda>_.
                           finish_with (Applied m')))))))))))))))))"


section \<open>Reads\<close>

definition load_message :: "'w work_store_scheme \<Rightarrow> message_id \<Rightarrow> store_error + message_snapshot" where
  "load_message s mid = and_then (load_message_in s mid) (ok_or (MessageNotFound mid))"

definition load_mailbox :: "'w work_store_scheme \<Rightarrow> participant_id \<Rightarrow> store_error + message_snapshot list" where
  "load_mailbox s destination =
    try_map decode_message_row (sort_key wm_mailbox_sequence
      (filter (\<lambda>r. wm_destination r = destination) (ws_messages s)))"


section \<open>Due work of a session\<close>

text \<open>The query of \<open>queries/due_session_delivery_work.sql\<close>.  The generated columns \<open>delivery_due_seconds\<close>
  and \<open>delivery_due_nanos\<close> are the end of the lease or of the retry delay; a comparison with a null
  column is not true.\<close>

definition delivery_due :: "message_delivery_state \<Rightarrow> timestamp option" where
  "delivery_due st =
    (case st of
       RetryScheduled not_before \<Rightarrow> Some not_before
     | Leased lease \<Rightarrow> Some (dl_expires_at lease)
     | AcceptancePending lease \<Rightarrow> Some (dl_expires_at lease)
     | AcceptanceUnknown lease \<Rightarrow> Some (dl_expires_at lease)
     | _ \<Rightarrow> None)"

definition due_by :: "timestamp \<Rightarrow> message_row \<Rightarrow> bool" where
  "due_by now r =
    (case delivery_due (ms_state (wm_snapshot r)) of
       None \<Rightarrow> False
     | Some d \<Rightarrow> unix_seconds d < unix_seconds now
         \<or> (unix_seconds d = unix_seconds now \<and> nanoseconds d \<le> nanoseconds now))"

definition due_after :: "timestamp \<Rightarrow> message_row \<Rightarrow> bool" where
  "due_after now r =
    (case delivery_due (ms_state (wm_snapshot r)) of
       None \<Rightarrow> False
     | Some d \<Rightarrow> unix_seconds d > unix_seconds now
         \<or> (unix_seconds d = unix_seconds now \<and> nanoseconds d > nanoseconds now))"

abbreviation row_state_name :: "message_row \<Rightarrow> string" where
  "row_state_name r \<equiv> delivery_state_name (ms_state (wm_snapshot r))"

definition expired_acceptance_column :: "timestamp \<Rightarrow> message_row \<Rightarrow> bool" where
  "expired_acceptance_column now r =
    (row_state_name r \<in> {''acceptance_pending'', ''acceptance_unknown''} \<and> due_by now r)"

definition active_lease_column :: "timestamp \<Rightarrow> message_row \<Rightarrow> bool" where
  "active_lease_column now r =
    (row_state_name r \<in> {''leased'', ''acceptance_pending'', ''acceptance_unknown''} \<and> due_after now r)"

definition nonterminal_rows :: "session_id \<Rightarrow> message_row list \<Rightarrow> message_row list" where
  "nonterminal_rows sid rows =
    filter (\<lambda>r. wm_session_id r = sid \<and> row_state_name r \<in>
      {''queued'', ''retry_scheduled'', ''leased'', ''acceptance_pending'', ''acceptance_unknown''}) rows"

text \<open>\<open>ROW_NUMBER() OVER (PARTITION BY \<dots> ORDER BY priority, mailbox_sequence)\<close>: a destination has each
  sequence once, so the order is strict.\<close>

definition row_before :: "message_row \<Rightarrow> message_row \<Rightarrow> bool" where
  "row_before q r =
    (wm_priority q < wm_priority r \<or> (wm_priority q = wm_priority r \<and> wm_mailbox_sequence q < wm_mailbox_sequence r))"

definition row_number :: "(message_row \<Rightarrow> bool) \<Rightarrow> message_row list \<Rightarrow> message_row \<Rightarrow> nat" where
  "row_number in_partition rows r = length (filter (\<lambda>q. in_partition q \<and> row_before q r) rows) + 1"

definition selected_rows :: "timestamp \<Rightarrow> session_id \<Rightarrow> message_row list \<Rightarrow> message_row list" where
  "selected_rows now sid messages =
    (let rows = nonterminal_rows sid messages;
         peer = (\<lambda>r q. wm_destination q = wm_destination r);
         head_rank = (\<lambda>r. row_number (peer r) rows r);
         class_rank = (\<lambda>r. row_number (\<lambda>q. peer r q
           \<and> expired_acceptance_column now q = expired_acceptance_column now r) rows r);
         has_recovery = (\<lambda>r. list_ex (\<lambda>q. peer r q \<and> expired_acceptance_column now q) rows);
         has_active_lease = (\<lambda>r. list_ex (\<lambda>q. peer r q \<and> active_lease_column now q) rows)
     in filter (\<lambda>r. (expired_acceptance_column now r \<and> class_rank r = 1)
          \<or> (\<not> has_recovery r \<and> \<not> has_active_lease r \<and> head_rank r = 1
             \<and> (row_state_name r = ''queued''
                \<or> (row_state_name r \<in> {''retry_scheduled'', ''leased''} \<and> due_by now r)))) rows)"

text \<open>The join with the unfinished operation of the destination, ordered and limited.\<close>

definition due_session_delivery_work ::
  "timestamp \<Rightarrow> session_id \<Rightarrow> nat \<Rightarrow> 'w work_store_scheme \<Rightarrow> (message_row \<times> operation_id) list" where
  "due_session_delivery_work now sid limit s =
    take limit (sort_key (\<lambda>p. wm_priority (fst p)) (sort_key (\<lambda>p. wm_mailbox_sequence (fst p))
      (sort_key (\<lambda>p. wm_message_id (fst p))
        (concat (map (\<lambda>r. map (\<lambda>x. (r, ow_operation_id x))
            (filter (\<lambda>x. opn_session_id (ow_snapshot x) = wm_session_id r
                \<and> opn_participant_id (ow_snapshot x) = wm_destination r
                \<and> mc_operation_id (ms_correlation (wm_snapshot r)) = Some (ow_operation_id x)
                \<and> ow_terminal_name x = None) (ws_operations s)))
          (selected_rows now sid (ws_messages s)))))))"

record session_delivery_work =
  sdw_message :: message_snapshot
  sdw_operation :: operation_snapshot

definition load_due_session_delivery_work ::
  "env \<Rightarrow> timestamp \<Rightarrow> 'w work_store_scheme \<Rightarrow> session_id \<Rightarrow> nat \<Rightarrow> store_error + session_delivery_work list" where
  "load_due_session_delivery_work en observed_at s sid limit =
    (if limit = 0 \<or> limit > 128 then Err Invalid
     else
     and_then (and_then (load_session_in en s sid) (ok_or Invalid)) (\<lambda>row.
     let now = max observed_at (sv_time_floor row)
     in try_map (\<lambda>(r, oid).
          and_then (decode_message_row r) (\<lambda>message.
          and_then (parse_id oid) (\<lambda>operation_id.
          and_then (load_operation_in en s operation_id) (\<lambda>found.
          case found of
            None \<Rightarrow> Err Corrupt
          | Some x \<Rightarrow>
              if opn_session_id x = sid \<and> opn_participant_id x = ms_destination message
                 \<and> \<not> op_is_terminal (opn_state x)
              then Ok \<lparr>sdw_message = message, sdw_operation = x\<rparr>
              else Err Corrupt))))
        (due_session_delivery_work now sid limit s)))"

end
