(* ===== verification/Session_Protocol.thy ===== *)
theory Session_Protocol
  imports Session_Store
begin

text \<open>
  The protocol of sessions and their ownership, as the store implements it: the operations of
  \<open>SessionStore\<close> as one interface, the step relation they refine, the invariant of the tables, and what
  follows for idempotence, fencing and the event log.
\<close>

section \<open>The operations as one interface\<close>

datatype session_command =
    OpenCommand open_session_cmd
  | CloseCommand close_session_cmd
  | AcquireCommand acquire_ownership_cmd
  | RenewCommand renew_ownership_cmd
  | ReleaseCommand release_ownership_cmd

datatype session_reply =
    SessionReply "session_snapshot mutation"
  | LeaseReply "ownership_lease mutation"
  | OwnershipReply "ownership_snapshot mutation"

fun session_op ::
  "env \<Rightarrow> timestamp \<Rightarrow> session_command \<Rightarrow> 'z store_scheme \<Rightarrow> 'z store_scheme \<times> (store_error + session_reply)" where
  "session_op en now (OpenCommand c) s = map_prod id (map_sum id SessionReply) (run_transaction (open_session en now c) s)"
| "session_op en now (CloseCommand c) s = map_prod id (map_sum id SessionReply) (run_transaction (close_session en now c) s)"
| "session_op en now (AcquireCommand c) s = map_prod id (map_sum id LeaseReply) (run_transaction (acquire_ownership en now c) s)"
| "session_op en now (RenewCommand c) s = map_prod id (map_sum id LeaseReply) (run_transaction (renew_ownership en now c) s)"
| "session_op en now (ReleaseCommand c) s = map_prod id (map_sum id OwnershipReply) (run_transaction (release_ownership en now c) s)"

fun request_command :: "session_command \<Rightarrow> command" where
  "request_command (OpenCommand c) = CmdOpenSession c"
| "request_command (CloseCommand c) = CmdCloseSession c"
| "request_command (AcquireCommand c) = CmdAcquireOwnership c"
| "request_command (RenewCommand c) = CmdRenewOwnership c"
| "request_command (ReleaseCommand c) = CmdReleaseOwnership c"

fun target :: "session_command \<Rightarrow> session_id" where
  "target (OpenCommand c) = os_session_id c"
| "target (CloseCommand c) = cs_session_id c"
| "target (AcquireCommand c) = ao_session_id c"
| "target (RenewCommand c) = rn_session_id c"
| "target (ReleaseCommand c) = ro_session_id c"

definition caller_of :: "session_command \<Rightarrow> host_id" where
  "caller_of cmd = rc_caller (command_context (request_command cmd))"

definition request_id_of :: "session_command \<Rightarrow> request_id" where
  "request_id_of cmd = rc_request_id (command_context (request_command cmd))"

text \<open>What the constructors of the command types guarantee: identities are not nil, keys are
  bounded, and a manifest lists its templates in strictly increasing order.\<close>

fun session_command_wf :: "session_command \<Rightarrow> bool" where
  "session_command_wf (OpenCommand c) \<longleftrightarrow>
    os_session_id c \<noteq> 0 \<and> os_consumer_key c \<noteq> [] \<and> length (os_consumer_key c) \<le> 256
    \<and> (\<forall>m. os_manifest c = Some m \<longrightarrow> sorted_wrt (<) (map tb_template_id (sm_templates m)))
    \<and> (\<forall>m. os_manifest c = Some m \<longrightarrow> (0 \<notin> tb_template_id ` set (sm_templates m)))"
| "session_command_wf (CloseCommand c) \<longleftrightarrow> True"
| "session_command_wf (AcquireCommand c) \<longleftrightarrow> rc_caller (ao_context c) \<noteq> 0"
| "session_command_wf (RenewCommand c) \<longleftrightarrow> True"
| "session_command_wf (ReleaseCommand c) \<longleftrightarrow> True"

definition op_step :: "env \<Rightarrow> timestamp \<times> session_command \<Rightarrow> 'z store_scheme \<Rightarrow> 'z store_scheme" where
  "op_step en a s = fst (session_op en (fst a) (snd a) s)"

definition run_ops :: "env \<Rightarrow> (timestamp \<times> session_command) list \<Rightarrow> 'z store_scheme \<Rightarrow> 'z store_scheme" where
  "run_ops en ops s = fold (op_step en) ops s"


section \<open>Steps\<close>

datatype session_label =
    Refused session_id store_error
  | Kept session_snapshot
  | Opened session_snapshot timestamp
  | Ended session_snapshot host_id fencing_epoch timestamp
  | Acquired ownership_lease timestamp
  | Renewed ownership_lease timestamp
  | Released session_id host_id fencing_epoch timestamp

text \<open>The row of a session is held by a host under an epoch at a time.\<close>

definition held :: "session_table_row \<Rightarrow> host_id \<Rightarrow> fencing_epoch \<Rightarrow> timestamp \<Rightarrow> bool" where
  "held r h e t \<longleftrightarrow>
    sw_owner_host r = Some h \<and> sw_owner_epoch r = Some e
    \<and> (\<exists>x. sw_owner_expires_at r = Some x \<and> t < x)"

definition effective_owner :: "session_table_row \<Rightarrow> timestamp \<Rightarrow> (host_id \<times> fencing_epoch) option" where
  "effective_owner r t =
    (case row_owner r of
       None \<Rightarrow> None
     | Some l \<Rightarrow> if is_effective_at l t then Some (ol_owner l, ol_epoch l) else None)"

definition opened_row :: "env \<Rightarrow> open_session_cmd \<Rightarrow> string \<Rightarrow> timestamp \<Rightarrow> session_table_row" where
  "opened_row en c storage_key now =
    \<lparr>sw_session_id = os_session_id c, sw_consumer_key = storage_key,
     sw_public_consumer_key = os_consumer_key c, sw_compatibility = os_compatibility c,
     sw_revision = 1, sw_closed = False, sw_created_at = now, sw_updated_at = now,
     sw_owner_host = None, sw_owner_epoch = None, sw_owner_expires_at = None,
     sw_epoch_high_water = 0, sw_time_floor = now,
     sw_manifest_complete = (os_manifest c \<noteq> None),
     sw_configuration = map_option sm_configuration_identity (os_manifest c)\<rparr>"

definition manifest_rows :: "open_session_cmd \<Rightarrow> manifest_row list" where
  "manifest_rows c =
    (case os_manifest c of
       None \<Rightarrow> []
     | Some m \<Rightarrow> map (\<lambda>b. \<lparr>mw_session_id = os_session_id c, mw_template_id = tb_template_id b,
                        mw_compatibility = tb_compatibility b\<rparr>) (sm_templates m))"

inductive session_step ::
  "env \<Rightarrow> timestamp \<Rightarrow> 'z store_scheme \<Rightarrow> ledger_request \<Rightarrow> session_label \<Rightarrow> 'z store_scheme \<Rightarrow> bool" for en t where
  refuse:
    "fresh_request s (rc_request_id (lq_context q)) \<Longrightarrow>
     session_step en t s q (Refused sid err)
       (add_ledger (ledger_entry sid q (LedgerFailed (failure_to_wire err))) s)"
| refuse_late:
    "fresh_request s (rc_request_id (lq_context q)) \<Longrightarrow> session_of s sid = Some r \<Longrightarrow>
     \<not> sw_closed r \<Longrightarrow> now = max (sw_time_floor r) t \<Longrightarrow> valid_time en now \<Longrightarrow>
     session_step en t s q (Refused sid err) (add_ledger (ledger_entry sid q (LedgerFailed (failure_to_wire err)))
       (set_session sid (\<lambda>r. r\<lparr>sw_time_floor := now\<rparr>) s))"
| keep:
    "fresh_request s (rc_request_id (lq_context q)) \<Longrightarrow> session_of s sid = Some r \<Longrightarrow>
     session_step en t s q (Kept (row_snapshot r))
       (add_ledger (ledger_entry sid q (LedgerSucceeded EffectUnchanged (SessionValue (row_snapshot r)))) s)"
| open_new:
    "fresh_request s (rc_request_id (lq_context q)) \<Longrightarrow> session_command_wf (OpenCommand c) \<Longrightarrow>
     sid = os_session_id c \<Longrightarrow> session_of s sid = None \<Longrightarrow>
     \<forall>r \<in> set (st_sessions s). sw_closed r \<or> sw_public_consumer_key r \<noteq> os_consumer_key c \<Longrightarrow>
     row = opened_row en c storage_key now \<Longrightarrow> now = t \<Longrightarrow> valid_time en now \<Longrightarrow>
     event_after (session_events s sid) now e \<Longrightarrow> ew_session_id e = sid \<Longrightarrow> ew_revision e = 1 \<Longrightarrow>
     session_step en t s q (Opened (row_snapshot row) now)
       (add_ledger (ledger_entry sid q (LedgerSucceeded EffectApplied (SessionValue (row_snapshot row))))
         (add_event e (s\<lparr>st_sessions := st_sessions s @ [row],
                         st_manifests := st_manifests s @ manifest_rows c\<rparr>)))"
| close:
    "fresh_request s (rc_request_id (lq_context q)) \<Longrightarrow> session_of s sid = Some r \<Longrightarrow>
     \<not> sw_closed r \<Longrightarrow> now = max (sw_time_floor r) t \<Longrightarrow> valid_time en now \<Longrightarrow> held r h ep now \<Longrightarrow>
     revision_next (sw_revision r) = Some revno \<Longrightarrow>
     f = (\<lambda>r. r\<lparr>sw_time_floor := now, sw_closed := True, sw_revision := revno, sw_updated_at := now,
                sw_owner_host := None, sw_owner_expires_at := None\<rparr>) \<Longrightarrow>
     event_after (session_events s sid) now e \<Longrightarrow> ew_session_id e = sid \<Longrightarrow> ew_revision e = revno \<Longrightarrow>
     h = rc_caller (lq_context q) \<Longrightarrow>
     session_step en t s q (Ended (row_snapshot (f r)) h ep now)
       (add_ledger (ledger_entry sid q (LedgerSucceeded EffectApplied (SessionValue (row_snapshot (f r)))))
         (add_event e (set_session sid f s)))"
| acquire:
    "fresh_request s (rc_request_id (lq_context q)) \<Longrightarrow> session_of s sid = Some r \<Longrightarrow>
     \<not> sw_closed r \<Longrightarrow> now = max (sw_time_floor r) t \<Longrightarrow> valid_time en now \<Longrightarrow>
     effective_owner r now = None \<Longrightarrow>
     unat ep = unat (sw_epoch_high_water r) + 1 \<Longrightarrow> h \<noteq> 0 \<Longrightarrow> valid_time en x \<Longrightarrow> now < x \<Longrightarrow>
     revision_next (sw_revision r) = Some revno \<Longrightarrow>
     lease = \<lparr>ol_session_id = sid, ol_owner = h, ol_epoch = ep, ol_expires_at = x\<rparr> \<Longrightarrow>
     f = (\<lambda>r. r\<lparr>sw_time_floor := now, sw_owner_host := Some h, sw_owner_epoch := Some ep,
                sw_owner_expires_at := Some x, sw_epoch_high_water := ep, sw_revision := revno,
                sw_updated_at := now\<rparr>) \<Longrightarrow>
     event_after (session_events s sid) now e \<Longrightarrow> ew_session_id e = sid \<Longrightarrow> ew_revision e = revno \<Longrightarrow>
     h = rc_caller (lq_context q) \<Longrightarrow>
     session_step en t s q (Acquired lease now)
       (add_ledger (ledger_entry sid q (LedgerSucceeded EffectApplied (encode_lease lease now)))
         (add_event e (set_session sid f s)))"
| renew:
    "fresh_request s (rc_request_id (lq_context q)) \<Longrightarrow> session_of s sid = Some r \<Longrightarrow>
     \<not> sw_closed r \<Longrightarrow> now = max (sw_time_floor r) t \<Longrightarrow> valid_time en now \<Longrightarrow> held r h ep now \<Longrightarrow>
     valid_time en x \<Longrightarrow> now < x \<Longrightarrow>
     lease = \<lparr>ol_session_id = sid, ol_owner = h, ol_epoch = ep, ol_expires_at = x\<rparr> \<Longrightarrow>
     f = (\<lambda>r. r\<lparr>sw_time_floor := now, sw_owner_expires_at := Some x\<rparr>) \<Longrightarrow>
     h = rc_caller (lq_context q) \<Longrightarrow>
     session_step en t s q (Renewed lease now)
       (add_ledger (ledger_entry sid q (LedgerSucceeded EffectApplied (encode_lease lease now)))
         (set_session sid f s))"
| release:
    "fresh_request s (rc_request_id (lq_context q)) \<Longrightarrow> session_of s sid = Some r \<Longrightarrow>
     \<not> sw_closed r \<Longrightarrow> now = max (sw_time_floor r) t \<Longrightarrow> valid_time en now \<Longrightarrow> held r h ep now \<Longrightarrow>
     revision_next (sw_revision r) = Some revno \<Longrightarrow>
     f = (\<lambda>r. r\<lparr>sw_time_floor := now, sw_owner_host := None, sw_owner_expires_at := None,
                sw_revision := revno, sw_updated_at := now\<rparr>) \<Longrightarrow>
     event_after (session_events s sid) now e \<Longrightarrow> ew_session_id e = sid \<Longrightarrow> ew_revision e = revno \<Longrightarrow>
     h = rc_caller (lq_context q) \<Longrightarrow>
     session_step en t s q (Released sid h ep now)
       (add_ledger (ledger_entry sid q (LedgerSucceeded EffectApplied UnownedValue))
         (add_event e (set_session sid f s)))"


section \<open>The operations take steps\<close>

lemma finish_with_bind [bind_simps]: "finish_with v s = (Inr b, t) \<longleftrightarrow> b = Inr v \<and> t = s"
  by (auto simp: finish_with_def)

lemma or_fail_commit [commit_simps]:
  "or_fail sid q r k s = (Inr b, t) \<longleftrightarrow>
    (\<exists>e. r = Inl e \<and> finish_failure sid q e s = (Inr b, t)) \<or> (\<exists>v. r = Inr v \<and> k v s = (Inr b, t))"
  by (cases r) (simp_all add: or_fail_def)

lemmas finish_with_commit [commit_simps] = finish_with_bind

lemma decode_session_valid:
  assumes "decode_session en r = Inr v"
  shows "valid_time en (sw_time_floor r)"
    and "sw_owner_host r = Some h \<Longrightarrow> sw_owner_epoch r \<noteq> None \<and> sw_owner_expires_at r \<noteq> None"
  using assms
  by (auto simp: decode_session_def decode_owner_def outcome_simps split: if_splits option.splits)

lemma session_of_in: "session_of s sid = Some r \<Longrightarrow> r \<in> set (st_sessions s) \<and> sw_session_id r = sid"
  using find_row_Some_mem [of sw_session_id] find_row_Some_key [of sw_session_id] by blast

lemma require_open_session_Ok:
  assumes "require_open_session en s sid a = Inr row"
  obtains r where "session_of s sid = Some r" "row = row_view r" "\<not> sw_closed r" "decode_session en r = Inr row"
proof -
  from assms obtain r where "session_of s sid = Some r" "decode_session en r = Inr row"
    "ss_status (sv_snapshot row) \<noteq> Closed"
    by (auto simp: require_open_session_def load_session_in_def outcome_simps split: option.splits if_splits)
  with decode_session_row [of en r row] that show ?thesis by (auto split: if_splits)
qed

lemma require_owner_held:
  assumes "require_owner (row_view r) h e t = Inr u" "decode_session en r = Inr v"
  shows "held r h e t"
proof -
  from assms(1) obtain l where l: "row_owner r = Some l" "ol_epoch l = e" "ol_owner l = h" "is_effective_at l t"
    by (auto simp: require_owner_def split: option.splits if_splits)
  then have "sw_owner_host r = Some h" by (auto simp: row_owner_def)
  with decode_session_valid(2) [OF assms(2)] l show ?thesis
    by (auto simp: held_def row_owner_def is_effective_at_def)
qed

lemma expiry_Ok:
  assumes "expiry en now d = Inr x" "env_laws en" "valid_time en now"
  shows "valid_time en x"
    "unix_seconds x * 1000000000 + int (nanoseconds x)
      = unix_seconds now * 1000000000 + int (nanoseconds now) + uint d * 1000000"
proof -
  obtain w where w: "en_add_millis en (unix_seconds now * 1000000000 + int (nanoseconds now)) (uint d) = Some w"
    "x = from_datetime w"
    using assms(1) to_datetime_valid [OF assms(2,3)]
    by (auto simp: expiry_def outcome_simps split: if_splits)
  with assms(2) have "w = unix_seconds now * 1000000000 + int (nanoseconds now) + uint d * 1000000"
    "valid_time en (from_datetime w)"
    unfolding env_laws_def by blast+
  then show "valid_time en x" "unix_seconds x * 1000000000 + int (nanoseconds x)
      = unix_seconds now * 1000000000 + int (nanoseconds now) + uint d * 1000000"
    using w(2) by (simp_all add: from_datetime_def)
qed

lemma request_of_simps [simp]:
  "lq_context (request_of en c) = command_context c"
  "lq_action (request_of en c) = command_action c"
  "lq_digest (request_of en c) = command_digest (en_sha256 en) c"
  by (simp_all add: request_of_def)

lemma session_floor_compose:
  assumes "\<And>r. sw_session_id (g r) = sw_session_id r"
  shows "set_session sid g (set_session sid (\<lambda>r. r\<lparr>sw_time_floor := now\<rparr>) s) =
    set_session sid (\<lambda>r. g (r\<lparr>sw_time_floor := now\<rparr>)) s"
  by (rule set_session_compose) simp

lemma session_events_simps [simp]:
  "session_events (set_session i f s) sid = session_events s sid"
  "session_events (add_ledger w s) sid = session_events s sid"
  "session_events (add_event e s) sid =
    session_events s sid @ (if ew_session_id e = sid then [e] else [])"
  by (simp_all add: session_events_def)

text \<open>The common beginning of the fenced operations: replay, the open session, the time floor.\<close>

lemma fenced_cases:
  assumes "io_bind (\<lambda>s. io_lift (replay_bytes s q) s) (\<lambda>replayed.
      case replayed of
        Some v \<Rightarrow> A v
      | None \<Rightarrow> (\<lambda>s. or_fail sid q (require_open_session en s sid a) (\<lambda>row.
          io_bind (advance_time_floor sid (sv_time_floor row) t) (K row)) s)) s = (Inr res, s')"
    and "valid_time en t"
  obtains (replayed) v where "replay_bytes s q = Inr (Some v)" "A v s = (Inr res, s')"
  | (refused) e where "res = Inl e" "session_step en t s q (Refused sid e) s'"
      "require_open_session en s sid a = Inl e"
  | (fenced) r now where "fresh_request s (rc_request_id (lq_context q))" "session_of s sid = Some r"
      "\<not> sw_closed r" "now = max (sw_time_floor r) t" "valid_time en now"
      "decode_session en r = Inr (row_view r)"
      "K (row_view r) now (set_session sid (\<lambda>r. r\<lparr>sw_time_floor := now\<rparr>) s) = (Inr res, s')"
proof -
  from assms(1) obtain replayed where rp: "replay_bytes s q = Inr replayed"
    by (auto simp: commit_simps)
  show ?thesis
  proof (cases replayed)
    case (Some v)
    then show ?thesis using assms(1) rp that(1) by (auto simp: commit_simps)
  next
    case None
    have fresh: "fresh_request s (rc_request_id (lq_context q))"
      using replay_bytes_None [of s q] rp None by simp
    show ?thesis
    proof (cases "require_open_session en s sid a")
      case (Inl e)
      then show ?thesis using assms(1) rp None fresh that(2)
        by (auto simp: commit_simps intro: session_step.refuse)
    next
      case (Inr row)
      then obtain r where r: "session_of s sid = Some r" "row = row_view r" "\<not> sw_closed r"
        "decode_session en r = Inr row" by (rule require_open_session_Ok)
      have "valid_time en (max (sw_time_floor r) t)"
        using decode_session_valid(1) [OF r(4)] assms(2) by (simp add: valid_time_max)
      then show ?thesis
        using that(3) [OF fresh r(1,3) refl] r assms(1) rp None Inr by (auto simp: commit_simps)
    qed
  qed
qed

text \<open>A failure recorded after the time floor was advanced is a late refusal.\<close>

lemma late_refusal:
  assumes "finish_failure sid q e (set_session sid (\<lambda>r. r\<lparr>sw_time_floor := now\<rparr>) s) = (Inr res, s')"
    and "session_of s sid = Some r" "\<not> sw_closed r" "now = max (sw_time_floor r) t" "valid_time en now"
  shows "res = Inl e \<and> session_step en t s q (Refused sid e) s'"
  using assms session_step.refuse_late [of s q sid r now t en e] by (auto simp: commit_simps)

lemma release_ownership_step:
  assumes "release_ownership en t c s = (Inr res, s')" "sessions_distinct s" "valid_time en t"
  shows "(res = Inr (Replayed Unowned) \<and> s' = s)
    \<or> (\<exists>e. res = Inl e \<and> session_step en t s (request_of en (CmdReleaseOwnership c)) (Refused (ro_session_id c) e) s')
    \<or> (\<exists>now. res = Inr (Applied Unowned) \<and> session_step en t s (request_of en (CmdReleaseOwnership c))
        (Released (ro_session_id c) (rc_caller (ro_context c)) (ro_epoch c) now) s')"
  using assms(1) [unfolded release_ownership_def Let_def] assms(3)
proof (cases rule: fenced_cases)
  case (replayed v)
  then show ?thesis by (auto simp: commit_simps split: if_splits)
next
  case (refused e)
  then show ?thesis by blast
next
  case (fenced r now)
  let ?q = "request_of en (CmdReleaseOwnership c)" and ?sid = "ro_session_id c"
  let ?h = "rc_caller (ro_context c)"
  show ?thesis
  proof (cases "require_owner (row_view r) ?h (ro_epoch c) now")
    case (Inl e)
    with fenced(7) have "finish_failure ?sid ?q e (set_session ?sid (\<lambda>r. r\<lparr>sw_time_floor := now\<rparr>) s) = (Inr res, s')"
      by (simp add: or_fail_def)
    from late_refusal [OF this fenced(2-5)] show ?thesis by blast
  next
    case (Inr u)
    then have held: "held r ?h (ro_epoch c) now" using require_owner_held fenced(6) by blast
    let ?f = "\<lambda>rn r. r\<lparr>sw_time_floor := now, sw_owner_host := None, sw_owner_expires_at := None,
            sw_revision := rn, sw_updated_at := now\<rparr>"
    obtain rn e where e: "revision_next (sw_revision r) = Some rn" "res = Inr (Applied Unowned)"
      "s' = add_ledger (ledger_entry ?sid ?q (LedgerSucceeded EffectApplied UnownedValue))
         (add_event e (set_session ?sid (?f rn) s))"
      "event_after (session_events s ?sid) now e" "ew_session_id e = ?sid" "ew_revision e = rn"
      using fenced(7) Inr assms(2)
      by (auto simp: or_fail_def bind_simps outcome_simps session_floor_compose
          dest!: bind_update_one bind_append_empty)
    then show ?thesis
      using session_step.release [OF fenced(1-5) held e(1) refl e(4-6)] e(2,3) by auto
  qed
qed

lemma close_session_step:
  assumes "close_session en t c s = (Inr res, s')" "sessions_distinct s" "valid_time en t"
  shows "(\<exists>v. res = Inr (Replayed v) \<and> s' = s)
    \<or> (\<exists>e. res = Inl e \<and> session_step en t s (request_of en (CmdCloseSession c)) (Refused (cs_session_id c) e) s')
    \<or> (\<exists>v now. res = Inr (Applied v) \<and> ss_id v = cs_session_id c \<and> ss_status v = Closed
        \<and> session_step en t s (request_of en (CmdCloseSession c))
        (Ended v (rc_caller (cs_context c)) (cs_epoch c) now) s')"
  using assms(1) [unfolded close_session_def Let_def] assms(3)
proof (cases rule: fenced_cases)
  case (replayed v)
  then show ?thesis by (auto simp: commit_simps split: if_splits)
next
  case (refused e)
  then show ?thesis by blast
next
  case (fenced r now)
  let ?q = "request_of en (CmdCloseSession c)" and ?sid = "cs_session_id c"
  let ?h = "rc_caller (cs_context c)"
  show ?thesis
  proof (cases "require_owner (row_view r) ?h (cs_epoch c) now")
    case (Inl e)
    with fenced(7) have "finish_failure ?sid ?q e (set_session ?sid (\<lambda>r. r\<lparr>sw_time_floor := now\<rparr>) s) = (Inr res, s')"
      by (simp add: or_fail_def)
    from late_refusal [OF this fenced(2-5)] show ?thesis by blast
  next
    case (Inr u)
    then have held: "held r ?h (cs_epoch c) now" using require_owner_held fenced(6) by blast
    obtain v where v: "session_close (row_snapshot r) now = (v, Inr ())"
      using fenced(7) Inr by (auto simp: or_fail_def split: prod.splits sum.splits)
    let ?f = "\<lambda>rn r. r\<lparr>sw_time_floor := now, sw_closed := True, sw_revision := rn, sw_updated_at := now,
            sw_owner_host := None, sw_owner_expires_at := None\<rparr>"
    have rn: "revision_next (sw_revision r) = Some (ss_revision v)"
      and vf: "v = row_snapshot (?f (ss_revision v) r)"
      using v fenced(3) by (auto simp: session_close_def row_snapshot_def split: if_splits option.splits)
    have vs: "ss_id v = ?sid" "ss_status v = Closed"
      using v session_of_in [OF fenced(2)] by (auto simp: session_close_def split: if_splits option.splits)
    obtain e where e: "res = Inr (Applied v)"
      "s' = add_ledger (ledger_entry ?sid ?q (LedgerSucceeded EffectApplied (SessionValue v)))
         (add_event e (set_session ?sid (?f (ss_revision v)) s))"
      "event_after (session_events s ?sid) now e" "ew_session_id e = ?sid" "ew_revision e = ss_revision v"
      using fenced(7) Inr assms(2) v
      by (auto simp: or_fail_def bind_simps outcome_simps session_floor_compose
          dest!: bind_update_one bind_append)
    then show ?thesis
      using session_step.close [OF fenced(1-5) held rn refl e(3-5)] vf vs by auto
  qed
qed

lemma acquire_free_commit:
  assumes "acquire_free en c q (row_view r) now x (set_session sid (\<lambda>r. r\<lparr>sw_time_floor := now\<rparr>) s) = (Inr res, s')"
    and "sid = ao_session_id c" "sessions_distinct s"
  obtains ep rn e where
    "res = Inr (Applied \<lparr>ol_session_id = sid, ol_owner = rc_caller (ao_context c), ol_epoch = ep,
        ol_expires_at = x\<rparr>)"
    "unat ep = unat (sw_epoch_high_water r) + 1" "revision_next (sw_revision r) = Some rn" "now < x"
    "event_after (session_events s sid) now e" "ew_session_id e = sid" "ew_revision e = rn"
    "s' = add_ledger (ledger_entry sid q (LedgerSucceeded EffectApplied
            (encode_lease \<lparr>ol_session_id = sid, ol_owner = rc_caller (ao_context c), ol_epoch = ep,
              ol_expires_at = x\<rparr> now)))
          (add_event e (set_session sid (\<lambda>r. r\<lparr>sw_time_floor := now,
             sw_owner_host := Some (rc_caller (ao_context c)), sw_owner_epoch := Some ep,
             sw_owner_expires_at := Some x, sw_epoch_high_water := ep, sw_revision := rn,
             sw_updated_at := now\<rparr>) s))"
  using assms(1,3)
  by (auto simp: acquire_free_def Let_def assms(2) bind_simps outcome_simps session_floor_compose fencing_epoch_new_def
      dest!: bind_update_one bind_append_empty dest: checked_add_Some_unat split: if_splits)

lemma acquire_ownership_step:
  assumes "acquire_ownership en t c s = (Inr res, s')" "sessions_distinct s" "valid_time en t" "env_laws en"
    and "rc_caller (ao_context c) \<noteq> 0"
  shows "(\<exists>l. res = Inr (Replayed l) \<and> s' = s)
    \<or> (\<exists>e. res = Inl e \<and> session_step en t s (request_of en (CmdAcquireOwnership c)) (Refused (ao_session_id c) e) s')
    \<or> (\<exists>l now. res = Inr (Applied l) \<and> ol_session_id l = ao_session_id c
        \<and> ol_owner l = rc_caller (ao_context c) \<and> expiry en now (ao_duration c) = Inr (ol_expires_at l)
        \<and> session_step en t s (request_of en (CmdAcquireOwnership c)) (Acquired l now) s')"
  using assms(1) [unfolded acquire_ownership_def Let_def] assms(3)
proof (cases rule: fenced_cases)
  case (replayed v)
  then show ?thesis by (auto simp: commit_simps)
next
  case (refused e)
  then show ?thesis by blast
next
  case (fenced r now)
  let ?q = "request_of en (CmdAcquireOwnership c)" and ?sid = "ao_session_id c"
  let ?s = "set_session ?sid (\<lambda>r. r\<lparr>sw_time_floor := now\<rparr>) s"
  consider e where "finish_failure ?sid ?q e ?s = (Inr res, s')"
    | x where "expiry en now (ao_duration c) = Inr x" "effective_owner r now = None"
        "acquire_free en c ?q (row_view r) now x ?s = (Inr res, s')"
    using fenced(7)
    by (auto simp: or_fail_def effective_owner_def split: sum.splits option.splits if_splits)
  then show ?thesis
  proof cases
    case 1
    from late_refusal [OF this fenced(2-5)] show ?thesis by blast
  next
    case 2
    from 2(3) refl assms(2) obtain ep rn e where e: 
      "res = Inr (Applied \<lparr>ol_session_id = ?sid, ol_owner = rc_caller (ao_context c), ol_epoch = ep,
          ol_expires_at = x\<rparr>)"
      "unat ep = unat (sw_epoch_high_water r) + 1" "revision_next (sw_revision r) = Some rn" "now < x"
      "event_after (session_events s ?sid) now e" "ew_session_id e = ?sid" "ew_revision e = rn"
      "s' = add_ledger (ledger_entry ?sid ?q (LedgerSucceeded EffectApplied
              (encode_lease \<lparr>ol_session_id = ?sid, ol_owner = rc_caller (ao_context c), ol_epoch = ep,
                ol_expires_at = x\<rparr> now)))
            (add_event e (set_session ?sid (\<lambda>r. r\<lparr>sw_time_floor := now,
               sw_owner_host := Some (rc_caller (ao_context c)), sw_owner_epoch := Some ep,
               sw_owner_expires_at := Some x, sw_epoch_high_water := ep, sw_revision := rn,
               sw_updated_at := now\<rparr>) s))"
      by (rule acquire_free_commit)
    have "valid_time en x" by (rule expiry_Ok(1) [OF 2(1) assms(4) fenced(5)])
    from session_step.acquire [OF fenced(1-5) 2(2) e(2) assms(5) this e(4,3) refl refl e(5-7)] e(1,8) 2(1)
    show ?thesis by auto
  qed
qed

lemma renew_ownership_step:
  assumes "renew_ownership en t c s = (Inr res, s')" "sessions_distinct s" "valid_time en t" "env_laws en"
  shows "(\<exists>l. res = Inr (Replayed l) \<and> s' = s)
    \<or> (\<exists>e. res = Inl e \<and> session_step en t s (request_of en (CmdRenewOwnership c)) (Refused (rn_session_id c) e) s')
    \<or> (\<exists>l now. res = Inr (Applied l) \<and> ol_session_id l = rn_session_id c
        \<and> ol_owner l = rc_caller (rn_context c) \<and> ol_epoch l = rn_epoch c
        \<and> expiry en now (rn_duration c) = Inr (ol_expires_at l)
        \<and> session_step en t s (request_of en (CmdRenewOwnership c)) (Renewed l now) s')"
  using assms(1) [unfolded renew_ownership_def Let_def] assms(3)
proof (cases rule: fenced_cases)
  case (replayed v)
  then show ?thesis by (auto simp: commit_simps)
next
  case (refused e)
  then show ?thesis by blast
next
  case (fenced r now)
  let ?q = "request_of en (CmdRenewOwnership c)" and ?sid = "rn_session_id c"
  let ?h = "rc_caller (rn_context c)"
  let ?s = "set_session ?sid (\<lambda>r. r\<lparr>sw_time_floor := now\<rparr>) s"
  let ?l = "\<lambda>x. \<lparr>ol_session_id = ?sid, ol_owner = ?h, ol_epoch = rn_epoch c, ol_expires_at = x\<rparr>"
  consider e where "finish_failure ?sid ?q e ?s = (Inr res, s')"
    | x where "require_owner (row_view r) ?h (rn_epoch c) now = Inr ()"
        "expiry en now (rn_duration c) = Inr x" "now < x" "res = Inr (Applied (?l x))"
        "s' = add_ledger (ledger_entry ?sid ?q (LedgerSucceeded EffectApplied (encode_lease (?l x) now)))
          (set_session ?sid (\<lambda>r. r\<lparr>sw_time_floor := now, sw_owner_expires_at := Some x\<rparr>) s)"
    using fenced(7) assms(2)
    by (auto simp: or_fail_def bind_simps outcome_simps session_floor_compose dest!: bind_update_one
        split: sum.splits if_splits)
  then show ?thesis
  proof cases
    case 1
    from late_refusal [OF this fenced(2-5)] show ?thesis by blast
  next
    case 2
    then have held: "held r ?h (rn_epoch c) now" using require_owner_held fenced(6) by blast
    have "valid_time en x" by (rule expiry_Ok(1) [OF 2(2) assms(4) fenced(5)])
    from session_step.renew [OF fenced(1-5) held this 2(3) refl refl] 2 show ?thesis by auto
  qed
qed

lemma insert_session_row_commit [commit_simps]:
  "insert_session_row en c now s = (Inr u, t) \<longleftrightarrow>
    (let key = (if \<not> list_ex (\<lambda>r. sw_consumer_key r = os_consumer_key c) (st_sessions s) then os_consumer_key c
         else ''session:'' @ en_uuid_string en (os_session_id c))
     in (\<forall>r \<in> set (st_sessions s). sw_session_id r \<noteq> os_session_id c \<and> sw_consumer_key r \<noteq> key
           \<and> (sw_closed r \<or> sw_public_consumer_key r \<noteq> os_consumer_key c))
        \<and> t = s\<lparr>st_sessions := st_sessions s @ [opened_row en c key now]\<rparr>)"
  by (simp only: insert_session_row_def Let_def opened_row_def list_ex_iff)
    (auto split: if_splits)

lemma insert_session_manifest_commit [commit_simps]:
  "insert_session_manifest c s = (Inr u, t) \<longleftrightarrow>
    (os_manifest c \<noteq> None \<longrightarrow>
      distinct (map (\<lambda>w. (mw_session_id w, mw_template_id w)) (st_manifests s @ manifest_rows c)))
    \<and> t = s\<lparr>st_manifests := st_manifests s @ manifest_rows c\<rparr>"
  by (cases "os_manifest c")
    (auto simp: insert_session_manifest_def insert_manifest_rows_def manifest_rows_def Let_def
      simp del: map_append distinct_append map_map)

lemma open_new_session_commit:
  assumes "open_new_session en now c q s = (Inr res, s')"
    and "fresh_request s (rc_request_id (lq_context q))" "session_of s (os_session_id c) = None"
    and "session_command_wf (OpenCommand c)" "valid_time en now"
  shows "(\<exists>e. res = Inl e \<and> session_step en now s q (Refused (os_session_id c) e) s')
    \<or> (\<exists>v. res = Inr (Applied v) \<and> session_step en now s q (Opened v now) s'
        \<and> (\<exists>k e w. v = row_snapshot (opened_row en c k now)
          \<and> s' = add_ledger w (add_event e (s\<lparr>st_sessions := st_sessions s @ [opened_row en c k now],
                st_manifests := st_manifests s @ manifest_rows c\<rparr>))))"
proof -
  let ?sid = "os_session_id c"
  let ?row = "\<lambda>key. opened_row en c key now"
  have snap: "session_snapshot_new ?sid (os_consumer_key c) (os_compatibility c) Open revision_initial now now
      = Inr (row_snapshot (?row key))" for key
    by (simp add: outcome_simps row_snapshot_def opened_row_def revision_initial_def)
  consider e where "finish_failure ?sid q e s = (Inr res, s')"
    | key u1 u2 u3 v where "insert_session_row en c now s = (Inr (), u1)"
        "insert_session_manifest c u1 = (Inr (), u2)"
        "append_event_data en (rc_request_id (os_context c)) ?sid revision_initial ''session.created''
           (session_event_payload en v) now u2 = (Inr (), u3)" 
        "record_bytes ?sid q EffectApplied (SessionValue v) u3 = (Inr (), s')"
        "res = Inr (Applied v)" "v = row_snapshot (?row key)"
    using assms(1) snap
    by (auto simp: open_new_session_def io_bind_commit io_lift_commit finish_with_commit outcome_simps split: if_splits)
  then show ?thesis
  proof cases
    case 1
    then show ?thesis using session_step.refuse [OF assms(2)] by (auto simp: commit_simps)
  next
    case 2
    from 2(1) obtain key' where u1: "u1 = s\<lparr>st_sessions := st_sessions s @ [?row key']\<rparr>"
      and keys: "\<forall>r \<in> set (st_sessions s). sw_closed r \<or> sw_public_consumer_key r \<noteq> os_consumer_key c"
      by (auto simp: commit_simps Let_def)
    have v: "v = row_snapshot (?row key')" using 2(6) by (simp add: row_snapshot_def opened_row_def)
    have u2: "u2 = u1\<lparr>st_manifests := st_manifests s @ manifest_rows c\<rparr>"
      using 2(2) u1 by (simp add: commit_simps)
    from append_event_data_commit [OF 2(3)] obtain e where e: "u3 = add_event e u2"
      "event_after (session_events u2 ?sid) now e" "ew_session_id e = ?sid" "ew_revision e = revision_initial" by blast
    have "session_events u2 ?sid = session_events s ?sid" by (simp add: u2 u1 session_events_def)
    with e(2) have e2: "event_after (session_events s ?sid) now e" by simp
    have "ew_revision e = 1" using e(4) by (simp add: revision_initial_def)
    from session_step.open_new [OF assms(2,4) refl assms(3) keys refl refl assms(5) e2 e(3) this, of key']
    have "session_step en now s q (Opened v now) s'"
      using 2(4) by (simp add: commit_simps e(1) u2 u1 v)
    moreover have "s' = add_ledger (ledger_entry ?sid q (LedgerSucceeded EffectApplied (SessionValue v)))
        (add_event e (s\<lparr>st_sessions := st_sessions s @ [?row key'],
                        st_manifests := st_manifests s @ manifest_rows c\<rparr>))"
      using 2(4) by (simp add: commit_simps e(1) u2 u1)
    ultimately show ?thesis using 2(5) v by blast
  qed
qed

lemma open_session_step:
  assumes "open_session en t c s = (Inr res, s')" "valid_time en t" "session_command_wf (OpenCommand c)"
  shows "(\<exists>v. res = Inr (Replayed v) \<and> s' = s)
    \<or> (\<exists>e. res = Inl e \<and> session_step en t s (request_of en (CmdOpenSession c)) (Refused (os_session_id c) e) s')
    \<or> (\<exists>v. res = Inr (Unchanged v) \<and> session_step en t s (request_of en (CmdOpenSession c)) (Kept v) s'
        \<and> validate_open_replay v c = Inr () \<and> validate_session_manifest_in s c = Inr ())
    \<or> (\<exists>v. res = Inr (Applied v) \<and> session_step en t s (request_of en (CmdOpenSession c)) (Opened v t) s'
        \<and> session_of s (os_session_id c) = None
        \<and> (\<exists>k e w. v = row_snapshot (opened_row en c k t)
          \<and> s' = add_ledger w (add_event e (s\<lparr>st_sessions := st_sessions s @ [opened_row en c k t],
                st_manifests := st_manifests s @ manifest_rows c\<rparr>))))"
proof -
  let ?q = "request_of en (CmdOpenSession c)" and ?sid = "os_session_id c"
  from assms(1) obtain replayed where rp: "replay_bytes s ?q = Inr replayed"
    by (auto simp: open_session_def Let_def commit_simps)
  show ?thesis
  proof (cases replayed)
    case (Some v)
    then show ?thesis using assms(1) rp by (auto simp: open_session_def Let_def commit_simps)
  next
    case None
    have fresh: "fresh_request s (rc_request_id (lq_context ?q))"
      using replay_bytes_None [of s ?q] rp None by simp
    show ?thesis
    proof (cases "session_of s ?sid")
      case none: None
      then have "open_new_session en t c ?q s = (Inr res, s')"
        using assms(1) rp None by (auto simp: open_session_def Let_def bind_simps load_session_in_def)
      from open_new_session_commit [OF this fresh none assms(3,2)] none show ?thesis by blast
    next
      case (Some r)
      then obtain row where "decode_session en r = Inr row" "open_existing_session c ?q row s = (Inr res, s')"
        using assms(1) rp None
        by (auto simp: open_session_def Let_def bind_simps load_session_in_def outcome_simps)
      then have "open_existing_session c ?q (row_view r) s = (Inr res, s')"
        using decode_session_row by blast
      then consider e where "finish_failure ?sid ?q e s = (Inr res, s')"
        | "res = Inr (Unchanged (row_snapshot r))" "validate_session_manifest_in s c = Inr ()"
          "validate_open_replay (row_snapshot r) c = Inr ()"
          "s' = add_ledger (ledger_entry ?sid ?q
            (LedgerSucceeded EffectUnchanged (SessionValue (row_snapshot r)))) s"
        using session_of_in [OF Some]
        by (auto simp: open_existing_session_def or_fail_def bind_simps validate_open_replay_def
            split: if_splits sum.splits)
      then show ?thesis
      proof cases
        case 1
        then show ?thesis using session_step.refuse [OF fresh] by (auto simp: finish_failure_commit)
      next
        case 2
        then show ?thesis using session_step.keep [OF fresh Some] by auto
      qed
    qed
  qed
qed

fun label_session :: "session_label \<Rightarrow> session_id" where
  "label_session (Refused sid _) = sid"
| "label_session (Kept v) = ss_id v"
| "label_session (Opened v _) = ss_id v"
| "label_session (Ended v _ _ _) = ss_id v"
| "label_session (Acquired l _) = ol_session_id l"
| "label_session (Renewed l _) = ol_session_id l"
| "label_session (Released sid _ _ _) = sid"

text \<open>What the ledger records of a step, and what the caller is told.\<close>

fun label_outcome :: "session_label \<Rightarrow> ledger_outcome" where
  "label_outcome (Refused _ e) = LedgerFailed (failure_to_wire e)"
| "label_outcome (Kept v) = LedgerSucceeded EffectUnchanged (SessionValue v)"
| "label_outcome (Opened v _) = LedgerSucceeded EffectApplied (SessionValue v)"
| "label_outcome (Ended v _ _ _) = LedgerSucceeded EffectApplied (SessionValue v)"
| "label_outcome (Acquired l now) = LedgerSucceeded EffectApplied (encode_lease l now)"
| "label_outcome (Renewed l now) = LedgerSucceeded EffectApplied (encode_lease l now)"
| "label_outcome (Released _ _ _ _) = LedgerSucceeded EffectApplied UnownedValue"

fun label_reply :: "session_label \<Rightarrow> store_error + session_reply" where
  "label_reply (Refused _ e) = Inl e"
| "label_reply (Kept v) = Inr (SessionReply (Unchanged v))"
| "label_reply (Opened v _) = Inr (SessionReply (Applied v))"
| "label_reply (Ended v _ _ _) = Inr (SessionReply (Applied v))"
| "label_reply (Acquired l now) = Inr (LeaseReply (Applied l))"
| "label_reply (Renewed l now) = Inr (LeaseReply (Applied l))"
| "label_reply (Released _ _ _ _) = Inr (OwnershipReply (Applied Unowned))"

lemma session_step_ledger:
  assumes "session_step en t s q l s'"
  shows "fresh_request s (rc_request_id (lq_context q))
    \<and> st_ledger s' = st_ledger s @ [ledger_entry (label_session l) q (label_outcome l)]"
  using assms
proof (induction rule: session_step.induct)
  case (open_new s q c sid row storage_key now e)
  then show ?case by (simp add: opened_row_def)
qed (simp_all add: find_row_Some_key [of sw_session_id])

lemma map_prod_eq_iff: "map_prod id f p = (a, b) \<longleftrightarrow> (\<exists>c. p = (a, c) \<and> b = f c)"
  by (cases p) auto

text \<open>Which steps a command can take.\<close>

fun label_fits :: "env \<Rightarrow> timestamp \<Rightarrow> 'z store_scheme \<Rightarrow> 'z store_scheme \<Rightarrow> session_command \<Rightarrow> session_label \<Rightarrow> bool" where
  "label_fits en t s s' cmd (Refused _ e) \<longleftrightarrow> True"
| "label_fits en t s s' (OpenCommand c) (Kept v) \<longleftrightarrow>
    validate_open_replay v c = Inr () \<and> validate_session_manifest_in s c = Inr ()"
| "label_fits en t s s' (OpenCommand c) (Opened v now) \<longleftrightarrow>
    now = t \<and> session_of s (os_session_id c) = None
    \<and> (\<exists>k e w. v = row_snapshot (opened_row en c k t)
        \<and> s' = add_ledger w (add_event e (s\<lparr>st_sessions := st_sessions s @ [opened_row en c k t],
              st_manifests := st_manifests s @ manifest_rows c\<rparr>)))"
| "label_fits en t s s' (CloseCommand c) (Ended v h e now) \<longleftrightarrow>
    h = rc_caller (cs_context c) \<and> e = cs_epoch c \<and> ss_status v = Closed"
| "label_fits en t s s' (AcquireCommand c) (Acquired l now) \<longleftrightarrow>
    ol_owner l = rc_caller (ao_context c) \<and> expiry en now (ao_duration c) = Inr (ol_expires_at l)"
| "label_fits en t s s' (RenewCommand c) (Renewed l now) \<longleftrightarrow>
    ol_owner l = rc_caller (rn_context c) \<and> ol_epoch l = rn_epoch c
    \<and> expiry en now (rn_duration c) = Inr (ol_expires_at l)"
| "label_fits en t s s' (ReleaseCommand c) (Released sid h e now) \<longleftrightarrow>
    h = rc_caller (ro_context c) \<and> e = ro_epoch c"
| "label_fits en t s s' _ _ \<longleftrightarrow> False"

text \<open>Every operation leaves the store as it was or takes one step for the session it names, and
  answers what the step says.\<close>

lemma session_op_step:
  assumes "session_op en t cmd s = (s', res)" "sessions_distinct s" "valid_time en t" "env_laws en"
    and "session_command_wf cmd"
  shows "s' = s \<or> (\<exists>l. session_step en t s (request_of en (request_command cmd)) l s'
    \<and> label_session l = target cmd \<and> res = label_reply l \<and> label_fits en t s s' cmd l)"
proof (cases cmd)
  case (OpenCommand c)
  with assms(1) obtain r where r: "run_transaction (open_session en t c) s = (s', r)" "res = map_sum id SessionReply r"
    by (auto simp: map_prod_eq_iff)
  from r(1) show ?thesis
  proof (cases rule: run_transaction_cases)
    case committed
    have wf: "session_command_wf (OpenCommand c)" using assms(5) OpenCommand by simp
    from open_session_step [OF committed assms(3) wf] show ?thesis
    proof (elim disjE exE conjE)
      fix e assume "r = Inl e"
        "session_step en t s (request_of en (CmdOpenSession c)) (Refused (os_session_id c) e) s'"
      then show ?thesis using OpenCommand r(2) by (intro disjI2 exI) auto
    next
      fix v assume "r = Inr (Unchanged v)" "session_step en t s (request_of en (CmdOpenSession c)) (Kept v) s'"
        "validate_open_replay v c = Inr ()" "validate_session_manifest_in s c = Inr ()"
      then show ?thesis using OpenCommand r(2)
        by (intro disjI2 exI [of _ "Kept v"]) (auto simp: validate_open_replay_def split: if_splits)
    next
      fix v k e w assume "r = Inr (Applied v)" "session_step en t s (request_of en (CmdOpenSession c)) (Opened v t) s'"
        "session_of s (os_session_id c) = None" "v = row_snapshot (opened_row en c k t)"
        "s' = add_ledger w (add_event e (s\<lparr>st_sessions := st_sessions s @ [opened_row en c k t],
              st_manifests := st_manifests s @ manifest_rows c\<rparr>))"
      moreover have "sw_session_id (opened_row en c k t) = os_session_id c" by (simp add: opened_row_def)
      ultimately show ?thesis using OpenCommand r(2)
        by (intro disjI2 exI [of _ "Opened v t"]) auto
    qed simp
  qed simp
next
  case (CloseCommand c)
  with assms(1) obtain r where r: "run_transaction (close_session en t c) s = (s', r)" "res = map_sum id SessionReply r"
    by (auto simp: map_prod_eq_iff)
  from r(1) show ?thesis
    using close_session_step [of en t c s _ s'] assms(2,3) CloseCommand r(2)
    by (cases rule: run_transaction_cases) fastforce+
next
  case (AcquireCommand c)
  with assms(1) obtain r where r: "run_transaction (acquire_ownership en t c) s = (s', r)" "res = map_sum id LeaseReply r"
    by (auto simp: map_prod_eq_iff)
  from r(1) show ?thesis
    using acquire_ownership_step [of en t c s _ s'] assms(2-5) AcquireCommand r(2)
    by (cases rule: run_transaction_cases) fastforce+
next
  case (RenewCommand c)
  with assms(1) obtain r where r: "run_transaction (renew_ownership en t c) s = (s', r)" "res = map_sum id LeaseReply r"
    by (auto simp: map_prod_eq_iff)
  from r(1) show ?thesis
    using renew_ownership_step [of en t c s _ s'] assms(2-4) RenewCommand r(2)
    by (cases rule: run_transaction_cases) fastforce+
next
  case (ReleaseCommand c)
  with assms(1) obtain r where r: "run_transaction (release_ownership en t c) s = (s', r)" "res = map_sum id OwnershipReply r"
    by (auto simp: map_prod_eq_iff)
  from r(1) show ?thesis
    using release_ownership_step [of en t c s _ s'] assms(2,3) ReleaseCommand r(2)
    by (cases rule: run_transaction_cases) fastforce+
qed


section \<open>The invariant\<close>

text \<open>The events of a session are written by its operations: none lies after its time floor or its
  revision.\<close>

definition events_bounded :: "'z store_scheme \<Rightarrow> bool" where
  "events_bounded s \<longleftrightarrow>
    (\<forall>e \<in> set (st_events s). \<exists>r. session_of s (ew_session_id e) = Some r
       \<and> ew_occurred_at e \<le> sw_time_floor r \<and> ew_revision e \<le> sw_revision r)"

definition keys_exclusive :: "'z store_scheme \<Rightarrow> bool" where
  "keys_exclusive s \<longleftrightarrow> distinct (map sw_public_consumer_key (filter (\<lambda>r. \<not> sw_closed r) (st_sessions s)))"

definition manifests_owned :: "'z store_scheme \<Rightarrow> bool" where
  "manifests_owned s \<longleftrightarrow>
    (\<forall>w \<in> set (st_manifests s). session_of s (mw_session_id w) \<noteq> None)"

definition store_inv :: "env \<Rightarrow> 'z store_scheme \<Rightarrow> bool" where
  "store_inv en s \<longleftrightarrow>
    sessions_distinct s \<and> (\<forall>r \<in> set (st_sessions s). row_wf en r)
    \<and> (\<forall>sid. event_log_wf (session_events s sid)) \<and> events_bounded s
    \<and> distinct (map lr_request_id (st_ledger s)) \<and> keys_exclusive s \<and> manifests_owned s"

lemma store_inv_row: "store_inv en s \<Longrightarrow> session_of s sid = Some r \<Longrightarrow> row_wf en r"
  using session_of_in by (auto simp: store_inv_def)

lemma fresh_request_distinct:
  "distinct (map lr_request_id (st_ledger s)) \<Longrightarrow> fresh_request s (lr_request_id w) \<Longrightarrow>
   distinct (map lr_request_id (st_ledger (add_ledger w s)))"
  by (auto simp: fresh_request_def find_row_None_iff)

lemma store_inv_add_ledger:
  "store_inv en s \<Longrightarrow> fresh_request s (lr_request_id w) \<Longrightarrow> store_inv en (add_ledger w s)"
  using fresh_request_distinct [of s w]
  by (simp add: store_inv_def sessions_distinct_def events_bounded_def keys_exclusive_def manifests_owned_def)

text \<open>Updating the row of an open session: what the new row must satisfy.\<close>

lemma keys_exclusive_set_session:
  assumes "keys_exclusive s" "\<And>r. sw_public_consumer_key (f r) = sw_public_consumer_key r"
    and "\<forall>r \<in> set (st_sessions s). sw_session_id r = sid \<longrightarrow> sw_closed r \<longrightarrow> sw_closed (f r)"
  shows "keys_exclusive (set_session sid f s)"
proof -
  have "distinct (map sw_public_consumer_key (filter (\<lambda>r. \<not> sw_closed r)
      (map (\<lambda>r. if sw_session_id r = sid then f r else r) rs)))"
    if "distinct (map sw_public_consumer_key (filter (\<lambda>r. \<not> sw_closed r) rs))"
      "\<forall>r \<in> set rs. sw_session_id r = sid \<longrightarrow> sw_closed r \<longrightarrow> sw_closed (f r)" for rs
    using that
  proof (induction rs)
    case (Cons r rs)
    have sub: "sw_public_consumer_key ` {x \<in> (\<lambda>r. if sw_session_id r = sid then f r else r) ` set rs. \<not> sw_closed x}
      \<subseteq> sw_public_consumer_key ` {x \<in> set rs. \<not> sw_closed x}"
      using Cons.prems(2) assms(2) by (force split: if_splits)
    show ?case using Cons sub assms(2) by (auto split: if_splits)
  qed simp
  then show ?thesis using assms(1,3) by (simp add: keys_exclusive_def)
qed

lemma session_of_unique:
  assumes "sessions_distinct s" "r \<in> set (st_sessions s)"
  shows "session_of s (sw_session_id r) = Some r"
  using assms distinct_find_row [of sw_session_id "st_sessions s" r] by (simp add: sessions_distinct_def)

lemma store_inv_set_session:
  assumes inv: "store_inv en s" and r: "session_of s sid = Some r"
    and f: "\<And>r. sw_session_id (f r) = sw_session_id r" "\<And>r. sw_public_consumer_key (f r) = sw_public_consumer_key r"
    and wf: "row_wf en (f r)" and mono: "sw_time_floor r \<le> sw_time_floor (f r)" "sw_revision r \<le> sw_revision (f r)"
    and closed: "sw_closed r \<longrightarrow> sw_closed (f r)"
  shows "store_inv en (set_session sid f s)"
proof -
  let ?s = "set_session sid f s"
  have d: "sessions_distinct s" using inv by (simp add: store_inv_def)
  have unique: "q = r" if "q \<in> set (st_sessions s)" "sw_session_id q = sid" for q
    using session_of_unique [OF d that(1)] that(2) r by simp
  have "sessions_distinct ?s" using d f(1) by simp
  moreover have "\<forall>q \<in> set (st_sessions ?s). row_wf en q"
    using inv wf unique by (auto simp: store_inv_def)
  moreover have "events_bounded ?s"
    unfolding events_bounded_def
  proof
    fix e assume "e \<in> set (st_events ?s)"
    then obtain q where q: "session_of s (ew_session_id e) = Some q" "ew_occurred_at e \<le> sw_time_floor q"
      "ew_revision e \<le> sw_revision q"
      using inv by (auto simp: store_inv_def events_bounded_def)
    show "\<exists>q. session_of ?s (ew_session_id e) = Some q \<and> ew_occurred_at e \<le> sw_time_floor q
        \<and> ew_revision e \<le> sw_revision q"
    proof (cases "ew_session_id e = sid")
      case True
      with q r have "q = r" by simp
      then show ?thesis
        using q r mono True find_row_map_other [of sw_session_id f sid sid "st_sessions s"] f(1) by auto
    next
      case False
      then show ?thesis
        using q find_row_map_other [of sw_session_id f "ew_session_id e" sid "st_sessions s"] f(1) by auto
    qed
  qed
  moreover have "keys_exclusive ?s"
    using inv keys_exclusive_set_session [of s f sid] f(2) closed unique by (auto simp: store_inv_def)
  moreover have "manifests_owned ?s"
    using inv find_row_map_other [of sw_session_id f _ sid "st_sessions s"] f(1) r
    by (simp add: store_inv_def manifests_owned_def)
  ultimately show ?thesis using inv by (simp add: store_inv_def)
qed

lemma store_inv_add_event:
  assumes inv: "store_inv en s" and r: "session_of s sid = Some r"
    and e: "event_after (session_events s sid) at e" "ew_session_id e = sid"
    and "at \<le> sw_time_floor r" "ew_revision e \<le> sw_revision r"
  shows "store_inv en (add_event e s)"
proof -
  have bounded: "ew_occurred_at x \<le> sw_time_floor r" if "x \<in> set (session_events s sid)" for x
    using that inv r by (fastforce simp: store_inv_def events_bounded_def session_events_def)
  have wf: "event_log_wf (session_events s sid)" using inv by (simp add: store_inv_def)
  have "ew_occurred_at e \<le> sw_time_floor r"
  proof (cases "session_events s sid = []")
    case True
    then show ?thesis using e(1) assms(5) by (simp add: event_after_def last_event_def)
  next
    case False
    then have "last_event (session_events s sid) = Some (last (session_events s sid))"
      using wf last_event_wf [of "session_events s sid" 1] by (simp add: event_log_wf_def)
    then show ?thesis using e(1) assms(5) bounded False by (simp add: event_after_def)
  qed
  then have "events_bounded (add_event e s)"
    using inv r e(2) assms(6) by (auto simp: store_inv_def events_bounded_def)
  then show ?thesis
    using inv event_log_wf_append [OF wf e(1)] e(2)
    by (auto simp: store_inv_def sessions_distinct_def keys_exclusive_def manifests_owned_def)
qed

lemma row_wf_open_floor:
  "row_wf en r \<Longrightarrow> sw_time_floor r \<le> now \<Longrightarrow> valid_time en now \<Longrightarrow> row_wf en (r\<lparr>sw_time_floor := now\<rparr>)"
  by (auto simp: row_wf_def split: option.splits)

lemma row_wf_opened:
  assumes "session_command_wf (OpenCommand c)" "valid_time en now"
  shows "row_wf en (opened_row en c key now)"
  using assms by (simp add: row_wf_def opened_row_def)

text \<open>A new row, the event that reports it and the ledger entry.\<close>

lemma store_inv_logged_update:
  assumes inv: "store_inv en s" and r: "session_of s sid = Some r"
    and f: "\<And>r. sw_session_id (f r) = sw_session_id r" "\<And>r. sw_public_consumer_key (f r) = sw_public_consumer_key r"
    and wf: "row_wf en (f r)" and "sw_time_floor (f r) = max (sw_time_floor r) t" "\<not> sw_closed r"
    and rev: "revision_next (sw_revision r) = Some (sw_revision (f r))"
    and e: "event_after (session_events s sid) (sw_time_floor (f r)) e" "ew_session_id e = sid"
      "ew_revision e = sw_revision (f r)"
    and "fresh_request s (lr_request_id w)"
  shows "store_inv en (add_ledger w (add_event e (set_session sid f s)))"
proof -
  have "sw_revision r \<le> sw_revision (f r)" using revision_next_less [OF rev] by simp
  then have "store_inv en (set_session sid f s)"
    using assms(6,7) by (intro store_inv_set_session [OF inv r f wf]) simp_all
  moreover have "session_of (set_session sid f s) sid = Some (f r)"
    using r by (subst session_of_set_session [OF f(1)]) simp
  ultimately have "store_inv en (add_event e (set_session sid f s))"
    using e by (auto intro: store_inv_add_event)
  then show ?thesis using assms(12) by (simp add: store_inv_add_ledger)
qed

lemma row_wf_next_revision:
  assumes "row_wf en r" "revision_next (sw_revision r) = Some n"
  shows "n \<noteq> 0" "n \<noteq> revision_initial"
  using assms revision_next_nonzero revision_next_not_initial by (auto simp: row_wf_def)

lemma store_inv_insert_session:
  assumes inv: "store_inv en s" and "session_of s sid = None" "sw_session_id row = sid"
    and wf: "row_wf en row" and key: "\<forall>r \<in> set (st_sessions s). sw_closed r \<or> sw_public_consumer_key r \<noteq> sw_public_consumer_key row"
    and ms: "\<forall>w \<in> set ms. mw_session_id w = sid"
  shows "store_inv en (s\<lparr>st_sessions := st_sessions s @ [row], st_manifests := st_manifests s @ ms\<rparr>)"
    (is "store_inv en ?s")
proof -
  have new: "session_of ?s sid = Some row" using assms(2,3) by (simp add: find_row_append)
  have old: "session_of ?s i = Some r" if "session_of s i = Some r" for i r
    using that by (simp add: find_row_append)
  have "sessions_distinct ?s"
    using inv assms(2,3) by (auto simp: store_inv_def sessions_distinct_def find_row_None_iff)
  moreover have "session_events ?s i = session_events s i" for i by (simp add: session_events_def)
  moreover have "events_bounded ?s"
    using inv old unfolding store_inv_def events_bounded_def by fastforce
  moreover have "keys_exclusive ?s"
    using inv key by (auto simp: store_inv_def keys_exclusive_def)
  moreover have "manifests_owned ?s"
    using inv new old ms by (fastforce simp: store_inv_def manifests_owned_def)
  ultimately show ?thesis using inv wf by (simp add: store_inv_def)
qed

lemma store_inv_open_new:
  assumes inv: "store_inv en s" and c: "session_command_wf (OpenCommand c)" "valid_time en now"
    and "session_of s (os_session_id c) = None"
    and key: "\<forall>r \<in> set (st_sessions s). sw_closed r \<or> sw_public_consumer_key r \<noteq> os_consumer_key c"
    and e: "event_after (session_events s (os_session_id c)) now e" "ew_session_id e = os_session_id c" "ew_revision e = 1"
    and "fresh_request s (lr_request_id w)"
  shows "store_inv en (add_ledger w (add_event e (s\<lparr>st_sessions := st_sessions s @ [opened_row en c k now],
    st_manifests := st_manifests s @ manifest_rows c\<rparr>)))" (is "store_inv en (add_ledger w (add_event e ?s))")
proof -
  let ?row = "opened_row en c k now"
  have row: "sw_session_id ?row = os_session_id c" "sw_time_floor ?row = now" "sw_revision ?row = 1"
    "sw_public_consumer_key ?row = os_consumer_key c"
    by (simp_all add: opened_row_def)
  have "\<forall>w \<in> set (manifest_rows c). mw_session_id w = os_session_id c"
    by (auto simp: manifest_rows_def split: option.splits)
  then have inv': "store_inv en ?s"
    using key row by (intro store_inv_insert_session [OF inv assms(4) _ row_wf_opened [OF c]]) simp_all
  have "session_of ?s (os_session_id c) = Some ?row" using assms(4) row(1) by (simp add: find_row_append)
  moreover have "session_events ?s (os_session_id c) = session_events s (os_session_id c)"
    by (simp add: session_events_def)
  ultimately have "store_inv en (add_event e ?s)"
    using e row by (intro store_inv_add_event [OF inv', of _ ?row now]) simp_all
  then show ?thesis using assms(9) by (intro store_inv_add_ledger) (simp_all add: fresh_request_def)
qed

text \<open>Every step keeps the invariant.\<close>

lemma session_step_inv:
  assumes "session_step en t s q l s'" "store_inv en s"
  shows "store_inv en s'"
  using assms
proof (induction rule: session_step.induct)
  case (refuse_late s q sid r now err)
  have "row_wf en r" using refuse_late(2,6) session_of_in by (auto simp: store_inv_def)
  with refuse_late have "store_inv en (set_session sid (\<lambda>r. r\<lparr>sw_time_floor := now\<rparr>) s)"
    by (intro store_inv_set_session [OF refuse_late(6,2)] row_wf_open_floor) simp_all
  then show ?case using refuse_late(1) by (simp add: store_inv_add_ledger)
next
  case (open_new s q c sid row storage_key now e)
  then show ?case using store_inv_open_new [of en s c now e] by simp
next
  case (close s q sid r now h ep revno f e)
  have wf: "row_wf en r" using close(2,13) session_of_in by (auto simp: store_inv_def)
  have "row_wf en (f r)"
    using wf close(4,5) row_wf_next_revision [OF wf close(7)]
    by (auto simp: row_wf_def close(8) le_max_iff_disj intro: order_trans)
  then show ?case
    using close by (intro store_inv_logged_update [where t = t, OF close(13,2)]) (simp_all add: close(8))
next
  case (acquire s q sid r now ep h x revno lease f e)
  have wf: "row_wf en r" using acquire(2,18) session_of_in by (auto simp: store_inv_def)
  have "ep \<noteq> 0" using acquire(7) by auto
  then have "row_wf en (f r)"
    using wf acquire(3-5,8-10) row_wf_next_revision [OF wf acquire(11)]
    by (auto simp: row_wf_def acquire(13) le_max_iff_disj intro: order_trans)
  then show ?case
    using acquire by (intro store_inv_logged_update [where t = t, OF acquire(18,2)]) (simp_all add: acquire(13))
next
  case (renew s q sid r now h ep x lease f)
  have wf: "row_wf en r" using renew(2,12) session_of_in by (auto simp: store_inv_def)
  have "row_wf en (f r)"
    using wf renew(3-8) by (auto simp: row_wf_def renew(10) held_def le_max_iff_disj)
  then have "store_inv en (set_session sid f s)"
    using renew(4) by (intro store_inv_set_session [OF renew(12,2)]) (simp_all add: renew(10))
  then show ?case using renew(1) by (simp add: store_inv_add_ledger)
next
  case (release s q sid r now h ep revno f e)
  have wf: "row_wf en r" using release(2,13) session_of_in by (auto simp: store_inv_def)
  have "row_wf en (f r)"
    using wf release(3-5) row_wf_next_revision [OF wf release(7)]
    by (auto simp: row_wf_def release(8) le_max_iff_disj intro: order_trans)
  then show ?case
    using release by (intro store_inv_logged_update [where t = t, OF release(13,2)]) (simp_all add: release(8))
qed (simp_all add: store_inv_add_ledger)

lemma session_op_inv:
  assumes "store_inv en s" "valid_time en t" "env_laws en" "session_command_wf cmd"
  shows "store_inv en (fst (session_op en t cmd s))"
proof -
  obtain s' res where op: "session_op en t cmd s = (s', res)" by fastforce
  have "sessions_distinct s" using assms(1) by (simp add: store_inv_def)
  from session_op_step [OF op this assms(2-4)] show ?thesis
    using session_step_inv assms(1) op by auto
qed


section \<open>Histories\<close>

text \<open>An operation that may occur: the clock shows a representable time and the command was built by its
  constructor.\<close>

definition op_wf :: "env \<Rightarrow> timestamp \<times> session_command \<Rightarrow> bool" where
  "op_wf en a \<longleftrightarrow> env_laws en \<and> valid_time en (fst a) \<and> session_command_wf (snd a)"

text \<open>How a session's row may change: its identity and its key stay, time, revision and epoch do not go
  back, and a closed session stays as it is.\<close>

definition row_later :: "session_table_row \<Rightarrow> session_table_row \<Rightarrow> bool" where
  "row_later r r' \<longleftrightarrow>
    sw_session_id r' = sw_session_id r \<and> sw_public_consumer_key r' = sw_public_consumer_key r
    \<and> sw_compatibility r' = sw_compatibility r \<and> sw_created_at r' = sw_created_at r
    \<and> sw_manifest_complete r' = sw_manifest_complete r
    \<and> sw_time_floor r \<le> sw_time_floor r' \<and> sw_updated_at r \<le> sw_updated_at r'
    \<and> sw_revision r \<le> sw_revision r' \<and> sw_epoch_high_water r \<le> sw_epoch_high_water r'
    \<and> (sw_closed r \<longrightarrow> r' = r)"

definition session_manifest_rows :: "'z store_scheme \<Rightarrow> session_id \<Rightarrow> manifest_row list" where
  "session_manifest_rows s sid = filter (\<lambda>w. mw_session_id w = sid) (st_manifests s)"

definition later :: "'z store_scheme \<Rightarrow> 'z store_scheme \<Rightarrow> bool" where
  "later s s' \<longleftrightarrow>
    (\<exists>ws. st_ledger s' = st_ledger s @ ws) \<and> (\<exists>es. st_events s' = st_events s @ es)
    \<and> (\<forall>sid r. session_of s sid = Some r \<longrightarrow>
        session_manifest_rows s' sid = session_manifest_rows s sid
        \<and> (\<exists>r'. session_of s' sid = Some r' \<and> row_later r r'))"

lemma row_later_refl [simp]: "row_later r r"
  by (simp add: row_later_def)

lemma row_later_trans: "row_later r q \<Longrightarrow> row_later q p \<Longrightarrow> row_later r p"
  by (auto simp: row_later_def intro: order_trans)

lemma later_refl [simp]: "later s s"
  by (simp add: later_def)

lemma later_trans: "later s t \<Longrightarrow> later t u \<Longrightarrow> later s u"
  unfolding later_def by (fastforce intro: row_later_trans)

lemma later_add_ledger [simp]: "later s (add_ledger w s)"
  by (simp add: later_def session_manifest_rows_def)

lemma later_add_event [simp]: "later s (add_event e s)"
  by (simp add: later_def session_manifest_rows_def)

lemma later_set_session:
  assumes "session_of s sid = Some r" "row_later r (f r)" "\<And>r. sw_session_id (f r) = sw_session_id r"
  shows "later s (set_session sid f s)"
  using assms(1,2) find_row_map_other [of sw_session_id f _ sid "st_sessions s"] assms(3)
  by (auto simp: later_def session_manifest_rows_def)

lemma later_logged:
  "later s t \<Longrightarrow> later s (add_ledger w t)" "later s t \<Longrightarrow> later s (add_event e t)"
  using later_trans later_add_ledger later_add_event by blast+

lemma session_step_later:
  assumes "session_step en t s q l s'" "store_inv en s"
  shows "later s s'"
  using assms
proof (induction rule: session_step.induct)
  case (refuse_late s q sid r now err)
  have "later s (set_session sid (\<lambda>r. r\<lparr>sw_time_floor := now\<rparr>) s)"
    using refuse_late by (intro later_set_session [OF refuse_late(2)]) (simp_all add: row_later_def)
  then show ?case by (intro later_logged)
next
  case (open_new s q c sid row storage_key now e)
  have "later s (s\<lparr>st_sessions := st_sessions s @ [row], st_manifests := st_manifests s @ manifest_rows c\<rparr>)"
    using open_new(3,4)
    by (auto simp: later_def session_manifest_rows_def find_row_append manifest_rows_def filter_empty_conv
        split: option.splits)
  then show ?case by (intro later_logged)
next
  case (close s q sid r now h ep revno f e)
  have "sw_updated_at r \<le> sw_time_floor r"
    using close(2,13) session_of_in by (auto simp: store_inv_def row_wf_def)
  then have "row_later r (f r)"
    using close(3,4) revision_next_less [OF close(7)] by (simp add: row_later_def close(8) le_max_iff_disj)
  then have "later s (set_session sid f s)"
    by (intro later_set_session [OF close(2)]) (simp_all add: close(8))
  then show ?case by (intro later_logged)
next
  case (acquire s q sid r now ep h x revno lease f e)
  have "sw_updated_at r \<le> sw_time_floor r"
    using acquire(2,18) session_of_in by (auto simp: store_inv_def row_wf_def)
  moreover have "sw_epoch_high_water r \<le> ep" using acquire(7) by (simp add: word_le_nat_alt)
  ultimately have "row_later r (f r)"
    using acquire(3,4) revision_next_less [OF acquire(11)]
    by (simp add: row_later_def acquire(13) le_max_iff_disj)
  then have "later s (set_session sid f s)"
    by (intro later_set_session [OF acquire(2)]) (simp_all add: acquire(13))
  then show ?case by (intro later_logged)
next
  case (renew s q sid r now h ep x lease f)
  then have "later s (set_session sid f s)"
    by (intro later_set_session [OF renew(2)]) (simp_all add: row_later_def)
  then show ?case by (intro later_logged)
next
  case (release s q sid r now h ep revno f e)
  have "sw_updated_at r \<le> sw_time_floor r"
    using release(2,13) session_of_in by (auto simp: store_inv_def row_wf_def)
  then have "row_later r (f r)"
    using release(3,4) revision_next_less [OF release(7)] by (simp add: row_later_def release(8) le_max_iff_disj)
  then have "later s (set_session sid f s)"
    by (intro later_set_session [OF release(2)]) (simp_all add: release(8))
  then show ?case by (intro later_logged)
qed simp_all

lemma session_op_later:
  assumes "store_inv en s" "valid_time en t" "env_laws en" "session_command_wf cmd"
  shows "later s (fst (session_op en t cmd s))"
proof -
  obtain s' res where op: "session_op en t cmd s = (s', res)" by fastforce
  have "sessions_distinct s" using assms(1) by (simp add: store_inv_def)
  from session_op_step [OF op this assms(2-4)] show ?thesis
    using session_step_later assms(1) op by auto
qed

interpretation session_history: guarded_run "op_step en" "op_wf en" "store_inv en" later for en
  by unfold_locales
    (simp_all add: op_step_def op_wf_def session_op_inv session_op_later, rule later_trans)

lemmas run_ops_inv = session_history.run_inv [folded run_ops_def]
lemmas run_ops_later = session_history.run_rel [folded run_ops_def]

end
