(* ===== verification/Commit_Logic.thy ===== *)
theory Commit_Logic
  imports Work_State Session_Protocol
begin

text \<open>
  A small logic for transactions.  \<open>commits m Q s\<close> says that whatever \<open>m\<close> commits from \<open>s\<close> satisfies
  \<open>Q\<close>; the equations of the collection \<open>wp_simps\<close> push it through the primitives of the store, so
  that an invariant of an operation reduces to the state changes it makes.
\<close>

definition commits :: "('s, 'e, 'a) io \<Rightarrow> ('a \<Rightarrow> 's \<Rightarrow> bool) \<Rightarrow> 's \<Rightarrow> bool" where
  "commits m Q s \<longleftrightarrow> (\<forall>a t. m s = (Inr a, t) \<longrightarrow> Q a t)"

named_theorems wp_simps \<open>what a transaction commits\<close>

lemma commitsD: "commits m Q s \<Longrightarrow> m s = (Inr a, t) \<Longrightarrow> Q a t"
  by (simp add: commits_def)

lemma commits_mono: "commits m Q s \<Longrightarrow> (\<And>a t. Q a t \<Longrightarrow> Q' a t) \<Longrightarrow> commits m Q' s"
  by (simp add: commits_def)

lemma commits_transaction:
  assumes "commits m Q s" "run_transaction m s = (t, r)"
  shows "(t = s \<and> (\<exists>e. r = Inl e)) \<or> Q r t"
  using assms(2) by (cases rule: run_transaction_cases) (use assms(1) in \<open>auto dest: commitsD\<close>)

lemma commits_transaction_state:
  "commits m (\<lambda>_. P) s \<Longrightarrow> P s \<Longrightarrow> P (fst (run_transaction m s))"
  using commits_transaction [of m "\<lambda>_. P" s] by (cases "run_transaction m s") auto


section \<open>Primitives\<close>

lemma commits_bind [wp_simps]: "commits (io_bind m f) Q s \<longleftrightarrow> commits m (\<lambda>a. commits (f a) Q) s"
  unfolding commits_def by (auto simp: commit_simps)

lemma commits_return [wp_simps]: "commits (io_return a) Q s \<longleftrightarrow> Q a s"
  by (auto simp: commits_def commit_simps)

lemma commits_fail [wp_simps]: "commits (io_fail e) Q s"
  by (simp add: commits_def)

lemma commits_get [wp_simps]: "commits (io_get f) Q s \<longleftrightarrow> Q (f s) s"
  by (auto simp: commits_def commit_simps)

lemma commits_modify [wp_simps]: "commits (io_modify f) Q s \<longleftrightarrow> Q () (f s)"
  by (auto simp: commits_def commit_simps)

lemma commits_lift [wp_simps]: "commits (io_lift r) Q s \<longleftrightarrow> (\<forall>a. r = Inr a \<longrightarrow> Q a s)"
  by (auto simp: commits_def commit_simps)

lemma commits_read [wp_simps]: "commits (\<lambda>s. io_lift (g s) s) Q s \<longleftrightarrow> (\<forall>a. g s = Inr a \<longrightarrow> Q a s)"
  by (auto simp: commits_def commit_simps)

lemma commits_if [wp_simps]:
  "commits (if b then m else n) Q s \<longleftrightarrow> (if b then commits m Q s else commits n Q s)"
  by simp

lemma commits_option [wp_simps]:
  "commits (case x of None \<Rightarrow> m | Some v \<Rightarrow> f v) Q s \<longleftrightarrow>
    (case x of None \<Rightarrow> commits m Q s | Some v \<Rightarrow> commits (f v) Q s)"
  by (simp split: option.split)

lemma commits_prod [wp_simps]:
  "commits (case p of (a, b) \<Rightarrow> f a b) Q s \<longleftrightarrow> (case p of (a, b) \<Rightarrow> commits (f a b) Q s)"
  by (simp split: prod.split)

lemma commits_Let [wp_simps]: "commits (Let v f) Q s \<longleftrightarrow> (let x = v in commits (f x) Q s)"
  by simp

lemma commits_finish_with [wp_simps]: "commits (finish_with v) Q s \<longleftrightarrow> Q (Inr v) s"
  by (auto simp: commits_def commit_simps)

lemma commits_finish_failure [wp_simps]:
  "commits (finish_failure sid q e) Q s \<longleftrightarrow> (fresh_request s (rc_request_id (lq_context q)) \<longrightarrow>
    Q (Inl e) (add_ledger (ledger_entry sid q (LedgerFailed (failure_to_wire e))) s))"
  by (auto simp: commits_def commit_simps)

lemma commits_record_bytes [wp_simps]:
  "commits (record_bytes sid q eff v) Q s \<longleftrightarrow> (fresh_request s (rc_request_id (lq_context q)) \<longrightarrow>
    Q () (add_ledger (ledger_entry sid q (LedgerSucceeded eff v)) s))"
  by (auto simp: commits_def commit_simps)

lemma commits_or_fail [wp_simps]:
  "commits (or_fail sid q r k) Q s \<longleftrightarrow>
    (case r of Inl e \<Rightarrow> commits (finish_failure sid q e) Q s | Inr v \<Rightarrow> commits (k v) Q s)"
  by (simp add: or_fail_def split: sum.split)

lemma commits_advance_time_floor [wp_simps]:
  "commits (advance_time_floor sid p t) Q s \<longleftrightarrow>
    Q (max p t) (set_session sid (\<lambda>r. r\<lparr>sw_time_floor := max p t\<rparr>) s)"
  by (auto simp: commits_def commit_simps)

lemma commits_append_event_data [wp_simps]:
  "commits (append_event_data en rid sid revno ty data at) Q s \<longleftrightarrow>
    (\<forall>e. append_event_data en rid sid revno ty data at s = (Inr (), add_event e s) \<longrightarrow> Q () (add_event e s))"
proof -
  have "\<exists>e. t = add_event e s" if "append_event_data en rid sid revno ty data at s = (Inr (), t)" for t
    using append_event_data_commit [OF that] by blast
  then show ?thesis by (auto simp: commits_def)
qed


section \<open>Authorisation\<close>

text \<open>What an authorised request has established: an open session whose lease the caller holds, with
  the time floor at least the clock of the request.\<close>

definition authorised :: "env \<Rightarrow> session_id \<Rightarrow> host_id \<Rightarrow> fencing_epoch \<Rightarrow> timestamp \<Rightarrow> 'z store_scheme \<Rightarrow> bool" where
  "authorised en sid h ep t s \<longleftrightarrow>
    (\<exists>r. session_of s sid = Some r \<and> \<not> sw_closed r \<and> decode_session en r = Inr (row_view r)
       \<and> held r h ep (max (sw_time_floor r) t))"

definition raise_floor :: "session_id \<Rightarrow> timestamp \<Rightarrow> 'z store_scheme \<Rightarrow> 'z store_scheme" where
  "raise_floor sid t s =
    (case session_of s sid of
       None \<Rightarrow> s
     | Some r \<Rightarrow> if sw_closed r then s
         else set_session sid (\<lambda>q. q\<lparr>sw_time_floor := max (sw_time_floor r) t\<rparr>) s)"

lemma authorize_launch_cases:
  assumes "authorize_launch en sid ctx ep a t s = (Inr res, s')"
  shows "(\<exists>e. res = Inl e \<and> (s' = s \<or> s' = raise_floor sid t s))
    \<or> (res = Inr () \<and> s' = raise_floor sid t s \<and> authorised en sid (rc_caller ctx) ep t s)"
proof (cases "require_open_session en s sid a")
  case (Inl e)
  then show ?thesis using assms by (auto simp: authorize_launch_def)
next
  case (Inr row)
  then obtain r where r: "session_of s sid = Some r" "row = row_view r" "\<not> sw_closed r"
    "decode_session en r = Inr row" by (rule require_open_session_Ok)
  have s': "s' = raise_floor sid t s"
    and res: "res = require_owner row (rc_caller ctx) ep (max (sw_time_floor r) t)"
    using assms Inr r by (auto simp: authorize_launch_def commit_simps raise_floor_def)
  show ?thesis
  proof (cases res)
    case (Inr u)
    then show ?thesis
      using res s' r require_owner_held [of r "rc_caller ctx" ep]
      by (auto simp: authorised_def)
  qed (use s' in auto)
qed

lemma commits_authorize_launch:
  assumes "\<And>e. Q (Inl e) s" "\<And>e. Q (Inl e) (raise_floor sid t s)"
    and "authorised en sid (rc_caller ctx) ep t s \<Longrightarrow> Q (Inr ()) (raise_floor sid t s)"
  shows "commits (authorize_launch en sid ctx ep a t) Q s"
  unfolding commits_def using authorize_launch_cases [of en sid ctx ep a t s] assms by blast

lemma raise_floor_tables [simp]:
  "st_launches (raise_floor sid t s) = st_launches s" "st_ledger (raise_floor sid t s) = st_ledger s"
  "st_events (raise_floor sid t s) = st_events s" "st_templates (raise_floor sid t s) = st_templates s"
  by (simp_all add: raise_floor_def set_session_def split: option.split)

lemma state_change_launches [simp]:
  "st_launches (add_ledger w s) = st_launches s" "st_launches (add_event e s) = st_launches s"
  "st_launches (set_session sid f s) = st_launches s"
  by (simp_all add: add_ledger_def add_event_def set_session_def)

lemma raise_floor_row:
  assumes "session_of s sid = Some r" "\<not> sw_closed r"
  shows "session_of (raise_floor sid t s) i =
    (if i = sid then Some (r\<lparr>sw_time_floor := max (sw_time_floor r) t\<rparr>) else session_of s i)"
  unfolding raise_floor_def assms(1) option.case
  using assms by (subst if_not_P) (auto simp del: state_change_tables simp: session_of_set_session)

lemma later_raise_floor: "later s (raise_floor sid t s)"
  by (auto simp: raise_floor_def row_later_def intro!: later_set_session split: option.split)


section \<open>Framing\<close>

text \<open>\<open>keeps f m\<close>: the part \<open>f\<close> of the store is the same after \<open>m\<close>, whether \<open>m\<close> succeeds or fails.\<close>

definition keeps :: "('s \<Rightarrow> 'x) \<Rightarrow> ('s, 'e, 'a) io \<Rightarrow> bool" where
  "keeps f m \<longleftrightarrow> (\<forall>s. f (snd (m s)) = f s)"

named_theorems keeps_intros \<open>what a transaction leaves alone\<close>

lemma keepsD: "keeps f m \<Longrightarrow> m s = (r, t) \<Longrightarrow> f t = f s"
  unfolding keeps_def by (metis snd_conv)

lemma commits_keeps:
  "keeps f m \<Longrightarrow> (\<And>a t. m s = (Inr a, t) \<Longrightarrow> f t = f s \<Longrightarrow> Q a t) \<Longrightarrow> commits m Q s"
  unfolding commits_def by (blast dest: keepsD)

lemma keeps_bind [keeps_intros]: "keeps f m \<Longrightarrow> (\<And>a. keeps f (k a)) \<Longrightarrow> keeps f (io_bind m k)"
  unfolding keeps_def io_bind_def by (auto split: prod.splits sum.splits) (metis snd_conv)+

lemma keeps_pure [keeps_intros]:
  "keeps f (io_return a)" "keeps f (io_fail e)" "keeps f (io_lift r)" "keeps f (io_get g)"
  "keeps f (\<lambda>s. io_lift (h s) s)"
  by (simp_all add: keeps_def io_return_def io_fail_def io_lift_def io_get_def)

lemma keeps_cases [keeps_intros]:
  "keeps f m \<Longrightarrow> keeps f n \<Longrightarrow> keeps f (if b then m else n)"
  "keeps f m \<Longrightarrow> (\<And>v. keeps f (g v)) \<Longrightarrow> keeps f (case x of None \<Rightarrow> m | Some v \<Rightarrow> g v)"
  "(\<And>a b. keeps f (h a b)) \<Longrightarrow> keeps f (case p of (a, b) \<Rightarrow> h a b)"
  "(\<And>v. keeps f (k v)) \<Longrightarrow> keeps f (Let u k)"
  by (simp_all split: option.split prod.split)

lemma keeps_require_capacity [keeps_intros]: "keeps f (require_capacity cfg sid res n)"
  by (simp add: keeps_def require_capacity_def io_lift_def)

lemma keeps_session_time_floor [keeps_intros]: "keeps f (session_time_floor en sid)"
  by (simp add: keeps_def session_time_floor_def io_lift_def)

lemma keeps_append_event_data [keeps_intros]:
  "(\<And>e s. f (add_event e s) = f s) \<Longrightarrow> keeps f (append_event_data en rid sid revno ty data at)"
  unfolding append_event_data_def
  by (intro keeps_intros) (simp add: keeps_def io_modify_def add_event_def)

lemma keeps_append_message_event [keeps_intros]:
  "(\<And>e s. f (add_event e s) = f s) \<Longrightarrow> keeps f (append_message_event en rid m at)"
  unfolding append_message_event_def by (intro keeps_intros) simp_all

lemma commits_require_capacity [wp_simps]:
  "commits (require_capacity cfg sid res n) Q s \<longleftrightarrow> (ensure_derived_capacity cfg s sid res n = Inr () \<longrightarrow> Q () s)"
  unfolding require_capacity_def by (simp add: wp_simps)

lemma raise_floor_work [simp]:
  "ws_participants (raise_floor sid t s) = ws_participants s" "ws_operations (raise_floor sid t s) = ws_operations s"
  "ws_messages (raise_floor sid t s) = ws_messages s" "ws_counters (raise_floor sid t s) = ws_counters s"
  "ws_policies (raise_floor sid t s) = ws_policies s"
  by (simp_all add: raise_floor_def set_session_def split: option.split)

lemma state_change_work [simp]:
  "ws_participants (add_ledger w s) = ws_participants s" "ws_participants (add_event e s) = ws_participants s"
  "ws_operations (add_ledger w s) = ws_operations s" "ws_operations (add_event e s) = ws_operations s"
  "ws_messages (add_ledger w s) = ws_messages s" "ws_messages (add_event e s) = ws_messages s"
  "ws_counters (add_ledger w s) = ws_counters s" "ws_counters (add_event e s) = ws_counters s"
  by (simp_all add: add_ledger_def add_event_def)

end
