(* ===== verification/Session_Safety.thy ===== *)
theory Session_Safety
  imports Session_Protocol
begin

text \<open>
  What the protocol of sessions guarantees its callers: a request takes effect once however often it is
  retried, an ownership lease excludes every other host while it lasts, epochs fence off former owners,
  and the event log can be read in pages without loss.
\<close>

section \<open>Retries\<close>

fun replay_reply :: "store_error + session_reply \<Rightarrow> store_error + session_reply" where
  "replay_reply (Inl e) = Inl e"
| "replay_reply (Inr (SessionReply m)) = Inr (SessionReply (Replayed (mutation_value m)))"
| "replay_reply (Inr (LeaseReply m)) = Inr (LeaseReply (Replayed (mutation_value m)))"
| "replay_reply (Inr (OwnershipReply m)) = Inr (OwnershipReply (Replayed (mutation_value m)))"

text \<open>The checks a replay makes of the recorded value.\<close>

fun replayable :: "env \<Rightarrow> 'z store_scheme \<Rightarrow> session_command \<Rightarrow> session_label \<Rightarrow> bool" where
  "replayable en u cmd (Refused _ e) \<longleftrightarrow> True"
| "replayable en u (OpenCommand c) (Kept v) \<longleftrightarrow>
    session_snapshot_deserialize en v = Inr v \<and> validate_open_replay v c = Inr ()
    \<and> validate_session_manifest_in u c = Inr ()"
| "replayable en u (OpenCommand c) (Opened v now) \<longleftrightarrow>
    session_snapshot_deserialize en v = Inr v \<and> validate_open_replay v c = Inr ()
    \<and> validate_session_manifest_in u c = Inr ()"
| "replayable en u (CloseCommand c) (Ended v h e now) \<longleftrightarrow>
    session_snapshot_deserialize en v = Inr v \<and> ss_id v = cs_session_id c \<and> ss_status v = Closed"
| "replayable en u (AcquireCommand c) (Acquired l now) \<longleftrightarrow>
    decode_lease en (encode_lease l now) = Inr l
    \<and> validate_lease_replay en l (encode_lease l now) (ao_session_id c) (rc_caller (ao_context c)) None
        (ao_duration c) = Inr ()"
| "replayable en u (RenewCommand c) (Renewed l now) \<longleftrightarrow>
    decode_lease en (encode_lease l now) = Inr l
    \<and> validate_lease_replay en l (encode_lease l now) (rn_session_id c) (rc_caller (rn_context c))
        (Some (rn_epoch c)) (rn_duration c) = Inr ()"
| "replayable en u (ReleaseCommand c) (Released sid h e now) \<longleftrightarrow> True"
| "replayable en u _ _ \<longleftrightarrow> False"

text \<open>An error of the ledger's lookup is the answer of the operation.\<close>

lemma session_op_conflict:
  assumes "replay_bytes u (request_of en (request_command cmd)) = Inl e"
  shows "session_op en t cmd u = (u, Inl e)"
  using assms
  by (cases cmd)
    (simp_all add: open_session_def close_session_def acquire_ownership_def renew_ownership_def
      release_ownership_def Let_def io_bind_def io_lift_def run_transaction_def)

lemma session_op_replay:
  assumes "replay_bytes u (request_of en (request_command cmd)) = ledger_answer (label_outcome l)"
    and "replayable en u cmd l"
  shows "session_op en t cmd u = (u, replay_reply (label_reply l))"
proof (cases l)
  case (Refused sid e)
  then have "replay_bytes u (request_of en (request_command cmd)) = Inl e"
    using assms(1) by (simp add: ledger_answer_def)
  then show ?thesis using Refused by (simp add: session_op_conflict)
qed (use assms in \<open>cases cmd; simp add: ledger_answer_def open_session_def close_session_def
      acquire_ownership_def renew_ownership_def release_ownership_def Let_def io_bind_def io_lift_def
      run_transaction_def finish_with_def decode_session_value_def\<close>)+

text \<open>A lease as it was issued passes the check of its replay.\<close>

lemma issued_lease_replayable:
  assumes "env_laws en" "valid_time en now" "expiry en now d = Inr (ol_expires_at l)" "now < ol_expires_at l"
    and "ol_session_id l \<noteq> 0" "ol_owner l \<noteq> 0" "ol_epoch l \<noteq> 0"
    and "case ep of None \<Rightarrow> True | Some e \<Rightarrow> ol_epoch l = e"
  shows "decode_lease en (encode_lease l now) = Inr l"
    "validate_lease_replay en l (encode_lease l now) (ol_session_id l) (ol_owner l) ep d = Inr ()"
proof -
  have x: "valid_time en (ol_expires_at l)" by (rule expiry_Ok(1) [OF assms(3,1,2)])
  show "decode_lease en (encode_lease l now) = Inr l"
    using lease_wire_roundtrip [OF assms(2) x assms(4-7)] by (simp add: decode_lease_def encode_lease_def)
  have "unix_seconds (ol_expires_at l) * 1000000000 + int (nanoseconds (ol_expires_at l))
      - (unix_seconds now * 1000000000 + int (nanoseconds now)) = uint d * 1000000"
    using expiry_Ok(2) [OF assms(3,1,2)] by simp
  moreover have "unix_seconds now * 1000000000 + int (nanoseconds now)
      \<le> unix_seconds (ol_expires_at l) * 1000000000 + int (nanoseconds (ol_expires_at l))"
    using expiry_Ok(2) [OF assms(3,1,2)] by simp
  ultimately show "validate_lease_replay en l (encode_lease l now) (ol_session_id l) (ol_owner l) ep d = Inr ()"
    using assms(8)
    by (cases ep)
      (simp_all add: validate_lease_replay_def encode_lease_def from_lease_def decode_timestamp_valid assms(2) x
        to_datetime_valid [OF assms(1)] Let_def)
qed

text \<open>The manifest a session was opened with stays valid for it.\<close>

lemma compare_bindings_own:
  assumes "0 \<notin> tb_template_id ` set bs"
  shows "compare_bindings c (map (\<lambda>b. \<lparr>mw_session_id = i, mw_template_id = tb_template_id b,
      mw_compatibility = tb_compatibility b\<rparr>) bs) bs = Inr ()"
  using assms by (induction bs) (simp_all add: parse_id_def from_uuid_def)

lemma validate_manifest_later:
  assumes "later s u" "session_of s (os_session_id c) = Some r" "validate_session_manifest_in s c = Inr ()"
  shows "validate_session_manifest_in u c = Inr ()"
proof -
  obtain r' where "session_of u (os_session_id c) = Some r'" "sw_manifest_complete r' = sw_manifest_complete r"
    "filter (\<lambda>w. mw_session_id w = os_session_id c) (st_manifests u)
      = filter (\<lambda>w. mw_session_id w = os_session_id c) (st_manifests s)"
    using assms(1,2) unfolding later_def row_later_def session_manifest_rows_def by blast
  then show ?thesis
    using assms(2,3) by (cases "os_manifest c") (auto simp: validate_session_manifest_in_def Let_def split: if_splits)
qed

lemma validate_manifest_opened:
  assumes "manifests_owned s" "session_of s (os_session_id c) = None" "session_command_wf (OpenCommand c)"
  shows "validate_session_manifest_in (add_ledger w (add_event e (s\<lparr>st_sessions := st_sessions s @ [opened_row en c k t],
              st_manifests := st_manifests s @ manifest_rows c\<rparr>))) c = Inr ()"
proof -
  have "filter (\<lambda>w. mw_session_id w = os_session_id c) (st_manifests s) = []"
    using assms(1,2) by (auto simp: manifests_owned_def filter_empty_conv)
  moreover have "filter (\<lambda>w. mw_session_id w = os_session_id c) (manifest_rows c) = manifest_rows c"
    by (auto simp: manifest_rows_def filter_id_conv split: option.splits)
  moreover have "sort_key mw_template_id (manifest_rows c) = manifest_rows c"
  proof (cases "os_manifest c")
    case (Some m)
    then have "sorted (map mw_template_id (manifest_rows c))"
      using assms(3) by (simp add: manifest_rows_def comp_def strict_sorted_imp_sorted)
    then show ?thesis by (simp add: sort_key_id_if_sorted)
  qed (simp add: manifest_rows_def)
  ultimately show ?thesis
    using assms(2,3)
    by (auto simp: validate_session_manifest_in_def find_row_append opened_row_def Let_def manifest_rows_def
        compare_bindings_own split: option.splits)
qed

lemma session_step_replayable:
  assumes "session_step en t s q l s1" "label_fits en t s s1 cmd l" "label_session l = target cmd"
    and "store_inv en s" "env_laws en" "session_command_wf cmd" "later s1 u"
  shows "replayable en u cmd l"
  using assms
proof (induction rule: session_step.induct)
  case (keep s q sid r)
  obtain c where c: "cmd = OpenCommand c" using keep(3) by (cases cmd) auto
  have r: "row_wf en r" using keep(2,5) session_of_in by (auto simp: store_inv_def)
  have "session_of s (os_session_id c) = Some r" using keep(2,4) c session_of_in [OF keep(2)] by simp
  moreover have "later s u" using later_trans [OF later_add_ledger keep(8)] .
  ultimately have "validate_session_manifest_in u c = Inr ()"
    using validate_manifest_later keep(3) c by auto
  then show ?case using keep(3) c row_snapshot_deserialize [OF r] by simp
next
  case (open_new s q c sid row storage_key now e)
  obtain d where d: "cmd = OpenCommand d" using open_new(12) by (cases cmd) auto
  obtain k e' w where new: "row_snapshot row = row_snapshot (opened_row en d k t)" "session_of s (os_session_id d) = None"
    "add_ledger (ledger_entry sid q (LedgerSucceeded EffectApplied (SessionValue (row_snapshot row))))
         (add_event e (s\<lparr>st_sessions := st_sessions s @ [row], st_manifests := st_manifests s @ manifest_rows c\<rparr>))
      = add_ledger w (add_event e' (s\<lparr>st_sessions := st_sessions s @ [opened_row en d k t],
              st_manifests := st_manifests s @ manifest_rows d\<rparr>))" (is "?s1 = ?s2")
    using open_new(12) d by auto
  have wf: "row_wf en row" using open_new(2,6,8) row_wf_opened by simp
  have val: "validate_session_manifest_in ?s2 d = Inr ()"
    using open_new(14,16) new(2) d by (intro validate_manifest_opened) (simp_all add: store_inv_def)
  have "session_of ?s2 (os_session_id d) = Some (opened_row en d k t)"
    using new(2) by (simp add: find_row_append opened_row_def)
  moreover have "later ?s2 u" using open_new(17) new(3) by simp
  ultimately have "validate_session_manifest_in u d = Inr ()" using validate_manifest_later val by blast
  moreover have "validate_open_replay (row_snapshot row) d = Inr ()"
    by (simp add: new(1) validate_open_replay_def opened_row_def)
  ultimately show ?case using row_snapshot_deserialize [OF wf] d by simp
next
  case (close s q sid r now h ep revno f e)
  obtain c where c: "cmd = CloseCommand c" using close(13) by (cases cmd) auto
  have "store_inv en (add_ledger (ledger_entry sid q (LedgerSucceeded EffectApplied (SessionValue (row_snapshot (f r)))))
         (add_event e (set_session sid f s)))"
    using session_step_inv [OF session_step.close [OF close(1-12)] close(15)] .
  moreover have "session_of (set_session sid f s) sid = Some (f r)"
    using close(2) by (subst session_of_set_session) (simp_all add: close(8))
  ultimately have "row_wf en (f r)" using store_inv_row by fastforce
  then show ?case using c close(13,14) row_snapshot_deserialize by simp
next
  case (acquire s q sid r now ep h x revno lease f e)
  obtain c where c: "cmd = AcquireCommand c" using acquire(18) by (cases cmd) auto
  have "sid \<noteq> 0" using acquire(2,20) session_of_in by (auto simp: store_inv_def row_wf_def)
  moreover have "ep \<noteq> 0" using acquire(7) by auto
  ultimately show ?case
    using issued_lease_replayable [OF acquire(21,5), of "ao_duration c" lease None] acquire(8,10,18,19) c
    by (simp add: acquire(12))
next
  case (renew s q sid r now h ep x lease f)
  obtain c where c: "cmd = RenewCommand c" using renew(12) by (cases cmd) auto
  have r: "row_wf en r" "sw_session_id r = sid" using renew(2,14) session_of_in by (auto simp: store_inv_def)
  then have "sid \<noteq> 0" "h \<noteq> 0" "ep \<noteq> 0" using renew(6) by (auto simp: row_wf_def held_def)
  then show ?case
    using issued_lease_replayable [OF renew(15,5), of "rn_duration c" lease "Some (rn_epoch c)"] renew(8,12,13) c
    by (simp add: renew(9))
next
  case (release s q sid r now h ep revno f e)
  then show ?case by (cases cmd) auto
qed simp_all

text \<open>The ledger entry of a step is found in every later state.\<close>

lemma find_recorded:
  assumes "session_step en t s q l s1" "later s1 u" "store_inv en u"
  shows "find_row lr_request_id (rc_request_id (lq_context q)) (st_ledger u)
    = Some (ledger_entry (label_session l) q (label_outcome l))"
proof -
  have "ledger_entry (label_session l) q (label_outcome l) \<in> set (st_ledger u)"
    using session_step_ledger [OF assms(1)] assms(2) by (auto simp: later_def)
  then show ?thesis
    using distinct_find_row [of lr_request_id "st_ledger u"] assms(3) by (fastforce simp: store_inv_def)
qed

text \<open>A request that committed is answered by its replay from any later state.\<close>

lemma session_op_replayed_later:
  assumes "session_op en t cmd s = (s1, r)" "s1 \<noteq> s" "store_inv en s"
    and "valid_time en t" "env_laws en" "session_command_wf cmd"
    and "later s1 u" "store_inv en u"
  shows "session_op en t' cmd u = (u, replay_reply r)"
proof -
  let ?q = "request_of en (request_command cmd)"
  have d: "sessions_distinct s" using assms(3) by (simp add: store_inv_def)
  from session_op_step [OF assms(1) d assms(4-6)] assms(2) obtain l where
    l: "session_step en t s ?q l s1" "label_session l = target cmd" "r = label_reply l" "label_fits en t s s1 cmd l"
    by blast
  have "replay_bytes u ?q = ledger_answer (label_outcome l)"
    by (rule replay_bytes_entry [OF find_recorded [OF l(1) assms(7,8)]])
  from session_op_replay [OF this session_step_replayable [OF l(1,4,2) assms(3,5,6,7)]] l(3)
  show ?thesis by simp
qed


section \<open>Leases\<close>

text \<open>The row of a session while a host holds it: owner, epoch, expiry and revision.\<close>

definition owned ::
  "session_table_row \<Rightarrow> host_id \<Rightarrow> u64 option \<Rightarrow> timestamp \<Rightarrow> revision \<Rightarrow> bool" where
  "owned r h e x n \<longleftrightarrow>
    sw_owner_host r = Some h \<and> sw_owner_epoch r = e \<and> sw_owner_expires_at r = Some x
    \<and> sw_revision r = n \<and> sw_time_floor r < x"

lemma session_of_set_other:
  "(\<And>r. sw_session_id (f r) = sw_session_id r) \<Longrightarrow> i \<noteq> sid \<Longrightarrow>
   session_of (set_session sid f s) i = session_of s i"
  by (simp add: session_of_set_session del: state_change_tables)

lemma session_step_other:
  assumes "session_step en t s q l s'" "session_of s sid = Some r" "label_session l \<noteq> sid"
  shows "session_of s' sid = Some r"
  using assms
proof (induction rule: session_step.induct)
  case (open_new s q c i row storage_key now e)
  then show ?case by (simp add: find_row_append)
next
  case (refuse_late s q i r' now err)
  then show ?case using session_of_set_other [of "\<lambda>r. r\<lparr>sw_time_floor := now\<rparr>" sid i s] by simp
next
  case (close s q i r' now h ep revno f e)
  then have "i \<noteq> sid" using session_of_in [OF close(2)] by simp
  then show ?case using close session_of_set_other [of f sid i s] by simp
next
  case (acquire s q i r' now ep h x revno lease f e)
  then show ?case using session_of_set_other [of f sid i s] by simp
next
  case (renew s q i r' now h ep x lease f)
  then show ?case using session_of_set_other [of f sid i s] by simp
next
  case (release s q i r' now h ep revno f e)
  then show ?case using session_of_set_other [of f sid i s] by simp
qed simp_all

lemma owned_effective: "owned r h e x n \<Longrightarrow> t < x \<Longrightarrow> effective_owner r (max (sw_time_floor r) t) \<noteq> None"
  by (simp add: owned_def effective_owner_def row_owner_def is_effective_at_def)

text \<open>A step of another host before the lease ends leaves the holder's columns alone.\<close>

lemma session_step_owned:
  assumes "session_step en t s q l s'" "session_of s sid = Some r" "owned r h ep x n"
    and "t < x" "rc_caller (lq_context q) \<noteq> h"
  shows "\<exists>r'. session_of s' sid = Some r' \<and> owned r' h ep x n"
proof (cases "label_session l = sid")
  case False
  then show ?thesis using session_step_other [OF assms(1,2)] assms(3) by blast
next
  case True
  from assms(1) True show ?thesis
  proof (cases rule: session_step.cases)
    case (refuse_late i r' now err)
    then have "r' = r" "i = sid" using True assms(2) by simp_all
    moreover have "now < x" using refuse_late assms(3,4) \<open>r' = r\<close> by (simp add: owned_def)
    moreover have "session_of (set_session sid (\<lambda>r. r\<lparr>sw_time_floor := now\<rparr>) s) sid
        = Some (r\<lparr>sw_time_floor := now\<rparr>)"
      using assms(2) by (subst session_of_set_session) simp_all
    ultimately show ?thesis using refuse_late assms(3) by (simp add: owned_def)
  next
    case (close i r' now h' ep' revno f e)
    then have "r' = r" using True assms(2) session_of_in [OF close(4)] by simp
    then show ?thesis using close assms(3,5) by (simp add: held_def owned_def)
  next
    case (acquire i r' now ep' h' y revno lease f e)
    then have "r' = r" using True assms(2) by simp
    then show ?thesis using acquire owned_effective [OF assms(3,4)] by simp
  next
    case (renew i r' now h' ep' y lease f)
    then have "r' = r" using True assms(2) by simp
    then show ?thesis using renew assms(3,5) by (simp add: held_def owned_def)
  next
    case (release i r' now h' ep' revno f e)
    then have "r' = r" using True assms(2) by simp
    then show ?thesis using release assms(3,5) by (simp add: held_def owned_def)
  next
    case (open_new c i row k now e)
    then show ?thesis using True assms(2) by (simp add: opened_row_def)
  qed (use assms(2,3) in auto)
qed

lemma session_op_owned:
  assumes "store_inv en s" "op_wf en (t, cmd)" "session_of s sid = Some r" "owned r h ep x n"
    and "t < x" "caller_of cmd \<noteq> h"
  shows "\<exists>r'. session_of (op_step en (t, cmd) s) sid = Some r' \<and> owned r' h ep x n"
proof -
  obtain s' res where op: "session_op en t cmd s = (s', res)" by fastforce
  have d: "sessions_distinct s" using assms(1) by (simp add: store_inv_def)
  have wf: "valid_time en t" "env_laws en" "session_command_wf cmd" using assms(2) by (simp_all add: op_wf_def)
  from session_op_step [OF op d wf] show ?thesis
    using session_step_owned [OF _ assms(3-5)] assms(3,4,6) op
    by (auto simp: op_step_def caller_of_def)
qed

lemma run_ops_owned:
  assumes "store_inv en s" "list_all (op_wf en) ops" "session_of s sid = Some r" "owned r h ep x n"
    and "list_all (\<lambda>a. fst a < x \<and> caller_of (snd a) \<noteq> h) ops"
  shows "\<exists>r'. session_of (run_ops en ops s) sid = Some r' \<and> owned r' h ep x n"
  using assms
proof (induction ops arbitrary: s r)
  case Nil
  then show ?case by (simp add: run_ops_def)
next
  case (Cons a ops)
  then obtain r' where "session_of (op_step en a s) sid = Some r'" "owned r' h ep x n"
    using session_op_owned [of en s "fst a" "snd a" sid r h ep x n] by auto
  moreover have "store_inv en (op_step en a s)"
    using Cons.prems(1,2) by (simp add: op_step_def op_wf_def session_op_inv)
  ultimately show ?case
    using Cons.IH [of "op_step en a s" r'] Cons.prems(2,5) by (simp add: run_ops_def)
qed


section \<open>Fencing\<close>

fun epoch_of :: "session_command \<Rightarrow> fencing_epoch option" where
  "epoch_of (CloseCommand c) = Some (cs_epoch c)"
| "epoch_of (RenewCommand c) = Some (rn_epoch c)"
| "epoch_of (ReleaseCommand c) = Some (ro_epoch c)"
| "epoch_of _ = None"

definition new_request :: "'z store_scheme \<Rightarrow> session_command \<Rightarrow> bool" where
  "new_request s cmd \<longleftrightarrow>
    fresh_request s (request_id_of cmd) \<and> request_id_of cmd \<notin> set (st_journal_requests s)"

lemma new_request_replay:
  "new_request s cmd \<Longrightarrow> replay_bytes s (request_of en (request_command cmd)) = Inr None"
  by (simp add: new_request_def replay_bytes_def fresh_request_def request_id_of_def Let_def)

lemma finish_failure_fresh:
  "fresh_request s (rc_request_id (lq_context q)) \<Longrightarrow>
   finish_failure sid q e s = (Inr (Inl e), add_ledger (ledger_entry sid q (LedgerFailed (failure_to_wire e))) s)"
  by (simp add: finish_failure_commit)

lemma advance_time_floor_run:
  "advance_time_floor sid p t s = (Inr (max p t), set_session sid (\<lambda>r. r\<lparr>sw_time_floor := max p t\<rparr>) s)"
  by (simp add: advance_time_floor_commit)

lemma set_session_id [simp]: "set_session sid id s = s"
  by (simp add: set_session_def map_idI)

lemma require_open_session_row:
  assumes "session_of s sid = Some r" "decode_session en r = Inr (row_view r)"
  shows "require_open_session en s sid a =
    (if sw_closed r then Inl (if a = CloseSession then SessionAlreadyClosed sid else SessionClosed sid)
     else Inr (row_view r))"
  using assms by (simp add: require_open_session_def load_session_in_def)

lemma require_owner_stale:
  assumes "sw_owner_host r = None \<or> sw_owner_epoch r \<noteq> Some e" "decode_session en r = Inr v"
  shows "require_owner (row_view r) h e t
    = Inl (StaleOwnership (sw_session_id r) e (map_option ol_epoch (row_owner r)))"
proof (cases "sw_owner_host r")
  case None
  then show ?thesis by (simp add: require_owner_def row_owner_def)
next
  case (Some i)
  then obtain e' where "sw_owner_epoch r = Some e'" "e' \<noteq> e"
    using assms decode_session_valid(2) [OF assms(2) Some] by auto
  then show ?thesis using Some by (simp add: require_owner_def row_owner_def)
qed

lemmas run_fenced = Let_def io_bind_def io_lift_def or_fail_def run_transaction_def
  finish_failure_fresh advance_time_floor_run new_request_replay

text \<open>A fenced command that names an epoch the session's row does not carry.\<close>

lemma fenced_command_refused:
  assumes "new_request s cmd" "epoch_of cmd = Some e" "session_of s (target cmd) = Some r"
    and "decode_session en r = Inr (row_view r)" "sw_owner_host r = None \<or> sw_owner_epoch r \<noteq> Some e"
  shows "\<exists>err f. session_op en t cmd s
      = (add_ledger (ledger_entry (target cmd) (request_of en (request_command cmd)) (LedgerFailed (failure_to_wire err)))
          (set_session (target cmd) f s), Inl err)
    \<and> (if sw_closed r then err \<in> {SessionClosed (target cmd), SessionAlreadyClosed (target cmd)} \<and> f = id
       else (\<exists>current. err = StaleOwnership (target cmd) e current)
        \<and> f = (\<lambda>r'. r'\<lparr>sw_time_floor := max (sw_time_floor r) t\<rparr>))"
proof -
  have q: "replay_bytes s (request_of en (request_command cmd)) = Inr None"
    "fresh_request s (rc_request_id (command_context (request_command cmd)))"
    using assms(1) new_request_replay by (auto simp: new_request_def request_id_of_def)
  have id: "sw_session_id r = target cmd" using session_of_in [OF assms(3)] by simp
  note owner = require_owner_stale [OF assms(5,4)]
  note row = require_open_session_row [OF assms(3,4)]
  let ?err = "if sw_closed r then if command_action (request_command cmd) = CloseSession
      then SessionAlreadyClosed (target cmd) else SessionClosed (target cmd)
    else StaleOwnership (target cmd) e (map_option ol_epoch (row_owner r))"
  let ?f = "if sw_closed r then id else (\<lambda>r'. r'\<lparr>sw_time_floor := max (sw_time_floor r) t\<rparr>)"
  have "session_op en t cmd s
      = (add_ledger (ledger_entry (target cmd) (request_of en (request_command cmd)) (LedgerFailed (failure_to_wire ?err)))
          (set_session (target cmd) ?f s), Inl ?err)"
    using assms(2) q id row
    by (cases cmd)
      (auto simp: close_session_def renew_ownership_def release_ownership_def run_fenced owner)
  then show ?thesis by (intro exI [of _ ?err] exI [of _ ?f]) simp
qed


text \<open>An acquisition that was applied raised the session's epoch.\<close>

lemma acquire_applied_rows:
  assumes "store_inv en s" "valid_time en t" "env_laws en" "session_command_wf (AcquireCommand c)"
    and "session_op en t (AcquireCommand c) s = (s1, Inr (LeaseReply (Applied l)))"
  shows "\<exists>r r1. session_of s (ao_session_id c) = Some r \<and> session_of s1 (ao_session_id c) = Some r1
    \<and> sw_epoch_high_water r < ol_epoch l \<and> sw_epoch_high_water r1 = ol_epoch l"
proof -
  have d: "sessions_distinct s" using assms(1) by (simp add: store_inv_def)
  obtain res where run: "run_transaction (acquire_ownership en t c) s = (s1, res)"
    and res: "Inr (LeaseReply (Applied l)) = map_sum id LeaseReply res"
    using assms(5) by (auto simp: map_prod_eq_iff)
  from res have applied: "res = Inr (Applied l)" by (cases res) auto
  then have "acquire_ownership en t c s = (Inr (Inr (Applied l)), s1)"
    using run by (auto elim: run_transaction_cases)
  from acquire_ownership_step [OF this d assms(2,3)] assms(4) obtain now where
    id: "ol_session_id l = ao_session_id c"
    and step: "session_step en t s (request_of en (CmdAcquireOwnership c)) (Acquired l now) s1" by auto
  from step show ?thesis
  proof (cases rule: session_step.cases)
    case (acquire sid r ep h x revno f e)
    have "session_of (set_session sid f s) sid = Some (f r)"
      using acquire by (subst session_of_set_session) simp_all
    then show ?thesis using acquire id by (auto simp: word_less_nat_alt)
  qed
qed


section \<open>Reading the log\<close>

lemma load_session_in_row:
  assumes "store_inv en s" "env_laws en" "session_of s sid = Some r"
  shows "load_session_in en s sid = Inr (Some (row_view r))"
  using assms decode_session_wf [OF assms(2) store_inv_row [OF assms(1,3)]]
  by (simp add: load_session_in_def)

lemma decode_events_append:
  "decode_events en sid (xs @ ys) =
    and_then (decode_events en sid xs) (\<lambda>as. and_then (decode_events en sid ys) (\<lambda>bs. Ok (as @ bs)))"
proof (induction xs)
  case Nil
  show ?case by (cases "decode_events en sid ys") simp_all
next
  case (Cons x xs)
  then show ?case
    by (cases "decode_event en x sid"; cases "decode_events en sid xs"; cases "decode_events en sid ys") simp_all
qed

lemma decode_events_length: "decode_events en sid rows = Inr es \<Longrightarrow> length es = length rows"
  by (induction rows arbitrary: es) (auto simp: outcome_simps)

lemma decode_events_take:
  assumes "decode_events en sid rows = Inr es"
  shows "decode_events en sid (take n rows) = Inr (take n es)"
    and "decode_events en sid (drop n rows) = Inr (drop n es)"
proof -
  from assms have "decode_events en sid (take n rows @ drop n rows) = Inr es" by simp
  then obtain as bs where *: "decode_events en sid (take n rows) = Inr as"
    "decode_events en sid (drop n rows) = Inr bs" "es = as @ bs"
    by (auto simp only: decode_events_append and_then_eq_Inr sum.inject)
  then have "length as = min n (length rows)" using decode_events_length [OF *(1)] by simp
  then have "as = take n es \<and> bs = drop n es"
    using *(3) decode_events_length [OF assms] by (cases "n \<le> length rows") auto
  then show "decode_events en sid (take n rows) = Inr (take n es)"
    "decode_events en sid (drop n rows) = Inr (drop n es)" using * by simp_all
qed

lemma event_log_position:
  assumes "event_log_wf rows" "k < length rows"
  shows "ew_position (rows ! k) = Suc k"
proof -
  have "ew_position (rows ! k) = map ew_position rows ! k" using assms(2) by simp
  also have "\<dots> = [1..<Suc (length rows)] ! k" using assms(1) by (simp only: event_log_wf_def)
  also have "\<dots> = Suc k" using assms(2) by (subst nth_upt) simp_all
  finally show ?thesis .
qed

lemma decode_event_position: "decode_event en row sid = Inr e \<Longrightarrow> ev_position e = word_of_nat (ew_position row)"
  by (auto simp: decode_event_def outcome_simps event_position_new_def split: if_splits)

lemma decode_events_position:
  assumes "decode_events en sid rows = Inr es" "event_log_wf rows" "k < length es"
  shows "ev_position (es ! k) = word_of_nat (Suc k)"
proof -
  have "\<exists>e. decode_event en (rows ! k) sid = Inr e \<and> es ! k = e"
    using assms(1,3)
  proof (induction rows arbitrary: es k)
    case (Cons r rows)
    then show ?case by (cases k) (auto simp: outcome_simps)
  qed simp
  then obtain e where "decode_event en (rows ! k) sid = Inr e" and e: "es ! k = e" by blast
  then have "ev_position e = word_of_nat (Suc k)"
    using event_log_position [OF assms(2), of k] decode_events_length [OF assms(1)] assms(3)
      decode_event_position by fastforce
  with e show ?thesis by simp
qed

text \<open>The events after a position of a log without gaps, in order.\<close>

lemma log_after_position:
  assumes "event_log_wf rows"
  shows "sort_key ew_position (filter (\<lambda>e. k < ew_position e) rows) = drop k rows"
proof -
  have up: "sorted (map ew_position rows)" using assms by (simp only: event_log_wf_def sorted_upt)
  have "filter (\<lambda>e. k < ew_position e) rows = drop k rows"
  proof -
    have "\<not> k < ew_position e" if "e \<in> set (take k rows)" for e
    proof -
      from that obtain i where "i < k" "i < length rows" "e = rows ! i" by (auto simp: in_set_conv_nth)
      then show ?thesis using event_log_position [OF assms] by simp
    qed
    moreover have "k < ew_position e" if "e \<in> set (drop k rows)" for e
    proof -
      from that obtain i where "i < length rows - k" "e = rows ! (k + i)" by (auto simp: in_set_conv_nth)
      then show ?thesis using event_log_position [OF assms, of "k + i"] by simp
    qed
    ultimately have "filter (\<lambda>e. k < ew_position e) (take k rows @ drop k rows) = drop k rows"
      by (simp only: filter_append) (simp add: filter_empty_conv filter_id_conv)
    then show ?thesis by simp
  qed
  moreover have "sorted (map ew_position (drop k rows))" using up by (simp add: drop_map [symmetric] sorted_wrt_drop)
  ultimately show ?thesis by (simp add: sort_key_id_if_sorted)
qed

lemma read_events_page:
  assumes "store_inv en s" "env_laws en" "session_of s sid = Some r"
    and "decode_events en sid (session_events s sid) = Inr es" "length es < 2 ^ 63" "k \<le> length es"
    and "after = (if k = 0 then None else Some (word_of_nat k))" "limit \<noteq> 0"
  shows "read_events en s \<lparr>re_session_id = sid, re_consumer = sw_public_consumer_key r, re_after = after, re_limit = limit\<rparr>
    = Inr \<lparr>ep_events = take (unat limit) (drop k es),
           ep_last_position = (if k = length es then None
             else Some (word_of_nat (min (length es) (k + unat limit)))),
           ep_has_more = (k + unat limit < length es)\<rparr>"
proof -
  let ?n = "unat limit" and ?rows = "session_events s sid"
  have wf: "event_log_wf ?rows" using assms(1) by (simp add: store_inv_def)
  have len: "length ?rows = length es" using decode_events_length [OF assms(4)] by simp
  have n: "0 < ?n" using assms(8) by (simp add: unat_gt_0)
  have k: "unat (word_of_nat k :: u64) = k" using assms(5,6) by (simp add: unsigned_of_nat take_bit_nat_eq_self)
  have after: "to_i64 (case after of None \<Rightarrow> 0 | Some p \<Rightarrow> p) = Inr (word_of_nat k)"
    using assms(5-7) k by (simp add: to_i64_Ok word_le_nat_alt)
  have rows: "sort_key ew_position (filter (\<lambda>e. unat (word_of_nat k :: u64) < ew_position e) ?rows) = drop k ?rows"
    using log_after_position [OF wf] k by simp
  have page: "decode_events en sid (take ?n (drop k ?rows)) = Inr (take ?n (drop k es))"
    using decode_events_take(1) [OF decode_events_take(2) [OF assms(4)]] .
  have last: "ev_position (last (take ?n (drop k es))) = word_of_nat (min (length es) (k + ?n))" if "k \<noteq> length es"
  proof -
    let ?p = "take ?n (drop k es)"
    have "?p \<noteq> []" using that assms(6) n by simp
    then have "last ?p = es ! (min (length es) (k + ?n) - 1)"
      using n that assms(6) by (subst last_conv_nth) (auto simp: min_def)
    moreover have "min (length es) (k + ?n) - 1 < length es" "Suc (min (length es) (k + ?n) - 1) = min (length es) (k + ?n)"
      using n that assms(6) by auto
    ultimately show ?thesis using decode_events_position [OF assms(4) wf] by simp
  qed
  have taken: "take ?n (take (?n + 1) (drop k ?rows)) = take ?n (drop k ?rows)" by (simp add: min_def)
  have more: "?n < length (take (?n + 1) (drop k ?rows)) \<longleftrightarrow> k + ?n < length es"
    using len assms(6) by auto
  have "read_events en s \<lparr>re_session_id = sid, re_consumer = sw_public_consumer_key r, re_after = after, re_limit = limit\<rparr>
    = Inr \<lparr>ep_events = take ?n (drop k es),
         ep_last_position = (if take ?n (drop k es) = [] then None else Some (ev_position (last (take ?n (drop k es))))),
         ep_has_more = (k + ?n < length es)\<rparr>"
    unfolding read_events_def read_events_query.select_convs load_session_in_row [OF assms(1-3)]
    by (simp only: and_then.simps ok_or.simps row_view_simps row_snapshot_simps simp_thms if_False
        after Let_def rows taken page more)
  moreover have "take ?n (drop k es) = [] \<longleftrightarrow> k = length es" using n assms(6) by auto
  ultimately show ?thesis using last by auto
qed


text \<open>Following the pages of a log from its beginning; the fuel bounds the number of pages.\<close>

fun read_pages ::
  "env \<Rightarrow> 'z store_scheme \<Rightarrow> session_id \<Rightarrow> consumer_key \<Rightarrow> u32 \<Rightarrow> nat \<Rightarrow> event_position option
    \<Rightarrow> store_error + session_event list" where
  "read_pages en s sid key limit 0 after = Ok []"
| "read_pages en s sid key limit (Suc fuel) after =
    and_then (read_events en s \<lparr>re_session_id = sid, re_consumer = key, re_after = after, re_limit = limit\<rparr>)
      (\<lambda>page. if ep_has_more page
        then and_then (read_pages en s sid key limit fuel (ep_last_position page))
          (\<lambda>rest. Ok (ep_events page @ rest))
        else Ok (ep_events page))"

lemma read_pages_from:
  assumes "store_inv en s" "env_laws en" "session_of s sid = Some r"
    and "decode_events en sid (session_events s sid) = Inr es" "length es < 2 ^ 63" "limit \<noteq> 0"
    and "k \<le> length es" "length es - k < fuel"
  shows "read_pages en s sid (sw_public_consumer_key r) limit fuel
      (if k = 0 then None else Some (word_of_nat k)) = Inr (drop k es)"
  using assms(7,8)
proof (induction fuel arbitrary: k)
  case (Suc fuel)
  note page = read_events_page [OF assms(1-5) Suc.prems(1) refl assms(6)]
  have n: "0 < unat limit" using assms(6) by (simp add: unat_gt_0)
  show ?case
  proof (cases "k + unat limit < length es")
    case True
    have "read_pages en s sid (sw_public_consumer_key r) limit fuel (Some (word_of_nat (k + unat limit)))
      = Inr (drop (k + unat limit) es)"
      using Suc.IH [of "k + unat limit"] Suc.prems(2) True n by simp
    moreover have "take (unat limit) (drop k es) @ drop (k + unat limit) es = drop k es"
      by (metis add.commute append_take_drop_id drop_drop)
    ultimately show ?thesis using page True by (simp add: min_def)
  next
    case False
    then show ?thesis using page by simp
  qed
qed simp


section \<open>Reading a request back\<close>

fun stored_outcome_of :: "store_error + session_reply \<Rightarrow> stored_request_outcome" where
  "stored_outcome_of (Inl e) = StoredFailed e"
| "stored_outcome_of (Inr (SessionReply (Unchanged v))) = StoredSucceeded EffectUnchanged (SessionResult v)"
| "stored_outcome_of (Inr (SessionReply m)) = StoredSucceeded EffectApplied (SessionResult (mutation_value m))"
| "stored_outcome_of (Inr (LeaseReply m)) = StoredSucceeded EffectApplied (OwnershipLeaseResult (mutation_value m))"
| "stored_outcome_of (Inr (OwnershipReply m)) = StoredSucceeded EffectApplied (OwnershipResult (mutation_value m))"

lemma parse_action_session:
  "parse_action (store_action_as_str OpenSession) = Inr OpenSession"
  "parse_action (store_action_as_str CloseSession) = Inr CloseSession"
  "parse_action (store_action_as_str AcquireOwnership) = Inr AcquireOwnership"
  "parse_action (store_action_as_str RenewOwnership) = Inr RenewOwnership"
  "parse_action (store_action_as_str ReleaseOwnership) = Inr ReleaseOwnership"
  by (simp_all add: parse_action_def store_action_as_str_def)

lemma decode_session_entry:
  assumes "replayable en u cmd l" "caller_of cmd \<noteq> 0" "label_fits en t s s' cmd l"
  shows "decode_stored_request en (ledger_entry sid (request_of en (request_command cmd)) (label_outcome l)) rid
    = Inr \<lparr>sr_request_id = rid, sr_caller = caller_of cmd, sr_action = command_action (request_command cmd),
           sr_digest = command_digest (en_sha256 en) (request_command cmd),
           sr_outcome = stored_outcome_of (label_reply l)\<rparr>"
proof -
  have caller: "parse_id (rc_caller (command_context (request_command cmd))) = Inr (caller_of cmd)"
    using assms(2) by (simp add: parse_id_Ok caller_of_def)
  have action: "parse_action (store_action_as_str (command_action (request_command cmd)))
      = Inr (command_action (request_command cmd))"
    by (cases cmd) (simp_all add: parse_action_session)
  show ?thesis
    using assms(1,3) caller action
    by (cases l; cases cmd)
      (simp_all add: decode_stored_request_def stored_request_new_def decode_result_def
        decode_session_value_def result_matches_def)
qed


section \<open>A concrete store\<close>

text \<open>An environment in which the laws of the time crate hold, and a store with one open session.\<close>

definition demo_env :: env where
  "demo_env =
    \<lparr>en_sha256 = (\<lambda>b. word_of_nat (length b) * 2 ^ 140),
     en_from_unix = (\<lambda>s n. if n < 1000000000 \<and> - 377705116800 \<le> s \<and> s \<le> 253402300799
       then Some (s * 1000000000 + int n) else None),
     en_add_millis = (\<lambda>v ms. if - 377705116800 \<le> (v + ms * 1000000) div 1000000000
         \<and> (v + ms * 1000000) div 1000000000 \<le> 253402300799 then Some (v + ms * 1000000) else None),
     en_uuid_string = (\<lambda>_. ''id''), en_print = (\<lambda>_. []), en_max_lease_millis = 60000,
     en_encode_template = (\<lambda>_. [])\<rparr>"

lemma demo_env_laws: "env_laws demo_env"
proof -
  have "unix_range_law (en_from_unix demo_env) (- 377705116800) 253402300799"
    by (simp add: unix_range_law_def demo_env_def)
  moreover have "w = v + ms * 1000000 \<and> valid_time demo_env (from_datetime w)"
    if "en_add_millis demo_env v ms = Some w" for v ms w
    using that by (auto simp: demo_env_def valid_time_def from_datetime_def nat_less_iff split: if_splits)
  ultimately show ?thesis unfolding env_laws_def by blast
qed

definition demo_store :: store where
  "demo_store =
    \<lparr>st_sessions = [], st_manifests = [], st_templates = [], st_events = [], st_ledger = [],
     st_launches = [], st_journal_requests = [], st_event_limits = Some (100, 100)\<rparr>"

definition demo_row :: "host_id option \<Rightarrow> session_table_row" where
  "demo_row h =
    \<lparr>sw_session_id = 5, sw_consumer_key = ''k'', sw_public_consumer_key = ''k'', sw_compatibility = 9,
     sw_revision = 2, sw_closed = False, sw_created_at = Timestamp 10 0, sw_updated_at = Timestamp 20 0,
     sw_owner_host = h, sw_owner_epoch = Some 3,
     sw_owner_expires_at = map_option (\<lambda>_. Timestamp 50 0) h, sw_epoch_high_water = 3,
     sw_time_floor = Timestamp 30 0, sw_manifest_complete = False, sw_configuration = None\<rparr>"

definition demo_session :: "host_id option \<Rightarrow> store" where
  "demo_session h = demo_store\<lparr>st_sessions := [demo_row h]\<rparr>"

lemma demo_valid_time: "0 \<le> n \<Longrightarrow> n \<le> 253402300799 \<Longrightarrow> valid_time demo_env (Timestamp n 0)"
  by (simp add: valid_time_def demo_env_def)

lemma demo_store_inv: "store_inv demo_env demo_store"
  by (simp add: store_inv_def demo_store_def sessions_distinct_def session_events_def event_log_wf_def
      events_bounded_def keys_exclusive_def manifests_owned_def)

lemma demo_session_inv:
  assumes "h \<noteq> Some 0"
  shows "store_inv demo_env (demo_session h)"
proof -
  have "row_wf demo_env (demo_row h)"
    using assms
    by (auto simp: row_wf_def demo_row_def revision_initial_def demo_valid_time split: option.splits
        intro!: exI [of _ "Timestamp 10 0"])
  then show ?thesis
    by (simp add: store_inv_def demo_session_def demo_store_def sessions_distinct_def session_events_def
        event_log_wf_def events_bounded_def keys_exclusive_def manifests_owned_def)
qed

definition demo_open :: session_command where
  "demo_open = OpenCommand (open_session_new \<lparr>rc_request_id = 21, rc_caller = 8\<rparr> 5 ''k'' 9)"

definition demo_acquire :: session_command where
  "demo_acquire = AcquireCommand
    \<lparr>ao_context = \<lparr>rc_request_id = 22, rc_caller = 8\<rparr>, ao_session_id = 5, ao_duration = 30000\<rparr>"

definition demo_release :: session_command where
  "demo_release = ReleaseCommand
    \<lparr>ro_context = \<lparr>rc_request_id = 23, rc_caller = 7\<rparr>, ro_session_id = 5, ro_epoch = 3\<rparr>"

lemma demo_op_wf:
  "0 \<le> n \<Longrightarrow> n \<le> 253402300799 \<Longrightarrow> op_wf demo_env (Timestamp n 0, demo_open)"
  "0 \<le> n \<Longrightarrow> n \<le> 253402300799 \<Longrightarrow> op_wf demo_env (Timestamp n 0, demo_acquire)"
  "0 \<le> n \<Longrightarrow> n \<le> 253402300799 \<Longrightarrow> op_wf demo_env (Timestamp n 0, demo_release)"
  by (simp_all add: op_wf_def demo_env_laws demo_valid_time demo_open_def demo_acquire_def demo_release_def
      open_session_new_def)

lemma demo_expiry: "expiry demo_env (Timestamp 60 0) 30000 = Inr (Timestamp 90 0)"
  by (simp add: expiry_def demo_env_def to_datetime_def from_datetime_def)

lemma demo_acquire_run:
  "\<exists>s1. session_op demo_env (Timestamp 60 0) demo_acquire (demo_session None)
      = (s1, Inr (LeaseReply (Applied
          \<lparr>ol_session_id = 5, ol_owner = 8, ol_epoch = 4, ol_expires_at = Timestamp 90 0\<rparr>)))
    \<and> map lr_request_id (st_ledger s1) = [22] \<and> st_journal_requests s1 = []"
proof -
  have row: "session_of (demo_session None) 5 = Some (demo_row None)"
    by (simp add: demo_session_def demo_row_def)
  have dec: "decode_session demo_env (demo_row None) = Inr (row_view (demo_row None))"
    by (rule decode_session_wf [OF demo_env_laws store_inv_row [OF demo_session_inv row]]) simp
  note start = require_open_session_row [OF row dec]
  let ?c = "\<lparr>ao_context = \<lparr>rc_request_id = 22, rc_caller = 8\<rparr>, ao_session_id = 5, ao_duration = 30000\<rparr>"
  let ?q = "request_of demo_env (CmdAcquireOwnership ?c)"
  let ?s = "set_session 5 (\<lambda>r. r\<lparr>sw_time_floor := Timestamp 60 0\<rparr>) (demo_session None)"
  have replay: "replay_bytes (demo_session None) q = Inr None" for q
    by (simp add: replay_bytes_def demo_session_def demo_store_def Let_def)
  have "acquire_ownership demo_env (Timestamp 60 0) ?c (demo_session None)
      = acquire_free demo_env ?c ?q (row_view (demo_row None))
          (Timestamp 60 0) (Timestamp 90 0) ?s"
    by (simp add: acquire_ownership_def Let_def io_bind_def io_lift_def replay or_fail_def start
        advance_time_floor_run max_def demo_expiry demo_row_def row_owner_def)
  moreover obtain s1 where "acquire_free demo_env ?c ?q (row_view (demo_row None)) (Timestamp 60 0) (Timestamp 90 0) ?s
      = (Inr (Inr (Applied \<lparr>ol_session_id = 5, ol_owner = 8, ol_epoch = 4, ol_expires_at = Timestamp 90 0\<rparr>)), s1)"
      "map lr_request_id (st_ledger s1) = [22]" "st_journal_requests s1 = []"
    by (simp add: acquire_free_def Let_def io_bind_def io_lift_def fencing_epoch_new_def checked_add_def
        revision_next_def ownership_lease_new_def to_i64_def update_session_def require_one_row_def
        append_event_def append_event_data_def io_get_def io_modify_def record_bytes_def insert_ledger_def
        finish_with_def session_events_def last_event_def demo_session_def demo_store_def demo_row_def
        set_session_def)
  ultimately show ?thesis
    by (simp add: demo_acquire_def run_transaction_def)
qed


section \<open>Properties\<close>

text \<open>Property C1.  Retried requests take effect once: an operation that committed (whether it succeeded
  or recorded a failure) answers every retry of the same command with the recorded result, changes
  nothing, and does so after any later history of operations by any hosts and at any clock reading.\<close>

theorem session_request_idempotent:
  assumes "store_inv en s" "op_wf en (t, cmd)" "list_all (op_wf en) ops"
    and "session_op en t cmd s = (s1, r)" "s1 \<noteq> s"
  shows "session_op en t' cmd (run_ops en ops s1) = (run_ops en ops s1, replay_reply r)"
proof -
  have wf: "valid_time en t" "env_laws en" "session_command_wf cmd" using assms(2) by (simp_all add: op_wf_def)
  have "store_inv en s1" using session_op_inv [OF assms(1) wf] assms(4) by simp
  then show ?thesis
    using session_op_replayed_later [OF assms(4,5,1) wf] run_ops_later run_ops_inv assms(3) by blast
qed

lemma session_request_idempotent_witness:
  "\<exists>s1 r. session_op demo_env (Timestamp 60 0) demo_open demo_store = (s1, r) \<and> s1 \<noteq> demo_store
    \<and> session_op demo_env (Timestamp 2 0) demo_open (run_ops demo_env [(Timestamp 1 0, demo_acquire)] s1)
      = (run_ops demo_env [(Timestamp 1 0, demo_acquire)] s1, replay_reply r)"
proof -
  obtain s1 r where op: "session_op demo_env (Timestamp 60 0) demo_open demo_store = (s1, r)" by fastforce
  have "st_ledger s1 \<noteq> st_ledger demo_store"
    using op by (auto simp: demo_open_def open_session_new_def open_session_def demo_store_def Let_def
        replay_bytes_def run_transaction_def io_bind_def io_lift_def load_session_in_def open_new_session_def
        new_session_manifest_is_registered_def session_snapshot_new_def insert_session_row_def
        insert_session_manifest_def append_event_data_def io_get_def session_events_def last_event_def
        to_i64_def revision_initial_def io_modify_def record_bytes_def insert_ledger_def finish_with_def)
  then have "s1 \<noteq> demo_store" by auto
  then show ?thesis
    using session_request_idempotent [OF demo_store_inv demo_op_wf(1) _ op, of "[(Timestamp 1 0, demo_acquire)]"]
      demo_op_wf(2) op by auto
qed

text \<open>Property C7.  A request identity is bound to one request: once an operation committed, any
  session command that reuses its request identity with another caller, action or content is refused
  as a conflict, now or later, and changes nothing.\<close>

theorem session_request_conflict:
  assumes "store_inv en s" "op_wf en (t, cmd)" "list_all (op_wf en) ops"
    and "session_op en t cmd s = (s1, r)" "s1 \<noteq> s"
    and "request_id_of cmd' = request_id_of cmd"
    and "caller_of cmd' \<noteq> caller_of cmd
      \<or> command_action (request_command cmd') \<noteq> command_action (request_command cmd)
      \<or> command_digest (en_sha256 en) (request_command cmd') \<noteq> command_digest (en_sha256 en) (request_command cmd)"
  shows "session_op en t' cmd' (run_ops en ops s1)
    = (run_ops en ops s1, Inl (RequestConflict (request_id_of cmd)))"
proof -
  let ?u = "run_ops en ops s1" and ?q = "request_of en (request_command cmd)"
  have wf: "valid_time en t" "env_laws en" "session_command_wf cmd" using assms(2) by (simp_all add: op_wf_def)
  have inv: "store_inv en s1" using session_op_inv [OF assms(1) wf] assms(4) by simp
  have u: "later s1 ?u" "store_inv en ?u" using run_ops_later run_ops_inv assms(3) inv by blast+
  have "sessions_distinct s" using assms(1) by (simp add: store_inv_def)
  from session_op_step [OF assms(4) this wf] assms(5) obtain l where
    "session_step en t s ?q l s1" by blast
  from find_recorded [OF this u] have row:
    "find_row lr_request_id (request_id_of cmd) (st_ledger ?u) = Some (ledger_entry (label_session l) ?q (label_outcome l))"
    by (simp add: request_id_of_def)
  have "replay_bytes ?u (request_of en (request_command cmd')) = Inl (RequestConflict (request_id_of cmd))"
  proof -
    have "store_action_as_str (command_action (request_command cmd)) \<noteq> store_action_as_str (command_action (request_command cmd'))
        \<or> command_action (request_command cmd') = command_action (request_command cmd)"
      using store_action_as_str_inject by metis
    then show ?thesis
      using replay_bytes_conflict [of "request_of en (request_command cmd')" ?u] row assms(6,7)
      by (auto simp: request_id_of_def caller_of_def)
  qed
  then show ?thesis by (rule session_op_conflict)
qed

lemma session_request_conflict_witness:
  "\<exists>s1 r. session_op demo_env (Timestamp 60 0) demo_acquire (demo_session None) = (s1, r)
    \<and> session_op demo_env (Timestamp 61 0) (AcquireCommand
        \<lparr>ao_context = \<lparr>rc_request_id = 22, rc_caller = 6\<rparr>, ao_session_id = 5, ao_duration = 30000\<rparr>) s1
      = (s1, Inl (RequestConflict 22))"
proof -
  obtain s1 r where op: "session_op demo_env (Timestamp 60 0) demo_acquire (demo_session None) = (s1, r)" by fastforce
  have "s1 \<noteq> demo_session None" using demo_acquire_run op by (auto simp: demo_session_def demo_store_def)
  then show ?thesis
    using session_request_conflict [OF demo_session_inv demo_op_wf(2) _ op, of "[]"
        "AcquireCommand \<lparr>ao_context = \<lparr>rc_request_id = 22, rc_caller = 6\<rparr>, ao_session_id = 5, ao_duration = 30000\<rparr>"] op
    by (simp add: demo_acquire_def request_id_of_def caller_of_def run_ops_def)
qed

text \<open>Property C2.  A lease excludes every other host: from any state in which a host's lease has not
  ended, no sequence of operations by other hosts whose clocks read earlier than the expiry changes the
  session's owner, epoch, expiry or revision.\<close>

theorem lease_excludes_other_hosts:
  assumes "store_inv en s" "list_all (op_wf en) ops"
    and "session_of s sid = Some r" "owned r h ep x n"
    and "list_all (\<lambda>a. fst a < x \<and> caller_of (snd a) \<noteq> h) ops"
  shows "\<exists>r'. session_of (run_ops en ops s) sid = Some r' \<and> owned r' h ep x n"
  using run_ops_owned [OF assms] .

lemma lease_excludes_other_hosts_witness:
  "\<exists>r'. session_of (run_ops demo_env [(Timestamp 40 0, demo_acquire), (Timestamp 35 0, demo_release)]
      (demo_session (Some 4))) 5 = Some r' \<and> owned r' 4 (Some 3) (Timestamp 50 0) 2"
  by (rule lease_excludes_other_hosts [where r = "demo_row (Some 4)", OF demo_session_inv])
    (simp_all add: demo_op_wf, simp_all add: demo_session_def demo_row_def owned_def caller_of_def
      demo_acquire_def demo_release_def)

text \<open>Property C3.  Epochs fence off former owners: an acquired lease carries an epoch above every
  epoch the session had, and after it, whatever happens later, a new request to close, renew or
  release under a smaller epoch is refused and leaves the owner, the epochs and the revision alone.\<close>

theorem stale_epoch_fenced:
  assumes "store_inv en s" "op_wf en (t, AcquireCommand c)" "list_all (op_wf en) ops"
    and "session_op en t (AcquireCommand c) s = (s1, Inr (LeaseReply (Applied l)))"
    and "u = run_ops en ops s1" "target cmd = ao_session_id c" "epoch_of cmd = Some e" "e < ol_epoch l"
    and "new_request u cmd"
  shows "(\<forall>r. session_of s (ao_session_id c) = Some r \<longrightarrow> sw_epoch_high_water r < ol_epoch l)
    \<and> (\<exists>u' err r w. session_op en t' cmd u = (u', Inl err) \<and> session_of u (ao_session_id c) = Some r
        \<and> session_of u' (ao_session_id c) = Some (r\<lparr>sw_time_floor := w\<rparr>))"
proof -
  let ?sid = "ao_session_id c"
  have wf: "valid_time en t" "env_laws en" "session_command_wf (AcquireCommand c)"
    using assms(2) by (simp_all add: op_wf_def)
  obtain r0 r1 where r0: "session_of s ?sid = Some r0" "sw_epoch_high_water r0 < ol_epoch l"
    and r1: "session_of s1 ?sid = Some r1" "sw_epoch_high_water r1 = ol_epoch l"
    using acquire_applied_rows [OF assms(1) wf assms(4)] by blast
  have inv: "store_inv en s1" using session_op_inv [OF assms(1) wf] unfolding assms(4) by simp
  have u: "later s1 u" "store_inv en u"
    using run_ops_later run_ops_inv assms(3,5) inv by blast+
  obtain r where r: "session_of u ?sid = Some r" "sw_epoch_high_water r1 \<le> sw_epoch_high_water r"
    using u(1) r1(1) unfolding later_def row_later_def by blast
  have rwf: "row_wf en r" using store_inv_row [OF u(2) r(1)] .
  then have "sw_owner_epoch r \<noteq> Some e" using assms(8) r(2) r1(2) by (auto simp: row_wf_def)
  with fenced_command_refused [OF assms(9,7), of r en t'] r(1) assms(6) decode_session_wf [OF wf(2) rwf]
  obtain err f where "session_op en t' cmd u
      = (add_ledger (ledger_entry ?sid (request_of en (request_command cmd)) (LedgerFailed (failure_to_wire err)))
          (set_session ?sid f u), Inl err)"
    "f = id \<or> f = (\<lambda>r'. r'\<lparr>sw_time_floor := max (sw_time_floor r) t'\<rparr>)"
    by (auto split: if_splits)
  moreover from this(2) have "session_of (set_session ?sid f u) ?sid = Some (f r)"
    using r(1) by (subst session_of_set_session) auto
  moreover have "\<exists>w. f r = r\<lparr>sw_time_floor := w\<rparr>"
    using calculation(2)
  proof
    assume "f = id"
    then show ?thesis by (intro exI [of _ "sw_time_floor r"]) simp
  qed auto
  then obtain w where "f r = r\<lparr>sw_time_floor := w\<rparr>" ..
  ultimately have "session_of (fst (session_op en t' cmd u)) ?sid = Some (r\<lparr>sw_time_floor := w\<rparr>)"
    "\<exists>u'. session_op en t' cmd u = (u', Inl err)" by simp_all
  then show ?thesis using r0 r(1) by fastforce
qed

lemma stale_epoch_fenced_witness:
  "\<exists>s1 u' err. session_op demo_env (Timestamp 60 0) demo_acquire (demo_session None)
      = (s1, Inr (LeaseReply (Applied
          \<lparr>ol_session_id = 5, ol_owner = 8, ol_epoch = 4, ol_expires_at = Timestamp 90 0\<rparr>)))
    \<and> session_op demo_env (Timestamp 61 0) demo_release s1 = (u', Inl err)"
proof -
  obtain s1 where op: "session_op demo_env (Timestamp 60 0) demo_acquire (demo_session None)
      = (s1, Inr (LeaseReply (Applied
          \<lparr>ol_session_id = 5, ol_owner = 8, ol_epoch = 4, ol_expires_at = Timestamp 90 0\<rparr>)))"
    "map lr_request_id (st_ledger s1) = [22]" "st_journal_requests s1 = []"
    using demo_acquire_run by (elim exE conjE) (rule that)
  have "set (map lr_request_id (st_ledger s1)) = {22}" unfolding op(2) by simp
  then have new: "new_request s1 demo_release"
    using op(3) by (simp add: new_request_def request_id_of_def demo_release_def fresh_request_def
        find_row_None_iff)
  let ?c = "\<lparr>ao_context = \<lparr>rc_request_id = 22, rc_caller = 8\<rparr>, ao_session_id = 5, ao_duration = 30000\<rparr>"
  let ?l = "\<lparr>ol_session_id = 5, ol_owner = 8, ol_epoch = 4, ol_expires_at = Timestamp 90 0\<rparr>"
  have "store_inv demo_env (demo_session None)" by (rule demo_session_inv) simp
  moreover have "op_wf demo_env (Timestamp 60 0, AcquireCommand ?c)"
    using demo_op_wf(2) [of 60] by (simp only: demo_acquire_def)
  moreover have "target demo_release = ao_session_id ?c" "epoch_of demo_release = Some 3" "3 < ol_epoch ?l"
    by (simp_all add: demo_release_def)
  ultimately have "\<exists>u' err r w. session_op demo_env (Timestamp 61 0) demo_release s1 = (u', Inl err)
      \<and> session_of s1 (ao_session_id ?c) = Some r \<and> session_of u' (ao_session_id ?c) = Some (r\<lparr>sw_time_floor := w\<rparr>)"
    using stale_epoch_fenced [where ops = "[]" and u = s1 and c = ?c and l = ?l,
        OF _ _ _ op(1) [unfolded demo_acquire_def] _ _ _ _ new] by (simp only: run_ops_def fold_simps id_apply list.pred_inject simp_thms)
  with op(1) show ?thesis by (elim exE conjE) (intro exI conjI)
qed

text \<open>Property C5.  The session operations refine the ownership protocol: each one leaves the store
  as it was, or takes exactly one step of the protocol's relation for the session it names, appends
  exactly one ledger entry, and answers what that step says.\<close>

theorem session_ops_refine_protocol:
  assumes "store_inv en s" "op_wf en (t, cmd)" "session_op en t cmd s = (s', res)"
  shows "s' = s \<or> (\<exists>l. session_step en t s (request_of en (request_command cmd)) l s'
    \<and> label_session l = target cmd \<and> res = label_reply l
    \<and> st_ledger s' = st_ledger s @
        [ledger_entry (target cmd) (request_of en (request_command cmd)) (label_outcome l)])"
proof -
  have "sessions_distinct s" using assms(1) by (simp add: store_inv_def)
  from session_op_step [OF assms(3) this] assms(2) show ?thesis
    using session_step_ledger by (fastforce simp: op_wf_def)
qed

lemma session_ops_refine_protocol_witness:
  "\<exists>s' l. session_op demo_env (Timestamp 60 0) demo_acquire (demo_session None) = (s', label_reply l)
    \<and> session_step demo_env (Timestamp 60 0) (demo_session None)
        (request_of demo_env (request_command demo_acquire)) l s'"
proof -
  obtain s1 where op: "session_op demo_env (Timestamp 60 0) demo_acquire (demo_session None)
      = (s1, Inr (LeaseReply (Applied
          \<lparr>ol_session_id = 5, ol_owner = 8, ol_epoch = 4, ol_expires_at = Timestamp 90 0\<rparr>)))"
    "map lr_request_id (st_ledger s1) = [22]"
    using demo_acquire_run by (elim exE conjE) (rule that)
  have "s1 \<noteq> demo_session None" using op(2) by (auto simp: demo_session_def demo_store_def)
  with session_ops_refine_protocol [OF demo_session_inv demo_op_wf(2) op(1)] obtain l where
    "session_step demo_env (Timestamp 60 0) (demo_session None)
        (request_of demo_env (request_command demo_acquire)) l s1"
    "Inr (LeaseReply (Applied
          \<lparr>ol_session_id = 5, ol_owner = 8, ol_epoch = 4, ol_expires_at = Timestamp 90 0\<rparr>)) = label_reply l"
    by auto
  with op(1) show ?thesis by (intro exI conjI) simp_all
qed

text \<open>Property C4.  A store that started empty never corrupts itself: after any operations every
  session row decodes, each session's events are numbered from one without gaps at times that do not
  decrease, request identities do not repeat, and no consumer key has two open sessions.\<close>

theorem session_store_consistent:
  assumes "st_sessions s = []" "st_events s = []" "st_ledger s = []" "st_manifests s = []"
    and "env_laws en" "list_all (op_wf en) ops" "u = run_ops en ops s"
  shows "load_session en u sid
      = (case session_of u sid of None \<Rightarrow> Err (SessionNotFound sid) | Some r \<Rightarrow> Ok (row_snapshot r))
    \<and> map ew_position (session_events u sid) = [1..<Suc (length (session_events u sid))]
    \<and> sorted (map ew_occurred_at (session_events u sid))
    \<and> distinct (map lr_request_id (st_ledger u)) \<and> keys_exclusive u"
proof -
  have "store_inv en s"
    using assms(1-4)
    by (simp add: store_inv_def sessions_distinct_def session_events_def event_log_wf_def events_bounded_def
        keys_exclusive_def manifests_owned_def)
  then have inv: "store_inv en u" using run_ops_inv assms(6,7) by blast
  have "load_session en u sid
      = (case session_of u sid of None \<Rightarrow> Err (SessionNotFound sid) | Some r \<Rightarrow> Ok (row_snapshot r))"
    using load_session_in_row [OF inv assms(5), of sid]
    by (cases "session_of u sid") (simp_all add: load_session_def load_session_in_def)
  then show ?thesis using inv unfolding store_inv_def event_log_wf_def by blast
qed

lemma session_store_consistent_witness:
  "load_session demo_env (run_ops demo_env [(Timestamp 60 0, demo_open), (Timestamp 1 0, demo_acquire)] demo_store) 6
    = (case session_of (run_ops demo_env [(Timestamp 60 0, demo_open), (Timestamp 1 0, demo_acquire)] demo_store) 6 of
         None \<Rightarrow> Err (SessionNotFound 6) | Some r \<Rightarrow> Ok (row_snapshot r))"
  using session_store_consistent [of demo_store demo_env
      "[(Timestamp 60 0, demo_open), (Timestamp 1 0, demo_acquire)]" _ 6]
  by (simp add: demo_store_def demo_env_laws demo_op_wf)

text \<open>Property C6.  History only grows: along any operations, whatever the hosts' clocks show, the
  ledger and the event log are only appended to, a session's identity, key, compatibility and creation
  time stay, its revision, epoch, update time and time floor never go back, and a closed session's row
  never changes again.\<close>

theorem session_history_monotone:
  assumes "store_inv en s" "list_all (op_wf en) ops" "u = run_ops en ops s"
  shows "(\<exists>ws. st_ledger u = st_ledger s @ ws) \<and> (\<exists>es. st_events u = st_events s @ es)
    \<and> (\<forall>sid r. session_of s sid = Some r \<longrightarrow> (\<exists>r'. session_of u sid = Some r' \<and> row_later r r'))"
  using run_ops_later [OF assms(2,1)] assms(3) unfolding later_def by blast

lemma session_history_monotone_witness:
  "\<exists>r'. session_of (run_ops demo_env [(Timestamp 60 0, demo_acquire), (Timestamp 1 0, demo_release)]
      (demo_session None)) 5 = Some r' \<and> row_later (demo_row None) r'"
proof -
  have "session_of (demo_session None) 5 = Some (demo_row None)" by (simp add: demo_session_def demo_row_def)
  then show ?thesis
    using session_history_monotone [OF demo_session_inv _ refl,
        of None "[(Timestamp 60 0, demo_acquire), (Timestamp 1 0, demo_release)]"] demo_op_wf by simp
qed

text \<open>Property C14.  The event log can be read completely in pages of any size: following
  \<open>last_position\<close> while \<open>has_more\<close> holds ends, within one more page than there are events, and returns
  exactly the session's events in order.\<close>

theorem event_pages_complete:
  assumes "store_inv en s" "env_laws en" "session_of s sid = Some r"
    and "decode_events en sid (session_events s sid) = Inr es" "length es < 2 ^ 63"
    and "event_read_limit_new limit = Inr n" "length es < fuel"
  shows "read_pages en s sid (sw_public_consumer_key r) n fuel None = Inr es"
proof -
  have "n \<noteq> 0" using assms(6) by (auto simp: event_read_limit_new_def split: if_splits)
  from read_pages_from [OF assms(1-5) this, of 0 fuel] assms(7) show ?thesis by simp
qed

lemma event_pages_complete_witness:
  "read_pages demo_env (demo_session None) 5 ''k'' 2 3 None = Inr []"
proof -
  have "session_of (demo_session None) 5 = Some (demo_row None)" by (simp add: demo_session_def demo_row_def)
  moreover have "decode_events demo_env 5 (session_events (demo_session None) 5) = Inr []"
    by (simp add: session_events_def demo_session_def demo_store_def)
  moreover have "sw_public_consumer_key (demo_row None) = ''k''" by (simp add: demo_row_def)
  moreover have "event_read_limit_new 2 = Inr 2" by (simp add: event_read_limit_new_def)
  ultimately show ?thesis
    using event_pages_complete [OF demo_session_inv demo_env_laws, of None 5 "demo_row None" "[]" 2 2 3] by simp
qed

text \<open>Property C8.  What a session operation told its caller can be read back: at any later time the
  request's stored record holds its caller, action, digest and exactly the outcome that was returned,
  failures included.\<close>

theorem session_request_reads_back:
  assumes "store_inv en s" "op_wf en (t, cmd)" "list_all (op_wf en) ops" "caller_of cmd \<noteq> 0"
    and "session_op en t cmd s = (s1, r)" "s1 \<noteq> s"
  shows "read_request en (run_ops en ops s1) (request_id_of cmd) = Inr (Some
    \<lparr>sr_request_id = request_id_of cmd, sr_caller = caller_of cmd,
     sr_action = command_action (request_command cmd),
     sr_digest = command_digest (en_sha256 en) (request_command cmd), sr_outcome = stored_outcome_of r\<rparr>)"
proof -
  let ?u = "run_ops en ops s1" and ?q = "request_of en (request_command cmd)"
  have wf: "valid_time en t" "env_laws en" "session_command_wf cmd" using assms(2) by (simp_all add: op_wf_def)
  have inv: "store_inv en s1" using session_op_inv [OF assms(1) wf] unfolding assms(5) by simp
  have u: "later s1 ?u" "store_inv en ?u" using run_ops_later run_ops_inv assms(3) inv by blast+
  have d: "sessions_distinct s" using assms(1) by (simp add: store_inv_def)
  from session_op_step [OF assms(5) d wf] assms(6) obtain l where
    l: "session_step en t s ?q l s1" "label_session l = target cmd" "r = label_reply l" "label_fits en t s s1 cmd l"
    by blast
  have "find_row lr_request_id (request_id_of cmd) (st_ledger ?u) = Some (ledger_entry (label_session l) ?q (label_outcome l))"
    using find_recorded [OF l(1) u] by (simp add: request_id_of_def)
  then show ?thesis
    using decode_session_entry [OF session_step_replayable [OF l(1,4,2) assms(1) wf(2,3) u(1)] assms(4) l(4)] l(3)
    by (simp add: read_request_def)
qed

lemma session_request_reads_back_witness:
  "\<exists>s1 :: store. read_request demo_env s1 22 = Inr (Some
    \<lparr>sr_request_id = 22, sr_caller = 8, sr_action = AcquireOwnership,
     sr_digest = command_digest (en_sha256 demo_env) (request_command demo_acquire),
     sr_outcome = StoredSucceeded EffectApplied (OwnershipLeaseResult
       \<lparr>ol_session_id = 5, ol_owner = 8, ol_epoch = 4, ol_expires_at = Timestamp 90 0\<rparr>)\<rparr>)"
proof -
  obtain s1 where op: "session_op demo_env (Timestamp 60 0) demo_acquire (demo_session None)
      = (s1, Inr (LeaseReply (Applied
          \<lparr>ol_session_id = 5, ol_owner = 8, ol_epoch = 4, ol_expires_at = Timestamp 90 0\<rparr>)))"
    "map lr_request_id (st_ledger s1) = [22]"
    using demo_acquire_run by (elim exE conjE) (rule that)
  have "s1 \<noteq> demo_session None" using op(2) by (auto simp: demo_session_def demo_store_def)
  moreover have "request_id_of demo_acquire = 22" "caller_of demo_acquire = 8"
    "command_action (request_command demo_acquire) = AcquireOwnership"
    by (simp_all add: request_id_of_def caller_of_def demo_acquire_def)
  ultimately show ?thesis
    using session_request_reads_back [OF demo_session_inv demo_op_wf(2) _ _ op(1), of "[]"]
    by (intro exI [of _ s1]) (simp add: run_ops_def)
qed


end
