(* ===== verification/Launch_Safety.thy ===== *)
theory Launch_Safety
  imports Launch_Store Commit_Logic Session_Safety
begin

text \<open>
  What the launch operations guarantee together with the session operations of the same store: the
  steps of the launch table and its invariant, the fencing of an expired lease, and the histories that
  interleave both kinds of operation.
\<close>

section \<open>Steps of the launch table\<close>

text \<open>One mutation of a launch: an attachment or a transition, with the next revision.\<close>

definition launch_advance :: "launch_snapshot \<Rightarrow> launch_snapshot \<Rightarrow> bool" where
  "launch_advance w w' \<longleftrightarrow>
    (\<exists>v n. revision_next (ls_revision w) = Some n \<and> w' = v\<lparr>ls_revision := n\<rparr>
      \<and> ((\<exists>c. attach_change c w = Inr v) \<or> (\<exists>c. transition_change c w = Inr v)))"

inductive launch_step :: "launch_snapshot list \<Rightarrow> launch_snapshot list \<Rightarrow> bool" where
  prepare:
    "\<forall>r \<in> set ws. ls_attempt_id r \<noteq> pl_attempt_id c \<Longrightarrow> launch_step ws (ws @ [prepared_launch c])"
| change:
    "w \<in> set ws \<Longrightarrow> launch_advance w w' \<Longrightarrow>
     \<forall>r \<in> set ws. ls_instance_id w' \<noteq> None \<longrightarrow> ls_instance_id r = ls_instance_id w' \<longrightarrow>
       ls_attempt_id r = ls_attempt_id w \<Longrightarrow>
     launch_step ws (map (\<lambda>r. if r = w then w' else r) ws)"

inductive_cases launch_stepE: "launch_step ws ws'"

text \<open>The whole effect of a launch request: its authorisation may raise the time floor, it is recorded
  once, and the table takes at most one step.\<close>

definition launch_effect :: "timestamp \<Rightarrow> 'z store_scheme \<Rightarrow> 'z store_scheme \<Rightarrow> bool" where
  "launch_effect t s s' \<longleftrightarrow> s' = s \<or>
    (\<exists>base sid w ws. (base = s \<or> base = raise_floor sid t s) \<and> fresh_request s (lr_request_id w)
      \<and> (ws = st_launches s \<or> launch_step (st_launches s) ws)
      \<and> s' = add_ledger w (base\<lparr>st_launches := ws\<rparr>))"

lemma launch_effect_refl [simp]: "launch_effect t s s"
  by (simp add: launch_effect_def)

lemma fresh_raise_floor [simp]: "fresh_request (raise_floor sid t s) i = fresh_request s i"
  by (simp add: fresh_request_def)

lemma launch_effect_recorded [simp]:
  "fresh_request s (lr_request_id w) \<Longrightarrow> launch_effect t s (add_ledger w s)"
  "fresh_request s (lr_request_id w) \<Longrightarrow> launch_effect t s (add_ledger w (raise_floor sid t s))"
proof -
  assume f: "fresh_request s (lr_request_id w)"
  have "add_ledger w s = add_ledger w (s\<lparr>st_launches := st_launches s\<rparr>)" by simp
  with f show "launch_effect t s (add_ledger w s)" unfolding launch_effect_def by blast
  have "add_ledger w (raise_floor sid t s)
      = add_ledger w ((raise_floor sid t s)\<lparr>st_launches := st_launches s\<rparr>)"
    by (simp add: raise_floor_def set_session_def split: option.split)
  with f show "launch_effect t s (add_ledger w (raise_floor sid t s))" unfolding launch_effect_def by blast
qed

lemma launch_effect_step:
  "fresh_request s (lr_request_id w) \<Longrightarrow> launch_step (st_launches s) ws \<Longrightarrow>
   launch_effect t s (add_ledger w ((raise_floor sid t s)\<lparr>st_launches := ws\<rparr>))"
  unfolding launch_effect_def by blast

lemma commits_insert_launch [wp_simps]:
  "commits (insert_launch w) Q s \<longleftrightarrow>
    (\<forall>a b. optional_i64 (ls_ownership_epoch w) = Inr a \<longrightarrow> to_i64 (ls_revision w) = Inr b \<longrightarrow>
      \<not> list_ex (\<lambda>r. ls_attempt_id r = ls_attempt_id w
            \<or> (ls_instance_id w \<noteq> None \<and> ls_instance_id r = ls_instance_id w)) (st_launches s) \<longrightarrow>
      Q () (s\<lparr>st_launches := st_launches s @ [w]\<rparr>))"
  by (auto simp: insert_launch_def wp_simps) (auto simp: commits_def split: if_splits)

lemma filter_one_eq: "length (filter P xs) = 1 \<Longrightarrow> x \<in> set xs \<Longrightarrow> P x \<Longrightarrow> y \<in> set xs \<Longrightarrow> P y \<Longrightarrow> y = x"
proof -
  assume "length (filter P xs) = 1" and xy: "x \<in> set xs" "P x" "y \<in> set xs" "P y"
  then obtain z where "filter P xs = [z]" by (auto simp: length_Suc_conv)
  then have "v \<in> set xs \<Longrightarrow> P v \<Longrightarrow> v = z" for v
    by (metis (mono_tags, lifting) empty_iff filter_set list.set(1) mem_Collect_eq set_ConsD set_filter)
  with xy show "y = x" by metis
qed

text \<open>The row an update hits is the row the operation has read.\<close>

definition launch_columns :: "launch_snapshot \<Rightarrow> launch_snapshot \<Rightarrow> launch_snapshot" where
  "launch_columns v r =
    r\<lparr>ls_instance_id := ls_instance_id v, ls_state := ls_state v, ls_revision := ls_revision v,
      ls_evidence := ls_evidence v, ls_cleanup_reason := ls_cleanup_reason v\<rparr>"

lemma update_launch_commit:
  assumes "update_launch v n s = (Inr u, t)"
  shows "length (filter (\<lambda>r. ls_attempt_id r = ls_attempt_id v \<and> ls_revision r = n) (st_launches s)) = 1"
    "t = s\<lparr>st_launches := map (\<lambda>r. if ls_attempt_id r = ls_attempt_id v \<and> ls_revision r = n
       then launch_columns v r else r) (st_launches s)\<rparr>"
  using assms by (auto simp: update_launch_def Let_def commit_simps launch_columns_def split: if_splits)

lemma commits_update_launch:
  assumes "w \<in> set (st_launches s)" "ls_attempt_id v = ls_attempt_id w" "ls_revision w = n"
    and "launch_columns v w = v"
    and "Q () (s\<lparr>st_launches := map (\<lambda>r. if r = w then v else r) (st_launches s)\<rparr>)"
  shows "commits (update_launch v n) Q s"
  unfolding commits_def
proof (intro allI impI)
  fix u t assume commit: "update_launch v n s = (Inr u, t)"
  have "map (\<lambda>r. if ls_attempt_id r = ls_attempt_id v \<and> ls_revision r = n
       then launch_columns v r else r) (st_launches s) = map (\<lambda>r. if r = w then v else r) (st_launches s)"
    using filter_one_eq [OF update_launch_commit(1) [OF commit] assms(1)] assms(2-4)
    by (intro map_cong) auto
  with update_launch_commit(2) [OF commit] assms(5) show "Q u t" by simp
qed

section \<open>The operations take steps\<close>

lemma launch_columns_changed:
  assumes "(\<exists>c. attach_change c w = Inr v) \<or> (\<exists>c. transition_change c w = Inr v)"
  shows "ls_attempt_id v = ls_attempt_id w" "ls_revision v = ls_revision w"
    "launch_columns (v\<lparr>ls_revision := n\<rparr>) w = v\<lparr>ls_revision := n\<rparr>"
  using assms by (auto simp: attach_change_def transition_change_def launch_columns_def split: if_splits)

lemma load_launch_in_row:
  "load_launch_in s aid = Inr (Some w) \<Longrightarrow> w \<in> set (st_launches s) \<and> ls_attempt_id w = aid"
  by (auto simp: load_launch_in_def decode_launch_def outcome_simps rows_simps split: option.splits
      dest: find_row_Some_mem find_row_Some_key)

lemma fresh_request_launches [simp]: "fresh_request (s\<lparr>st_launches := ws\<rparr>) i = fresh_request s i"
  by (simp add: fresh_request_def)

lemma prepared_launch_simps [simp]:
  "ls_attempt_id (prepared_launch c) = pl_attempt_id c" "ls_instance_id (prepared_launch c) = None"
  by (simp_all add: prepared_launch_def)

lemma prepare_launch_effect: "commits (prepare_launch en t c) (\<lambda>_. launch_effect t s) s"
proof -
  have new: "launch_effect t s (add_ledger w ((raise_floor sid t s)\<lparr>st_launches := st_launches s @ [prepared_launch c]\<rparr>))"
    if "fresh_request s (lr_request_id w)"
      "\<not> list_ex (\<lambda>r. ls_attempt_id r = pl_attempt_id c) (st_launches s)" for w sid
    using that by (intro launch_effect_step launch_step.prepare) (auto simp: list_ex_iff)
  show ?thesis
    unfolding prepare_launch_def Let_def
    by (auto simp: wp_simps intro!: commits_authorize_launch new split: option.split sum.split)
qed

lemma mutate_launch_effect:
  assumes "\<And>w v. apply_change w = Inr v \<Longrightarrow> (\<exists>c. attach_change c w = Inr v) \<or> (\<exists>c. transition_change c w = Inr v)"
    and "command_context request = context"
  shows "commits (mutate_launch en t sid context epoch aid n request apply_change) (\<lambda>_. launch_effect t s) s"
proof -
  have step: "launch_effect t s (add_ledger e ((raise_floor i t s)\<lparr>st_launches :=
      map (\<lambda>r. if r = w then v\<lparr>ls_revision := k\<rparr> else r) (st_launches s)\<rparr>))"
    if "fresh_request s (lr_request_id e)" "w \<in> set (st_launches s)" "apply_change w = Inr v"
      "\<not> (case ls_instance_id v of None \<Rightarrow> False
         | Some j \<Rightarrow> list_ex (\<lambda>r. ls_instance_id r = Some j \<and> ls_attempt_id r \<noteq> ls_attempt_id w) (st_launches s))"
      "revision_next (ls_revision v) = Some k" for e w v k i
    using that launch_columns_changed [OF assms(1) [OF that(3)]] assms(1) [OF that(3)]
    by (intro launch_effect_step launch_step.change)
      (auto simp: launch_advance_def list_ex_iff split: option.splits)
  have update: "commits (update_launch (v\<lparr>ls_revision := k\<rparr>) (ls_revision w))
      (\<lambda>_. commits (io_bind (record_bytes i q eff val) (\<lambda>_. finish_with res))
        (\<lambda>_. launch_effect t s)) (raise_floor i t s)"
    if "w \<in> set (st_launches s)" "apply_change w = Inr v"
      "\<not> (case ls_instance_id v of None \<Rightarrow> False
         | Some j \<Rightarrow> list_ex (\<lambda>r. ls_instance_id r = Some j \<and> ls_attempt_id r \<noteq> ls_attempt_id w) (st_launches s))"
      "aid = ls_attempt_id w" "revision_next (ls_revision v) = Some k" for w v k q eff val res i
    using that launch_columns_changed [OF assms(1) [OF that(2)]] step [OF _ that(1,2,3,5)]
    by (intro commits_update_launch [where w = w]) (simp_all add: wp_simps)
  have load: "w \<in> set (st_launches s) \<and> aid = ls_attempt_id w"
    if "load_launch_in (raise_floor i t s) aid = Inr (Some w)" for w i
    using load_launch_in_row [OF that] by simp
  show ?thesis
    unfolding mutate_launch_def Let_def
    by (auto simp: wp_simps outcome_simps assms(2) intro!: commits_authorize_launch split: option.split sum.split)
      (drule load, rule update; simp)+
qed

section \<open>The invariant of the launch table\<close>

text \<open>The state of a launch determines which of its columns are present.\<close>

definition evidence_complete :: "process_evidence \<Rightarrow> bool" where
  "evidence_complete e \<longleftrightarrow>
    pe_process_id e \<noteq> 0 \<and> pe_process_group_id e \<noteq> 0 \<and> pe_parent_process_id e \<noteq> 0
    \<and> pe_creation_marker e \<noteq> 0 \<and> pe_executable_identity e \<noteq> 0"

definition launch_wf :: "launch_snapshot \<Rightarrow> bool" where
  "launch_wf w \<longleftrightarrow>
    ls_revision w \<noteq> 0 \<and> (ls_instance_id w = None \<longleftrightarrow> ls_evidence w = None)
    \<and> (\<forall>e. ls_evidence w = Some e \<longrightarrow> evidence_complete e)
    \<and> (ls_cleanup_reason w \<noteq> None \<longleftrightarrow> ls_state w = LaunchCleanupRequired)
    \<and> (ls_state w = Prepared \<longrightarrow> ls_instance_id w = None)
    \<and> (ls_state w \<in> {Attached, Ready, Stopping} \<longrightarrow> ls_instance_id w \<noteq> None)
    \<and> (ls_state w = Prepared \<longleftrightarrow> ls_revision w = revision_initial)"

definition launch_inv :: "launch_snapshot list \<Rightarrow> bool" where
  "launch_inv ws \<longleftrightarrow>
    distinct (map ls_attempt_id ws) \<and> (\<forall>w \<in> set ws. launch_wf w)
    \<and> (\<forall>w \<in> set ws. \<forall>q \<in> set ws. ls_instance_id w \<noteq> None \<longrightarrow> ls_instance_id q = ls_instance_id w \<longrightarrow> q = w)"

primrec launch_rank :: "launch_state \<Rightarrow> nat" where
  "launch_rank Prepared = 0"
| "launch_rank Attached = 1"
| "launch_rank Ready = 2"
| "launch_rank Stopping = 3"
| "launch_rank LaunchCleanupRequired = 4"
| "launch_rank Stopped = 5"

text \<open>How a launch may change: its identity stays, its state and revision do not go back, an attached
  instance and its evidence stay, and a stopped launch is final.\<close>

definition launch_later :: "launch_snapshot \<Rightarrow> launch_snapshot \<Rightarrow> bool" where
  "launch_later w w' \<longleftrightarrow>
    (ls_session_id w', ls_ownership_epoch w', ls_participant_id w', ls_driver_id w',
     ls_driver_configuration_digest w', ls_attempt_id w', ls_credential_digest w')
    = (ls_session_id w, ls_ownership_epoch w, ls_participant_id w, ls_driver_id w,
       ls_driver_configuration_digest w, ls_attempt_id w, ls_credential_digest w)
    \<and> ls_revision w \<le> ls_revision w' \<and> launch_rank (ls_state w) \<le> launch_rank (ls_state w')
    \<and> (ls_instance_id w \<noteq> None \<longrightarrow> ls_instance_id w' = ls_instance_id w \<and> ls_evidence w' = ls_evidence w)
    \<and> (ls_state w = Stopped \<longrightarrow> w' = w)"

definition launches_later :: "launch_snapshot list \<Rightarrow> launch_snapshot list \<Rightarrow> bool" where
  "launches_later ws ws' \<longleftrightarrow> (\<exists>us vs. ws' = us @ vs \<and> list_all2 launch_later ws us)"

lemma launch_later_refl [simp]: "launch_later w w"
  by (simp add: launch_later_def)

lemma launch_later_trans: "launch_later u v \<Longrightarrow> launch_later v w \<Longrightarrow> launch_later u w"
  by (auto simp: launch_later_def)

lemma launches_later_refl [simp]: "launches_later ws ws"
  unfolding launches_later_def by (intro exI [of _ ws] exI [of _ "[]"]) (simp add: list_all2_refl)

lemma launches_later_trans:
  assumes "launches_later ws us" "launches_later us vs"
  shows "launches_later ws vs"
proof -
  obtain a b where ab: "us = a @ b" "list_all2 launch_later ws a"
    using assms(1) by (auto simp: launches_later_def)
  obtain c d where cd: "vs = c @ d" "list_all2 launch_later us c"
    using assms(2) by (auto simp: launches_later_def)
  then obtain c1 c2 where c: "c = c1 @ c2" "list_all2 launch_later a c1"
    using ab(1) by (auto simp: list_all2_append1)
  have "list_all2 launch_later ws c1"
    using ab(2) c(2) by (rule list_all2_trans [rotated]) (rule launch_later_trans)
  with cd(1) c(1) show ?thesis unfolding launches_later_def by auto
qed

lemma launch_wf_evidence:
  assumes "launch_wf w"
  shows "ls_state w = Attached \<Longrightarrow> \<exists>e. ls_evidence w = Some e" "ls_state w = Ready \<Longrightarrow> \<exists>e. ls_evidence w = Some e"
    "ls_state w = Stopping \<Longrightarrow> \<exists>e. ls_evidence w = Some e"
  using assms by (cases "ls_evidence w"; simp add: launch_wf_def)+

lemma launch_advance_wf:
  assumes "launch_advance w w'" "launch_wf w"
  shows "launch_wf w'" "launch_later w w'"
    "ls_instance_id w \<noteq> None \<Longrightarrow> ls_instance_id w' = ls_instance_id w"
proof -
  obtain v n where v: "revision_next (ls_revision w) = Some n" "w' = v\<lparr>ls_revision := n\<rparr>"
    "(\<exists>c. attach_change c w = Inr v) \<or> (\<exists>c. transition_change c w = Inr v)"
    using assms(1) by (auto simp: launch_advance_def)
  have n: "ls_revision w \<le> n" "n \<noteq> revision_initial" "n \<noteq> 0"
    using revision_next_less [OF v(1)] revision_next_not_initial [OF v(1)] revision_next_nonzero [OF v(1)] assms(2)
    by (auto simp: launch_wf_def)
  have "launch_wf w' \<and> launch_later w w' \<and> (ls_instance_id w \<noteq> None \<longrightarrow> ls_instance_id w' = ls_instance_id w)"
    using v(3)
  proof (elim disjE exE)
    fix c assume c: "attach_change c w = Inr v"
    then have "w' = w\<lparr>ls_instance_id := Some (al_instance_id c), ls_evidence := Some (al_evidence c),
        ls_state := Attached, ls_revision := n\<rparr>" "ls_state w = Prepared" "ls_instance_id w = None"
      "evidence_complete (al_evidence c)"
      using v(2) by (auto simp: attach_change_def evidence_complete_def split: if_splits)
    then show ?thesis using assms(2) n by (simp add: launch_wf_def launch_later_def)
  next
    fix c assume "transition_change c w = Inr v"
    then have eq: "w' = w\<lparr>ls_state := tl_target c, ls_cleanup_reason := tl_cleanup_reason c, ls_revision := n\<rparr>"
      and valid: "valid_launch_transition (ls_state w) (tl_target c)"
      and reason: "tl_target c = LaunchCleanupRequired \<longleftrightarrow> tl_cleanup_reason c \<noteq> None"
      using v(2) by (auto simp: transition_change_def split: if_splits)
    have "ls_state w \<noteq> Stopped \<and> tl_target c \<noteq> Prepared \<and> launch_rank (ls_state w) \<le> launch_rank (tl_target c)"
      using valid by (auto simp: valid_launch_transition_def)
    moreover have "tl_target c \<in> {Attached, Ready, Stopping} \<longrightarrow> (\<exists>e. ls_evidence w = Some e)"
      using valid launch_wf_evidence [OF assms(2)] by (auto simp: valid_launch_transition_def)
    ultimately show ?thesis
      using assms(2) n reason unfolding eq launch_wf_def launch_later_def by simp
  qed
  then show "launch_wf w'" "launch_later w w'"
    "ls_instance_id w \<noteq> None \<Longrightarrow> ls_instance_id w' = ls_instance_id w" by blast+
qed

lemma launch_inv_wf: "launch_inv ws \<Longrightarrow> w \<in> set ws \<Longrightarrow> launch_wf w"
  by (simp only: launch_inv_def)

lemma launch_step_inv:
  assumes "launch_step ws ws'" "launch_inv ws"
  shows "launch_inv ws'"
  using assms
proof (cases rule: launch_step.cases)
  case (prepare c)
  have "launch_wf (prepared_launch c)" by (simp add: launch_wf_def prepared_launch_def revision_initial_def)
  then show ?thesis using assms(2) prepare by (auto simp: launch_inv_def)
next
  case (change w w')
  have wf: "launch_wf w" using assms(2) change(2) by (simp add: launch_inv_def)
  note w' = launch_advance_wf [OF change(3) wf]
  have same: "ls_attempt_id w' = ls_attempt_id w" using w'(2) by (simp add: launch_later_def)
  then have "map ls_attempt_id ws' = map ls_attempt_id ws" using change(1) by simp
  then have "distinct (map ls_attempt_id ws')" using assms(2) by (simp only: launch_inv_def)
  moreover have unique: "r = w" if "r \<in> set ws" "ls_attempt_id r = ls_attempt_id w" for r
    using assms(2) that change(2) by (auto simp: launch_inv_def distinct_map dest: inj_onD)
  moreover have "q = r" if "r \<in> set ws'" "q \<in> set ws'" "ls_instance_id r \<noteq> None" "ls_instance_id q = ls_instance_id r"
    for q r
    using that change(1,4) unique assms(2) by (auto simp: launch_inv_def split: if_splits)
  moreover have "r = w' \<or> r \<in> set ws" if "r \<in> set ws'" for r using that change(1) by auto
  then have "\<forall>r \<in> set ws'. launch_wf r" using launch_inv_wf [OF assms(2)] w'(1) by metis
  ultimately show ?thesis unfolding launch_inv_def by blast
qed

lemma launch_step_later:
  assumes "launch_step ws ws'" "launch_inv ws"
  shows "launches_later ws ws'"
  using assms
proof (cases rule: launch_step.cases)
  case (prepare c)
  then show ?thesis unfolding launches_later_def
    by (intro exI [of _ ws] exI [of _ "[prepared_launch c]"]) (simp add: list_all2_refl)
next
  case (change w w')
  have "launch_later w w'"
    using launch_advance_wf(2) [OF change(3)] assms(2) change(2) by (simp add: launch_inv_def)
  then have "list_all2 launch_later ws ws'"
    unfolding change(1) by (auto simp: list_all2_conv_all_nth)
  then show ?thesis unfolding launches_later_def by (intro exI [of _ ws'] exI [of _ "[]"]) simp
qed

section \<open>Lapsed leases\<close>

text \<open>The lease of an epoch has lapsed when its end is not after the time floor, or it was given up.\<close>

definition row_lapsed :: "session_table_row \<Rightarrow> fencing_epoch \<Rightarrow> bool" where
  "row_lapsed r e \<longleftrightarrow>
    e \<le> sw_epoch_high_water r
    \<and> (sw_owner_epoch r = Some e \<longrightarrow>
        sw_owner_host r = None \<or> (\<exists>x. sw_owner_expires_at r = Some x \<and> x \<le> sw_time_floor r))"

definition lapsed :: "'z store_scheme \<Rightarrow> session_id \<Rightarrow> fencing_epoch \<Rightarrow> bool" where
  "lapsed s sid e \<longleftrightarrow> (\<exists>r. session_of s sid = Some r \<and> row_lapsed r e)"

lemma row_lapsed_not_held: "row_lapsed r e \<Longrightarrow> \<not> held r h e (max (sw_time_floor r) t)"
  by (auto simp: row_lapsed_def held_def)

lemma row_lapsed_floor: "row_lapsed r e \<Longrightarrow> sw_time_floor r \<le> t \<Longrightarrow> row_lapsed (r\<lparr>sw_time_floor := t\<rparr>) e"
  by (auto simp: row_lapsed_def)

lemma session_step_lapsed:
  assumes "session_step en t s q l s'" "session_of s sid = Some r" "row_lapsed r e"
  shows "lapsed s' sid e"
proof (cases "label_session l = sid")
  case False
  then show ?thesis using session_step_other [OF assms(1,2)] assms(3) unfolding lapsed_def by blast
next
  case True
  have updated: "lapsed (add_ledger w u) sid e \<and> lapsed (add_ledger w (add_event v u)) sid e"
    if "u = set_session sid f s" "row_lapsed (f r) e" "\<And>r. sw_session_id (f r) = sw_session_id r" for w v u f
  proof -
    have "session_of u sid = Some (f r)"
      unfolding that(1) using assms(2) that(3) by (subst session_of_set_session) simp_all
    with that(2) show ?thesis by (simp add: lapsed_def)
  qed
  from assms(1) True show ?thesis
  proof (cases rule: session_step.cases)
    case (refuse_late i r' now err)
    then show ?thesis using True assms(2,3)
      updated [of _ "\<lambda>r. r\<lparr>sw_time_floor := now\<rparr>"] row_lapsed_floor [OF assms(3), of now] by simp
  next
    case (close i r' now h' ep' revno f e')
    then have "r' = r" "i = sid" using True assms(2) session_of_in [OF close(4)] by simp_all
    moreover have "row_lapsed (f r) e" using assms(3) unfolding close(10) by (simp add: row_lapsed_def)
    ultimately show ?thesis using close updated [of _ f] by simp
  next
    case (acquire i r' now ep' h' y revno lease f e')
    then have "r' = r" "i = sid" using True assms(2) by simp_all
    moreover have "e < ep'" using assms(3) acquire(9) \<open>r' = r\<close>
      by (simp add: row_lapsed_def word_le_nat_alt word_less_nat_alt)
    then have "row_lapsed (f r) e" unfolding acquire(15) by (auto simp: row_lapsed_def)
    ultimately show ?thesis using acquire updated [of _ f] by simp
  next
    case (renew i r' now h' ep' y lease f)
    then have r: "r' = r" "i = sid" using True assms(2) by simp_all
    then have "ep' \<noteq> e" using renew(6,8) row_lapsed_not_held [OF assms(3)] by auto
    then have "row_lapsed (f r) e" using assms(3) renew(8) r unfolding renew(12) by (auto simp: row_lapsed_def held_def)
    then show ?thesis using renew r updated [of _ f] by simp
  next
    case (release i r' now h' ep' revno f e')
    then have "r' = r" "i = sid" using True assms(2) by simp_all
    moreover have "row_lapsed (f r) e" using assms(3) unfolding release(10) by (simp add: row_lapsed_def)
    ultimately show ?thesis using release updated [of _ f] by simp
  next
    case (open_new c i row k now e')
    then show ?thesis using True assms(2) by (simp add: opened_row_def)
  qed (use assms(2,3) in \<open>auto simp: lapsed_def\<close>)
qed


section \<open>Histories of session and launch operations\<close>

datatype host_command =
    SessionRequest session_command
  | PrepareRequest prepare_launch_cmd
  | AttachRequest attach_launch_cmd
  | TransitionRequest transition_launch_cmd

fun host_step :: "env \<Rightarrow> timestamp \<times> host_command \<Rightarrow> 'w work_store_scheme \<Rightarrow> 'w work_store_scheme" where
  "host_step en (t, SessionRequest c) s = op_step en (t, c) s"
| "host_step en (t, PrepareRequest c) s = fst (run_transaction (prepare_launch en t c) s)"
| "host_step en (t, AttachRequest c) s = fst (run_transaction (attach_launch en t c) s)"
| "host_step en (t, TransitionRequest c) s = fst (run_transaction (transition_launch en t c) s)"

fun host_wf :: "env \<Rightarrow> timestamp \<times> host_command \<Rightarrow> bool" where
  "host_wf en (t, SessionRequest c) \<longleftrightarrow> op_wf en (t, c)"
| "host_wf en (t, _) \<longleftrightarrow> env_laws en \<and> valid_time en t"

definition host_inv :: "env \<Rightarrow> 'z store_scheme \<Rightarrow> bool" where
  "host_inv en s \<longleftrightarrow> store_inv en s \<and> launch_inv (st_launches s)"

definition host_later :: "'z store_scheme \<Rightarrow> 'z store_scheme \<Rightarrow> bool" where
  "host_later s s' \<longleftrightarrow>
    later s s' \<and> launches_later (st_launches s) (st_launches s') \<and> (\<forall>sid e. lapsed s sid e \<longrightarrow> lapsed s' sid e)"

lemma host_later_refl [simp]: "host_later s s"
  by (simp add: host_later_def)

lemma host_later_trans: "host_later s t \<Longrightarrow> host_later t u \<Longrightarrow> host_later s u"
  unfolding host_later_def using later_trans launches_later_trans by blast

lemma store_inv_launches [simp]: "store_inv en (s\<lparr>st_launches := ws\<rparr>) = store_inv en s"
  by (simp add: store_inv_def sessions_distinct_def session_events_def events_bounded_def keys_exclusive_def
      manifests_owned_def)

lemma later_launches [simp]: "later s (t\<lparr>st_launches := ws\<rparr>) = later s t"
  by (simp add: later_def session_manifest_rows_def)

lemma lapsed_tables [simp]:
  "lapsed (s\<lparr>st_launches := ws\<rparr>) sid e = lapsed s sid e" "lapsed (add_ledger w s) sid e = lapsed s sid e"
  "lapsed (add_event v s) sid e = lapsed s sid e"
  by (simp_all add: lapsed_def)

lemma store_inv_raise_floor:
  assumes "store_inv en s" "valid_time en t"
  shows "store_inv en (raise_floor sid t s)"
proof (cases "session_of s sid")
  case (Some r)
  have "row_wf en r" using store_inv_row [OF assms(1) Some] .
  moreover from this have "valid_time en (sw_time_floor r)" by (simp add: row_wf_def)
  ultimately have "row_wf en (r\<lparr>sw_time_floor := max (sw_time_floor r) t\<rparr>)"
    using assms(2) by (intro row_wf_open_floor valid_time_max) simp_all
  then show ?thesis
    using store_inv_set_session [OF assms(1) Some, of "\<lambda>q. q\<lparr>sw_time_floor := max (sw_time_floor r) t\<rparr>"] assms(1) Some
    by (simp add: raise_floor_def)
qed (use assms(1) in \<open>simp add: raise_floor_def\<close>)

lemma lapsed_raise_floor: "lapsed s i e \<Longrightarrow> lapsed (raise_floor sid t s) i e"
proof (cases "session_of s sid")
  case (Some r)
  assume "lapsed s i e"
  then obtain q where q: "session_of s i = Some q" "row_lapsed q e" by (auto simp: lapsed_def)
  show ?thesis
  proof (cases "sw_closed r")
    case False
    then show ?thesis
      using raise_floor_row [OF Some False, of i t] q Some row_lapsed_floor [OF q(2), of "max (sw_time_floor q) t"]
      by (auto simp: lapsed_def)
  qed (use q Some in \<open>auto simp: lapsed_def raise_floor_def\<close>)
qed (simp add: raise_floor_def)

lemma launch_effect_host:
  assumes "launch_effect t s s'" "host_inv en s" "valid_time en t"
  shows "host_inv en s' \<and> host_later s s'"
proof (cases "s' = s")
  case False
  then obtain base sid w ws where base: "base = s \<or> base = raise_floor sid t s"
    and w: "fresh_request s (lr_request_id w)" and ws: "ws = st_launches s \<or> launch_step (st_launches s) ws"
    and s': "s' = add_ledger w (base\<lparr>st_launches := ws\<rparr>)"
    using assms(1) by (auto simp: launch_effect_def)
  have inv: "store_inv en s" "launch_inv (st_launches s)" using assms(2) by (simp_all add: host_inv_def)
  have b: "store_inv en base" "later s base" "fresh_request base (lr_request_id w)"
    "\<forall>i e. lapsed s i e \<longrightarrow> lapsed base i e"
    using base inv(1) assms(3) w store_inv_raise_floor later_raise_floor lapsed_raise_floor by auto
  have "launch_inv ws" "launches_later (st_launches s) ws"
    using ws inv(2) launch_step_inv launch_step_later by auto
  then show ?thesis
    using b store_inv_add_ledger [of en "base\<lparr>st_launches := ws\<rparr>" w] later_logged(1) [of s "base\<lparr>st_launches := ws\<rparr>" w]
    by (simp add: host_inv_def host_later_def s')
qed (use assms(2) in simp)

lemma session_step_launches: "session_step en t s q l s' \<Longrightarrow> st_launches s' = st_launches s"
  by (induction rule: session_step.induct) simp_all

lemma session_op_host:
  assumes "op_wf en (t, cmd)" "host_inv en s"
  shows "host_inv en (op_step en (t, cmd) s) \<and> host_later s (op_step en (t, cmd) s)"
proof -
  obtain s' res where op: "session_op en t cmd s = (s', res)" by fastforce
  have inv: "store_inv en s" "sessions_distinct s" using assms(2) by (simp_all add: host_inv_def store_inv_def)
  have wf: "valid_time en t" "env_laws en" "session_command_wf cmd" using assms(1) by (simp_all add: op_wf_def)
  have "st_launches s' = st_launches s \<and> (\<forall>sid e. lapsed s sid e \<longrightarrow> lapsed s' sid e)"
    using session_op_step [OF op inv(2) wf] session_step_launches session_step_lapsed
    unfolding lapsed_def by blast
  then show ?thesis
    using op session_op_inv [OF inv(1) wf] session_op_later [OF inv(1) wf] assms(2)
    by (simp add: op_step_def host_inv_def host_later_def)
qed

lemma launch_transaction_host:
  assumes "commits m (\<lambda>_. launch_effect t s) s" "host_inv en s" "valid_time en t"
  shows "host_inv en (fst (run_transaction m s)) \<and> host_later s (fst (run_transaction m s))"
  by (rule launch_effect_host [OF commits_transaction_state [OF assms(1) launch_effect_refl] assms(2,3)])

lemma host_command_step:
  assumes "host_wf en a" "host_inv en s"
  shows "host_inv en (host_step en a s)" "host_later s (host_step en a s)"
proof -
  obtain t cmd where a: "a = (t, cmd)" by fastforce
  note host = launch_transaction_host [OF _ assms(2), of _ t]
  have "host_inv en (host_step en a s) \<and> host_later s (host_step en a s)"
  proof (cases cmd)
    case (SessionRequest c)
    then show ?thesis using session_op_host [of en t c s] assms a by simp
  next
    case (PrepareRequest c)
    then show ?thesis using host [OF prepare_launch_effect] assms(1) a by simp
  next
    case (AttachRequest c)
    have "commits (attach_launch en t c) (\<lambda>_. launch_effect t s) s"
      unfolding attach_launch_def by (intro mutate_launch_effect) auto
    from host [OF this] AttachRequest assms(1) a show ?thesis by simp
  next
    case (TransitionRequest c)
    have "commits (transition_launch en t c) (\<lambda>_. launch_effect t s) s"
      unfolding transition_launch_def by (intro mutate_launch_effect) auto
    from host [OF this] TransitionRequest assms(1) a show ?thesis by simp
  qed
  then show "host_inv en (host_step en a s)" "host_later s (host_step en a s)" by simp_all
qed

interpretation host_history: guarded_run "host_step en" "host_wf en" "host_inv en" host_later for en
  by unfold_locales (simp_all add: host_command_step, rule host_later_trans)


section \<open>Refusal of a lapsed lease\<close>

lemma lapsed_require_owner:
  assumes "decode_session en r = Inr v" "row_lapsed r e" "sw_time_floor r \<le> t"
  shows "\<exists>err. require_owner (row_view r) h e t = Inl err"
proof (cases "require_owner (row_view r) h e t")
  case (Inr u)
  then have "held r h e (max (sw_time_floor r) t)"
    using require_owner_held [OF Inr assms(1)] assms(3) by (simp add: max_def)
  then show ?thesis using row_lapsed_not_held [OF assms(2)] by blast
qed simp

lemma open_session_decoded:
  assumes "store_inv en s" "env_laws en" "session_of s sid = Some r"
  shows "decode_session en r = Inr (row_view r)" "load_session_in en s sid = Inr (Some (row_view r))"
  using decode_session_wf [OF assms(2) store_inv_row [OF assms(1,3)]] assms(3)
  by (simp_all add: load_session_in_def)

lemma lapsed_authorize:
  assumes "store_inv en s" "env_laws en" "lapsed s sid e"
  shows "\<exists>err. fst (authorize_launch en sid ctx e a t s) = Inr (Inl err)"
proof -
  obtain r where r: "session_of s sid = Some r" "row_lapsed r e" using assms(3) by (auto simp: lapsed_def)
  note d = open_session_decoded [OF assms(1,2) r(1)]
  have "\<exists>err. require_owner (row_view r) (rc_caller ctx) e (max (sw_time_floor r) t) = Inl err"
    by (rule lapsed_require_owner [OF d(1) r(2)]) simp
  then show ?thesis
    by (auto simp: authorize_launch_def require_open_session_def d advance_time_floor_def io_bind_def Let_def
        update_session_def)
qed

lemma lapsed_seal:
  assumes "store_inv en s" "env_laws en" "lapsed s sid e"
  shows "\<exists>err. snd (run_transaction (seal_expiry en sid h e t) s) = Inl err"
proof -
  obtain r where r: "session_of s sid = Some r" "row_lapsed r e" using assms(3) by (auto simp: lapsed_def)
  note d = open_session_decoded [OF assms(1,2) r(1)]
  have "\<exists>err. require_owner (row_view r) h e (max (sw_time_floor r) t) = Inl err"
    by (rule lapsed_require_owner [OF d(1) r(2)]) simp
  then show ?thesis
    by (auto simp: seal_expiry_def run_transaction_def require_open_session_def d advance_time_floor_def
        io_bind_def io_lift_def Let_def update_session_def)
qed

lemma lapsed_validate:
  assumes "store_inv en u" "store_inv en v" "env_laws en" "lapsed u sid e" "lapsed v sid e"
  shows "\<exists>err. snd (snd (validate_launch_authority en now fl sid h e u v)) = Inl err"
proof -
  obtain r where r: "session_of u sid = Some r" "row_lapsed r e" using assms(4) by (auto simp: lapsed_def)
  note d = open_session_decoded [OF assms(1,3) r(1)]
  define eff where "eff = (case fl sid of None \<Rightarrow> max (sw_time_floor r) now
    | Some floor \<Rightarrow> max floor (max (sw_time_floor r) now))"
  have "sw_time_floor r \<le> eff" by (auto simp: eff_def le_max_iff_disj split: option.split)
  then obtain err where "require_owner (row_view r) h e eff = Inl err"
    using lapsed_require_owner [OF d(1) r(2)] by blast
  then show ?thesis
    using lapsed_seal [OF assms(2,3,5), of h eff]
    by (auto simp: validate_launch_authority_def d Let_def simp flip: eff_def split: store_error.split)
qed

text \<open>An answer that the lease has expired is given only after the time floor of the session was raised
  past the end of the lease.\<close>

lemma sealed_lapsed:
  assumes "store_inv en s" "env_laws en" "run_transaction (seal_expiry en sid h e t) s = (s', Inl (OwnershipExpired i k))"
  shows "s' = raise_floor sid t s" "lapsed s' sid e"
proof -
  obtain r where r: "session_of s sid = Some r"
    using assms(3) by (cases "session_of s sid")
      (auto simp: seal_expiry_def run_transaction_def require_open_session_def load_session_in_def io_bind_def
        io_lift_def)
  note d = open_session_decoded [OF assms(1,2) r]
  have eq: "\<not> sw_closed r" "s' = raise_floor sid t s"
    "require_owner (row_view r) h e (max (sw_time_floor r) t) = Inl (OwnershipExpired i k)"
    using assms(3) r
    by (auto simp: seal_expiry_def run_transaction_def require_open_session_def d io_bind_def io_lift_def
        advance_time_floor_run raise_floor_def split: if_splits)
  have wf: "row_wf en r" using store_inv_row [OF assms(1) r] .
  obtain l where l: "row_owner r = Some l" "ol_epoch l = e" "\<not> is_effective_at l (max (sw_time_floor r) t)"
    using eq(3) by (auto simp: require_owner_def split: option.splits if_splits)
  then have "row_lapsed (r\<lparr>sw_time_floor := max (sw_time_floor r) t\<rparr>) e"
    using wf by (auto simp: row_lapsed_def row_owner_def row_wf_def is_effective_at_def not_less le_max_iff_disj)
  then show "s' = raise_floor sid t s" "lapsed s' sid e"
    using eq(2) raise_floor_row [OF r eq(1), of sid t] by (simp_all add: lapsed_def)
qed

lemma validate_expired:
  assumes "store_inv en s_read" "env_laws en"
    and "validate_launch_authority en now floors sid host epoch s_read s = (floors', s', Inl (OwnershipExpired i k))"
  obtains t where "run_transaction (seal_expiry en sid host epoch t) s = (s', Inl (OwnershipExpired i k))"
    "\<exists>r. session_of s_read sid = Some r \<and> t = (case floors sid of None \<Rightarrow> max (sw_time_floor r) now
      | Some floor \<Rightarrow> max floor (max (sw_time_floor r) now))"
proof -
  obtain r where r: "session_of s_read sid = Some r"
    using assms(3) by (cases "session_of s_read sid") (auto simp: validate_launch_authority_def load_session_in_def)
  note d = open_session_decoded [OF assms(1,2) r]
  define t where "t = (case floors sid of None \<Rightarrow> max (sw_time_floor r) now
    | Some floor \<Rightarrow> max floor (max (sw_time_floor r) now))"
  have "run_transaction (seal_expiry en sid host epoch t) s = (s', Inl (OwnershipExpired i k))"
    using assms(3) by (auto simp: validate_launch_authority_def d Let_def simp flip: t_def
        split: if_splits sum.splits store_error.splits)
  then show ?thesis using that r t_def by blast
qed


section \<open>Properties\<close>

text \<open>Property C9.  Expiry is final: once the authority check of a host has answered that its lease
  expired, no later history of session and launch operations of any hosts at any clock readings, and no
  restart that loses the in-memory floors, lets that epoch pass the check or authorise a launch request
  again.\<close>

theorem expired_authority_sealed:
  assumes "host_inv en s" "store_inv en s_read" "env_laws en" "valid_time en now"
    and "\<forall>i t. floors i = Some t \<longrightarrow> valid_time en t"
    and "validate_launch_authority en now floors sid host epoch s_read s = (floors', s', Inl (OwnershipExpired i k))"
    and "list_all (host_wf en) ops" "u = fold (host_step en) ops s'"
    and "list_all (host_wf en) ops'" "v = fold (host_step en) ops' u"
  shows "(\<exists>err. snd (snd (validate_launch_authority en now' floors2 sid h epoch u v)) = Inl err)
    \<and> (\<exists>err. fst (authorize_launch en sid ctx epoch a t u) = Inr (Inl err))"
proof -
  obtain w where w: "run_transaction (seal_expiry en sid host epoch w) s = (s', Inl (OwnershipExpired i k))"
    "\<exists>r. session_of s_read sid = Some r \<and> w = (case floors sid of None \<Rightarrow> max (sw_time_floor r) now
      | Some floor \<Rightarrow> max floor (max (sw_time_floor r) now))"
    using validate_expired [OF assms(2,3,6)] .
  have "valid_time en w"
    using w(2) store_inv_row [OF assms(2)] assms(4,5)
    by (auto simp: row_wf_def intro!: valid_time_max split: option.split)
  moreover have s: "store_inv en s" "launch_inv (st_launches s)" using assms(1) by (simp_all add: host_inv_def)
  moreover note sealed = sealed_lapsed [OF s(1) assms(3) w(1)]
  ultimately have "host_inv en s'"
    using store_inv_raise_floor [of en s w sid] by (simp add: host_inv_def)
  then have u: "host_inv en u" "host_later s' u"
    using host_history.run_inv host_history.run_rel assms(7,8) by blast+
  then have v: "host_inv en v" "host_later u v"
    using host_history.run_inv host_history.run_rel assms(9,10) by blast+
  have l: "lapsed u sid epoch" "lapsed v sid epoch"
    using sealed(2) u(2) v(2) by (auto simp: host_later_def)
  have inv: "store_inv en u" "store_inv en v" using u(1) v(1) by (simp_all add: host_inv_def)
  show ?thesis
    using lapsed_validate [OF inv assms(3) l] lapsed_authorize [OF inv(1) assms(3) l(1)] by (rule conjI)
qed

text \<open>Property C12.  The columns of a launch agree with its state: after any history of session and launch
  operations on a store without launches, a launch has process evidence exactly when it has an instance,
  a cleanup reason exactly when cleanup is required, an instance while it is attached, ready or stopping
  and none while prepared; no two launches share an instance.\<close>

theorem launch_rows_typed:
  assumes "store_inv en s" "st_launches s = []" "list_all (host_wf en) ops"
  shows "launch_inv (st_launches (fold (host_step en) ops s))"
proof -
  have "host_inv en s" using assms(1,2) by (simp add: host_inv_def launch_inv_def)
  from host_history.run_inv [OF assms(3) this] show ?thesis by (simp only: host_inv_def)
qed

text \<open>Property C13.  Launches only move forward: across any history of session and launch operations every
  launch keeps its identity, its instance and its evidence, its state and revision never go back, and a
  stopped launch stays as it is.\<close>

theorem launch_history_monotone:
  assumes "host_inv en s" "list_all (host_wf en) ops" "j < length (st_launches s)"
  shows "j < length (st_launches (fold (host_step en) ops s))
    \<and> launch_later (st_launches s ! j) (st_launches (fold (host_step en) ops s) ! j)"
proof -
  have "launches_later (st_launches s) (st_launches (fold (host_step en) ops s))"
    using host_history.run_rel [OF assms(2,1)] by (simp add: host_later_def)
  then show ?thesis
    using assms(3) by (auto simp: launches_later_def list_all2_conv_all_nth nth_append)
qed


text \<open>A work store with the session of the demonstration store.\<close>

definition demo_work :: "host_id option \<Rightarrow> work_store" where
  "demo_work h =
    \<lparr>st_sessions = [demo_row h], st_manifests = [], st_templates = [], st_events = [], st_ledger = [],
     st_launches = [], st_journal_requests = [], st_event_limits = Some (100, 100), ws_participants = [],
     ws_operations = [], ws_messages = [], ws_counters = [], ws_policies = [], ws_artifacts = [],
     ws_session_usage = [], ws_global_usage = []\<rparr>"

lemma demo_work_session [simp]: "session_of (demo_work h) 5 = Some (demo_row h)"
  by (simp add: demo_work_def demo_row_def)

lemma demo_work_inv:
  assumes "h \<noteq> Some 0"
  shows "store_inv demo_env (demo_work h)"
proof -
  have "row_wf demo_env (demo_row h)"
    using store_inv_row [OF demo_session_inv [OF assms], of 5] by (simp add: demo_session_def demo_row_def)
  then show ?thesis
    by (simp add: store_inv_def demo_work_def sessions_distinct_def session_events_def
        event_log_wf_def events_bounded_def keys_exclusive_def manifests_owned_def)
qed

lemma demo_validate_expired:
  "\<exists>fl s'. validate_launch_authority demo_env (Timestamp 70 0) Map.empty 5 7 3 (demo_work (Some 7)) (demo_work (Some 7))
    = (fl, s', Inl (OwnershipExpired 5 3))"
proof -
  note d = open_session_decoded [OF demo_work_inv demo_env_laws demo_work_session, of "Some 7"]
  show ?thesis
    by (simp add: validate_launch_authority_def d Let_def require_owner_def row_owner_def demo_row_def
        is_effective_at_def seal_expiry_def run_transaction_def require_open_session_def io_bind_def io_lift_def
        advance_time_floor_run max_def)
qed

definition demo_prepare :: prepare_launch_cmd where
  "demo_prepare =
    \<lparr>pl_context = \<lparr>rc_request_id = 31, rc_caller = 7\<rparr>, pl_epoch = 3, pl_session_id = 5, pl_participant_id = 11,
     pl_driver_id = 12, pl_driver_configuration_digest = 13, pl_attempt_id = 14, pl_credential_digest = 15\<rparr>"

theorem expired_authority_sealed_witness:
  "\<exists>fl s' err. validate_launch_authority demo_env (Timestamp 70 0) Map.empty 5 7 3
      (demo_work (Some 7)) (demo_work (Some 7)) = (fl, s', Inl (OwnershipExpired 5 3))
    \<and> snd (snd (validate_launch_authority demo_env (Timestamp 40 0) Map.empty 5 7 3
        (host_step demo_env (Timestamp 40 0, PrepareRequest demo_prepare) s')
        (host_step demo_env (Timestamp 40 0, PrepareRequest demo_prepare) s'))) = Inl err"
proof -
  obtain fl s' where v: "validate_launch_authority demo_env (Timestamp 70 0) Map.empty 5 7 3
      (demo_work (Some 7)) (demo_work (Some 7)) = (fl, s', Inl (OwnershipExpired 5 3))"
    using demo_validate_expired by blast
  have inv: "store_inv demo_env (demo_work (Some 7))" by (rule demo_work_inv) simp
  then have "host_inv demo_env (demo_work (Some 7))"
    by (simp add: host_inv_def launch_inv_def demo_work_def)
  from expired_authority_sealed [OF this inv demo_env_laws demo_valid_time _ v,
      of "[(Timestamp 40 0, PrepareRequest demo_prepare)]" _ "[]"]
  show ?thesis using v by (auto simp: demo_env_laws demo_valid_time)
qed

theorem launch_rows_typed_witness:
  "launch_inv (st_launches (fold (host_step demo_env) [(Timestamp 40 0, PrepareRequest demo_prepare)]
    (demo_work (Some 7))))"
  by (rule launch_rows_typed [OF demo_work_inv])
    (simp_all add: demo_work_def demo_env_laws demo_valid_time)

definition demo_launched :: work_store where
  "demo_launched = (demo_work (Some 7))\<lparr>st_launches := [prepared_launch demo_prepare]\<rparr>"

theorem launch_history_monotone_witness:
  "launch_later (prepared_launch demo_prepare)
    (st_launches (fold (host_step demo_env) [(Timestamp 40 0, SessionRequest demo_release)] demo_launched) ! 0)"
proof -
  have "launch_wf (prepared_launch demo_prepare)"
    by (simp add: launch_wf_def prepared_launch_def revision_initial_def)
  then have "host_inv demo_env demo_launched"
    by (simp add: host_inv_def launch_inv_def demo_launched_def demo_work_inv)
  from launch_history_monotone [OF this, of "[(Timestamp 40 0, SessionRequest demo_release)]" 0]
  show ?thesis using demo_op_wf(3) [of 40] by (simp add: demo_launched_def)
qed

end
