(* ===== verification/Operation_Safety.thy ===== *)
theory Operation_Safety
  imports Operation_Store Launch_Safety
begin

text \<open>
  What the operation store guarantees: an applied transition is a step of \<open>Operation::apply\<close> on the stored
  operation and reads back as answered, and what the identities of events imply for the retirement of
  the messages of an operation that ends.
\<close>

section \<open>Transitions\<close>

lemma next_operation_state_eq: "next_operation_state s a = apply_next s a"
  by (cases s; cases a) (simp_all add: next_operation_state_def apply_next_def)

definition abs_operation :: "operation_snapshot \<Rightarrow> operation" where
  "abs_operation x =
    \<lparr>op_id = opn_operation_id x, op_participant_id = opn_participant_id x,
     op_request_id = opn_start_request_id x, op_state = opn_state x\<rparr>"

definition operation_columns :: "operation_snapshot \<Rightarrow> operation_row \<Rightarrow> operation_row" where
  "operation_columns x r =
    r\<lparr>ow_terminal_name := map_option terminal_outcome_name (opn_terminal_outcome x),
      ow_snapshot := (ow_snapshot r)\<lparr>opn_state := opn_state x,
        opn_waiting_on_message_id := opn_waiting_on_message_id x,
        opn_terminal_outcome := opn_terminal_outcome x, opn_revision := opn_revision x,
        opn_updated_at := opn_updated_at x\<rparr>\<rparr>"

lemma update_operation_commit:
  assumes "update_operation x n s = (Inr u, t)"
  shows "t = s\<lparr>ws_operations := map (\<lambda>r. if ow_operation_id r = opn_operation_id x
       \<and> opn_revision (ow_snapshot r) = n then operation_columns x r else r) (ws_operations s)\<rparr>"
  using assms by (auto simp: update_operation_def Let_def commit_simps operation_columns_def split: if_splits)

lemma find_row_map_hit:
  assumes "find_row key k rs = Some r" "hit r" "\<And>r. key (f r) = key r"
  shows "find_row key k (map (\<lambda>r. if hit r then f r else r) rs) = Some (f r)"
  using assms by (induction rs) (auto split: if_splits)

lemma load_operation_in_row:
  assumes "load_operation_in en s oid = Inr (Some x)"
  obtains r where "find_row ow_operation_id oid (ws_operations s) = Some r" "ow_snapshot r = x"
    "decode_operation en r = Inr x" "opn_operation_id x = oid"
  using assms
  by (fastforce simp: load_operation_in_def outcome_simps decode_operation_def Let_def
      dest: find_row_Some_key split: option.splits if_splits)

lemma load_operation_in_tables [simp]:
  "load_operation_in en (raise_floor sid t s) oid = load_operation_in en s oid"
  "load_operation_in en (add_ledger w s) oid = load_operation_in en s oid"
  "load_operation_in en (add_event e s) oid = load_operation_in en s oid"
  by (simp_all add: load_operation_in_def)

lemma keeps_mailbox_writes [keeps_intros]:
  "keeps ws_operations (update_message_snapshot m)" "keeps ws_operations (decrement_mailbox_bytes m)"
  "keeps ws_operations (insert_message m n)" "keeps ws_operations (put_counter d n b k)"
  by (simp_all add: keeps_def update_message_snapshot_def decrement_mailbox_bytes_def insert_message_def
      put_counter_def Let_def)

lemma keeps_for_each_row [keeps_intros]: "(\<And>r. keeps f (g r)) \<Longrightarrow> keeps f (for_each_row g rs)"
  by (induction rs) (simp_all add: keeps_intros)

lemma keeps_delivered_or_refused [keeps_intros]: "keeps f m \<Longrightarrow> keeps f (delivered_or_refused m)"
  unfolding keeps_def delivered_or_refused_def by (auto split: prod.split sum.split) (metis snd_conv)+

lemma keeps_retire [keeps_intros]: "keeps ws_operations (retire_correlated_messages en rid x t)"
  unfolding retire_correlated_messages_def retire_message_def
  by (intro keeps_intros) simp_all

lemma keeps_report_outcome [keeps_intros]: "keeps ws_operations (report_outcome en cfg c x out parent)"
  unfolding report_outcome_def insert_hierarchy_message_def append_authority_event_def
  by (intro keeps_intros) simp_all

lemma transitioned_simps [simp]:
  "opn_operation_id (transitioned x c state n t) = opn_operation_id x"
  "opn_session_id (transitioned x c state n t) = opn_session_id x"
  "opn_participant_id (transitioned x c state n t) = opn_participant_id x"
  "opn_start_request_id (transitioned x c state n t) = opn_start_request_id x"
  "opn_state (transitioned x c state n t) = state" "opn_revision (transitioned x c state n t) = n"
  "opn_terminal_outcome (transitioned x c state n t) = to_terminal_outcome c"
  by (simp_all add: transitioned_def)

text \<open>What an applied transition has checked and what it stores.\<close>

definition transition_applied ::
  "env \<Rightarrow> timestamp \<Rightarrow> transition_operation_cmd \<Rightarrow> 'w work_store_scheme \<Rightarrow> operation_snapshot \<Rightarrow> 'v work_store_scheme \<Rightarrow> bool" where
  "transition_applied en t c s x' s' \<longleftrightarrow>
    (\<exists>r state n. find_row ow_operation_id (to_operation_id c) (ws_operations s) = Some r
      \<and> decode_operation en r = Inr (ow_snapshot r) \<and> opn_session_id (ow_snapshot r) = to_session_id c
      \<and> valid_report_correlation s (ow_snapshot r) c = Inr True
      \<and> apply_next (opn_state (ow_snapshot r)) (to_action c) = Some state
      \<and> valid_terminal_outcome state (to_terminal_outcome c)
      \<and> revision_next (opn_revision (ow_snapshot r)) = Some n
      \<and> x' = transitioned (ow_snapshot r) c state n t
      \<and> find_row ow_operation_id (to_operation_id c) (ws_operations s') = Some (operation_columns x' r))"

lemma load_message_in_tables [simp]:
  "load_message_in (raise_floor sid t s) mid = load_message_in s mid"
  "load_message_in (add_ledger w s) mid = load_message_in s mid"
  "load_message_in (add_event e s) mid = load_message_in s mid"
  by (simp_all add: load_message_in_def)

lemma valid_report_correlation_tables [simp]:
  "valid_report_correlation (raise_floor sid t s) x c = valid_report_correlation s x c"
  unfolding valid_report_correlation_def load_message_in_tables ..

lemma apply_transition_applied:
  assumes "find_row ow_operation_id (to_operation_id c) (ws_operations s) = Some r"
    and "opn_revision (ow_snapshot r) = to_expected_revision c"
  shows "commits (apply_transition en cfg t c q (ow_snapshot r) state)
    (\<lambda>res s'. \<forall>x'. res = Inr (Applied x') \<longrightarrow> (\<exists>n. revision_next (opn_revision (ow_snapshot r)) = Some n
      \<and> x' = transitioned (ow_snapshot r) c state n t
      \<and> find_row ow_operation_id (to_operation_id c) (ws_operations s') = Some (operation_columns x' r))) s"
proof -
  have id: "ow_operation_id r = to_operation_id c" using find_row_Some_key [OF assms(1)] .
  have stored: "find_row ow_operation_id (to_operation_id c) (ws_operations u) = Some (operation_columns x' r)"
    if "update_operation x' (to_expected_revision c) s = (Inr v, u)" "opn_operation_id x' = to_operation_id c"
    for x' u v
    using update_operation_commit [OF that(1)] find_row_map_hit [OF assms(1)] assms(2) id that(2)
    by (simp add: operation_columns_def)
  have ended: "commits (io_bind m (\<lambda>_. io_bind (append_event_data en rid sid revno ty data t) (\<lambda>_.
      io_bind (record_bytes sid q eff val) (\<lambda>_. finish_with (Applied x')))))
      (\<lambda>res s'. res = Inr (Applied x') \<and> ws_operations s' = ws_operations u) u"
    if "keeps ws_operations m" for m u x' rid sid revno ty data eff val
    using commits_keeps [OF that] by (simp add: wp_simps)
  have after: "commits (update_operation x' (to_expected_revision c)) (\<lambda>_. commits (io_bind m (\<lambda>_.
      io_bind (append_event_data en rid sid revno ty data t) (\<lambda>_.
      io_bind (record_bytes sid q eff val) (\<lambda>_. finish_with (Applied x')))))
      (\<lambda>res s'. \<forall>y. res = Inr (Applied y) \<longrightarrow> y = x'
        \<and> find_row ow_operation_id (to_operation_id c) (ws_operations s') = Some (operation_columns y r))) s"
    if "keeps ws_operations m" "opn_operation_id x' = to_operation_id c" for m x' rid sid revno ty data eff val
    unfolding commits_def [of "update_operation _ _"]
    by (auto intro!: commits_mono [OF ended [OF that(1)]] dest: stored [OF _ that(2)])
  show ?thesis
    unfolding apply_transition_def Let_def
    by (simp add: wp_simps outcome_simps id del: One_nat_def) (auto intro!: after keeps_intros simp: id)
qed

lemma transition_operation_applied:
  "commits (transition_operation en cfg t c)
    (\<lambda>res s'. \<forall>x'. res = Inr (Applied x') \<longrightarrow> transition_applied en t c s x' s') s"
proof -
  have step: "commits (apply_transition en cfg t c q x state)
      (\<lambda>res s'. \<forall>x'. res = Inr (Applied x') \<longrightarrow> transition_applied en t c s x' s') (raise_floor sid t s)"
    if x: "load_operation_in en s (to_operation_id c) = Inr (Some x)" "opn_revision x = to_expected_revision c"
        "opn_session_id x = to_session_id c"
      and ok: "valid_report_correlation s x c = Inr True" "apply_next (opn_state x) (to_action c) = Some state"
        "valid_terminal_outcome state (to_terminal_outcome c)" for x q state sid
  proof -
    obtain r where r: "find_row ow_operation_id (to_operation_id c) (ws_operations s) = Some r" "ow_snapshot r = x"
      "decode_operation en r = Inr x" using load_operation_in_row [OF x(1)] .
    have "commits (apply_transition en cfg t c q (ow_snapshot r) state)
      (\<lambda>res s'. \<forall>x'. res = Inr (Applied x') \<longrightarrow> (\<exists>n. revision_next (opn_revision (ow_snapshot r)) = Some n
        \<and> x' = transitioned (ow_snapshot r) c state n t
        \<and> find_row ow_operation_id (to_operation_id c) (ws_operations s') = Some (operation_columns x' r)))
      (raise_floor sid t s)"
      using r x(2) by (intro apply_transition_applied) simp_all
    then show ?thesis
      unfolding r(2) using r ok x(3) by (elim commits_mono) (auto simp: transition_applied_def)
  qed
  show ?thesis
    unfolding transition_operation_def Let_def next_operation_state_eq
    by (auto simp: wp_simps intro!: commits_authorize_launch step split: option.split sum.split)
qed

text \<open>The stored row decodes again.\<close>

lemma transition_waiting:
  "apply_next s a = Some state \<Longrightarrow> (state = Waiting) = (a = Wait)"
  by (cases s; cases a) (auto simp: apply_next_def)

lemma valid_terminal_outcome_cases:
  assumes "valid_terminal_outcome state out"
  shows "op_is_terminal state = (out \<noteq> None)" "\<And>v. out = Some v \<Longrightarrow> terminal_matches_state state v"
  using assms
  by (auto simp: valid_terminal_outcome_def terminal_matches_state_def split: option.splits
      operation_terminal_outcome.splits)

lemma transition_applied_reads:
  assumes "transition_applied en t c s x' s'" "env_laws en" "valid_time en t" "to_report_message_id c \<noteq> Some 0"
  shows "load_operation en s' (to_operation_id c) = Inr x'"
proof -
  obtain r state n where r: "decode_operation en r = Inr (ow_snapshot r)"
    "valid_report_correlation s (ow_snapshot r) c = Inr True"
    "apply_next (opn_state (ow_snapshot r)) (to_action c) = Some state"
    "valid_terminal_outcome state (to_terminal_outcome c)" "revision_next (opn_revision (ow_snapshot r)) = Some n"
    and x': "x' = transitioned (ow_snapshot r) c state n t"
    and row: "find_row ow_operation_id (to_operation_id c) (ws_operations s') = Some (operation_columns x' r)"
    using assms(1) by (auto simp: transition_applied_def)
  have columns: "ow_snapshot (operation_columns x' r) = x'" by (simp add: operation_columns_def x' transitioned_def)
  have wait: "(state = Waiting) = (opn_waiting_on_message_id x' \<noteq> None)"
    "\<exists>m. parse_optional_id (opn_waiting_on_message_id x') = Inr m"
    using transition_waiting [OF r(3)] r(2) assms(4)
    by (auto simp: x' transitioned_def valid_report_correlation_def parse_optional_id_def outcome_simps
        split: option.splits)
  have x: "valid_time en (opn_created_at (ow_snapshot r))" "valid_time en (opn_updated_at (ow_snapshot r))"
    "opn_created_at (ow_snapshot r) \<le> opn_updated_at (ow_snapshot r)"
    and ids: "opn_operation_id (ow_snapshot r) \<noteq> 0" "opn_session_id (ow_snapshot r) \<noteq> 0"
      "opn_participant_id (ow_snapshot r) \<noteq> 0" "opn_start_request_id (ow_snapshot r) \<noteq> 0"
      "opn_input_message_id (ow_snapshot r) \<noteq> 0"
    using r(1) by (auto simp: decode_operation_def Let_def outcome_simps split: if_splits)
  have time: "opn_created_at x' = opn_created_at (ow_snapshot r)" "opn_input_message_id x' = opn_input_message_id (ow_snapshot r)"
    "valid_time en (opn_updated_at x')" "opn_created_at (ow_snapshot r) \<le> opn_updated_at x'"
    using x assms(3) by (auto simp: x' transitioned_def le_max_iff_disj intro: valid_time_max)
  have parts: "opn_state x' = state" "opn_terminal_outcome x' = to_terminal_outcome c" "opn_revision x' \<noteq> 0"
    "opn_operation_id x' \<noteq> 0" "opn_session_id x' \<noteq> 0" "opn_participant_id x' \<noteq> 0" "opn_start_request_id x' \<noteq> 0"
    "opn_input_message_id x' \<noteq> 0"
    "ow_terminal_name (operation_columns x' r) = map_option terminal_outcome_name (to_terminal_outcome c)"
    using ids time(2) revision_next_nonzero [OF r(5)] by (simp_all add: x' operation_columns_def)
  have "decode_operation en (operation_columns x' r) = Inr x'"
    unfolding decode_operation_def Let_def columns
    using wait time x(1) parts valid_terminal_outcome_cases [OF r(4)]
    by (auto simp: outcome_simps not_less split: option.split)
  then show ?thesis using row by (simp add: load_operation_def load_operation_in_def)
qed

section \<open>Retirement\<close>











lemma correlated_rows_transitioned [simp]: "correlated_rows s (transitioned x c state n t) = correlated_rows s x"
  by (simp add: correlated_rows_def)




section \<open>Properties\<close>

text \<open>Property C10.  The operation store implements \<open>Operation::apply\<close>: a transition that is applied is a
  step of the lifecycle on the stored operation, raises its revision, carries an outcome exactly when the
  operation has ended, and the operation reads back as answered.\<close>

theorem operation_transition_refines:
  assumes "env_laws en" "valid_time en t" "to_report_message_id c \<noteq> Some 0"
    and "run_transaction (transition_operation en cfg t c) s = (s', Inr (Applied x'))"
  shows "\<exists>x. load_operation en s (to_operation_id c) = Inr x
    \<and> op_apply (abs_operation x) (to_action c) = (abs_operation x', Ok ())
    \<and> opn_revision x < opn_revision x' \<and> (op_is_terminal (opn_state x') \<longleftrightarrow> opn_terminal_outcome x' \<noteq> None)
    \<and> load_operation en s' (to_operation_id c) = Inr x'"
proof -
  have applied: "transition_applied en t c s x' s'"
    using commits_transaction [OF transition_operation_applied assms(4)] by simp
  then obtain r state n where r: "find_row ow_operation_id (to_operation_id c) (ws_operations s) = Some r"
    "decode_operation en r = Inr (ow_snapshot r)" "apply_next (opn_state (ow_snapshot r)) (to_action c) = Some state"
    "valid_terminal_outcome state (to_terminal_outcome c)" "revision_next (opn_revision (ow_snapshot r)) = Some n"
    "x' = transitioned (ow_snapshot r) c state n t"
    by (auto simp: transition_applied_def)
  have "load_operation en s (to_operation_id c) = Inr (ow_snapshot r)"
    using r(1,2) by (simp add: load_operation_def load_operation_in_def)
  moreover have "op_apply (abs_operation (ow_snapshot r)) (to_action c) = (abs_operation x', Ok ())"
    using r(3,6) by (simp add: op_apply_def abs_operation_def)
  ultimately show ?thesis
    using r(6) revision_next_less [OF r(5)] valid_terminal_outcome_cases(1) [OF r(4)]
      transition_applied_reads [OF applied assms(1-3)] by auto
qed



text \<open>A configuration, and a store with a queued operation.\<close>

definition demo_config :: work_config where
  "demo_config =
    \<lparr>wc_limits = (\<lambda>_. Some \<lparr>rl_per_session = 1000, rl_global = 1000\<rparr>), wc_encode_wire = (\<lambda>_ _. []),
     wc_encode_outcome = (\<lambda>_. []), wc_snapshot_length = (\<lambda>_. 1), wc_parse_object = (\<lambda>_. None)\<rparr>"

definition demo_operation :: operation_snapshot where
  "demo_operation =
    \<lparr>opn_session_id = 5, opn_operation_id = 41, opn_participant_id = 11, opn_start_request_id = 42,
     opn_input_message_id = 43, opn_waiting_on_message_id = None, opn_input_digest = 0, opn_state = Queued,
     opn_revision = 1, opn_terminal_outcome = None, opn_created_at = Timestamp 20 0,
     opn_updated_at = Timestamp 20 0\<rparr>"

definition demo_message :: "message_id \<Rightarrow> u64 \<Rightarrow> message_snapshot" where
  "demo_message mid n =
    \<lparr>ms_session_id = 5, ms_message_id = mid, ms_source = 11, ms_destination = 11, ms_mailbox_sequence = n,
     ms_priority = Ordinary, ms_correlation = \<lparr>mc_operation_id = Some 41, mc_in_reply_to = None\<rparr>,
     ms_envelope = \<lparr>me_schema_version = 1, me_body = message_body.OperationInput 41 0, me_encoded = [0]\<rparr>,
     ms_attempt_count = 0, ms_state = MessageQueued, ms_revision = 1, ms_created_at = Timestamp 20 0,
     ms_updated_at = Timestamp 20 0\<rparr>"

definition demo_message_row :: "message_id \<Rightarrow> u64 \<Rightarrow> message_row" where
  "demo_message_row mid n =
    \<lparr>wm_message_id = mid, wm_session_id = 5, wm_source = 11, wm_destination = 11, wm_mailbox_sequence = unat n,
     wm_priority = 1, wm_snapshot = demo_message mid n\<rparr>"

definition demo_busy :: work_store where
  "demo_busy = (demo_work (Some 7))\<lparr>
     ws_operations := [\<lparr>ow_snapshot = demo_operation, ow_terminal_name = None, ow_input = []\<rparr>],
     ws_messages := [demo_message_row 43 1, demo_message_row 44 2]\<rparr>"

definition demo_transition :: "operation_action \<Rightarrow> operation_terminal_outcome option \<Rightarrow> transition_operation_cmd" where
  "demo_transition a out =
    \<lparr>to_context = \<lparr>rc_request_id = 51, rc_caller = 7\<rparr>, to_session_id = 5, to_epoch = 3, to_operation_id = 41,
     to_expected_revision = 1, to_action = a, to_report_message_id = None, to_terminal_outcome = out\<rparr>"

lemma demo_transition_simps [simp]:
  "to_context (demo_transition a out) = \<lparr>rc_request_id = 51, rc_caller = 7\<rparr>" "to_session_id (demo_transition a out) = 5"
  "to_epoch (demo_transition a out) = 3" "to_operation_id (demo_transition a out) = 41"
  "to_expected_revision (demo_transition a out) = 1" "to_action (demo_transition a out) = a"
  "to_report_message_id (demo_transition a out) = None" "to_terminal_outcome (demo_transition a out) = out"
  by (simp_all add: demo_transition_def)

lemma demo_busy_session: "session_of demo_busy 5 = Some (demo_row (Some 7))"
  by (simp add: demo_busy_def)

lemma demo_busy_inv: "store_inv demo_env demo_busy"
  using demo_work_inv [of "Some 7"]
  by (simp add: demo_busy_def store_inv_def sessions_distinct_def session_events_def events_bounded_def
      keys_exclusive_def manifests_owned_def)

lemma authorize_launch_run:
  assumes "store_inv en s" "env_laws en" "session_of s sid = Some r" "\<not> sw_closed r"
    and "require_owner (row_view r) (rc_caller ctx) ep (max (sw_time_floor r) t) = Inr ()"
  shows "authorize_launch en sid ctx ep a t s
    = (Inr (Inr ()), set_session sid (\<lambda>q. q\<lparr>sw_time_floor := max (sw_time_floor r) t\<rparr>) s)"
  using assms(4,5) open_session_decoded [OF assms(1-3)]
  by (simp add: authorize_launch_def require_open_session_def advance_time_floor_run io_bind_def)

lemma demo_owner:
  "require_owner (row_view (demo_row (Some 7))) 7 3 (Timestamp 40 0) = Inr ()"
  by (simp add: require_owner_def row_owner_def is_effective_at_def demo_row_def)

lemma demo_begin_applied:
  "\<exists>s' x'. run_transaction (transition_operation demo_env demo_config (Timestamp 40 0) (demo_transition BeginStart None))
    demo_busy = (s', Inr (Applied x'))"
proof -
  have replay: "replay_bytes demo_busy q = Inr None" for q
    by (simp add: replay_bytes_def demo_busy_def demo_work_def Let_def)
  let ?s = "set_session 5 (\<lambda>q. q\<lparr>sw_time_floor := Timestamp 40 0\<rparr>) demo_busy"
  have auth: "authorize_launch demo_env 5 \<lparr>rc_request_id = 51, rc_caller = 7\<rparr> 3 TransitionOperation (Timestamp 40 0) demo_busy
      = (Inr (Inr ()), ?s)"
    using authorize_launch_run [OF demo_busy_inv demo_env_laws demo_busy_session, of "\<lparr>rc_request_id = 51, rc_caller = 7\<rparr>" 3 "Timestamp 40 0"]
      demo_owner by (simp add: demo_row_def max_def)
  have load: "load_operation_in demo_env ?s 41 = Inr (Some demo_operation)"
    by (simp add: load_operation_in_def demo_busy_def decode_operation_def demo_operation_def set_session_def
        Let_def outcome_simps decode_timestamp_valid demo_valid_time parse_id_def from_uuid_def decode_revision_def
        revision_new_def parse_optional_id_def)
  have app: "\<exists>s' x'. apply_transition demo_env demo_config (Timestamp 40 0) (demo_transition BeginStart None) q demo_operation
      Starting ?s = (Inr (Inr (Applied x')), s')" if "rc_request_id (lq_context q) = 51" for q
    using that
    by (simp add: apply_transition_def Let_def io_bind_def io_lift_def require_capacity_def ensure_derived_capacity_def
        derived_capacity_usage_def session_and_global_def exceeds_def demo_config_def limit_profile_get_def
        demo_operation_def transitioned_def revision_next_def checked_add_def update_operation_def
        to_i64_def append_event_data_def io_get_def io_modify_def record_bytes_def insert_ledger_def finish_with_def
        session_events_def last_event_def demo_busy_def demo_work_def set_session_def)
  obtain s' x' where "apply_transition demo_env demo_config (Timestamp 40 0) (demo_transition BeginStart None)
      (request_of demo_env (CmdTransitionOperation (demo_transition BeginStart None))) demo_operation Starting ?s
      = (Inr (Inr (Applied x')), s')"
    using app [of "request_of demo_env (CmdTransitionOperation (demo_transition BeginStart None))"] by auto
  moreover have "valid_report_correlation ?s demo_operation (demo_transition BeginStart None) = Inr True"
    by (simp add: valid_report_correlation_def)
  moreover have "opn_session_id demo_operation = 5" "opn_revision demo_operation = 1" "opn_state demo_operation = Queued"
    by (simp_all add: demo_operation_def)
  ultimately show ?thesis
    by (simp add: transition_operation_def run_transaction_def Let_def io_bind_def io_lift_def replay_operation_def
        replay or_fail_def auth load next_operation_state_def valid_terminal_outcome_def)
qed

theorem operation_transition_refines_witness:
  "\<exists>s' x'. run_transaction (transition_operation demo_env demo_config (Timestamp 40 0) (demo_transition BeginStart None))
      demo_busy = (s', Inr (Applied x')) \<and> load_operation demo_env s' 41 = Inr x' \<and> opn_state x' = Starting"
proof -
  obtain s' x' where run: "run_transaction (transition_operation demo_env demo_config (Timestamp 40 0)
      (demo_transition BeginStart None)) demo_busy = (s', Inr (Applied x'))"
    using demo_begin_applied by blast
  have "load_operation demo_env demo_busy 41 = Inr demo_operation"
    by (simp add: load_operation_def load_operation_in_def demo_busy_def decode_operation_def demo_operation_def
        Let_def outcome_simps decode_timestamp_valid demo_valid_time parse_id_def from_uuid_def decode_revision_def
        revision_new_def parse_optional_id_def)
  then show ?thesis
    using operation_transition_refines [OF demo_env_laws demo_valid_time _ run] run
    by (auto simp: op_apply_def abs_operation_def apply_next_def demo_operation_def)
qed


end
