(* ===== verification/Spec2Isabelle.thy ===== *)
theory Spec2Isabelle
  imports Reconciler Mailbox_Store Operation_Safety
begin

text \<open>
  Verification of the Navigator coordination kernel.
\<close>

end
